(* ===== verification/Prelude.thy ===== *)
theory Prelude
  imports Main "HOL-Library.Sublist" "HOL-Library.Char_ord"
begin

text \<open>
  Shared vocabulary of the Code-Hustle model: the JavaScript string and array
  primitives the sources call (\<open>startsWith\<close>, \<open>includes\<close>, \<open>split\<close>,
  \<open>toLowerCase\<close>, reading \<open>arr[i]\<close>), the JSON values that request and
  response bodies and token payloads are made of, and the lemmas on them that
  the component theories use.  Characters are the code units of a string;
  Isabelle's \<open>char\<close> is one byte, so the model covers strings whose UTF-16 code
  units are below 256 (Latin-1), which includes every literal of the sources.
\<close>

named_theorems js_simps "equations of the JavaScript primitives of the model"

subsection \<open>JSON values\<close>

text \<open>
  A JSON value as \<open>express.json()\<close> and \<open>JSON.parse\<close> produce it and
  \<open>res.json\<close> sends it.  Numbers are the integers the sources use (ids,
  timestamps, counters).  An object keeps its members in order; a lookup finds
  the last member with the key, as \<open>JSON.parse\<close> keeps the last duplicate.
\<close>

datatype json =
    JNull
  | JBool bool
  | JNum int
  | JStr string
  | JArr "json list"
  | JObj "(string \<times> json) list"

definition json_get :: "(string \<times> json) list \<Rightarrow> string \<Rightarrow> json option" where
  "json_get kvs k = map_of (rev kvs) k"

lemma json_get_Cons [js_simps]:
  "json_get ((k, v) # kvs) k' =
     (case json_get kvs k' of None \<Rightarrow> (if k' = k then Some v else None) | Some w \<Rightarrow> Some w)"
  by (simp add: json_get_def map_add_def split: option.split)

lemma json_get_Nil [js_simps]: "json_get [] k = None"
  by (simp add: json_get_def)

subsection \<open>Strings\<close>

text \<open>\<open>String.prototype.toLowerCase\<close> on Latin-1 code units.\<close>

definition js_lower_char :: "char \<Rightarrow> char" where
  "js_lower_char c =
     (let n = of_char c :: nat in
      if (65 \<le> n \<and> n \<le> 90) \<or> (192 \<le> n \<and> n \<le> 222 \<and> n \<noteq> 215)
      then char_of (n + 32) else c)"

definition js_lower :: "string \<Rightarrow> string" where
  "js_lower s = map js_lower_char s"

text \<open>\<open>s.startsWith(p)\<close>.\<close>

definition js_startsWith :: "string \<Rightarrow> string \<Rightarrow> bool" where
  "js_startsWith s p \<longleftrightarrow> take (length p) s = p"

text \<open>\<open>s.includes(q)\<close> and \<open>xs.includes(x)\<close>: a scan over the start positions.\<close>

fun js_includes :: "'a list \<Rightarrow> 'a list \<Rightarrow> bool" where
  "js_includes [] q \<longleftrightarrow> q = []"
| "js_includes (c # s) q \<longleftrightarrow> take (length q) (c # s) = q \<or> js_includes s q"

text \<open>\<open>s.split(d)\<close> for a one-character separator: the pieces between the
  separators, an empty piece where two separators meet or at either end.\<close>

fun js_split :: "char \<Rightarrow> string \<Rightarrow> string list" where
  "js_split d [] = [[]]"
| "js_split d (c # s) =
     (let r = js_split d s in
      if c = d then [] # r else (c # hd r) # tl r)"

text \<open>\<open>arr[i]\<close>: \<open>undefined\<close> (here \<open>None\<close>) past the end.\<close>

definition js_at :: "'a list \<Rightarrow> nat \<Rightarrow> 'a option" where
  "js_at xs i = (if i < length xs then Some (xs ! i) else None)"

text \<open>Truthiness of a string value that may be \<open>undefined\<close>.\<close>

definition js_truthy_str :: "string option \<Rightarrow> bool" where
  "js_truthy_str v = (case v of None \<Rightarrow> False | Some s \<Rightarrow> s \<noteq> [])"

subsection \<open>Lemmas on the primitives\<close>

lemma js_startsWith_iff: "js_startsWith s p \<longleftrightarrow> (\<exists>r. s = p @ r)"
  by (metis append_eq_conv_conj append_take_drop_id js_startsWith_def)

lemma js_startsWith_append [js_simps]: "js_startsWith (p @ r) p"
  by (simp add: js_startsWith_def)

lemma js_includes_iff: "js_includes s q \<longleftrightarrow> (\<exists>a b. s = a @ q @ b)"
proof (induction s)
  case Nil
  then show ?case by auto
next
  case (Cons c s)
  have "take (length q) (c # s) = q \<longleftrightarrow> (\<exists>b. c # s = q @ b)"
    by (metis append_eq_conv_conj)
  moreover have "(\<exists>a b. c # s = a @ q @ b) \<longleftrightarrow>
      (\<exists>b. c # s = q @ b) \<or> (\<exists>a b. s = a @ q @ b)"
    by (auto simp: Cons_eq_append_conv)
  ultimately show ?case using Cons.IH by simp
qed

lemma js_includes_Nil [js_simps]: "js_includes s []"
  by (cases s) auto

lemma js_split_not_Nil [simp]: "js_split d s \<noteq> []"
  by (induction s) (auto simp: Let_def)

lemma js_split_no_sep [js_simps]: "d \<notin> set a \<Longrightarrow> js_split d a = [a]"
  by (induction a) (auto simp: Let_def)

lemma js_split_append_sep [js_simps]:
  "d \<notin> set a \<Longrightarrow> js_split d (a @ d # b) = a # js_split d b"
  by (induction a) (auto simp: Let_def)

lemma append_sep_unique:
  "d \<notin> set a \<Longrightarrow> d \<notin> set a' \<Longrightarrow> a @ d # b = a' @ d # b' \<Longrightarrow> a = a' \<and> b = b'"
proof (induction a arbitrary: a')
  case Nil
  then show ?case by (cases a') auto
next
  case (Cons x a)
  then show ?case by (cases a') auto
qed

lemma js_at_simps [js_simps]:
  "js_at [] i = None"
  "js_at (x # xs) 0 = Some x"
  "js_at (x # xs) (Suc i) = js_at xs i"
  by (auto simp: js_at_def)

lemma js_at_numeral [js_simps]:
  "js_at (x # xs) (numeral n) = js_at xs (pred_numeral n)"
  by (simp add: js_at_def numeral_eq_Suc)

lemma js_lower_append [js_simps]: "js_lower (a @ b) = js_lower a @ js_lower b"
  by (simp add: js_lower_def)

lemma filter_distinct_key:
  "distinct (map f xs) \<Longrightarrow> x \<in> set xs \<Longrightarrow> filter (\<lambda>y. f y = f x) xs = [x]"
proof (induction xs)
  case Nil then show ?case by simp
next
  case (Cons a xs)
  have na: "f a \<notin> f ` set xs" and d: "distinct (map f xs)" using Cons.prems(1) by simp_all
  show ?case
  proof (cases "a = x")
    case True
    with na have "\<forall>y \<in> set xs. f y \<noteq> f x" by (metis image_eqI)
    with True show ?thesis by (simp add: filter_empty_conv)
  next
    case False
    with Cons.prems(2) have x: "x \<in> set xs" by simp
    with na have "f a \<noteq> f x" by blast
    with Cons.IH [OF d x] show ?thesis by simp
  qed
qed

end
