(* ===== verification/Validation.thy ===== *)
theory Validation
  imports Prelude
begin

text \<open>
  The request validators of \<open>src/server/validators/auth.js\<close>: the zod schemas
  \<open>userSchema\<close> and \<open>loginSchema\<close> and the functions
  \<open>validateRegistration\<close> and \<open>validateLogin\<close> that call \<open>schema.parse\<close>.
  A schema is data here (its fields and each field's string checks, in the
  order of the source); \<open>zod_parse\<close> is zod's object parse as these schemas use
  it: the body must be an object, every field must be a string, every check of
  a string field runs and each failed one adds an issue, unknown keys are
  dropped, and the parse throws a \<open>ZodError\<close> (here \<open>Inl\<close> with the issues)
  when any issue was found.
\<close>

subsection \<open>Issues and checks\<close>

datatype issue_code =
    Invalid_type
  | Too_small nat
  | Too_big nat
  | Invalid_email

type_synonym issue = "string \<times> issue_code"  \<comment> \<open>path (the field, or \<open>''''\<close> for the body) and code\<close>

datatype str_check = Min nat | Max nat | Email

subsubsection \<open>zod's e-mail check\<close>

text \<open>
  \<open>z.string().email()\<close> tests the regular expression of zod 3.22
  \<^verbatim>\<open>^(?!\.)(?!.*\.\.)([A-Z0-9_'+\-\.]*)[A-Z0-9_+-]@([A-Z0-9][A-Z0-9\-]*\.)+[A-Z]{2,}$/i\<close>.
  It is written out here as a function: a local part of allowed characters that
  does not start with a dot and ends in a non-dot, a single \<open>@\<close>, then one or
  more labels each followed by a dot, and a top-level label of two or more
  letters; no two consecutive dots anywhere.
\<close>

definition is_alpha :: "char \<Rightarrow> bool" where
  "is_alpha c \<longleftrightarrow> (CHR ''A'' \<le> c \<and> c \<le> CHR ''Z'') \<or> (CHR ''a'' \<le> c \<and> c \<le> CHR ''z'')"

definition is_alnum :: "char \<Rightarrow> bool" where
  "is_alnum c \<longleftrightarrow> is_alpha c \<or> (CHR ''0'' \<le> c \<and> c \<le> CHR ''9'')"

definition email_local_char :: "char \<Rightarrow> bool" where
  "email_local_char c \<longleftrightarrow> is_alnum c \<or> c \<in> set ''_'+-.''"

definition email_local_last :: "char \<Rightarrow> bool" where
  "email_local_last c \<longleftrightarrow> is_alnum c \<or> c \<in> set ''_+-''"

definition email_label :: "string \<Rightarrow> bool" where
  "email_label l \<longleftrightarrow> l \<noteq> [] \<and> is_alnum (hd l) \<and> (\<forall>c \<in> set (tl l). is_alnum c \<or> c = CHR ''-'')"

definition email_tld :: "string \<Rightarrow> bool" where
  "email_tld l \<longleftrightarrow> 2 \<le> length l \<and> (\<forall>c \<in> set l. is_alpha c)"

fun no_double_dot :: "string \<Rightarrow> bool" where
  "no_double_dot (a # b # s) \<longleftrightarrow> \<not> (a = CHR ''.'' \<and> b = CHR ''.'') \<and> no_double_dot (b # s)"
| "no_double_dot _ \<longleftrightarrow> True"

definition zod_email :: "string \<Rightarrow> bool" where
  "zod_email s \<longleftrightarrow> no_double_dot s \<and>
     (case js_split CHR ''@'' s of
        [loc, dm] \<Rightarrow>
          loc \<noteq> [] \<and> hd loc \<noteq> CHR ''.'' \<and> (\<forall>c \<in> set loc. email_local_char c) \<and>
          email_local_last (last loc) \<and>
          (let ls = js_split CHR ''.'' dm in
           2 \<le> length ls \<and> (\<forall>l \<in> set (butlast ls). email_label l) \<and> email_tld (last ls))
      | _ \<Rightarrow> False)"

subsubsection \<open>String checks and object parse\<close>

fun check_ok :: "str_check \<Rightarrow> string \<Rightarrow> bool" where
  "check_ok (Min n) s \<longleftrightarrow> n \<le> length s"
| "check_ok (Max n) s \<longleftrightarrow> length s \<le> n"
| "check_ok Email s \<longleftrightarrow> zod_email s"

fun check_issue :: "str_check \<Rightarrow> issue_code" where
  "check_issue (Min n) = Too_small n"
| "check_issue (Max n) = Too_big n"
| "check_issue Email = Invalid_email"

type_synonym schema = "(string \<times> str_check list) list"

definition field_issues :: "string \<times> str_check list \<Rightarrow> (string \<times> json) list \<Rightarrow> issue list" where
  "field_issues f kvs =
     (case json_get kvs (fst f) of
        Some (JStr s) \<Rightarrow> map (\<lambda>c. (fst f, check_issue c)) (filter (\<lambda>c. \<not> check_ok c s) (snd f))
      | _ \<Rightarrow> [(fst f, Invalid_type)])"

definition field_value :: "string \<times> str_check list \<Rightarrow> (string \<times> json) list \<Rightarrow> string" where
  "field_value f kvs = (case json_get kvs (fst f) of Some (JStr s) \<Rightarrow> s | _ \<Rightarrow> [])"

definition zod_parse :: "schema \<Rightarrow> json \<Rightarrow> issue list + string list" where
  "zod_parse sch body =
     (case body of
        JObj kvs \<Rightarrow>
          (let iss = concat (map (\<lambda>f. field_issues f kvs) sch) in
           if iss = [] then Inr (map (\<lambda>f. field_value f kvs) sch) else Inl iss)
      | _ \<Rightarrow> Inl [([], Invalid_type)])"

subsection \<open>The two schemas and validators\<close>

definition userSchema :: schema where
  "userSchema =
     [(''username'', [Min 3, Max 30]),
      (''email'', [Email]),
      (''password'', [Min 8, Max 100])]"

definition loginSchema :: schema where
  "loginSchema =
     [(''email'', [Email]),
      (''password'', [Min 8, Max 100])]"

record reg_input =
  ri_username :: string
  ri_email :: string
  ri_password :: string

record login_input =
  li_email :: string
  li_password :: string

definition validateRegistration :: "json \<Rightarrow> issue list + reg_input" where
  "validateRegistration data =
     (case zod_parse userSchema data of
        Inl iss \<Rightarrow> Inl iss
      | Inr vs \<Rightarrow> Inr \<lparr>ri_username = vs ! 0, ri_email = vs ! 1, ri_password = vs ! 2\<rparr>)"

definition validateLogin :: "json \<Rightarrow> issue list + login_input" where
  "validateLogin data =
     (case zod_parse loginSchema data of
        Inl iss \<Rightarrow> Inl iss
      | Inr vs \<Rightarrow> Inr \<lparr>li_email = vs ! 0, li_password = vs ! 1\<rparr>)"

text \<open>The constraints the two schemas state, as predicates on accepted values.\<close>

definition password_ok :: "string \<Rightarrow> bool" where
  "password_ok p \<longleftrightarrow> 8 \<le> length p \<and> length p \<le> 100"

definition reg_constraints :: "string \<Rightarrow> string \<Rightarrow> string \<Rightarrow> bool" where
  "reg_constraints u e p \<longleftrightarrow> 3 \<le> length u \<and> length u \<le> 30 \<and> zod_email e \<and> password_ok p"

subsection \<open>Lemmas\<close>

text \<open>The definitions the e-mail check unfolds to, for evaluating it on a literal.\<close>

lemmas zod_email_unfold = zod_email_def email_local_char_def email_local_last_def
  email_label_def email_tld_def is_alpha_def is_alnum_def

lemma field_issues_Nil_iff:
  "field_issues f kvs = [] \<longleftrightarrow>
     (\<exists>s. json_get kvs (fst f) = Some (JStr s) \<and> (\<forall>c \<in> set (snd f). check_ok c s))"
  by (auto simp: field_issues_def filter_empty_conv split: option.splits json.splits)

lemma field_value_JStr:
  "json_get kvs (fst f) = Some (JStr s) \<Longrightarrow> field_value f kvs = s"
  by (simp add: field_value_def)

lemma zod_parse_Inr_iff:
  "zod_parse sch body = Inr vs \<longleftrightarrow>
     (\<exists>kvs. body = JObj kvs \<and> length vs = length sch \<and>
        (\<forall>i < length sch. json_get kvs (fst (sch ! i)) = Some (JStr (vs ! i)) \<and>
                           (\<forall>c \<in> set (snd (sch ! i)). check_ok c (vs ! i))))"
proof
  assume "zod_parse sch body = Inr vs"
  then obtain kvs where b: "body = JObj kvs" and iss: "\<forall>f \<in> set sch. field_issues f kvs = []"
    and vs: "vs = map (\<lambda>f. field_value f kvs) sch"
    by (auto simp: zod_parse_def Let_def split: json.splits if_splits)
  show "\<exists>kvs. body = JObj kvs \<and> length vs = length sch \<and>
        (\<forall>i < length sch. json_get kvs (fst (sch ! i)) = Some (JStr (vs ! i)) \<and>
                           (\<forall>c \<in> set (snd (sch ! i)). check_ok c (vs ! i)))"
  proof -
    have "\<forall>i < length sch. \<exists>s. json_get kvs (fst (sch ! i)) = Some (JStr s) \<and>
            (\<forall>c \<in> set (snd (sch ! i)). check_ok c s)"
      using iss by (auto simp: field_issues_Nil_iff)
    then show ?thesis by (auto simp: b vs field_value_def)
  qed
next
  assume "\<exists>kvs. body = JObj kvs \<and> length vs = length sch \<and>
        (\<forall>i < length sch. json_get kvs (fst (sch ! i)) = Some (JStr (vs ! i)) \<and>
                           (\<forall>c \<in> set (snd (sch ! i)). check_ok c (vs ! i)))"
  then obtain kvs where b: "body = JObj kvs" and len: "length vs = length sch"
    and fs: "\<forall>i < length sch. json_get kvs (fst (sch ! i)) = Some (JStr (vs ! i)) \<and>
                           (\<forall>c \<in> set (snd (sch ! i)). check_ok c (vs ! i))"
    by blast
  have "\<forall>f \<in> set sch. field_issues f kvs = []"
    using fs by (fastforce simp: in_set_conv_nth field_issues_Nil_iff)
  moreover have "map (\<lambda>f. field_value f kvs) sch = vs"
    using fs len by (intro nth_equalityI) (simp_all add: field_value_JStr)
  ultimately show "zod_parse sch body = Inr vs"
    by (simp add: zod_parse_def b)
qed

text \<open>
  C22: \<open>validateRegistration\<close> accepts a body exactly when it is an object whose
  \<open>username\<close>, \<open>email\<close> and \<open>password\<close> (the last occurrence of each key) are
  strings of 3 to 30 characters, a valid e-mail, and 8 to 100 characters; it
  then returns those three strings.
\<close>

theorem validateRegistration_Inr_iff:
  "validateRegistration body = Inr r \<longleftrightarrow>
     (\<exists>kvs. body = JObj kvs \<and>
        json_get kvs ''username'' = Some (JStr (ri_username r)) \<and>
        json_get kvs ''email'' = Some (JStr (ri_email r)) \<and>
        json_get kvs ''password'' = Some (JStr (ri_password r)) \<and>
        reg_constraints (ri_username r) (ri_email r) (ri_password r))"
    (is "?l \<longleftrightarrow> ?r")
proof
  assume ?l
  then obtain vs where p: "zod_parse userSchema body = Inr vs"
    and r: "r = \<lparr>ri_username = vs ! 0, ri_email = vs ! 1, ri_password = vs ! 2\<rparr>"
    by (auto simp: validateRegistration_def split: sum.splits)
  from p show ?r
    by (auto simp: r zod_parse_Inr_iff userSchema_def All_less_Suc numeral_2_eq_2
        reg_constraints_def password_ok_def)
next
  assume ?r
  then have "zod_parse userSchema body = Inr [ri_username r, ri_email r, ri_password r]"
    by (auto simp: zod_parse_Inr_iff userSchema_def All_less_Suc
        reg_constraints_def password_ok_def)
  then show ?l by (simp add: validateRegistration_def)
qed

lemma validateLogin_Inr_iff:
  "validateLogin body = Inr r \<longleftrightarrow>
     (\<exists>kvs. body = JObj kvs \<and>
        json_get kvs ''email'' = Some (JStr (li_email r)) \<and>
        json_get kvs ''password'' = Some (JStr (li_password r)) \<and>
        zod_email (li_email r) \<and> password_ok (li_password r))"
    (is "?l \<longleftrightarrow> ?r")
proof
  assume ?l
  then obtain vs where p: "zod_parse loginSchema body = Inr vs"
    and r: "r = \<lparr>li_email = vs ! 0, li_password = vs ! 1\<rparr>"
    by (auto simp: validateLogin_def split: sum.splits)
  from p show ?r
    by (auto simp: r zod_parse_Inr_iff loginSchema_def All_less_Suc password_ok_def)
next
  assume ?r
  then have "zod_parse loginSchema body = Inr [li_email r, li_password r]"
    by (auto simp: zod_parse_Inr_iff loginSchema_def All_less_Suc password_ok_def)
  then show ?l by (simp add: validateLogin_def)
qed

lemma zod_parse_field_issue:
  assumes "f \<in> set sch" and "json_get kvs (fst f) = Some (JStr s)"
    and "c \<in> set (snd f)" and "\<not> check_ok c s"
  shows "\<exists>iss. zod_parse sch (JObj kvs) = Inl iss \<and> (fst f, check_issue c) \<in> set iss"
proof -
  have "(fst f, check_issue c) \<in> set (field_issues f kvs)"
    using assms(2-4) by (auto simp: field_issues_def)
  then have mem: "(fst f, check_issue c) \<in> set (concat (map (\<lambda>f. field_issues f kvs) sch))"
    using assms(1) by auto
  then have "concat (map (\<lambda>f. field_issues f kvs) sch) \<noteq> []"
    by (metis empty_iff list.set(1))
  then have "zod_parse sch (JObj kvs) = Inl (concat (map (\<lambda>f. field_issues f kvs) sch))"
    by (simp add: zod_parse_def)
  with mem show ?thesis by blast
qed

text \<open>
  A login body whose password is a string of fewer than 8 characters is
  refused by validation with an issue \<open>too_small\<close> (8) on \<open>password\<close>, whatever
  the rest of the body.
\<close>

theorem validateLogin_short_password:
  assumes "json_get kvs ''password'' = Some (JStr p)" and "length p < 8"
  shows "\<exists>iss. validateLogin (JObj kvs) = Inl iss \<and> (''password'', Too_small 8) \<in> set iss"
proof -
  have "\<exists>iss. zod_parse loginSchema (JObj kvs) = Inl iss \<and> (''password'', Too_small 8) \<in> set iss"
    using zod_parse_field_issue [of "(''password'', [Min 8, Max 100])" loginSchema kvs p "Min 8"]
      assms by (simp add: loginSchema_def)
  then show ?thesis by (auto simp: validateLogin_def)
qed

theorem validateRegistration_Inr_iff_witness:
  "validateRegistration (JObj [(''username'', JStr ''bob''), (''email'', JStr ''bob@example.com''),
                               (''password'', JStr ''bobpassword'')]) =
     Inr \<lparr>ri_username = ''bob'', ri_email = ''bob@example.com'', ri_password = ''bobpassword''\<rparr>"
  by (simp add: validateRegistration_Inr_iff js_simps reg_constraints_def password_ok_def zod_email_unfold)

theorem validateLogin_short_password_witness:
  "\<exists>iss. validateLogin (JObj [(''email'', JStr ''a@x.com''), (''password'', JStr ''wrong'')]) = Inl iss \<and>
     (''password'', Too_small 8) \<in> set iss"
  by (rule validateLogin_short_password [where p = "''wrong''"]) (simp_all add: js_simps)

end
