(* ===== verification/Store.thy ===== *)
theory Store
  imports Prelude
begin

text \<open>
  The \<open>users\<close> table of the PostgreSQL database and the four statements the
  server sends to it through \<open>query\<close> (\<open>src/server/config/db.js\<close>, not among the
  sources): the existence check and the \<open>INSERT ... RETURNING\<close> of
  \<open>register\<close>, the look-up by e-mail of \<open>login\<close> (both in
  \<open>src/server/controllers/auth.js\<close>) and the look-up by id of \<open>protect\<close>
  (\<open>src/server/middleware/auth.js\<close>).  The table is a list of rows in insertion
  order (the order in which \<open>SELECT\<close> without \<open>ORDER BY\<close> returns them in
  this model); \<open>id\<close> is a \<open>SERIAL\<close> column whose sequence value is taken
  before constraints are checked.  The schema is not in the repository, so
  whether the table has \<open>UNIQUE\<close> constraints on \<open>username\<close> and \<open>email\<close>
  is a parameter of the store, as is whether the database is reachable; every
  statement fails with a \<open>db_error\<close> when it is not.
\<close>

record user_row =
  u_id :: int
  u_username :: string
  u_email :: string
  u_password :: string
  u_role :: string

text \<open>The columns \<open>protect\<close> selects: \<open>id, username, email, role\<close>.\<close>

record public_user =
  pu_id :: int
  pu_username :: string
  pu_email :: string
  pu_role :: string

datatype db_error = Db_unavailable | Unique_violation | Invalid_text_representation

record store =
  rows :: "user_row list"
  next_id :: int
  db_up :: bool
  unique_constraint :: bool

definition public_of :: "user_row \<Rightarrow> public_user" where
  "public_of r = \<lparr>pu_id = u_id r, pu_username = u_username r, pu_email = u_email r, pu_role = u_role r\<rparr>"

text \<open>\<open>SELECT * FROM users WHERE email = $1 OR username = $2\<close>\<close>

definition q_select_email_or_username :: "store \<Rightarrow> string \<Rightarrow> string \<Rightarrow> db_error + user_row list" where
  "q_select_email_or_username st e u =
     (if \<not> db_up st then Inl Db_unavailable
      else Inr (filter (\<lambda>r. u_email r = e \<or> u_username r = u) (rows st)))"

text \<open>\<open>SELECT * FROM users WHERE email = $1\<close>\<close>

definition q_select_by_email :: "store \<Rightarrow> string \<Rightarrow> db_error + user_row list" where
  "q_select_by_email st e =
     (if \<not> db_up st then Inl Db_unavailable
      else Inr (filter (\<lambda>r. u_email r = e) (rows st)))"

text \<open>
  \<open>INSERT INTO users (username, email, password, role) VALUES ($1, $2, $3, $4)
  RETURNING id, username, email, role\<close>: the sequence advances whether or not
  the row is then refused by a uniqueness constraint.
\<close>

definition q_insert_user ::
  "store \<Rightarrow> string \<Rightarrow> string \<Rightarrow> string \<Rightarrow> string \<Rightarrow> (db_error + public_user) \<times> store" where
  "q_insert_user st u e p role =
     (if \<not> db_up st then (Inl Db_unavailable, st)
      else
        (let i = next_id st; st1 = st\<lparr>next_id := i + 1\<rparr> in
         if unique_constraint st \<and> (\<exists>r \<in> set (rows st). u_email r = e \<or> u_username r = u)
         then (Inl Unique_violation, st1)
         else
           (let row = \<lparr>u_id = i, u_username = u, u_email = e, u_password = p, u_role = role\<rparr> in
            (Inr (public_of row), st1\<lparr>rows := rows st @ [row]\<rparr>))))"

text \<open>
  \<open>SELECT id, username, email, role FROM users WHERE id = $1\<close>, with the
  parameter as it comes out of the token payload: a number compares with the
  column; an absent \<open>id\<close> (\<open>undefined\<close>, sent as \<open>NULL\<close>) matches no row;
  any other JSON value is refused by PostgreSQL's conversion to integer (a
  numeric string, which PostgreSQL would convert, is refused too: tokens of
  this server always carry a number).
\<close>

definition q_select_public_by_id :: "store \<Rightarrow> json \<Rightarrow> db_error + public_user list" where
  "q_select_public_by_id st v =
     (if \<not> db_up st then Inl Db_unavailable
      else (case v of
              JNum i \<Rightarrow> Inr (map public_of (filter (\<lambda>r. u_id r = i) (rows st)))
            | JNull \<Rightarrow> Inr []
            | _ \<Rightarrow> Inl Invalid_text_representation))"

subsection \<open>Well-formed tables\<close>

text \<open>
  What the data model of the specification requires of the table: unique
  usernames, e-mails and ids, ids below the sequence, a non-empty password hash
  and a role that is \<open>user\<close> or \<open>admin\<close>.
\<close>

definition users_wf :: "store \<Rightarrow> bool" where
  "users_wf st \<longleftrightarrow>
     distinct (map u_username (rows st)) \<and>
     distinct (map u_email (rows st)) \<and>
     distinct (map u_id (rows st)) \<and>
     (\<forall>r \<in> set (rows st). u_id r < next_id st \<and> u_password r \<noteq> [] \<and>
                           u_role r \<in> {''user'', ''admin''})"

subsection \<open>Lemmas\<close>

lemma q_insert_user_Inr:
  "q_insert_user st u e p role = (Inr pu, st') \<longleftrightarrow>
     db_up st \<and> \<not> (unique_constraint st \<and> (\<exists>r \<in> set (rows st). u_email r = e \<or> u_username r = u)) \<and>
     pu = \<lparr>pu_id = next_id st, pu_username = u, pu_email = e, pu_role = role\<rparr> \<and>
     st' = st\<lparr>next_id := next_id st + 1,
              rows := rows st @ [\<lparr>u_id = next_id st, u_username = u, u_email = e,
                                  u_password = p, u_role = role\<rparr>]\<rparr>"
  by (auto simp: q_insert_user_def public_of_def Let_def)

lemma q_insert_user_Inl_rows:
  "q_insert_user st u e p role = (Inl err, st') \<Longrightarrow> rows st' = rows st"
  by (auto simp: q_insert_user_def Let_def split: if_splits)

lemma q_insert_user_config [simp]:
  "db_up (snd (q_insert_user st u e p role)) = db_up st"
  "unique_constraint (snd (q_insert_user st u e p role)) = unique_constraint st"
  by (simp_all add: q_insert_user_def Let_def)

lemma q_select_email_or_username_Nil:
  "q_select_email_or_username st e u = Inr [] \<longleftrightarrow>
     db_up st \<and> (\<forall>r \<in> set (rows st). u_email r \<noteq> e \<and> u_username r \<noteq> u)"
  by (auto simp: q_select_email_or_username_def filter_empty_conv)

text \<open>An insertion that the existence check has cleared keeps the table well formed.\<close>

lemma users_wf_insert:
  assumes wf: "users_wf st" and fresh: "\<forall>r \<in> set (rows st). u_email r \<noteq> e \<and> u_username r \<noteq> u"
    and pw: "p \<noteq> []" and role: "role \<in> {''user'', ''admin''}"
    and ins: "q_insert_user st u e p role = (res, st')"
  shows "users_wf st'"
proof (cases "db_up st")
  case False
  with ins wf show ?thesis by (simp add: q_insert_user_def)
next
  case True
  have ids: "\<forall>r \<in> set (rows st). u_id r < next_id st"
    using wf by (simp add: users_wf_def)
  then have "next_id st \<notin> u_id ` set (rows st)" and "\<forall>r \<in> set (rows st). u_id r < next_id st + 1"
    by auto
  with True wf fresh pw role ins show ?thesis
    by (auto simp: users_wf_def q_insert_user_def Let_def split: if_splits)
qed

lemma q_select_by_email_wf:
  assumes "users_wf st" and "db_up st" and "row \<in> set (rows st)"
  shows "q_select_by_email st (u_email row) = Inr [row]"
  using assms filter_distinct_key [of u_email "rows st" row]
  by (simp add: q_select_by_email_def users_wf_def)

text \<open>With the constraints, any insertion keeps the table well formed: the database refuses a duplicate.\<close>

lemma users_wf_insert_constrained:
  assumes wf: "users_wf st" and uc: "unique_constraint st" and pw: "p \<noteq> []"
    and role: "role \<in> {''user'', ''admin''}"
  shows "users_wf (snd (q_insert_user st u e p role))"
proof (cases "\<exists>r \<in> set (rows st). u_email r = e \<or> u_username r = u")
  case True
  have "\<forall>r \<in> set (rows st). u_id r < next_id st + 1"
    using wf by (fastforce simp: users_wf_def)
  with True wf uc show ?thesis by (auto simp: q_insert_user_def Let_def users_wf_def)
next
  case False
  obtain res st' where q: "q_insert_user st u e p role = (res, st')" by fastforce
  have "users_wf st'"
    using wf _ pw role q by (rule users_wf_insert) (use False in auto)
  with q show ?thesis by simp
qed

end
