(* ===== verification/Bcrypt.thy ===== *)
theory Bcrypt
  imports Prelude
begin

text \<open>
  The password hashing that \<open>register\<close> and \<open>login\<close>
  (\<open>src/server/controllers/auth.js\<close>) call: \<open>bcrypt.genSalt(10)\<close>,
  \<open>bcrypt.hash(password, salt)\<close> and \<open>bcrypt.compare(password, hash)\<close> of the
  bcryptjs library.  The string handling of the library is written out: the salt
  string \<open>$2a$NN$\<close> followed by 22 characters of bcrypt's base-64 alphabet, its
  parsing and error cases, the key (the password followed by a NUL byte, of
  which the Blowfish key schedule reads at most 72 bytes), and the 60-character
  result.  The expensive key derivation itself (EksBlowfish and the encoding of
  its 23 output bytes) is a parameter \<open>H\<close> of type \<open>kdf\<close>: the lemmas hold for
  every such function, and the ones that need a property of it (31 output
  characters, no collisions) say so.  The 16 random salt bytes are an input
  (\<open>rnd\<close>, already encoded), as they are the nondeterminism of the call.
\<close>

type_synonym kdf = "nat \<Rightarrow> string \<Rightarrow> string \<Rightarrow> string"  \<comment> \<open>rounds, salt, key bytes\<close>

datatype bcrypt_error =
    Invalid_salt_version
  | Invalid_salt_revision
  | Missing_salt_rounds
  | Illegal_salt_length
  | Illegal_rounds

definition bcrypt_alphabet :: string where
  "bcrypt_alphabet = ''./ABCDEFGHIJKLMNOPQRSTUVWXYZabcdefghijklmnopqrstuvwxyz0123456789''"

definition two_digits :: "nat \<Rightarrow> string" where
  "two_digits n = [char_of (48 + n div 10), char_of (48 + n mod 10)]"

definition digit_val :: "char \<Rightarrow> nat option" where
  "digit_val c = (if CHR ''0'' \<le> c \<and> c \<le> CHR ''9'' then Some (of_char c - 48) else None)"

text \<open>\<open>genSalt(rounds)\<close>: the rounds are clamped to 4..31.\<close>

definition gen_salt :: "nat \<Rightarrow> string \<Rightarrow> string" where
  "gen_salt rounds rnd = ''$2a$'' @ two_digits (min 31 (max 4 rounds)) @ ''$'' @ rnd"

text \<open>The salt parsing at the start of bcryptjs's \<open>_hash\<close> and the checks of \<open>_crypt\<close>.\<close>

definition parse_salt :: "string \<Rightarrow> bcrypt_error + (char option \<times> nat \<times> string)" where
  "parse_salt salt =
     (if js_at salt 0 \<noteq> Some CHR ''$'' \<or> js_at salt 1 \<noteq> Some CHR ''2'' then Inl Invalid_salt_version
      else
        (let (minor, off) = (if js_at salt 2 = Some CHR ''$'' then (None, 3) else (js_at salt 2, 4)) in
         if off = 4 \<and> (minor \<notin> {Some CHR ''a'', Some CHR ''b'', Some CHR ''y''} \<or> js_at salt 3 \<noteq> Some CHR ''$'')
         then Inl Invalid_salt_revision
         else if (case js_at salt (off + 2) of Some c \<Rightarrow> CHR ''$'' < c | None \<Rightarrow> False)
         then Inl Missing_salt_rounds
         else
           (let real_salt = take 22 (drop (off + 3) salt) in
            if length real_salt \<noteq> 22 \<or> (\<exists>c \<in> set real_salt. c \<notin> set bcrypt_alphabet)
            then Inl Illegal_salt_length
            else
              (case (Option.bind (js_at salt off) digit_val, Option.bind (js_at salt (off + 1)) digit_val) of
                 (Some d1, Some d2) \<Rightarrow>
                   (let rounds = d1 * 10 + d2 in
                    if rounds < 4 \<or> 31 < rounds then Inl Illegal_rounds
                    else Inr (minor, rounds, real_salt))
               | _ \<Rightarrow> Inl Illegal_rounds))))"

text \<open>The key the Blowfish schedule reads: the password and a NUL, at most 72 bytes.\<close>

definition bcrypt_key :: "char option \<Rightarrow> string \<Rightarrow> string" where
  "bcrypt_key minor pw = take 72 (pw @ (if minor = None then [] else [CHR 0x00]))"

text \<open>\<open>bcrypt.hash(s, salt)\<close>.\<close>

definition bcrypt_hash :: "kdf \<Rightarrow> string \<Rightarrow> string \<Rightarrow> bcrypt_error + string" where
  "bcrypt_hash H pw salt =
     (case parse_salt salt of
        Inl e \<Rightarrow> Inl e
      | Inr (minor, rounds, rs) \<Rightarrow>
          Inr (''$2'' @ (case minor of None \<Rightarrow> [] | Some m \<Rightarrow> [m]) @ ''$'' @ two_digits rounds @
               ''$'' @ rs @ H rounds rs (bcrypt_key minor pw)))"

text \<open>\<open>bcrypt.compare(s, hash)\<close>: a hash that is not 60 characters long never matches.\<close>

definition bcrypt_compare :: "kdf \<Rightarrow> string \<Rightarrow> string \<Rightarrow> bcrypt_error + bool" where
  "bcrypt_compare H pw h =
     (if length h \<noteq> 60 then Inr False
      else (case bcrypt_hash H pw (take 29 h) of
              Inl e \<Rightarrow> Inl e
            | Inr c \<Rightarrow> Inr (c = h)))"

text \<open>A key derivation with the output length of bcrypt (23 bytes, 31 characters).\<close>

definition kdf_len :: "kdf \<Rightarrow> bool" where
  "kdf_len H \<longleftrightarrow> (\<forall>r s k. length (H r s k) = 31)"

text \<open>Salts \<open>genSalt\<close> can produce: 22 characters of the alphabet.\<close>

definition salt_rnd_ok :: "string \<Rightarrow> bool" where
  "salt_rnd_ok rnd \<longleftrightarrow> length rnd = 22 \<and> set rnd \<subseteq> set bcrypt_alphabet"

subsection \<open>Lemmas\<close>

lemma two_digits_parse:
  assumes "n < 100"
  shows "Option.bind (js_at (two_digits n) 0) digit_val = Some (n div 10)"
    and "Option.bind (js_at (two_digits n) 1) digit_val = Some (n mod 10)"
proof -
  have a: "n div 10 < 10" using assms by simp
  have b: "n mod 10 < 10" by simp
  have c: "\<And>k::nat. k < 10 \<Longrightarrow> digit_val (char_of (48 + k)) = Some k"
  proof -
    fix k :: nat assume "k < 10"
    then have "k \<in> {0..9}" by simp
    then show "digit_val (char_of (48 + k)) = Some k"
      by (auto simp: digit_val_def less_eq_char_def)
  qed
  show "Option.bind (js_at (two_digits n) 0) digit_val = Some (n div 10)"
    using c [OF a] by (simp add: two_digits_def js_at_def)
  show "Option.bind (js_at (two_digits n) 1) digit_val = Some (n mod 10)"
    using c [OF b] by (simp add: two_digits_def js_at_def)
qed

lemma gen_salt_length [simp]: "salt_rnd_ok rnd \<Longrightarrow> length (gen_salt r rnd) = 29"
  by (simp add: gen_salt_def two_digits_def salt_rnd_ok_def)

lemma parse_gen_salt:
  assumes "salt_rnd_ok rnd"
  shows "parse_salt (gen_salt rounds rnd) = Inr (Some CHR ''a'', min 31 (max 4 rounds), rnd)"
proof -
  let ?r = "min 31 (max 4 rounds)"
  have r: "?r < 100" "4 \<le> ?r" "?r \<le> 31" by auto
  have d: "?r div 10 * 10 + ?r mod 10 = ?r" by simp
  show ?thesis
    using assms two_digits_parse [OF r(1)] r d
    by (simp add: parse_salt_def gen_salt_def salt_rnd_ok_def js_at_def two_digits_def nth_append
        subset_code(1) Let_def del: div_mult_mod_eq)
qed

lemma bcrypt_hash_gen_salt:
  assumes "salt_rnd_ok rnd"
  shows "bcrypt_hash H pw (gen_salt rounds rnd) =
           Inr (gen_salt rounds rnd @ H (min 31 (max 4 rounds)) rnd (bcrypt_key (Some CHR ''a'') pw))"
proof -
  have "parse_salt (gen_salt rounds rnd) = Inr (Some CHR ''a'', min 31 (max 4 rounds), rnd)"
    using assms by (rule parse_gen_salt)
  then show ?thesis by (simp add: bcrypt_hash_def gen_salt_def)
qed

lemma bcrypt_hash_gen_salt_length:
  assumes "kdf_len H" and "salt_rnd_ok rnd" and "bcrypt_hash H pw (gen_salt rounds rnd) = Inr h"
  shows "length h = 60" and "take 29 h = gen_salt rounds rnd"
  using assms by (auto simp: bcrypt_hash_gen_salt kdf_len_def)

text \<open>
  What \<open>compare\<close> decides for a hash made from a generated salt: whether the
  key derivation gives the same digest for the two keys.
\<close>

lemma bcrypt_compare_gen_salt:
  assumes "kdf_len H" and "salt_rnd_ok rnd" and "bcrypt_hash H pw (gen_salt rounds rnd) = Inr h"
  shows "bcrypt_compare H pw' h =
           Inr (H (min 31 (max 4 rounds)) rnd (bcrypt_key (Some CHR ''a'') pw') =
                H (min 31 (max 4 rounds)) rnd (bcrypt_key (Some CHR ''a'') pw))"
proof -
  have "length h = 60" and t: "take 29 h = gen_salt rounds rnd"
    using bcrypt_hash_gen_salt_length [OF assms] by auto
  moreover have "h = gen_salt rounds rnd @ H (min 31 (max 4 rounds)) rnd (bcrypt_key (Some CHR ''a'') pw)"
    using assms(2,3) by (simp add: bcrypt_hash_gen_salt)
  ultimately show ?thesis
    using assms(2) by (simp add: bcrypt_compare_def bcrypt_hash_gen_salt)
qed

lemma bcrypt_key_long:
  "72 \<le> length pw \<Longrightarrow> bcrypt_key (Some m) pw = take 72 pw"
  by (simp add: bcrypt_key_def)

lemma bcrypt_key_short:
  "length pw < 72 \<Longrightarrow> bcrypt_key (Some m) pw = pw @ [CHR 0x00]"
  by (simp add: bcrypt_key_def)

lemma bcrypt_hash_not_Nil: "bcrypt_hash H pw s = Inr h \<Longrightarrow> h \<noteq> []"
  by (auto simp: bcrypt_hash_def split: sum.splits prod.splits)

text \<open>The check \<open>login\<close> makes against a hash \<open>register\<close> stored (cost 10).\<close>

lemma bcrypt_compare_registered:
  assumes "kdf_len H" and "salt_rnd_ok rnd"
  shows "bcrypt_compare H pw' (gen_salt 10 rnd @ H 10 rnd (bcrypt_key (Some CHR ''a'') pw)) =
           Inr (H 10 rnd (bcrypt_key (Some CHR ''a'') pw') = H 10 rnd (bcrypt_key (Some CHR ''a'') pw))"
proof -
  have "bcrypt_hash H pw (gen_salt 10 rnd) = Inr (gen_salt 10 rnd @ H 10 rnd (bcrypt_key (Some CHR ''a'') pw))"
    using assms(2) by (simp add: bcrypt_hash_gen_salt)
  from bcrypt_compare_gen_salt [OF assms this] show ?thesis by simp
qed

end
