(* ===== verification/Base64url.thy ===== *)
theory Base64url
  imports Prelude
begin

text \<open>
  The byte encodings under a JSON Web Token as the \<open>jws\<close> library (called by
  \<open>jwt.sign\<close> and \<open>jwt.verify\<close> in \<open>src/server/controllers/auth.js\<close> and
  \<open>src/server/middleware/auth.js\<close>) builds it: a JavaScript string is turned
  into bytes by \<open>Buffer.from(s, 'utf8')\<close> and the bytes into text by base64url
  without padding; decoding goes back with \<open>Buffer.from(s, 'base64')\<close> and
  \<open>toString('utf8')\<close>.  Bytes are natural numbers below 256; strings are
  Latin-1 code units (see Prelude), so UTF-8 needs one or two bytes per unit.
  Decoding invalid UTF-8 gives \<open>None\<close> where Node would insert U+FFFD, a code
  point outside the model; a token with such a payload is rejected either way.
\<close>

subsection \<open>UTF-8 for code units below 256\<close>

fun utf8_encode :: "string \<Rightarrow> nat list" where
  "utf8_encode [] = []"
| "utf8_encode (c # cs) =
     (let n = of_char c :: nat in
      if n < 128 then [n] else [192 + n div 64, 128 + n mod 64]) @ utf8_encode cs"

fun utf8_decode :: "nat list \<Rightarrow> string option" where
  "utf8_decode [] = Some []"
| "utf8_decode (b # bs) =
     (if b < 128 then map_option (Cons (char_of b)) (utf8_decode bs)
      else if b = 194 \<or> b = 195 then
        (case bs of
           [] \<Rightarrow> None
         | b2 # bs' \<Rightarrow>
             if 128 \<le> b2 \<and> b2 < 192
             then map_option (Cons (char_of ((b - 192) * 64 + (b2 - 128)))) (utf8_decode bs')
             else None)
      else None)"

subsection \<open>base64url\<close>

definition b64url_alphabet :: string where
  "b64url_alphabet = ''ABCDEFGHIJKLMNOPQRSTUVWXYZabcdefghijklmnopqrstuvwxyz0123456789-_''"

definition b64_digit :: "nat \<Rightarrow> char" where
  "b64_digit n = b64url_alphabet ! n"

definition b64_index :: "char \<Rightarrow> nat" where
  "b64_index c = length (takeWhile (\<lambda>x. x \<noteq> c) b64url_alphabet)"

text \<open>Three bytes to four sextets; a final group of one or two bytes to two or three.\<close>

fun b64_enc :: "nat list \<Rightarrow> nat list" where
  "b64_enc (a # b # c # rest) =
     [a div 4, (a mod 4) * 16 + b div 16, (b mod 16) * 4 + c div 64, c mod 64] @ b64_enc rest"
| "b64_enc [a, b] = [a div 4, (a mod 4) * 16 + b div 16, (b mod 16) * 4]"
| "b64_enc [a] = [a div 4, (a mod 4) * 16]"
| "b64_enc [] = []"

text \<open>Four sextets to three bytes; leftover bits of a final short group are dropped,
  and a single leftover sextet gives no byte, as Node's decoder does.\<close>

fun b64_dec :: "nat list \<Rightarrow> nat list" where
  "b64_dec (w # x # y # z # rest) =
     [w * 4 + x div 16, (x mod 16) * 16 + y div 4, (y mod 4) * 64 + z] @ b64_dec rest"
| "b64_dec [w, x, y] = [w * 4 + x div 16, (x mod 16) * 16 + y div 4]"
| "b64_dec [w, x] = [w * 4 + x div 16]"
| "b64_dec [w] = []"
| "b64_dec [] = []"

definition base64url_encode :: "nat list \<Rightarrow> string" where
  "base64url_encode bs = map b64_digit (b64_enc bs)"

definition base64url_decode :: "string \<Rightarrow> nat list" where
  "base64url_decode s = b64_dec (map b64_index s)"

text \<open>The text of a string: its UTF-8 bytes in base64url (\<open>base64url(Buffer.from(s))\<close>).\<close>

definition b64url_of_string :: "string \<Rightarrow> string" where
  "b64url_of_string s = base64url_encode (utf8_encode s)"

definition string_of_b64url :: "string \<Rightarrow> string option" where
  "string_of_b64url t = utf8_decode (base64url_decode t)"

text \<open>The header segment is encoded and decoded as \<open>'binary'\<close> (Latin-1): one byte per code unit.\<close>

definition b64url_of_latin1 :: "string \<Rightarrow> string" where
  "b64url_of_latin1 s = base64url_encode (map of_char s)"

definition latin1_of_b64url :: "string \<Rightarrow> string" where
  "latin1_of_b64url t = map char_of (base64url_decode t)"

definition bytes_ok :: "nat list \<Rightarrow> bool" where
  "bytes_ok bs \<longleftrightarrow> (\<forall>b \<in> set bs. b < 256)"

subsection \<open>Lemmas\<close>

lemma utf8_roundtrip: "utf8_decode (utf8_encode s) = Some s"
proof (induction s)
  case Nil
  then show ?case by simp
next
  case (Cons c s)
  let ?n = "of_char c :: nat"
  have lt: "?n < 256" by simp
  show ?case
  proof (cases "?n < 128")
    case True
    then show ?thesis using Cons.IH by (simp add: Let_def)
  next
    case False
    then have hi: "?n div 64 = 2 \<or> ?n div 64 = 3" using lt by linarith
    have rec: "(192 + ?n div 64 - 192) * 64 + (128 + ?n mod 64 - 128) = ?n"
      by simp
    show ?thesis using False hi Cons.IH rec by (auto simp: Let_def)
  qed
qed

lemma utf8_encode_bytes: "bytes_ok (utf8_encode s)"
proof (induction s)
  case Nil
  then show ?case by (simp add: bytes_ok_def)
next
  case (Cons c s)
  have "(of_char c :: nat) < 256" by simp
  then have "(of_char c :: nat) div 64 < 64" by arith
  then show ?case using Cons.IH by (auto simp: bytes_ok_def Let_def)
qed

lemma takeWhile_neq_nth_distinct:
  "distinct xs \<Longrightarrow> n < length xs \<Longrightarrow> length (takeWhile (\<lambda>x. x \<noteq> xs ! n) xs) = n"
proof (induction xs arbitrary: n)
  case Nil
  then show ?case by simp
next
  case (Cons y ys)
  show ?case
  proof (cases n)
    case 0
    then show ?thesis by simp
  next
    case (Suc m)
    with Cons.prems have "ys ! m \<noteq> y" by (auto simp: nth_mem)
    with Cons Suc show ?thesis by simp
  qed
qed

lemma b64url_alphabet_facts: "distinct b64url_alphabet" "length b64url_alphabet = 64"
  by (simp_all add: b64url_alphabet_def)

lemma b64_index_digit [simp]: "n < 64 \<Longrightarrow> b64_index (b64_digit n) = n"
  using takeWhile_neq_nth_distinct [of b64url_alphabet n] b64url_alphabet_facts
  by (simp add: b64_index_def b64_digit_def)

lemma b64_digit_in_alphabet: "n < 64 \<Longrightarrow> b64_digit n \<in> set b64url_alphabet"
  using b64url_alphabet_facts by (simp add: b64_digit_def)

lemma b64_enc_sextets: "bytes_ok bs \<Longrightarrow> \<forall>x \<in> set (b64_enc bs). x < 64"
  by (induction bs rule: b64_enc.induct) (auto simp: bytes_ok_def)

lemma b64_dec_enc: "bytes_ok bs \<Longrightarrow> b64_dec (b64_enc bs) = bs"
proof (induction bs rule: b64_enc.induct)
  case (1 a b c rest)
  then have "a < 256" "b < 256" "c < 256" and "bytes_ok rest" by (auto simp: bytes_ok_def)
  then show ?case using 1 by simp
next
  case (2 a b)
  then have "a < 256" "b < 256" by (auto simp: bytes_ok_def)
  then show ?case by simp
next
  case (3 a)
  then have "a < 256" by (auto simp: bytes_ok_def)
  then show ?case by simp
next
  case 4
  then show ?case by simp
qed

theorem base64url_roundtrip: "bytes_ok bs \<Longrightarrow> base64url_decode (base64url_encode bs) = bs"
proof -
  assume ok: "bytes_ok bs"
  have "map b64_index (map b64_digit (b64_enc bs)) = b64_enc bs"
    using b64_enc_sextets [OF ok] by (induction "b64_enc bs") (auto simp: map_idI)
  then show ?thesis by (simp add: base64url_decode_def base64url_encode_def b64_dec_enc [OF ok])
qed

lemma base64url_encode_alphabet: "bytes_ok bs \<Longrightarrow> set (base64url_encode bs) \<subseteq> set b64url_alphabet"
  using b64_enc_sextets b64_digit_in_alphabet by (auto simp: base64url_encode_def)

lemma string_of_b64url_roundtrip: "string_of_b64url (b64url_of_string s) = Some s"
  by (simp add: string_of_b64url_def b64url_of_string_def base64url_roundtrip utf8_encode_bytes
      utf8_roundtrip)

lemma base64url_encode_not_Nil: "bs \<noteq> [] \<Longrightarrow> base64url_encode bs \<noteq> []"
  by (induction bs rule: b64_enc.induct) (simp_all add: base64url_encode_def)

lemma latin1_roundtrip: "latin1_of_b64url (b64url_of_latin1 s) = s"
proof -
  have "bytes_ok (map of_char s)" by (simp add: bytes_ok_def)
  then show ?thesis
    by (simp add: latin1_of_b64url_def b64url_of_latin1_def base64url_roundtrip comp_def)
qed

lemma b64url_of_latin1_alphabet: "set (b64url_of_latin1 s) \<subseteq> set b64url_alphabet"
  by (simp add: b64url_of_latin1_def base64url_encode_alphabet bytes_ok_def)

lemma b64url_of_string_alphabet: "set (b64url_of_string s) \<subseteq> set b64url_alphabet"
  by (simp add: b64url_of_string_def base64url_encode_alphabet utf8_encode_bytes)

end
