(* ===== verification/Json.thy ===== *)
theory Json
  imports Prelude
begin

text \<open>
  JSON text as the token layer produces and reads it: \<open>JSON.stringify\<close> of the
  header and payload objects in \<open>jwt.sign\<close> and \<open>JSON.parse\<close> of them in
  \<open>jwt.verify\<close>.  The printer is JavaScript's, for the values of the model
  (integers print in decimal, strings escape \<open>"\<close>, \<open>\\\<close> and control
  characters, the short escapes where JSON has one and \<open>\u00XX\<close> with lower-case
  hex otherwise).  This theory holds the printer and the parsers of values; the
  theory JsonParse adds the object parser, which reads an object whose members have primitive
  values (string, integer, \<open>true\<close>, \<open>false\<close>, \<open>null\<close>), with white space
  between tokens; it returns \<open>None\<close> for nested arrays and objects, fractions,
  exponents and \<open>\u\<close> escapes above U+00FF, which \<open>JSON.parse\<close> would accept:
  every payload this server signs is a flat object of strings and integers, so
  the difference only touches tokens the server did not issue, which it rejects
  in both readings.
\<close>

subsection \<open>Printing\<close>

definition hex_digit :: "nat \<Rightarrow> char" where
  "hex_digit n = ''0123456789abcdef'' ! n"

definition json_escape_char :: "char \<Rightarrow> string" where
  "json_escape_char c =
     (let n = of_char c :: nat in
      if c = CHR ''\"'' then [CHR 0x5C, CHR ''\"'']
      else if c = CHR 0x5C then [CHR 0x5C, CHR 0x5C]
      else if n = 8 then [CHR 0x5C, CHR ''b'']
      else if n = 12 then [CHR 0x5C, CHR ''f'']
      else if n = 10 then [CHR 0x5C, CHR ''n'']
      else if n = 13 then [CHR 0x5C, CHR ''r'']
      else if n = 9 then [CHR 0x5C, CHR ''t'']
      else if n < 32 then [CHR 0x5C, CHR ''u'', CHR ''0'', CHR ''0'', hex_digit (n div 16), hex_digit (n mod 16)]
      else [c])"

definition json_quote :: "string \<Rightarrow> string" where
  "json_quote s = CHR ''\"'' # concat (map json_escape_char s) @ [CHR ''\"'']"

fun nat_digits :: "nat \<Rightarrow> string" where
  "nat_digits n = (if n < 10 then [char_of (48 + n)] else nat_digits (n div 10) @ [char_of (48 + n mod 10)])"

declare nat_digits.simps [simp del]

definition int_text :: "int \<Rightarrow> string" where
  "int_text i = (if i < 0 then CHR ''-'' # nat_digits (nat (- i)) else nat_digits (nat i))"

fun join_comma :: "string list \<Rightarrow> string" where
  "join_comma [] = []"
| "join_comma [x] = x"
| "join_comma (x # xs) = x @ CHR '','' # join_comma xs"

fun json_stringify :: "json \<Rightarrow> string" where
  "json_stringify JNull = ''null''"
| "json_stringify (JBool b) = (if b then ''true'' else ''false'')"
| "json_stringify (JNum i) = int_text i"
| "json_stringify (JStr s) = json_quote s"
| "json_stringify (JArr vs) = CHR ''['' # join_comma (map json_stringify vs) @ [CHR '']'']"
| "json_stringify (JObj kvs) =
     CHR ''{'' # join_comma (map (\<lambda>kv. json_quote (fst kv) @ CHR '':'' # json_stringify (snd kv)) kvs) @ [CHR ''}'']"

subsection \<open>Parsing flat objects\<close>

definition is_ws :: "char \<Rightarrow> bool" where
  "is_ws c \<longleftrightarrow> c = CHR '' '' \<or> c = CHR 0x09 \<or> c = CHR 0x0A \<or> c = CHR 0x0D"

definition skip_ws :: "string \<Rightarrow> string" where
  "skip_ws s = dropWhile is_ws s"

definition is_digit :: "char \<Rightarrow> bool" where
  "is_digit c \<longleftrightarrow> CHR ''0'' \<le> c \<and> c \<le> CHR ''9''"

definition hex_val :: "char \<Rightarrow> nat option" where
  "hex_val c =
     (let n = of_char c :: nat in
      if 48 \<le> n \<and> n \<le> 57 then Some (n - 48)
      else if 97 \<le> n \<and> n \<le> 102 then Some (n - 87)
      else if 65 \<le> n \<and> n \<le> 70 then Some (n - 55)
      else None)"

definition hex4 :: "char \<Rightarrow> char \<Rightarrow> char \<Rightarrow> char \<Rightarrow> nat option" where
  "hex4 a b c d =
     (case (hex_val a, hex_val b, hex_val c, hex_val d) of
        (Some w, Some x, Some y, Some z) \<Rightarrow> Some (((w * 16 + x) * 16 + y) * 16 + z)
      | _ \<Rightarrow> None)"

text \<open>The characters after an opening quote, up to the closing one.\<close>

fun parse_str :: "string \<Rightarrow> string \<Rightarrow> (string \<times> string) option" where
  "parse_str acc [] = None"
| "parse_str acc (c # cs) =
     (if c = CHR ''\"'' then Some (acc, cs)
      else if c = CHR 0x5C then
        (case cs of
           [] \<Rightarrow> None
         | e # cs' \<Rightarrow>
             if e = CHR ''\"'' \<or> e = CHR 0x5C \<or> e = CHR ''/'' then parse_str (acc @ [e]) cs'
             else if e = CHR ''b'' then parse_str (acc @ [CHR 0x08]) cs'
             else if e = CHR ''f'' then parse_str (acc @ [CHR 0x0C]) cs'
             else if e = CHR ''n'' then parse_str (acc @ [CHR 0x0A]) cs'
             else if e = CHR ''r'' then parse_str (acc @ [CHR 0x0D]) cs'
             else if e = CHR ''t'' then parse_str (acc @ [CHR 0x09]) cs'
             else if e = CHR ''u'' then
               (case cs' of
                  h1 # h2 # h3 # h4 # cs'' \<Rightarrow>
                    (case hex4 h1 h2 h3 h4 of
                       Some n \<Rightarrow> if n < 256 then parse_str (acc @ [char_of n]) cs'' else None
                     | None \<Rightarrow> None)
                | _ \<Rightarrow> None)
             else None)
      else if (of_char c :: nat) < 32 then None
      else parse_str (acc @ [c]) cs)"

fun digits_val :: "string \<Rightarrow> nat \<Rightarrow> nat" where
  "digits_val [] acc = acc"
| "digits_val (d # ds) acc = digits_val ds (acc * 10 + (of_char d - 48))"

definition parse_num :: "string \<Rightarrow> (int \<times> string) option" where
  "parse_num s =
     (let (neg, s1) = (case s of c # r \<Rightarrow> if c = CHR ''-'' then (True, r) else (False, s) | [] \<Rightarrow> (False, s));
          ds = takeWhile is_digit s1; rest = dropWhile is_digit s1 in
      if ds = [] \<or> (hd ds = CHR ''0'' \<and> 1 < length ds) then None
      else if (case rest of c # _ \<Rightarrow> c \<in> {CHR ''.'', CHR ''e'', CHR ''E''} | [] \<Rightarrow> False) then None
      else Some ((if neg then - int (digits_val ds 0) else int (digits_val ds 0)), rest))"

definition parse_value :: "string \<Rightarrow> (json \<times> string) option" where
  "parse_value s =
     (case s of
        [] \<Rightarrow> None
      | c # r \<Rightarrow>
          if c = CHR ''\"'' then map_option (\<lambda>(v, r'). (JStr v, r')) (parse_str [] r)
          else if take 4 s = ''null'' then Some (JNull, drop 4 s)
          else if take 4 s = ''true'' then Some (JBool True, drop 4 s)
          else if take 5 s = ''false'' then Some (JBool False, drop 5 s)
          else map_option (\<lambda>(i, r'). (JNum i, r')) (parse_num s))"

text \<open>What may follow a printed number so that it reads back whole.\<close>

definition num_end_ok :: "string \<Rightarrow> bool" where
  "num_end_ok rest \<longleftrightarrow> (case rest of [] \<Rightarrow> True | c # _ \<Rightarrow> \<not> is_digit c \<and> c \<notin> {CHR ''.'', CHR ''e'', CHR ''E''})"

text \<open>Primitive JSON values: the values of a flat object.\<close>

definition json_flat :: "json \<Rightarrow> bool" where
  "json_flat v \<longleftrightarrow> (case v of JArr _ \<Rightarrow> False | JObj _ \<Rightarrow> False | _ \<Rightarrow> True)"

subsection \<open>Lemmas\<close>

lemma parse_str_length: "parse_str acc r = Some (k, r1) \<Longrightarrow> length r1 \<le> length r"
proof (induction r arbitrary: acc rule: length_induct)
  case (1 r)
  show ?case
  proof (cases r)
    case Nil
    with "1.prems" show ?thesis by simp
  next
    case (Cons c cs)
    have IH: "\<And>ys acc. length ys < length r \<Longrightarrow> parse_str acc ys = Some (k, r1) \<Longrightarrow> length r1 \<le> length ys"
      using "1.IH" by blast
    have step: "\<And>ys acc. length ys \<le> length cs \<Longrightarrow> parse_str acc ys = Some (k, r1) \<Longrightarrow> length r1 \<le> length r"
    proof -
      fix ys acc
      assume a: "length ys \<le> length cs" and b: "parse_str acc ys = Some (k, r1)"
      have "length ys < length r" using a Cons by simp
      then have "length r1 \<le> length ys" using IH b by blast
      then show "length r1 \<le> length r" using a Cons by simp
    qed
    show ?thesis
    proof (cases "c = CHR ''\"'' \<or> c \<noteq> CHR 0x5C")
      case True
      with "1.prems" Cons step show ?thesis by (auto split: if_splits)
    next
      case False
      then have bs: "c = CHR 0x5C" "c \<noteq> CHR ''\"''" by auto
      show ?thesis
      proof (cases cs)
        case Nil
        with "1.prems" Cons bs show ?thesis by simp
      next
        case (Cons e cs')
        have l1: "length cs' \<le> length cs" using Cons by simp
        have l2: "\<And>h1 h2 h3 h4 cs''. cs' = h1 # h2 # h3 # h4 # cs'' \<Longrightarrow> length cs'' \<le> length cs"
          using Cons by auto
        from "1.prems" \<open>r = c # cs\<close> bs Cons have
          "(if e = CHR ''\"'' \<or> e = CHR 0x5C \<or> e = CHR ''/'' then parse_str (acc @ [e]) cs'
             else if e = CHR ''b'' then parse_str (acc @ [CHR 0x08]) cs'
             else if e = CHR ''f'' then parse_str (acc @ [CHR 0x0C]) cs'
             else if e = CHR ''n'' then parse_str (acc @ [CHR 0x0A]) cs'
             else if e = CHR ''r'' then parse_str (acc @ [CHR 0x0D]) cs'
             else if e = CHR ''t'' then parse_str (acc @ [CHR 0x09]) cs'
             else if e = CHR ''u'' then
               (case cs' of
                  h1 # h2 # h3 # h4 # cs'' \<Rightarrow>
                    (case hex4 h1 h2 h3 h4 of
                       Some n \<Rightarrow> if n < 256 then parse_str (acc @ [char_of n]) cs'' else None
                     | None \<Rightarrow> None)
                | _ \<Rightarrow> None)
             else None) = Some (k, r1)"
          by simp
        then show ?thesis
          using step l1 l2 by (auto split: if_splits list.splits option.splits) (erule step [rotated], arith)
      qed
    qed
  qed
qed

lemma hex_val_digit_all: "\<forall>k < (16::nat). hex_val (hex_digit k) = Some k"
  by (simp add: numeral_eq_Suc All_less_Suc hex_val_def hex_digit_def)

lemma hex_val_digit: "k < 16 \<Longrightarrow> hex_val (hex_digit k) = Some k"
  using hex_val_digit_all by blast

lemma char_eq_of_nat: "(of_char c :: nat) = n \<Longrightarrow> c = char_of n"
  by (metis char_of_char)

lemma char_of_ctrl:
  "char_of (8::nat) = CHR 0x08" "char_of (12::nat) = CHR 0x0C" "char_of (10::nat) = CHR 0x0A"
  "char_of (13::nat) = CHR 0x0D" "char_of (9::nat) = CHR 0x09"
  by (rule of_char_eqI [where 'a = nat], simp)+

lemma parse_str_escape_char:
  "parse_str acc (json_escape_char c @ r) = parse_str (acc @ [c]) r"
proof -
  let ?n = "of_char c :: nat"
  show ?thesis
  proof (cases "c = CHR ''\"'' \<or> c = CHR 0x5C")
    case True
    then show ?thesis by (auto simp: json_escape_char_def)
  next
    case q: False
    show ?thesis
    proof (cases "?n < 32")
      case False
      with q show ?thesis by (simp add: json_escape_char_def Let_def)
    next
      case True
      have h0: "hex_val (CHR ''0'') = Some 0" by (simp add: hex_val_def)
      have h: "hex4 (CHR ''0'') (CHR ''0'') (hex_digit (?n div 16)) (hex_digit (?n mod 16)) = Some ?n"
        using True by (simp add: hex4_def hex_val_digit h0)
      consider "?n = 8" | "?n = 12" | "?n = 10" | "?n = 13" | "?n = 9"
        | "?n \<noteq> 8 \<and> ?n \<noteq> 12 \<and> ?n \<noteq> 10 \<and> ?n \<noteq> 13 \<and> ?n \<noteq> 9" by blast
      then show ?thesis
      proof cases
        case 6
        with q True h show ?thesis by (simp add: json_escape_char_def Let_def)
      qed (use q in \<open>auto simp: json_escape_char_def char_of_ctrl dest!: char_eq_of_nat\<close>)
    qed
  qed
qed

lemma parse_str_quote:
  "parse_str acc (concat (map json_escape_char s) @ CHR ''\"'' # rest) = Some (acc @ s, rest)"
  by (induction s arbitrary: acc) (simp_all add: parse_str_escape_char)

lemma nat_digits_simps:
  "n < 10 \<Longrightarrow> nat_digits n = [char_of (48 + n)]"
  "\<not> n < 10 \<Longrightarrow> nat_digits n = nat_digits (n div 10) @ [char_of (48 + n mod 10)]"
  by (simp_all add: nat_digits.simps [of n])

lemma is_digit_char_of: "(k::nat) < 10 \<Longrightarrow> is_digit (char_of (48 + k))"
  by (simp add: is_digit_def less_eq_char_def)

lemma nat_digits_is_digit: "\<forall>c \<in> set (nat_digits n). is_digit c"
proof (induction n rule: nat_digits.induct)
  case (1 n)
  then show ?case
    by (cases "n < 10") (simp_all add: nat_digits_simps is_digit_char_of)
qed

lemma nat_digits_not_Nil [simp]: "nat_digits n \<noteq> []"
  by (simp add: nat_digits.simps [of n])

lemma digits_val_append: "digits_val (xs @ ys) acc = digits_val ys (digits_val xs acc)"
  by (induction xs arbitrary: acc) simp_all

lemma digits_val_nat_digits: "digits_val (nat_digits n) 0 = n"
proof (induction n rule: nat_digits.induct)
  case (1 n)
  show ?case
  proof (cases "n < 10")
    case True
    then show ?thesis by (simp add: nat_digits_simps)
  next
    case False
    with "1.IH" show ?thesis by (simp add: nat_digits_simps(2) digits_val_append)
  qed
qed

lemma nat_digits_hd: "0 < n \<Longrightarrow> hd (nat_digits n) \<noteq> CHR ''0''"
proof (induction n rule: nat_digits.induct)
  case (1 n)
  show ?case
  proof (cases "n < 10")
    case True
    have "char_of (48 + n) \<noteq> CHR ''0''"
    proof
      assume "char_of (48 + n) = CHR ''0''"
      then have "of_char (char_of (48 + n)) = (of_char (CHR ''0'') :: nat)" by simp
      with True "1.prems" show False by simp
    qed
    with True show ?thesis by (simp add: nat_digits_simps)
  next
    case False
    then have "0 < n div 10" by simp
    with "1.IH" False show ?thesis by (simp add: nat_digits_simps(2))
  qed
qed

lemma nat_digits_length_one: "length (nat_digits n) = 1 \<longleftrightarrow> n < 10"
  by (cases "n < 10") (simp_all add: nat_digits_simps)

lemma span_digits:
  assumes "\<forall>c \<in> set ds. is_digit c" and "num_end_ok rest"
  shows "takeWhile is_digit (ds @ rest) = ds" "dropWhile is_digit (ds @ rest) = rest"
  using assms by (auto simp: num_end_ok_def split: list.splits)

lemma parse_num_nat_digits:
  assumes "num_end_ok rest"
  shows "parse_num (nat_digits n @ rest) =
           Some (int n, rest)"
    and "parse_num (CHR ''-'' # nat_digits n @ rest) = Some (- int n, rest)"
proof -
  have sp: "takeWhile is_digit (nat_digits n @ rest) = nat_digits n"
           "dropWhile is_digit (nat_digits n @ rest) = rest"
    using span_digits [OF nat_digits_is_digit assms] by auto
  have lead: "\<not> (hd (nat_digits n) = CHR ''0'' \<and> 1 < length (nat_digits n))"
    using nat_digits_hd [of n] nat_digits_length_one [of n]
    by (cases "n = 0") (auto simp: nat_digits_simps)
  have rest: "\<not> (case rest of c # _ \<Rightarrow> c \<in> {CHR ''.'', CHR ''e'', CHR ''E''} | [] \<Rightarrow> False)"
    using assms by (auto simp: num_end_ok_def split: list.splits)
  have first: "hd (nat_digits n @ rest) \<noteq> CHR ''-''"
    using nat_digits_is_digit [of n] by (cases "nat_digits n") (auto simp: is_digit_def)
  show "parse_num (nat_digits n @ rest) = Some (int n, rest)"
    using sp lead rest first nat_digits_not_Nil [of n]
    by (cases "nat_digits n @ rest") (auto simp: parse_num_def digits_val_nat_digits)
  show "parse_num (CHR ''-'' # nat_digits n @ rest) = Some (- int n, rest)"
    using sp lead rest by (simp add: parse_num_def digits_val_nat_digits Let_def)
qed

lemma parse_num_int_text: "num_end_ok rest \<Longrightarrow> parse_num (int_text i @ rest) = Some (i, rest)"
  using parse_num_nat_digits [of rest "nat (- i)"] parse_num_nat_digits [of rest "nat i"]
  by (simp add: int_text_def)

lemma int_text_hd: "int_text i = c # r \<Longrightarrow> c = CHR ''-'' \<or> is_digit c"
  using nat_digits_is_digit [of "nat i"] by (auto simp: int_text_def split: if_splits)

lemma int_text_not_Nil: "int_text i \<noteq> []"
  by (simp add: int_text_def)

lemma parse_value_num: "num_end_ok rest \<Longrightarrow> parse_value (int_text i @ rest) = Some (JNum i, rest)"
proof -
  assume ok: "num_end_ok rest"
  obtain c r where cr: "int_text i = c # r" using int_text_not_Nil by (cases "int_text i") auto
  then have "c = CHR ''-'' \<or> is_digit c" by (rule int_text_hd)
  then have c: "c \<noteq> CHR ''\"'' \<and> c \<noteq> CHR ''n'' \<and> c \<noteq> CHR ''t'' \<and> c \<noteq> CHR ''f''"
    by (auto simp: is_digit_def)
  have s: "int_text i @ rest = c # (r @ rest)" by (simp add: cr)
  have "take 4 (c # (r @ rest)) \<noteq> ''null''" "take 4 (c # (r @ rest)) \<noteq> ''true''"
    "take 5 (c # (r @ rest)) \<noteq> ''false''"
    using c by auto
  with c s parse_num_int_text [OF ok, of i] show ?thesis
    unfolding parse_value_def s by simp
qed

lemma parse_value_stringify:
  "json_flat v \<Longrightarrow> num_end_ok rest \<Longrightarrow> parse_value (json_stringify v @ rest) = Some (v, rest)"
proof (cases v)
  case (JNum i)
  then show "num_end_ok rest \<Longrightarrow> ?thesis" by (simp add: parse_value_num)
qed (auto simp: json_flat_def parse_value_def json_quote_def parse_str_quote)

lemma parse_num_length: "parse_num s = Some (i, r) \<Longrightarrow> length r < length s"
proof -
  assume p: "parse_num s = Some (i, r)"
  define s1 where "s1 = (case s of c # r \<Rightarrow> if c = CHR ''-'' then r else s | [] \<Rightarrow> s)"
  have s1: "length s1 \<le> length s" by (auto simp: s1_def split: list.splits)
  from p have r: "r = dropWhile is_digit s1" and ne: "takeWhile is_digit s1 \<noteq> []"
    by (auto simp: parse_num_def s1_def Let_def split: list.splits if_splits)
  from ne obtain d ds where "s1 = d # ds" and "is_digit d" by (cases s1) (auto split: if_splits)
  then have "length r < length s1" using r by (simp add: length_dropWhile_le le_imp_less_Suc)
  with s1 show ?thesis by simp
qed

lemma parse_value_length: "parse_value s = Some (v, r) \<Longrightarrow> length r < length s"
  by (auto simp: parse_value_def dest!: parse_str_length parse_num_length split: list.splits if_splits)

end
