(* ===== verification/JsonParse.thy ===== *)
theory JsonParse
  imports Json
begin

text \<open>
  \<open>JSON.parse\<close> of an object, as \<open>jwt.verify\<close> applies it to the decoded
  header and payload of a token (within the limits stated in theory Json), and
  the round trip: a flat object printed by \<open>JSON.stringify\<close> parses back to the
  same members.
\<close>

text \<open>The members of an object after its opening brace, up to the closing one.\<close>

function parse_members :: "string \<Rightarrow> (string \<times> json) list \<Rightarrow> (string \<times> json) list option" where
  "parse_members s acc =
     (case skip_ws s of
        [] \<Rightarrow> None
      | c # r \<Rightarrow>
          if c \<noteq> CHR ''\"'' then None
          else
            (case parse_str [] r of
               None \<Rightarrow> None
             | Some (k, r1) \<Rightarrow>
                 (case skip_ws r1 of
                    [] \<Rightarrow> None
                  | c2 # r2 \<Rightarrow>
                      if c2 \<noteq> CHR '':'' then None
                      else
                        (case parse_value (skip_ws r2) of
                           None \<Rightarrow> None
                         | Some (v, r3) \<Rightarrow>
                             (case skip_ws r3 of
                                [] \<Rightarrow> None
                              | c3 # r4 \<Rightarrow>
                                  if c3 = CHR '','' then parse_members r4 (acc @ [(k, v)])
                                  else if c3 = CHR ''}'' \<and> skip_ws r4 = [] then Some (acc @ [(k, v)])
                                  else None)))))"
  by pat_completeness auto
termination
proof (relation "measure (\<lambda>(s, acc). length s)")
  show "wf (measure (\<lambda>(s, acc). length s))" by simp
next
  have sw: "\<And>s. length (skip_ws s) \<le> length s"
    by (simp add: skip_ws_def length_dropWhile_le)
  fix s acc c r kr k r1 c2 r2 vr v r3 c3 r4
  assume "skip_ws s = c # r" "\<not> c \<noteq> CHR ''\"''" "parse_str [] r = Some kr" "(k, r1) = kr"
    "skip_ws r1 = c2 # r2" "\<not> c2 \<noteq> CHR '':''" "parse_value (skip_ws r2) = Some vr" "(v, r3) = vr"
    "skip_ws r3 = c3 # r4" "c3 = CHR '',''"
  then have "length r4 < length (skip_ws r3)" "length r3 < length (skip_ws r2)"
    "length r2 < length (skip_ws r1)" "length r1 \<le> length r" "length r < length (skip_ws s)"
    using parse_value_length [of "skip_ws r2" v r3] parse_str_length [of "[]" r k r1]
    by auto
  then show "((r4, acc @ [(k, v)]), s, acc) \<in> measure (\<lambda>(s, acc). length s)"
    using sw [of s] sw [of r1] sw [of r2] sw [of r3] by simp
qed

declare parse_members.simps [simp del]

definition json_parse_object :: "string \<Rightarrow> (string \<times> json) list option" where
  "json_parse_object s =
     (case skip_ws s of
        [] \<Rightarrow> None
      | c # r \<Rightarrow>
          if c \<noteq> CHR ''{'' then None
          else
            (case skip_ws r of
               [] \<Rightarrow> None
             | c' # r' \<Rightarrow>
                 if c' = CHR ''}'' then (if skip_ws r' = [] then Some [] else None)
                 else parse_members r []))"

definition member_text :: "string \<times> json \<Rightarrow> string" where
  "member_text kv = json_quote (fst kv) @ CHR '':'' # json_stringify (snd kv)"

subsection \<open>Lemmas\<close>

lemma skip_ws_Cons: "\<not> is_ws c \<Longrightarrow> skip_ws (c # s) = c # s"
  by (simp add: skip_ws_def)

lemma json_stringify_flat_start:
  "json_flat v \<Longrightarrow> \<exists>c r. json_stringify v = c # r \<and> \<not> is_ws c"
proof (cases v)
  case (JNum i)
  obtain c r where cr: "int_text i = c # r" using int_text_not_Nil by (cases "int_text i") auto
  then have "c = CHR ''-'' \<or> is_digit c" by (rule int_text_hd)
  then have "\<not> is_ws c" by (auto simp: is_ws_def is_digit_def)
  with JNum cr show ?thesis by simp
qed (auto simp: json_flat_def is_ws_def json_quote_def)

lemma json_stringify_JObj:
  "json_stringify (JObj kvs) = CHR ''{'' # join_comma (map member_text kvs) @ [CHR ''}'']"
  unfolding member_text_def [abs_def] by simp

lemma parse_member_step:
  assumes "json_flat v" and "c3 \<in> {CHR '','', CHR ''}''}"
  shows "parse_members (member_text (k, v) @ c3 # rest) acc =
           (if c3 = CHR '','' then parse_members rest (acc @ [(k, v)])
            else if skip_ws rest = [] then Some (acc @ [(k, v)]) else None)"
proof -
  obtain c r where v: "json_stringify v = c # r" and c: "\<not> is_ws c"
    using json_stringify_flat_start [OF assms(1)] by blast
  have ne: "num_end_ok (c3 # rest)" using assms(2) by (auto simp: num_end_ok_def is_digit_def)
  have pv: "parse_value (c # r @ c3 # rest) = Some (v, c3 # rest)"
    using parse_value_stringify [OF assms(1) ne] v by simp
  have c3: "\<not> is_ws c3" using assms(2) by (auto simp: is_ws_def)
  show ?thesis
    using pv c c3 assms(2)
    by (subst parse_members.simps)
      (auto simp: member_text_def json_quote_def v skip_ws_Cons is_ws_def parse_str_quote)
qed

lemma parse_members_join:
  "kvs \<noteq> [] \<Longrightarrow> \<forall>kv \<in> set kvs. json_flat (snd kv) \<Longrightarrow>
     parse_members (join_comma (map member_text kvs) @ [CHR ''}'']) acc = Some (acc @ kvs)"
proof (induction kvs arbitrary: acc rule: induct_list012)
  case 1
  then show ?case by simp
next
  case (2 kv)
  then show ?case
    using parse_member_step [of "snd kv" "CHR ''}''" "fst kv" "[]" acc]
    by (simp add: skip_ws_def)
next
  case (3 kv kv' rest)
  then show ?case
    using parse_member_step [of "snd kv" "CHR '',''" "fst kv" _ acc] by simp
qed

theorem json_object_roundtrip:
  "\<forall>kv \<in> set kvs. json_flat (snd kv) \<Longrightarrow> json_parse_object (json_stringify (JObj kvs)) = Some kvs"
proof (cases kvs)
  case Nil
  then show ?thesis by (simp add: json_parse_object_def skip_ws_def is_ws_def)
next
  case (Cons kv rest)
  assume flat: "\<forall>kv \<in> set kvs. json_flat (snd kv)"
  obtain r where r: "join_comma (map member_text kvs) @ [CHR ''}''] = CHR ''\"'' # r"
    using Cons by (cases rest) (simp_all add: member_text_def json_quote_def)
  have "json_stringify (JObj kvs) = CHR ''{'' # CHR ''\"'' # r"
    using r by (simp add: json_stringify_JObj del: json_stringify.simps)
  then have "json_parse_object (json_stringify (JObj kvs)) = parse_members (CHR ''\"'' # r) []"
    by (simp add: json_parse_object_def skip_ws_Cons is_ws_def)
  also have "\<dots> = Some kvs"
    using parse_members_join [of kvs "[]"] Cons flat r by simp
  finally show ?thesis .
qed

end
