(* ===== verification/Jwt.thy ===== *)
theory Jwt
  imports Base64url JsonParse
begin

text \<open>
  The session token: \<open>jwt.sign({id, username, role}, process.env.JWT_SECRET,
  {expiresIn: '30d'})\<close> in \<open>register\<close> and \<open>login\<close>
  (\<open>src/server/controllers/auth.js\<close>) and \<open>jwt.verify(token,
  process.env.JWT_SECRET)\<close> in \<open>protect\<close> (\<open>src/server/middleware/auth.js\<close>),
  as the jsonwebtoken and jws libraries perform them with a string secret.
  A token is three base64url segments joined by dots: the header
  \<open>{"alg":"HS256","typ":"JWT"}\<close>, the payload (the claims, then \<open>iat\<close>, the
  current time in seconds, and \<open>exp\<close>, thirty days later), and the HMAC of the
  first two segments under the secret.  The HMAC itself is a parameter
  \<open>mac\<close> (algorithm name, key bytes, message bytes to digest bytes): every
  lemma holds for any such function.  \<open>jwt_verify\<close> follows the checks of
  jsonwebtoken's \<open>verify\<close> in order: a token must be given, have three
  parts, decode (header and payload as JSON objects), carry a signature when a
  secret is set, name an HMAC algorithm, match the recomputed signature
  (compared as strings), and be neither before \<open>nbf\<close> nor at or after
  \<open>exp\<close>.  Time is \<open>Math.floor(Date.now() / 1000)\<close>, a parameter.
\<close>

type_synonym mac = "string \<Rightarrow> nat list \<Rightarrow> nat list \<Rightarrow> nat list"

datatype jwt_error =
    Secret_must_have_value
  | Jwt_must_be_provided
  | Jwt_malformed
  | Invalid_token
  | Jwt_signature_required
  | Secret_must_be_provided
  | Unsigned_token_not_allowed
  | Invalid_algorithm
  | Invalid_signature
  | Invalid_nbf
  | Not_before
  | Invalid_exp
  | Token_expired

text \<open>\<open>ms('30d') / 1000\<close>: thirty days in seconds.\<close>

definition expires_in_30d :: int where
  "expires_in_30d = 30 * 24 * 60 * 60"

definition jwt_header :: "(string \<times> json) list" where
  "jwt_header = [(''alg'', JStr ''HS256''), (''typ'', JStr ''JWT'')]"

text \<open>The payload \<open>jwt.sign\<close> builds from \<open>{id, username, role}\<close> at time \<open>iat\<close>.\<close>

definition token_payload :: "int \<Rightarrow> string \<Rightarrow> string \<Rightarrow> int \<Rightarrow> (string \<times> json) list" where
  "token_payload i u role iat =
     [(''id'', JNum i), (''username'', JStr u), (''role'', JStr role),
      (''iat'', JNum iat), (''exp'', JNum (iat + expires_in_30d))]"

definition signing_input :: "(string \<times> json) list \<Rightarrow> (string \<times> json) list \<Rightarrow> string" where
  "signing_input hdr pl =
     b64url_of_latin1 (json_stringify (JObj hdr)) @ CHR ''.'' # b64url_of_string (json_stringify (JObj pl))"

text \<open>The first two segments of the tokens the server signs.\<close>

definition header_segment :: string where
  "header_segment = b64url_of_latin1 (json_stringify (JObj jwt_header))"

definition payload_segment :: "int \<Rightarrow> string \<Rightarrow> string \<Rightarrow> int \<Rightarrow> string" where
  "payload_segment i u role iat = b64url_of_string (json_stringify (JObj (token_payload i u role iat)))"

definition hmac_segment :: "mac \<Rightarrow> string \<Rightarrow> string \<Rightarrow> string \<Rightarrow> string" where
  "hmac_segment m alg key input = base64url_encode (m alg (utf8_encode key) (utf8_encode input))"

definition jwt_sign :: "mac \<Rightarrow> string option \<Rightarrow> int \<Rightarrow> int \<Rightarrow> string \<Rightarrow> string \<Rightarrow> jwt_error + string" where
  "jwt_sign m secret now i u role =
     (case secret of
        None \<Rightarrow> Inl Secret_must_have_value
      | Some k \<Rightarrow>
          if k = [] then Inl Secret_must_have_value
          else
            (let input = signing_input jwt_header (token_payload i u role now) in
             Inr (input @ CHR ''.'' # hmac_segment m ''HS256'' k input)))"

definition hmac_algs :: "string list" where
  "hmac_algs = [''HS256'', ''HS384'', ''HS512'']"

text \<open>The time claims \<open>nbf\<close> and \<open>exp\<close>, checked when present.\<close>

definition check_exp :: "int \<Rightarrow> (string \<times> json) list \<Rightarrow> jwt_error + (string \<times> json) list" where
  "check_exp now pl =
     (case json_get pl ''exp'' of
        Some (JNum e) \<Rightarrow> if e \<le> now then Inl Token_expired else Inr pl
      | Some _ \<Rightarrow> Inl Invalid_exp
      | None \<Rightarrow> Inr pl)"

definition check_times :: "int \<Rightarrow> (string \<times> json) list \<Rightarrow> jwt_error + (string \<times> json) list" where
  "check_times now pl =
     (case json_get pl ''nbf'' of
        Some (JNum nb) \<Rightarrow> if now < nb then Inl Not_before else check_exp now pl
      | Some _ \<Rightarrow> Inl Invalid_nbf
      | None \<Rightarrow> check_exp now pl)"

definition jwt_verify ::
  "mac \<Rightarrow> string option \<Rightarrow> int \<Rightarrow> string option \<Rightarrow> jwt_error + (string \<times> json) list" where
  "jwt_verify m secret now tok =
     (case tok of
        None \<Rightarrow> Inl Jwt_must_be_provided
      | Some t \<Rightarrow>
          if t = [] then Inl Jwt_must_be_provided
          else
            (let parts = js_split CHR ''.'' t in
             if length parts \<noteq> 3 then Inl Jwt_malformed
             else
               (let h = parts ! 0; p = parts ! 1; sg = parts ! 2 in
                if h = [] \<or> p = [] \<or> \<not> set (h @ p @ sg) \<subseteq> set b64url_alphabet then Inl Invalid_token
                else
                  (case (json_parse_object (latin1_of_b64url h),
                         Option.bind (string_of_b64url p) json_parse_object) of
                     (Some hdr, Some pl) \<Rightarrow>
                       (case secret of
                          Some k \<Rightarrow>
                            if k = [] then (if sg = [] then Inl Unsigned_token_not_allowed else Inl Secret_must_be_provided)
                            else if sg = [] then Inl Jwt_signature_required
                            else
                              (case json_get hdr ''alg'' of
                                 Some (JStr alg) \<Rightarrow>
                                   if alg \<notin> set hmac_algs then Inl Invalid_algorithm
                                   else if sg \<noteq> hmac_segment m alg k (h @ CHR ''.'' # p) then Inl Invalid_signature
                                   else check_times now pl
                               | _ \<Rightarrow> Inl Invalid_algorithm)
                        | None \<Rightarrow> if sg = [] then Inl Unsigned_token_not_allowed else Inl Secret_must_be_provided)
                   | _ \<Rightarrow> Inl Invalid_token))))"


text \<open>An HMAC as the \<open>crypto\<close> module computes it: a non-empty digest of bytes.\<close>

definition mac_wf :: "mac \<Rightarrow> bool" where
  "mac_wf m \<longleftrightarrow> (\<forall>a k x. m a k x \<noteq> [] \<and> bytes_ok (m a k x))"

subsection \<open>Lemmas\<close>

lemma dot_not_in_b64url_alphabet: "CHR ''.'' \<notin> set b64url_alphabet"
  by (simp add: b64url_alphabet_def)

lemma js_split_three:
  assumes "CHR ''.'' \<notin> set a" "CHR ''.'' \<notin> set b" "CHR ''.'' \<notin> set c"
  shows "js_split CHR ''.'' (a @ CHR ''.'' # b @ CHR ''.'' # c) = [a, b, c]"
  using assms by (simp add: js_split_append_sep js_split_no_sep)

lemma jwt_header_decodes:
  "json_parse_object (latin1_of_b64url (b64url_of_latin1 (json_stringify (JObj jwt_header)))) = Some jwt_header"
  by (simp only: latin1_roundtrip) (rule json_object_roundtrip, simp add: jwt_header_def json_flat_def)

lemma token_payload_decodes:
  "Option.bind (string_of_b64url (b64url_of_string (json_stringify (JObj (token_payload i u role iat)))))
     json_parse_object = Some (token_payload i u role iat)"
  by (simp only: string_of_b64url_roundtrip bind.simps)
    (rule json_object_roundtrip, simp add: token_payload_def json_flat_def)

lemma hmac_segment_alphabet:
  "mac_wf m \<Longrightarrow> set (hmac_segment m alg k x) \<subseteq> set b64url_alphabet \<and> hmac_segment m alg k x \<noteq> []"
  by (simp add: mac_wf_def hmac_segment_def base64url_encode_alphabet base64url_encode_not_Nil)

lemma b64url_text_not_Nil:
  "b64url_of_latin1 (json_stringify (JObj kvs)) \<noteq> []" "b64url_of_string (json_stringify (JObj kvs)) \<noteq> []"
  by (cases "utf8_encode (json_stringify (JObj kvs))")
     (simp_all add: b64url_of_latin1_def b64url_of_string_def base64url_encode_not_Nil)

lemma jwt_sign_Inr:
  "jwt_sign m secret now i u role = Inr tok \<longleftrightarrow>
     (\<exists>k. secret = Some k \<and> k \<noteq> [] \<and>
        tok = signing_input jwt_header (token_payload i u role now) @ CHR ''.'' #
              hmac_segment m ''HS256'' k (signing_input jwt_header (token_payload i u role now)))"
  by (auto simp: jwt_sign_def Let_def split: option.splits)

text \<open>The three segments of a token the server signs.\<close>

lemma jwt_sign_split:
  assumes "mac_wf m" and "secret = Some k" and "k \<noteq> []"
  shows "jwt_sign m secret now i u role =
           Inr (header_segment @ CHR ''.'' # payload_segment i u role now @ CHR ''.'' #
                hmac_segment m ''HS256'' k (header_segment @ CHR ''.'' # payload_segment i u role now))"
    and "js_split CHR ''.'' (header_segment @ CHR ''.'' # payload_segment i u role now @ CHR ''.'' #
                hmac_segment m ''HS256'' k (header_segment @ CHR ''.'' # payload_segment i u role now)) =
           [header_segment, payload_segment i u role now,
            hmac_segment m ''HS256'' k (header_segment @ CHR ''.'' # payload_segment i u role now)]"
    and "header_segment \<noteq> []" "payload_segment i u role now \<noteq> []"
    and "set (header_segment @ payload_segment i u role now @
              hmac_segment m ''HS256'' k (header_segment @ CHR ''.'' # payload_segment i u role now))
           \<subseteq> set b64url_alphabet"
proof -
  let ?h = header_segment and ?p = "payload_segment i u role now"
  have sig: "set (hmac_segment m ''HS256'' k (?h @ CHR ''.'' # ?p)) \<subseteq> set b64url_alphabet"
    using hmac_segment_alphabet [OF assms(1)] by blast
  have hp: "set ?h \<subseteq> set b64url_alphabet" "set ?p \<subseteq> set b64url_alphabet"
    by (simp_all add: header_segment_def payload_segment_def b64url_of_latin1_alphabet
        b64url_of_string_alphabet)
  show "jwt_sign m secret now i u role =
           Inr (?h @ CHR ''.'' # ?p @ CHR ''.'' # hmac_segment m ''HS256'' k (?h @ CHR ''.'' # ?p))"
    using assms(2,3)
    by (simp add: jwt_sign_def signing_input_def header_segment_def payload_segment_def)
  show "js_split CHR ''.'' (?h @ CHR ''.'' # ?p @ CHR ''.'' # hmac_segment m ''HS256'' k (?h @ CHR ''.'' # ?p)) =
           [?h, ?p, hmac_segment m ''HS256'' k (?h @ CHR ''.'' # ?p)]"
    using sig hp dot_not_in_b64url_alphabet by (intro js_split_three) auto
  show "?h \<noteq> []" "?p \<noteq> []"
    unfolding header_segment_def payload_segment_def by (rule b64url_text_not_Nil)+
  show "set (?h @ ?p @ hmac_segment m ''HS256'' k (?h @ CHR ''.'' # ?p)) \<subseteq> set b64url_alphabet"
    using sig hp by simp
qed

text \<open>The characters of a token the server signs: base64url and the two dots.\<close>

lemma jwt_sign_token_chars:
  assumes "mac_wf m" and "jwt_sign m secret now i u role = Inr tok"
  shows "set tok \<subseteq> insert CHR ''.'' (set b64url_alphabet)" and "tok \<noteq> []"
proof -
  obtain k where k: "secret = Some k" "k \<noteq> []" using assms(2) by (auto simp: jwt_sign_Inr)
  note sp = jwt_sign_split [OF assms(1) k]
  have tok: "tok = header_segment @ CHR ''.'' # payload_segment i u role now @ CHR ''.'' #
               hmac_segment m ''HS256'' k (header_segment @ CHR ''.'' # payload_segment i u role now)"
    using sp(1) assms(2) by simp
  show "set tok \<subseteq> insert CHR ''.'' (set b64url_alphabet)"
    using sp(5) [where i = i and u = u and role = role and now = now] by (auto simp: tok)
  show "tok \<noteq> []" by (simp add: tok)
qed

text \<open>
  Round trip: a token the server signs at time \<open>now\<close> verifies, with the same
  secret, at any time before it expires, and gives back the payload it was made
  from.
\<close>

theorem jwt_sign_verify:
  assumes "mac_wf m" and "secret = Some k" and "k \<noteq> []"
    and "jwt_sign m secret now i u role = Inr tok"
    and "now' < now + expires_in_30d"
  shows "jwt_verify m secret now' (Some tok) = Inr (token_payload i u role now)"
proof -
  let ?h = header_segment and ?p = "payload_segment i u role now"
  let ?sg = "hmac_segment m ''HS256'' k (?h @ CHR ''.'' # ?p)"
  note sp = jwt_sign_split [OF assms(1-3)]
  have tok: "tok = ?h @ CHR ''.'' # ?p @ CHR ''.'' # ?sg" using sp(1) assms(4) by simp
  have sg: "?sg \<noteq> []" using hmac_segment_alphabet [OF assms(1)] by blast
  have alg: "json_get jwt_header ''alg'' = Some (JStr ''HS256'')"
    by (simp add: jwt_header_def js_simps)
  have times: "check_times now' (token_payload i u role now) = Inr (token_payload i u role now)"
    using assms(5) by (simp add: check_times_def check_exp_def token_payload_def js_simps)
  show ?thesis
    using sp(2-5) sg alg times assms(2,3) jwt_header_decodes token_payload_decodes
    by (simp add: jwt_verify_def tok hmac_algs_def header_segment_def payload_segment_def)
qed

lemma check_times_Inr: "check_times now pl0 = Inr pl \<Longrightarrow> pl = pl0"
  by (auto simp: check_times_def check_exp_def split: option.splits json.splits if_splits)

lemma jwt_verify_None [simp]: "jwt_verify m secret now None = Inl Jwt_must_be_provided"
  by (simp add: jwt_verify_def)

lemma jwt_verify_empty [simp]: "jwt_verify m secret now (Some []) = Inl Jwt_must_be_provided"
  by (simp add: jwt_verify_def)

lemma jwt_verify_Inr_cases:
  assumes "jwt_verify m (Some k) now (Some t) = Inr pl"
  shows "\<exists>h p sg hdr alg. js_split CHR ''.'' t = [h, p, sg] \<and> k \<noteq> [] \<and> sg \<noteq> [] \<and>
           json_parse_object (latin1_of_b64url h) = Some hdr \<and>
           Option.bind (string_of_b64url p) json_parse_object = Some pl \<and>
           json_get hdr ''alg'' = Some (JStr alg) \<and> alg \<in> set hmac_algs \<and>
           sg = hmac_segment m alg k (h @ CHR ''.'' # p) \<and> check_times now pl = Inr pl"
proof -
  have "length (js_split CHR ''.'' t) = 3"
    using assms by (auto simp: jwt_verify_def Let_def split: if_splits)
  then obtain h p sg where sp: "js_split CHR ''.'' t = [h, p, sg]"
    by (auto simp: length_Suc_conv numeral_3_eq_3)
  from assms sp obtain hdr pl0 where
      hdr: "json_parse_object (latin1_of_b64url h) = Some hdr" and
      pl0: "Option.bind (string_of_b64url p) json_parse_object = Some pl0"
    by (simp add: jwt_verify_def split: if_splits option.splits)
  from assms sp hdr pl0 obtain alg where
      k: "k \<noteq> []" "sg \<noteq> []" and alg: "json_get hdr ''alg'' = Some (JStr alg)" and
      rest: "alg \<in> set hmac_algs" "sg = hmac_segment m alg k (h @ CHR ''.'' # p)" "check_times now pl0 = Inr pl"
    by (simp add: jwt_verify_def split: if_splits option.splits json.splits)
  from rest(3) have "pl = pl0" by (rule check_times_Inr)
  with sp k hdr pl0 alg rest show ?thesis by blast
qed

text \<open>
  C10: integrity: a token that verifies under a secret has three segments,
  its signature segment is the HMAC under that secret of its own header and
  payload segments, with an HMAC algorithm, and the payload returned is the
  one the payload segment encodes.
\<close>

theorem jwt_verify_authentic:
  assumes "jwt_verify m (Some k) now (Some t) = Inr pl"
  shows "\<exists>h p sg alg. js_split CHR ''.'' t = [h, p, sg] \<and> alg \<in> set hmac_algs \<and>
           sg = hmac_segment m alg k (h @ CHR ''.'' # p) \<and>
           Option.bind (string_of_b64url p) json_parse_object = Some pl"
  using jwt_verify_Inr_cases [OF assms] by blast

theorem jwt_verify_authentic_witness:
  "\<exists>h p sg alg. js_split CHR ''.'' (header_segment @ CHR ''.'' # payload_segment 1 ''alice'' ''user'' 0 @ CHR ''.'' # hmac_segment (\<lambda>a k x. [1]) ''HS256'' ''k'' (header_segment @ CHR ''.'' # payload_segment 1 ''alice'' ''user'' 0)) = [h, p, sg] \<and> alg \<in> set hmac_algs \<and>
     sg = hmac_segment (\<lambda>a k x. [1]) alg ''k'' (h @ CHR ''.'' # p) \<and>
     Option.bind (string_of_b64url p) json_parse_object = Some (token_payload 1 ''alice'' ''user'' 0)"
proof (rule jwt_verify_authentic)
  have m: "mac_wf (\<lambda>a k x. [1])" by (simp add: mac_wf_def bytes_ok_def)
  show "jwt_verify (\<lambda>a k x. [1]) (Some ''k'') 0 (Some (header_segment @ CHR ''.'' # payload_segment 1 ''alice'' ''user'' 0 @ CHR ''.'' # hmac_segment (\<lambda>a k x. [1]) ''HS256'' ''k'' (header_segment @ CHR ''.'' # payload_segment 1 ''alice'' ''user'' 0))) = Inr (token_payload 1 ''alice'' ''user'' 0)"
  proof (rule jwt_sign_verify [OF m refl])
    show "jwt_sign (\<lambda>a k x. [1]) (Some ''k'') 0 1 ''alice'' ''user'' =
            Inr (header_segment @ CHR ''.'' # payload_segment 1 ''alice'' ''user'' 0 @ CHR ''.'' # hmac_segment (\<lambda>a k x. [1]) ''HS256'' ''k'' (header_segment @ CHR ''.'' # payload_segment 1 ''alice'' ''user'' 0))"
      by (simp add: jwt_sign_def signing_input_def header_segment_def payload_segment_def)
  qed (simp_all add: expires_in_30d_def)
qed

text \<open>
  C9: tampering: replacing the signature segment of a token the server signed
  by any other non-empty base64url text makes verification fail with
  \<open>invalid signature\<close>.
\<close>

theorem jwt_verify_tampered_signature:
  assumes "mac_wf m" and "k \<noteq> []"
    and "jwt_sign m (Some k) now i u role = Inr (input @ CHR ''.'' # sg)"
    and "CHR ''.'' \<notin> set sg" and "sg' \<noteq> sg" and "sg' \<noteq> []"
    and "set sg' \<subseteq> set b64url_alphabet"
  shows "jwt_verify m (Some k) now' (Some (input @ CHR ''.'' # sg')) = Inl Invalid_signature"
proof -
  let ?h = header_segment and ?p = "payload_segment i u role now"
  let ?sg = "hmac_segment m ''HS256'' k (?h @ CHR ''.'' # ?p)"
  note sp = jwt_sign_split [OF assms(1) refl assms(2)]
  have eq: "input @ CHR ''.'' # sg = ?h @ CHR ''.'' # ?p @ CHR ''.'' # ?sg"
    using sp(1) assms(3) by simp
  have nodot: "CHR ''.'' \<notin> set ?sg" "CHR ''.'' \<notin> set sg'"
    using sp(5) [where i = i and u = u and role = role and now = now] assms(7)
      dot_not_in_b64url_alphabet by auto
  have "sg = ?sg \<and> input = ?h @ CHR ''.'' # ?p"
  proof -
    have n: "CHR ''.'' \<notin> set (rev sg)" "CHR ''.'' \<notin> set (rev ?sg)" using assms(4) nodot by auto
    have "rev (input @ CHR ''.'' # sg) = rev (?h @ CHR ''.'' # ?p @ CHR ''.'' # ?sg)" using eq by simp
    then have "rev sg @ CHR ''.'' # rev input = rev ?sg @ CHR ''.'' # rev (?h @ CHR ''.'' # ?p)" by simp
    with n have "rev sg = rev ?sg \<and> rev input = rev (?h @ CHR ''.'' # ?p)"
      by (rule append_sep_unique)
    then show ?thesis by (metis rev_rev_ident)
  qed
  then have tok': "input @ CHR ''.'' # sg' = ?h @ CHR ''.'' # ?p @ CHR ''.'' # sg'" and ne: "sg' \<noteq> ?sg"
    using assms(5) by auto
  have split': "js_split CHR ''.'' (input @ CHR ''.'' # sg') = [?h, ?p, sg']"
    unfolding tok' using sp(5) [where i = i and u = u and role = role and now = now] nodot
      dot_not_in_b64url_alphabet by (intro js_split_three) auto
  have alg: "json_get jwt_header ''alg'' = Some (JStr ''HS256'')"
    by (simp add: jwt_header_def js_simps)
  show ?thesis
    using split' sp(3,4,5) assms(2,6,7) ne alg jwt_header_decodes token_payload_decodes
    by (simp add: jwt_verify_def hmac_algs_def header_segment_def payload_segment_def)
qed

theorem jwt_verify_tampered_signature_witness:
  "jwt_verify (\<lambda>a k x. [1]) (Some ''k'') 0 (Some ((header_segment @ CHR ''.'' # payload_segment 1 ''alice'' ''user'' 0) @ CHR ''.'' # ''AAAA'')) = Inl Invalid_signature"
proof (rule jwt_verify_tampered_signature)
  have m: "mac_wf (\<lambda>a k x. [1])" by (simp add: mac_wf_def bytes_ok_def)
  show "mac_wf (\<lambda>a k x. [1])" by (rule m)
  show "jwt_sign (\<lambda>a k x. [1]) (Some ''k'') 0 1 ''alice'' ''user'' =
          Inr ((header_segment @ CHR ''.'' # payload_segment 1 ''alice'' ''user'' 0) @ CHR ''.'' # hmac_segment (\<lambda>a k x. [1]) ''HS256'' ''k'' (header_segment @ CHR ''.'' # payload_segment 1 ''alice'' ''user'' 0))"
    by (simp add: jwt_sign_def signing_input_def header_segment_def payload_segment_def)
  show "CHR ''.'' \<notin> set (hmac_segment (\<lambda>a k x. [1]) ''HS256'' ''k'' (header_segment @ CHR ''.'' # payload_segment 1 ''alice'' ''user'' 0))"
    using hmac_segment_alphabet [OF m] dot_not_in_b64url_alphabet by blast
  show "''AAAA'' \<noteq> hmac_segment (\<lambda>a k x. [1]) ''HS256'' ''k'' (header_segment @ CHR ''.'' # payload_segment 1 ''alice'' ''user'' 0)"
    by (simp add: hmac_segment_def base64url_encode_def b64_digit_def b64url_alphabet_def)
qed (simp_all add: b64url_alphabet_def)

text \<open>
  C11: the claims survive the token: what \<open>register\<close> and \<open>login\<close> sign
  (\<open>{id, username, role}\<close>, with \<open>iat\<close> and \<open>exp\<close>) is what \<open>protect\<close> reads
  back from \<open>jwt.verify\<close> until the token expires: \<open>decoded.id\<close>, the
  username and the role, and an \<open>exp\<close> thirty days after issue.
\<close>

theorem token_claims_roundtrip:
  assumes "mac_wf m" "k \<noteq> []" "jwt_sign m (Some k) now i u role = Inr tok"
    and "now' < now + expires_in_30d"
  shows "\<exists>pl. jwt_verify m (Some k) now' (Some tok) = Inr pl \<and>
           json_get pl ''id'' = Some (JNum i) \<and> json_get pl ''username'' = Some (JStr u) \<and>
           json_get pl ''role'' = Some (JStr role) \<and> json_get pl ''exp'' = Some (JNum (now + expires_in_30d))"
  using jwt_sign_verify [OF assms(1) refl assms(2,3,4)] by (simp add: token_payload_def js_simps)

theorem token_claims_roundtrip_witness:
  "\<exists>pl. jwt_verify (\<lambda>a k x. [1]) (Some ''k'') 100 (Some (header_segment @ CHR ''.'' # payload_segment 7 ''bob'' ''admin'' 0 @
         CHR ''.'' # hmac_segment (\<lambda>a k x. [1]) ''HS256'' ''k'' (header_segment @ CHR ''.'' # payload_segment 7 ''bob'' ''admin'' 0))) = Inr pl \<and>
     json_get pl ''id'' = Some (JNum 7) \<and> json_get pl ''username'' = Some (JStr ''bob'') \<and>
     json_get pl ''role'' = Some (JStr ''admin'') \<and> json_get pl ''exp'' = Some (JNum (0 + expires_in_30d))"
proof (rule token_claims_roundtrip)
  show "mac_wf (\<lambda>a k x. [1])" by (simp add: mac_wf_def bytes_ok_def)
  show "jwt_sign (\<lambda>a k x. [1]) (Some ''k'') 0 7 ''bob'' ''admin'' =
          Inr (header_segment @ CHR ''.'' # payload_segment 7 ''bob'' ''admin'' 0 @
               CHR ''.'' # hmac_segment (\<lambda>a k x. [1]) ''HS256'' ''k'' (header_segment @ CHR ''.'' # payload_segment 7 ''bob'' ''admin'' 0))"
    by (simp add: jwt_sign_def signing_input_def header_segment_def payload_segment_def)
qed (simp_all add: expires_in_30d_def)

end
