(* ===== verification/Http.thy ===== *)
theory Http
  imports Validation Store Bcrypt Jwt
begin

text \<open>
  What an Express handler of the server does with a request, as a value: it
  sends a response (a status and a JSON body), passes an error to \<open>next\<close>, or
  (for middleware) passes control to the next handler.  The errors a handler
  can pass on are the exceptions of the calls it makes: a \<open>ZodError\<close> from
  validation, a database error, a bcrypt error or a jsonwebtoken error.
  \<open>errorHandler\<close> (\<open>src/server/middleware/errorHandler.js\<close>) turns an error
  into the response the client sees.  The server's configuration, read from
  the environment once (\<open>process.env.JWT_SECRET\<close>), is a record \<open>env\<close>
  together with the two cryptographic functions the model leaves abstract.
\<close>

datatype app_error =
    ZodError "issue list"
  | DbError db_error
  | BcryptError bcrypt_error
  | JwtError jwt_error

datatype outcome =
    Respond nat json
  | Next_error app_error

record env =
  jwt_secret :: "string option"
  env_kdf :: kdf
  env_mac :: mac

text \<open>
  The configuration under which the handlers are meant to run: a non-empty
  secret, a key derivation with bcrypt's output length and an HMAC whose
  digests are non-empty byte strings.
\<close>

definition env_ok :: "env \<Rightarrow> bool" where
  "env_ok E \<longleftrightarrow> (\<exists>k. jwt_secret E = Some k \<and> k \<noteq> []) \<and> kdf_len (env_kdf E) \<and> mac_wf (env_mac E)"

definition error_body :: "string \<Rightarrow> json" where
  "error_body msg = JObj [(''error'', JStr msg)]"

text \<open>
  The \<open>details\<close> of a validation error are zod's issue objects; the model
  keeps of each its \<open>path\<close> and \<open>code\<close> (zod adds a message and the bound).
\<close>

fun issue_code_name :: "issue_code \<Rightarrow> string" where
  "issue_code_name Invalid_type = ''invalid_type''"
| "issue_code_name (Too_small n) = ''too_small''"
| "issue_code_name (Too_big n) = ''too_big''"
| "issue_code_name Invalid_email = ''invalid_string''"

definition issue_json :: "issue \<Rightarrow> json" where
  "issue_json i =
     JObj [(''code'', JStr (issue_code_name (snd i))),
           (''path'', JArr (if fst i = [] then [] else [JStr (fst i)]))]"

text \<open>\<open>errorHandler(err, req, res, next)\<close>.\<close>

fun errorHandler :: "app_error \<Rightarrow> nat \<times> json" where
  "errorHandler (ZodError iss) =
     (400, JObj [(''error'', JStr ''Validation error''), (''details'', JArr (map issue_json iss))])"
| "errorHandler _ = (500, error_body ''Something went wrong'')"

text \<open>The response the client receives for an outcome of a route handler.\<close>

fun deliver :: "outcome \<Rightarrow> nat \<times> json" where
  "deliver (Respond s b) = (s, b)"
| "deliver (Next_error e) = errorHandler e"

lemma errorHandler_status:
  "fst (errorHandler e) = (case e of ZodError _ \<Rightarrow> 400 | _ \<Rightarrow> 500)"
  by (cases e) simp_all

text \<open>
  Every error other than a validation error -- a database failure, a
  bcrypt or a jsonwebtoken exception -- reaches the client as 500 with the
  fixed body \<open>{error: 'Something went wrong'}\<close>, which carries nothing of the
  error.
\<close>

theorem errorHandler_no_detail:
  "\<not> (\<exists>iss. e = ZodError iss) \<Longrightarrow> errorHandler e = (500, error_body ''Something went wrong'')"
  by (cases e) auto

theorem errorHandler_no_detail_witness:
  "errorHandler (DbError Db_unavailable) = (500, error_body ''Something went wrong'')"
  by (rule errorHandler_no_detail) simp

end
