(* ===== verification/Fixtures.thy ===== *)
theory Fixtures
  imports Http
begin

text \<open>
  Concrete configurations, tables and request bodies at which the theorems of
  the server theories are instantiated.  The key derivation and the MAC are
  stand-ins with the output shapes of bcrypt (31 characters) and of an HMAC
  (a non-empty byte string); nothing the theorems state depends on which
  functions they are.
\<close>

definition demo_kdf :: kdf where
  "demo_kdf r s k = take 31 (k @ replicate 31 CHR ''.'')"

definition demo_mac :: mac where
  "demo_mac a k x = [sum_list (k @ x) mod 256]"

definition demo_env :: env where
  "demo_env = \<lparr>jwt_secret = Some ''s3cret'', env_kdf = demo_kdf, env_mac = demo_mac\<rparr>"

definition demo_rnd :: string where
  "demo_rnd = ''abcdefghijklmnopqrstuv''"

text \<open>A table holding one user, \<open>alice\<close>, whose password is \<open>alicepass1\<close>.\<close>

definition alice_row :: user_row where
  "alice_row =
     \<lparr>u_id = 1, u_username = ''alice'', u_email = ''alice@example.com'',
      u_password = gen_salt 10 demo_rnd @ demo_kdf 10 demo_rnd (bcrypt_key (Some CHR ''a'') ''alicepass1''),
      u_role = ''user''\<rparr>"

definition demo_store :: store where
  "demo_store = \<lparr>rows = [alice_row], next_id = 2, db_up = True, unique_constraint = False\<rparr>"

text \<open>The token the server issues to \<open>alice\<close> at time 0.\<close>

definition alice_token :: string where
  "alice_token =
     (case jwt_sign (env_mac demo_env) (jwt_secret demo_env) 0 1 ''alice'' ''user'' of
        Inr t \<Rightarrow> t
      | Inl _ \<Rightarrow> [])"

text \<open>The bodies the client sends to \<open>/api/auth/register\<close> and \<open>/api/auth/login\<close>.\<close>

definition reg_body :: "string \<Rightarrow> string \<Rightarrow> string \<Rightarrow> json" where
  "reg_body u e p = JObj [(''username'', JStr u), (''email'', JStr e), (''password'', JStr p)]"

definition login_body :: "string \<Rightarrow> string \<Rightarrow> json" where
  "login_body e p = JObj [(''email'', JStr e), (''password'', JStr p)]"

subsection \<open>The fixtures satisfy the theorems' assumptions\<close>

lemma demo_env_ok: "env_ok demo_env"
  by (auto simp: env_ok_def demo_env_def kdf_len_def demo_kdf_def mac_wf_def demo_mac_def
      bytes_ok_def min_def)

lemma demo_rnd_ok: "salt_rnd_ok demo_rnd"
  by (simp add: salt_rnd_ok_def demo_rnd_def bcrypt_alphabet_def)

lemma demo_store_wf: "users_wf demo_store"
  by (simp add: users_wf_def demo_store_def alice_row_def gen_salt_def demo_rnd_def two_digits_def)

lemma demo_reg_valid:
  "reg_constraints u e p \<Longrightarrow>
     validateRegistration (reg_body u e p) = Inr \<lparr>ri_username = u, ri_email = e, ri_password = p\<rparr>"
proof -
  assume c: "reg_constraints u e p"
  have "zod_parse userSchema (reg_body u e p) = Inr [u, e, p]"
    using c by (simp add: zod_parse_Inr_iff userSchema_def reg_body_def js_simps All_less_Suc
        numeral_2_eq_2 reg_constraints_def password_ok_def)
  then show ?thesis by (simp add: validateRegistration_def)
qed

lemma demo_login_valid:
  "zod_email e \<Longrightarrow> password_ok p \<Longrightarrow>
     validateLogin (login_body e p) = Inr \<lparr>li_email = e, li_password = p\<rparr>"
  by (simp add: validateLogin_Inr_iff login_body_def js_simps)

lemma alice_token_signed:
  "jwt_sign (env_mac demo_env) (jwt_secret demo_env) 0 1 ''alice'' ''user'' = Inr alice_token"
  by (simp add: alice_token_def jwt_sign_def demo_env_def Let_def)

end
