(* ===== verification/AuthController.thy ===== *)
theory AuthController
  imports Fixtures
begin

text \<open>
  The two route handlers of \<open>src/server/controllers/auth.js\<close>.  \<open>register\<close>
  validates the body, asks the table for a user with the same e-mail or
  username, hashes the password under a fresh salt of cost 10, inserts the row
  with role \<open>user\<close> and signs a token for it; \<open>login\<close> validates, looks the
  e-mail up, compares the password with the stored hash and signs a token.
  Each returns what it sends or the error it passes to \<open>next\<close>; \<open>register\<close>
  also returns the table, since its insertion persists whatever happens after
  it.  The random part of the salt (\<open>rnd\<close>) and the clock (\<open>now\<close>, in seconds)
  are inputs of the handler.
\<close>

definition user_body :: "public_user \<Rightarrow> string \<Rightarrow> json" where
  "user_body u tok =
     JObj [(''id'', JNum (pu_id u)), (''username'', JStr (pu_username u)),
           (''email'', JStr (pu_email u)), (''role'', JStr (pu_role u)),
           (''token'', JStr tok)]"

text \<open>\<open>register(req, res, next)\<close>.\<close>

definition register :: "env \<Rightarrow> int \<Rightarrow> string \<Rightarrow> json \<Rightarrow> store \<Rightarrow> outcome \<times> store" where
  "register E now rnd body st =
     (case validateRegistration body of
        Inl iss \<Rightarrow> (Next_error (ZodError iss), st)
      | Inr r \<Rightarrow>
        (case q_select_email_or_username st (ri_email r) (ri_username r) of
           Inl e \<Rightarrow> (Next_error (DbError e), st)
         | Inr exists \<Rightarrow>
           if exists \<noteq> [] then (Respond 400 (error_body ''User already exists''), st)
           else
             (case bcrypt_hash (env_kdf E) (ri_password r) (gen_salt 10 rnd) of
                Inl e \<Rightarrow> (Next_error (BcryptError e), st)
              | Inr hashed \<Rightarrow>
                (case q_insert_user st (ri_username r) (ri_email r) hashed ''user'' of
                   (Inl e, st') \<Rightarrow> (Next_error (DbError e), st')
                 | (Inr u, st') \<Rightarrow>
                   (case jwt_sign (env_mac E) (jwt_secret E) now (pu_id u) (pu_username u) (pu_role u) of
                      Inl e \<Rightarrow> (Next_error (JwtError e), st')
                    | Inr tok \<Rightarrow> (Respond 201 (user_body u tok), st'))))))"

text \<open>\<open>login(req, res, next)\<close>: \<open>compare\<close> runs only when a row was found.\<close>

definition login :: "env \<Rightarrow> int \<Rightarrow> json \<Rightarrow> store \<Rightarrow> outcome" where
  "login E now body st =
     (case validateLogin body of
        Inl iss \<Rightarrow> Next_error (ZodError iss)
      | Inr l \<Rightarrow>
        (case q_select_by_email st (li_email l) of
           Inl e \<Rightarrow> Next_error (DbError e)
         | Inr [] \<Rightarrow> Respond 401 (error_body ''Invalid credentials'')
         | Inr (user # _) \<Rightarrow>
           (case bcrypt_compare (env_kdf E) (li_password l) (u_password user) of
              Inl e \<Rightarrow> Next_error (BcryptError e)
            | Inr False \<Rightarrow> Respond 401 (error_body ''Invalid credentials'')
            | Inr True \<Rightarrow>
              (case jwt_sign (env_mac E) (jwt_secret E) now (u_id user) (u_username user) (u_role user) of
                 Inl e \<Rightarrow> Next_error (JwtError e)
               | Inr tok \<Rightarrow> Respond 200 (user_body (public_of user) tok)))))"

text \<open>The row \<open>register\<close> inserts.\<close>

definition new_row :: "store \<Rightarrow> reg_input \<Rightarrow> string \<Rightarrow> kdf \<Rightarrow> user_row" where
  "new_row st r rnd H =
     \<lparr>u_id = next_id st, u_username = ri_username r, u_email = ri_email r,
      u_password = gen_salt 10 rnd @ H 10 rnd (bcrypt_key (Some CHR ''a'') (ri_password r)),
      u_role = ''user''\<rparr>"

subsection \<open>Lemmas\<close>

lemma register_invalid:
  "validateRegistration body = Inl iss \<Longrightarrow> register E now rnd body st = (Next_error (ZodError iss), st)"
  by (simp add: register_def)

lemma register_fresh:
  assumes v: "validateRegistration body = Inr r" and up: "db_up st"
    and fresh: "\<forall>row \<in> set (rows st). u_email row \<noteq> ri_email r \<and> u_username row \<noteq> ri_username r"
    and rnd: "salt_rnd_ok rnd"
  shows "register E now rnd body st =
     (case jwt_sign (env_mac E) (jwt_secret E) now (next_id st) (ri_username r) ''user'' of
        Inl e \<Rightarrow> Next_error (JwtError e)
      | Inr tok \<Rightarrow> Respond 201 (user_body (public_of (new_row st r rnd (env_kdf E))) tok),
      st\<lparr>next_id := next_id st + 1, rows := rows st @ [new_row st r rnd (env_kdf E)]\<rparr>)"
proof -
  let ?h = "gen_salt 10 rnd @ env_kdf E 10 rnd (bcrypt_key (Some CHR ''a'') (ri_password r))"
  have sel: "q_select_email_or_username st (ri_email r) (ri_username r) = Inr []"
    using up fresh by (simp add: q_select_email_or_username_Nil)
  have h: "bcrypt_hash (env_kdf E) (ri_password r) (gen_salt 10 rnd) = Inr ?h"
    using rnd by (simp add: bcrypt_hash_gen_salt)
  have ins: "q_insert_user st (ri_username r) (ri_email r) ?h ''user'' =
     (Inr (public_of (new_row st r rnd (env_kdf E))),
      st\<lparr>next_id := next_id st + 1, rows := rows st @ [new_row st r rnd (env_kdf E)]\<rparr>)"
    using up fresh by (simp add: q_insert_user_Inr new_row_def public_of_def)
  show ?thesis
    using v sel h ins by (simp add: register_def public_of_def new_row_def split: sum.splits)
qed

lemma register_store_cases:
  "snd (register E now rnd body st) = st \<or>
   (\<exists>r h. validateRegistration body = Inr r \<and>
      q_select_email_or_username st (ri_email r) (ri_username r) = Inr [] \<and>
      bcrypt_hash (env_kdf E) (ri_password r) (gen_salt 10 rnd) = Inr h \<and>
      snd (register E now rnd body st) = snd (q_insert_user st (ri_username r) (ri_email r) h ''user''))"
  by (auto simp: register_def split: sum.splits prod.splits if_splits)

lemma register_users_wf:
  assumes "users_wf st"
  shows "users_wf (snd (register E now rnd body st))"
  using register_store_cases [of E now rnd body st]
proof
  assume "snd (register E now rnd body st) = st"
  with assms show ?thesis by simp
next
  assume "\<exists>r h. validateRegistration body = Inr r \<and>
      q_select_email_or_username st (ri_email r) (ri_username r) = Inr [] \<and>
      bcrypt_hash (env_kdf E) (ri_password r) (gen_salt 10 rnd) = Inr h \<and>
      snd (register E now rnd body st) = snd (q_insert_user st (ri_username r) (ri_email r) h ''user'')"
  then obtain r :: reg_input and h where sel: "q_select_email_or_username st (ri_email r) (ri_username r) = Inr []"
    and h: "bcrypt_hash (env_kdf E) (ri_password r) (gen_salt 10 rnd) = Inr h"
    and st': "snd (register E now rnd body st) = snd (q_insert_user st (ri_username r) (ri_email r) h ''user'')"
    by blast
  have fresh: "\<forall>row \<in> set (rows st). u_email row \<noteq> ri_email r \<and> u_username row \<noteq> ri_username r"
    using sel by (simp add: q_select_email_or_username_Nil)
  obtain res st1 where q: "q_insert_user st (ri_username r) (ri_email r) h ''user'' = (res, st1)"
    by (cases "q_insert_user st (ri_username r) (ri_email r) h ''user''")
  have "users_wf st1"
    using assms fresh bcrypt_hash_not_Nil [OF h] _ q by (rule users_wf_insert) simp
  with q have "users_wf (snd (q_insert_user st (ri_username r) (ri_email r) h ''user''))" by simp
  with st' show ?thesis by simp
qed

lemma login_invalid:
  assumes "validateLogin body = Inl iss"
  shows "login E now body st = Next_error (ZodError iss)"
  using assms by (simp add: login_def)

lemma login_no_user:
  assumes "validateLogin body = Inr l" and "db_up st" and "\<forall>row \<in> set (rows st). u_email row \<noteq> li_email l"
  shows "login E now body st = Respond 401 (error_body ''Invalid credentials'')"
  using assms by (simp add: login_def q_select_by_email_def filter_empty_conv)

lemma login_row:
  assumes v: "validateLogin body = Inr l" and wf: "users_wf st" and up: "db_up st"
    and row: "row \<in> set (rows st)" and e: "u_email row = li_email l"
  shows "login E now body st =
     (case bcrypt_compare (env_kdf E) (li_password l) (u_password row) of
        Inl err \<Rightarrow> Next_error (BcryptError err)
      | Inr False \<Rightarrow> Respond 401 (error_body ''Invalid credentials'')
      | Inr True \<Rightarrow>
          (case jwt_sign (env_mac E) (jwt_secret E) now (u_id row) (u_username row) (u_role row) of
             Inl err \<Rightarrow> Next_error (JwtError err)
           | Inr tok \<Rightarrow> Respond 200 (user_body (public_of row) tok)))"
proof -
  have "q_select_by_email st (li_email l) = Inr [row]"
    using q_select_by_email_wf [OF wf up row] e by simp
  with v show ?thesis by (simp add: login_def)
qed

subsection \<open>Properties\<close>

text \<open>
  C2: a registration whose e-mail or username is already in the table is
  answered 400 \<open>User already exists\<close> and leaves the table unchanged.
\<close>

theorem register_rejects_existing:
  assumes "validateRegistration body = Inr r" and "db_up st"
    and "\<exists>row \<in> set (rows st). u_email row = ri_email r \<or> u_username row = ri_username r"
  shows "register E now rnd body st = (Respond 400 (error_body ''User already exists''), st)"
  using assms by (auto simp: register_def q_select_email_or_username_def filter_empty_conv)

theorem register_rejects_existing_witness:
  "register demo_env 0 demo_rnd (reg_body ''alice'' ''other@example.com'' ''password123'') demo_store =
     (Respond 400 (error_body ''User already exists''), demo_store)"
  by (rule register_rejects_existing
        [where r = "\<lparr>ri_username = ''alice'', ri_email = ''other@example.com'', ri_password = ''password123''\<rparr>"])
     (simp_all add: demo_reg_valid reg_constraints_def password_ok_def zod_email_unfold
        demo_store_def alice_row_def)

text \<open>
  C3: on a well-formed table, a login whose password matches no stored hash
  for its e-mail -- whether no user has the e-mail or the user's hash does not
  match -- gets the same answer, 401 \<open>Invalid credentials\<close>: the response does
  not reveal which e-mails are registered.
\<close>

theorem login_failure_uniform:
  assumes v: "validateLogin body = Inr l" and wf: "users_wf st" and up: "db_up st"
    and fail: "\<forall>row \<in> set (rows st). u_email row = li_email l \<longrightarrow>
                  bcrypt_compare (env_kdf E) (li_password l) (u_password row) = Inr False"
  shows "login E now body st = Respond 401 (error_body ''Invalid credentials'')"
proof (cases "\<exists>row \<in> set (rows st). u_email row = li_email l")
  case True
  then obtain row where "row \<in> set (rows st)" and "u_email row = li_email l" by blast
  with fail show ?thesis by (simp add: login_row [OF v wf up])
next
  case False
  with v up show ?thesis by (intro login_no_user) auto
qed

theorem login_failure_uniform_witness:
  "login demo_env 0 (login_body ''alice@example.com'' ''wrongpass1'') demo_store =
     Respond 401 (error_body ''Invalid credentials'')"
  by (rule login_failure_uniform [where l = "\<lparr>li_email = ''alice@example.com'', li_password = ''wrongpass1''\<rparr>"])
     (simp_all add: demo_login_valid password_ok_def zod_email_unfold demo_store_wf,
      simp add: demo_store_def alice_row_def demo_env_def, code_simp)

text \<open>
  C21: without \<open>JWT_SECRET\<close>, a valid fresh registration inserts the user and
  then fails in \<open>jwt.sign\<close>: the client gets 500 \<open>Something went wrong\<close>
  while the row stays in the table, so a retry is refused as a duplicate.
\<close>

theorem register_missing_secret:
  assumes "validateRegistration body = Inr r" and "db_up st"
    and "\<forall>row \<in> set (rows st). u_email row \<noteq> ri_email r \<and> u_username row \<noteq> ri_username r"
    and "salt_rnd_ok rnd" and "jwt_secret E = None"
  shows "deliver (fst (register E now rnd body st)) = (500, error_body ''Something went wrong'') \<and>
         rows (snd (register E now rnd body st)) = rows st @ [new_row st r rnd (env_kdf E)]"
  using register_fresh [OF assms(1-4), of E now] assms(5) by (simp add: jwt_sign_def)

theorem register_missing_secret_witness:
  "deliver (fst (register (demo_env\<lparr>jwt_secret := None\<rparr>) 0 demo_rnd
      (reg_body ''bob'' ''bob@example.com'' ''bobpassword'') demo_store)) = (500, error_body ''Something went wrong'') \<and>
   rows (snd (register (demo_env\<lparr>jwt_secret := None\<rparr>) 0 demo_rnd
      (reg_body ''bob'' ''bob@example.com'' ''bobpassword'') demo_store)) =
     rows demo_store @ [new_row demo_store \<lparr>ri_username = ''bob'', ri_email = ''bob@example.com'',
                          ri_password = ''bobpassword''\<rparr> demo_rnd demo_kdf]"
  using register_missing_secret [of "reg_body ''bob'' ''bob@example.com'' ''bobpassword''"
      "\<lparr>ri_username = ''bob'', ri_email = ''bob@example.com'', ri_password = ''bobpassword''\<rparr>"
      demo_store demo_rnd "demo_env\<lparr>jwt_secret := None\<rparr>" 0]
  by (simp add: demo_reg_valid reg_constraints_def password_ok_def zod_email_unfold demo_rnd_ok)
     (simp_all add: demo_store_def alice_row_def demo_env_def)

end
