(* ===== verification/AuthMiddleware.thy ===== *)
theory AuthMiddleware
  imports Fixtures
begin

text \<open>
  The access guard \<open>protect\<close> and the role gate \<open>requireRole\<close> of
  \<open>src/server/middleware/auth.js\<close>.  A middleware acts on the response by
  calls: \<open>res.status(s).json(b)\<close> sends, \<open>next()\<close> hands the request on with
  \<open>req.user\<close> as the guard left it.  The model returns the calls in the order
  the code makes them, so that a path that sends twice is visible: Express
  refuses the second send (\<open>ERR_HTTP_HEADERS_SENT\<close>, thrown inside the async
  handler, where nothing catches it).
\<close>

datatype effect = Send nat json | Next "public_user option"

text \<open>
  \<open>protect(req, res, next)\<close> with the header \<open>Authorization\<close> (\<open>None\<close> when
  absent).  \<open>token\<close> is assigned from \<open>split(' ')[1]\<close> before \<open>jwt.verify\<close>
  runs; the \<open>catch\<close> answers any failure of the verification or of the query;
  \<open>if (!token)\<close> is tested afterwards, whatever the \<open>try\<close> block did.  The
  query receives \<open>decoded.id\<close>, \<open>undefined\<close> (sent as \<open>NULL\<close>) when the payload
  has none.
\<close>

definition protect_try :: "env \<Rightarrow> int \<Rightarrow> string option \<Rightarrow> store \<Rightarrow> effect list" where
  "protect_try E now token st =
     (case jwt_verify (env_mac E) (jwt_secret E) now token of
        Inl _ \<Rightarrow> [Send 401 (error_body ''Not authorized'')]
      | Inr decoded \<Rightarrow>
          (case q_select_public_by_id st (case json_get decoded ''id'' of None \<Rightarrow> JNull | Some v \<Rightarrow> v) of
             Inl _ \<Rightarrow> [Send 401 (error_body ''Not authorized'')]
           | Inr rs \<Rightarrow> [Next (js_at rs 0)]))"

definition bearer_token :: "string \<Rightarrow> string option" where
  "bearer_token h = js_at (js_split CHR '' '' h) 1"

definition protect :: "env \<Rightarrow> int \<Rightarrow> string option \<Rightarrow> store \<Rightarrow> effect list" where
  "protect E now auth st =
     (case auth of
        Some h \<Rightarrow>
          if js_startsWith h ''Bearer'' then
            protect_try E now (bearer_token h) st @
            (if js_truthy_str (bearer_token h) then []
             else [Send 401 (error_body ''Not authorized, no token'')])
          else [Send 401 (error_body ''Not authorized, no token'')]
      | None \<Rightarrow> [Send 401 (error_body ''Not authorized, no token'')])"

text \<open>\<open>requireRole(role)(req, res, next)\<close>.\<close>

definition requireRole :: "string \<Rightarrow> public_user option \<Rightarrow> effect list" where
  "requireRole role u =
     (case u of
        None \<Rightarrow> [Send 403 (error_body ''Not authorized for this action'')]
      | Some usr \<Rightarrow>
          if pu_role usr \<noteq> role then [Send 403 (error_body ''Not authorized for this action'')]
          else [Next u])"

text \<open>The responses a list of calls sends, in order.\<close>

fun sends :: "effect list \<Rightarrow> (nat \<times> json) list" where
  "sends [] = []"
| "sends (Send s b # es) = (s, b) # sends es"
| "sends (Next _ # es) = sends es"

subsection \<open>Lemmas\<close>

lemma bearer_token_append:
  "CHR '' '' \<notin> set t \<Longrightarrow> bearer_token (''Bearer '' @ t) = Some t"
  by (simp add: bearer_token_def js_split_no_sep js_at_def)

lemma space_not_in_token:
  "set tok \<subseteq> insert CHR ''.'' (set b64url_alphabet) \<Longrightarrow> CHR '' '' \<notin> set tok"
  by (auto simp: b64url_alphabet_def)

lemma protect_bearer:
  "js_startsWith h ''Bearer'' \<Longrightarrow> js_truthy_str (bearer_token h) \<Longrightarrow>
     protect E now (Some h) st = protect_try E now (bearer_token h) st"
  by (simp add: protect_def)

lemma protect_signed_try:
  assumes E: "env_ok E" and s: "jwt_sign (env_mac E) (jwt_secret E) now i u role = Inr tok"
    and exp: "now' < now + expires_in_30d"
  shows "protect E now' (Some (''Bearer '' @ tok)) st = protect_try E now' (Some tok) st"
    and "jwt_verify (env_mac E) (jwt_secret E) now' (Some tok) = Inr (token_payload i u role now)"
proof -
  obtain k where k: "jwt_secret E = Some k" "k \<noteq> []" and m: "mac_wf (env_mac E)"
    using E by (auto simp: env_ok_def)
  note ch = jwt_sign_token_chars [OF m s]
  have bt: "bearer_token (''Bearer '' @ tok) = Some tok"
    using space_not_in_token [OF ch(1)] by (rule bearer_token_append)
  show "jwt_verify (env_mac E) (jwt_secret E) now' (Some tok) = Inr (token_payload i u role now)"
    using jwt_sign_verify [OF m k s exp] .
  show "protect E now' (Some (''Bearer '' @ tok)) st = protect_try E now' (Some tok) st"
    using protect_bearer [of "''Bearer '' @ tok"] bt ch(2) by (simp add: js_startsWith_def js_truthy_str_def)
qed

lemma protect_signed_token:
  assumes E: "env_ok E" and s: "jwt_sign (env_mac E) (jwt_secret E) now i u role = Inr tok"
    and exp: "now' < now + expires_in_30d" and up: "db_up st"
  shows "protect E now' (Some (''Bearer '' @ tok)) st =
           [Next (js_at (map public_of (filter (\<lambda>r. u_id r = i) (rows st))) 0)]"
proof -
  have id: "json_get (token_payload i u role now) ''id'' = Some (JNum i)"
    by (simp add: token_payload_def js_simps)
  with protect_signed_try [OF E s exp] up show ?thesis
    by (simp add: protect_try_def q_select_public_by_id_def)
qed

lemma protect_valid_user:
  assumes "env_ok E" and "jwt_sign (env_mac E) (jwt_secret E) now i u role = Inr tok"
    and "now' < now + expires_in_30d" and "db_up st" and "users_wf st"
    and "row \<in> set (rows st)" and "u_id row = i"
  shows "protect E now' (Some (''Bearer '' @ tok)) st = [Next (Some (public_of row))]"
proof -
  have "filter (\<lambda>r. u_id r = i) (rows st) = [row]"
    using filter_distinct_key [of u_id "rows st" row] assms(5-7) by (simp add: users_wf_def)
  with protect_signed_token [OF assms(1-4)] show ?thesis by (simp add: js_at_def)
qed

lemmas protect_unfold = protect_def protect_try_def bearer_token_def js_simps js_at_def
  js_startsWith_def js_truthy_str_def

subsection \<open>Properties\<close>

text \<open>
  C5: a request without an \<open>Authorization\<close> header, or whose header does not
  start with \<open>Bearer\<close>, is answered 401 \<open>Not authorized, no token\<close>, once, and
  never reaches the route.
\<close>

theorem protect_no_token:
  assumes "\<not> (\<exists>h. auth = Some h \<and> js_startsWith h ''Bearer'')"
  shows "protect E now auth st = [Send 401 (error_body ''Not authorized, no token'')]"
  using assms by (cases auth) (auto simp: protect_def)

theorem protect_no_token_witness:
  "protect demo_env 0 None demo_store = [Send 401 (error_body ''Not authorized, no token'')]"
  by (rule protect_no_token) simp

text \<open>
  C6: a bearer token that is present but fails verification, for whatever
  reason (malformed, bad signature, expired, no secret), is answered with the
  one response 401 \<open>Not authorized\<close>, which does not say why.
\<close>

theorem protect_rejects_invalid:
  assumes "js_startsWith h ''Bearer''" and "bearer_token h = Some t" and "t \<noteq> []"
    and "jwt_verify (env_mac E) (jwt_secret E) now (Some t) = Inl err"
  shows "protect E now (Some h) st = [Send 401 (error_body ''Not authorized'')]"
  using assms by (simp add: protect_def protect_try_def js_truthy_str_def)

theorem protect_rejects_invalid_witness:
  "protect demo_env 0 (Some ''Bearer abc'') demo_store = [Send 401 (error_body ''Not authorized'')]"
  by (rule protect_rejects_invalid [where t = "''abc''" and err = Jwt_malformed])
     (simp_all add: protect_unfold jwt_verify_def)

text \<open>
  C7: the guard hands a request on only after the bearer token verified under
  the server's secret, and what it hands on as \<open>req.user\<close> is the first row the
  table returns for the token's \<open>id\<close>.
\<close>

theorem protect_next_verified:
  assumes "Next u \<in> set (protect E now auth st)"
  shows "\<exists>h t pl rs. auth = Some h \<and> js_startsWith h ''Bearer'' \<and> bearer_token h = Some t \<and>
           jwt_verify (env_mac E) (jwt_secret E) now (Some t) = Inr pl \<and>
           q_select_public_by_id st (case json_get pl ''id'' of None \<Rightarrow> JNull | Some v \<Rightarrow> v) = Inr rs \<and>
           u = js_at rs 0"
proof -
  obtain h where a: "auth = Some h" and b: "js_startsWith h ''Bearer''"
    and n: "Next u \<in> set (protect_try E now (bearer_token h) st)"
    using assms by (auto simp: protect_def split: option.splits if_splits)
  then obtain t where t: "bearer_token h = Some t"
    by (cases "bearer_token h") (auto simp: protect_try_def)
  with n a b show ?thesis by (auto simp: protect_try_def split: sum.splits)
qed

theorem protect_next_verified_witness:
  "\<exists>h t pl rs. Some (''Bearer '' @ alice_token) = Some h \<and> js_startsWith h ''Bearer'' \<and>
     bearer_token h = Some t \<and> jwt_verify (env_mac demo_env) (jwt_secret demo_env) 0 (Some t) = Inr pl \<and>
     q_select_public_by_id demo_store (case json_get pl ''id'' of None \<Rightarrow> JNull | Some v \<Rightarrow> v) = Inr rs \<and>
     Some (public_of alice_row) = js_at rs 0"
proof (rule protect_next_verified)
  have "protect demo_env 0 (Some (''Bearer '' @ alice_token)) demo_store = [Next (Some (public_of alice_row))]"
    using protect_valid_user [OF demo_env_ok alice_token_signed, of 0 demo_store alice_row]
    by (simp add: expires_in_30d_def demo_store_wf) (simp add: demo_store_def alice_row_def)
  then show "Next (Some (public_of alice_row)) \<in> set (protect demo_env 0 (Some (''Bearer '' @ alice_token)) demo_store)"
    by simp
qed

text \<open>
  C8: the role gate passes a request on unchanged exactly when a user is
  attached and has the required role, and answers 403 \<open>Not authorized for this
  action\<close> otherwise: \<open>requireRole('admin')\<close> refuses a \<open>user\<close> and admits an
  \<open>admin\<close>.
\<close>

theorem requireRole_gate:
  "requireRole role u =
     (if \<exists>usr. u = Some usr \<and> pu_role usr = role then [Next u]
      else [Send 403 (error_body ''Not authorized for this action'')])"
  by (cases u) (auto simp: requireRole_def)

text \<open>
  C18: a header \<open>Bearer\<close> without a token (\<open>Bearer\<close>, \<open>Bearer \<close>, or two spaces
  before the token) makes the guard send twice: the \<open>catch\<close> sends 401 \<open>Not
  authorized\<close> for the verification of an absent token, and the test
  \<open>if (!token)\<close> then sends 401 \<open>Not authorized, no token\<close> on the same
  response, which Express refuses with \<open>ERR_HTTP_HEADERS_SENT\<close>.
\<close>

theorem protect_double_send:
  assumes "js_startsWith h ''Bearer''" and "\<not> js_truthy_str (bearer_token h)"
  shows "sends (protect E now (Some h) st) =
           [(401, error_body ''Not authorized''), (401, error_body ''Not authorized, no token'')]"
proof -
  have "bearer_token h = None \<or> bearer_token h = Some []"
    using assms(2) by (cases "bearer_token h") (auto simp: js_truthy_str_def)
  then show ?thesis using assms by (auto simp: protect_def protect_try_def)
qed

theorem protect_double_send_witness:
  "sends (protect demo_env 0 (Some ''Bearer'') demo_store) =
     [(401, error_body ''Not authorized''), (401, error_body ''Not authorized, no token'')]"
  by (rule protect_double_send) (simp_all add: protect_unfold)

text \<open>
  C19: a valid token whose user is no longer in the table is let through with
  no user attached: the guard calls \<open>next()\<close> with \<open>req.user\<close> undefined.
\<close>

theorem protect_deleted_user:
  assumes "env_ok E" and "jwt_sign (env_mac E) (jwt_secret E) now i u role = Inr tok"
    and "now' < now + expires_in_30d" and "db_up st"
    and "\<forall>row \<in> set (rows st). u_id row \<noteq> i"
  shows "protect E now' (Some (''Bearer '' @ tok)) st = [Next None]"
proof -
  have "filter (\<lambda>r. u_id r = i) (rows st) = []"
    using assms(5) by (simp add: filter_empty_conv)
  with protect_signed_token [OF assms(1-4)] show ?thesis by (simp add: js_at_def)
qed

theorem protect_deleted_user_witness:
  "protect demo_env 0 (Some (''Bearer '' @ alice_token)) (demo_store\<lparr>rows := []\<rparr>) = [Next None]"
  by (rule protect_deleted_user [OF demo_env_ok alice_token_signed])
     (simp_all add: expires_in_30d_def demo_store_def)

text \<open>
  C25: a failure of the database while the guard looks the user up is
  answered like a bad token, 401 \<open>Not authorized\<close>, by the guard's \<open>catch\<close>:
  it does not reach \<open>errorHandler\<close>, and the client with a valid token is told
  it is not authorized rather than that the server failed (500).
\<close>

theorem protect_db_error_401:
  assumes "env_ok E" and "jwt_sign (env_mac E) (jwt_secret E) now i u role = Inr tok"
    and "now' < now + expires_in_30d" and "\<not> db_up st"
  shows "protect E now' (Some (''Bearer '' @ tok)) st = [Send 401 (error_body ''Not authorized'')]"
  using protect_signed_try [OF assms(1-3)] assms(4)
  by (simp add: protect_try_def q_select_public_by_id_def)

theorem protect_db_error_401_witness:
  "protect demo_env 0 (Some (''Bearer '' @ alice_token)) (demo_store\<lparr>db_up := False\<rparr>) =
     [Send 401 (error_body ''Not authorized'')]"
  by (rule protect_db_error_401 [OF demo_env_ok alice_token_signed]) (simp_all add: expires_in_30d_def)

end
