(* ===== verification/Server.thy ===== *)
theory Server
  imports AuthController AuthMiddleware
begin

text \<open>
  The server of \<open>src/server/index.js\<close>: the routes of \<open>/api/auth\<close>
  (\<open>routes/auth.js\<close>, not in the repository: \<open>POST /register\<close> to \<open>register\<close>
  and \<open>POST /login\<close> to \<open>login\<close>, as the specification's interface table
  says), the example route \<open>GET /api/protected\<close> behind \<open>protect\<close>, and
  \<open>errorHandler\<close> last.  One request is one step on the table.

  Node runs one request at a time between \<open>await\<close>s.  \<open>register\<close> awaits
  between its existence check and its insertion, so two registrations can
  interleave there: the second half of the theory splits \<open>register\<close> at that
  point and lets the halves of several registrations run in any order.
\<close>

datatype request =
    Post_register json
  | Post_login json
  | Get_protected "string option"

text \<open>
  The row \<open>protect\<close> attaches, as \<open>res.json\<close> prints it, and the example
  route's answer: \<open>JSON.stringify\<close> leaves out a key whose value is
  \<open>undefined\<close>, so without a user the answer has no \<open>user\<close> key.
\<close>

definition public_json :: "public_user \<Rightarrow> json" where
  "public_json u =
     JObj [(''id'', JNum (pu_id u)), (''username'', JStr (pu_username u)),
           (''email'', JStr (pu_email u)), (''role'', JStr (pu_role u))]"

definition protected_route :: "public_user option \<Rightarrow> outcome" where
  "protected_route u =
     Respond 200 (JObj ((''message'', JStr ''Access granted'') #
                        (case u of None \<Rightarrow> [] | Some x \<Rightarrow> [(''user'', public_json x)])))"

text \<open>A middleware's calls, with \<open>next()\<close> running the route behind it.\<close>

fun run_chain :: "(public_user option \<Rightarrow> nat \<times> json) \<Rightarrow> effect list \<Rightarrow> (nat \<times> json) list" where
  "run_chain h [] = []"
| "run_chain h (Send s b # es) = (s, b) # run_chain h es"
| "run_chain h (Next u # es) = h u # run_chain h es"

text \<open>
  One request: the responses it sends, in order (one, unless a handler
  sends twice, when the second is refused), and the table after it.
\<close>

fun serve :: "env \<Rightarrow> int \<Rightarrow> string \<Rightarrow> request \<Rightarrow> store \<Rightarrow> (nat \<times> json) list \<times> store" where
  "serve E now rnd (Post_register b) st = (let (out, st') = register E now rnd b st in ([deliver out], st'))"
| "serve E now rnd (Post_login b) st = ([deliver (login E now b st)], st)"
| "serve E now rnd (Get_protected a) st =
     (run_chain (\<lambda>u. deliver (protected_route u)) (protect E now a st), st)"

text \<open>Tables reachable from an initial one by requests handled one after another.\<close>

inductive seq_step :: "env \<Rightarrow> store \<Rightarrow> store \<Rightarrow> bool" where
  serve_step: "seq_step E st (snd (serve E now rnd req st))"

subsection \<open>Interleaved registrations\<close>

text \<open>
  \<open>register\<close> up to its \<open>INSERT\<close>: the validation, the existence check and the
  hash.  It ends with a response, or with the insertion still to do.
\<close>

definition register_check :: "env \<Rightarrow> string \<Rightarrow> json \<Rightarrow> store \<Rightarrow> outcome + (reg_input \<times> string)" where
  "register_check E rnd body st =
     (case validateRegistration body of
        Inl iss \<Rightarrow> Inl (Next_error (ZodError iss))
      | Inr r \<Rightarrow>
        (case q_select_email_or_username st (ri_email r) (ri_username r) of
           Inl e \<Rightarrow> Inl (Next_error (DbError e))
         | Inr exists \<Rightarrow>
           if exists \<noteq> [] then Inl (Respond 400 (error_body ''User already exists''))
           else
             (case bcrypt_hash (env_kdf E) (ri_password r) (gen_salt 10 rnd) of
                Inl e \<Rightarrow> Inl (Next_error (BcryptError e))
              | Inr hashed \<Rightarrow> Inr (r, hashed))))"

text \<open>\<open>register\<close> from its \<open>INSERT\<close> on.\<close>

definition register_finish :: "env \<Rightarrow> int \<Rightarrow> reg_input \<times> string \<Rightarrow> store \<Rightarrow> outcome \<times> store" where
  "register_finish E now p st =
     (case q_insert_user st (ri_username (fst p)) (ri_email (fst p)) (snd p) ''user'' of
        (Inl e, st') \<Rightarrow> (Next_error (DbError e), st')
      | (Inr u, st') \<Rightarrow>
        (case jwt_sign (env_mac E) (jwt_secret E) now (pu_id u) (pu_username u) (pu_role u) of
           Inl e \<Rightarrow> (Next_error (JwtError e), st')
         | Inr tok \<Rightarrow> (Respond 201 (user_body u tok), st')))"

record srv =
  sv_store :: store
  pending :: "(reg_input \<times> string) list"

text \<open>
  A step of the server with registrations in flight: a registration runs up to
  its insertion, or a pending one finishes.  Requests that end before any
  insertion (logins, protected requests, rejected registrations) leave the
  state as it is and need no rule.
\<close>

inductive conc_step :: "env \<Rightarrow> srv \<Rightarrow> srv \<Rightarrow> bool" where
  start: "register_check E rnd body (sv_store s) = Inr p \<Longrightarrow>
            conc_step E s (s\<lparr>pending := p # pending s\<rparr>)"
| finish: "p \<in> set (pending s) \<Longrightarrow> register_finish E now p (sv_store s) = (out, st') \<Longrightarrow>
            conc_step E s \<lparr>sv_store = st', pending = remove1 p (pending s)\<rparr>"

text \<open>What the table and the registrations in flight keep when the table has its constraints.\<close>

definition conc_inv :: "srv \<Rightarrow> bool" where
  "conc_inv s \<longleftrightarrow> users_wf (sv_store s) \<and> unique_constraint (sv_store s) \<and>
                   (\<forall>p \<in> set (pending s). snd p \<noteq> [])"

definition empty_store :: "bool \<Rightarrow> store" where
  "empty_store uc = \<lparr>rows = [], next_id = 1, db_up = True, unique_constraint = uc\<rparr>"

subsection \<open>Lemmas\<close>

lemma register_phases:
  "register E now rnd body st =
     (case register_check E rnd body st of Inl out \<Rightarrow> (out, st) | Inr p \<Rightarrow> register_finish E now p st)"
  by (simp add: register_def register_check_def register_finish_def split: sum.splits prod.splits)

lemma register_finish_store:
  "snd (register_finish E now p st) = snd (q_insert_user st (ri_username (fst p)) (ri_email (fst p)) (snd p) ''user'')"
  by (simp add: register_finish_def split: prod.splits sum.splits)

lemma register_check_hash:
  "register_check E rnd body st = Inr p \<Longrightarrow> snd p \<noteq> []"
  by (auto simp: register_check_def bcrypt_hash_not_Nil split: sum.splits if_splits)

lemma seq_step_wf:
  assumes "seq_step E st st'" and "users_wf st"
  shows "users_wf st'"
  using assms(1)
proof (cases rule: seq_step.cases)
  case (serve_step now rnd req)
  then show ?thesis
    using assms(2) register_users_wf [OF assms(2)]
    by (cases req) (simp_all add: case_prod_beta)
qed

lemma conc_step_inv:
  assumes "conc_step E s s'" and "conc_inv s"
  shows "conc_inv s'"
  using assms(1)
proof (cases rule: conc_step.cases)
  case (start rnd body p)
  with assms(2) register_check_hash [OF start(2)] show ?thesis by (simp add: conc_inv_def)
next
  case (finish p now out st')
  have st': "st' = snd (q_insert_user (sv_store s) (ri_username (fst p)) (ri_email (fst p)) (snd p) ''user'')"
    using register_finish_store [of E now p "sv_store s"] finish(3) by simp
  have "snd p \<noteq> []" using assms(2) finish(2) by (simp add: conc_inv_def)
  then have "users_wf st'"
    using assms(2) st' by (auto simp: conc_inv_def intro: users_wf_insert_constrained)
  with assms(2) finish st' show ?thesis by (auto simp: conc_inv_def dest: in_set_remove1)
qed

lemma bob_check:
  "register_check E demo_rnd (reg_body ''bob'' ''bob@example.com'' ''bobpassword'') (empty_store uc) =
     Inr (\<lparr>ri_username = ''bob'', ri_email = ''bob@example.com'', ri_password = ''bobpassword''\<rparr>,
          gen_salt 10 demo_rnd @ env_kdf E 10 demo_rnd (bcrypt_key (Some CHR ''a'') ''bobpassword''))"
  by (simp add: register_check_def demo_reg_valid reg_constraints_def password_ok_def zod_email_unfold
      q_select_email_or_username_def empty_store_def bcrypt_hash_gen_salt demo_rnd_ok)

subsection \<open>Properties\<close>

text \<open>
  C12: requests handled one after another keep the table well formed (unique
  usernames, e-mails and ids, non-empty hashes, roles \<open>user\<close> or \<open>admin\<close>),
  with or without the constraints: the existence check guards each insertion.
\<close>

theorem seq_reachable_wf:
  assumes "users_wf st0" and "(seq_step E)\<^sup>*\<^sup>* st0 st"
  shows "users_wf st"
  using assms(2,1) by (induction rule: rtranclp_induct) (auto intro: seq_step_wf)

theorem seq_reachable_wf_witness:
  "users_wf (snd (serve demo_env 0 demo_rnd (Post_register (reg_body ''bob'' ''bob@example.com'' ''bobpassword''))
                   (empty_store False)))"
proof (rule seq_reachable_wf)
  show "users_wf (empty_store False)" by (simp add: users_wf_def empty_store_def)
  show "(seq_step demo_env)\<^sup>*\<^sup>* (empty_store False)
          (snd (serve demo_env 0 demo_rnd (Post_register (reg_body ''bob'' ''bob@example.com'' ''bobpassword''))
                  (empty_store False)))"
    by (rule r_into_rtranclp, rule seq_step.serve_step)
qed

text \<open>
  Registrations running concurrently -- any number of them between their
  existence check and their insertion -- keep the table well formed when the
  table has the \<open>UNIQUE\<close> constraints: the database refuses the insertion
  that would duplicate.
\<close>

theorem conc_reachable_wf:
  assumes "users_wf st0" and "unique_constraint st0"
    and "(conc_step E)\<^sup>*\<^sup>* \<lparr>sv_store = st0, pending = []\<rparr> s"
  shows "users_wf (sv_store s)"
proof -
  have "conc_inv \<lparr>sv_store = st0, pending = []\<rparr>" using assms(1,2) by (simp add: conc_inv_def)
  with assms(3) have "conc_inv s" by (induction rule: rtranclp_induct) (auto intro: conc_step_inv)
  then show ?thesis by (simp add: conc_inv_def)
qed

theorem conc_reachable_wf_witness:
  "users_wf (sv_store \<lparr>sv_store = empty_store True,
     pending = [(\<lparr>ri_username = ''bob'', ri_email = ''bob@example.com'', ri_password = ''bobpassword''\<rparr>,
                 gen_salt 10 demo_rnd @ demo_kdf 10 demo_rnd (bcrypt_key (Some CHR ''a'') ''bobpassword''))]\<rparr>)"
proof (rule conc_reachable_wf [where E = demo_env])
  show "users_wf (empty_store True)" by (simp add: users_wf_def empty_store_def)
  show "unique_constraint (empty_store True)" by (simp add: empty_store_def)
  show "(conc_step demo_env)\<^sup>*\<^sup>* \<lparr>sv_store = empty_store True, pending = []\<rparr>
     \<lparr>sv_store = empty_store True,
      pending = [(\<lparr>ri_username = ''bob'', ri_email = ''bob@example.com'', ri_password = ''bobpassword''\<rparr>,
                  gen_salt 10 demo_rnd @ demo_kdf 10 demo_rnd (bcrypt_key (Some CHR ''a'') ''bobpassword''))]\<rparr>"
    using conc_step.start [of demo_env demo_rnd "reg_body ''bob'' ''bob@example.com'' ''bobpassword''"
        "\<lparr>sv_store = empty_store True, pending = []\<rparr>"] bob_check [where E = demo_env and uc = True]
    by (intro r_into_rtranclp) (simp add: demo_env_def)
qed

text \<open>
  C23: without the constraints the check-then-insert of \<open>register\<close> is a race:
  two registrations of the same user, both past their existence check before
  either inserts, leave two rows with the same username and e-mail.
\<close>

theorem register_race:
  "\<exists>s. (conc_step E)\<^sup>*\<^sup>* \<lparr>sv_store = empty_store False, pending = []\<rparr> s \<and> \<not> users_wf (sv_store s)"
proof -
  let ?b = "reg_body ''bob'' ''bob@example.com'' ''bobpassword''"
  let ?r = "\<lparr>ri_username = ''bob'', ri_email = ''bob@example.com'', ri_password = ''bobpassword''\<rparr>"
  let ?p = "(?r, gen_salt 10 demo_rnd @ env_kdf E 10 demo_rnd (bcrypt_key (Some CHR ''a'') ''bobpassword''))"
  let ?st0 = "empty_store False"
  let ?st1 = "snd (register_finish E 0 ?p ?st0)"
  let ?st2 = "snd (register_finish E 0 ?p ?st1)"
  have chk: "register_check E demo_rnd ?b ?st0 = Inr ?p" by (rule bob_check)
  have s1: "conc_step E \<lparr>sv_store = ?st0, pending = []\<rparr> \<lparr>sv_store = ?st0, pending = [?p]\<rparr>"
    using conc_step.start [of E demo_rnd ?b "\<lparr>sv_store = ?st0, pending = []\<rparr>" ?p] chk by simp
  have s2: "conc_step E \<lparr>sv_store = ?st0, pending = [?p]\<rparr> \<lparr>sv_store = ?st0, pending = [?p, ?p]\<rparr>"
    using conc_step.start [of E demo_rnd ?b "\<lparr>sv_store = ?st0, pending = [?p]\<rparr>" ?p] chk by simp
  have s3: "conc_step E \<lparr>sv_store = ?st0, pending = [?p, ?p]\<rparr> \<lparr>sv_store = ?st1, pending = [?p]\<rparr>"
    using conc_step.finish [of ?p "\<lparr>sv_store = ?st0, pending = [?p, ?p]\<rparr>" E 0
        "fst (register_finish E 0 ?p ?st0)" ?st1] by simp
  have s4: "conc_step E \<lparr>sv_store = ?st1, pending = [?p]\<rparr> \<lparr>sv_store = ?st2, pending = []\<rparr>"
    using conc_step.finish [of ?p "\<lparr>sv_store = ?st1, pending = [?p]\<rparr>" E 0
        "fst (register_finish E 0 ?p ?st1)" ?st2] by simp
  have "\<not> users_wf ?st2"
    by (simp add: register_finish_store q_insert_user_def empty_store_def users_wf_def Let_def)
  moreover have "(conc_step E)\<^sup>*\<^sup>* \<lparr>sv_store = ?st0, pending = []\<rparr> \<lparr>sv_store = ?st2, pending = []\<rparr>"
    using s1 s2 s3 s4 by (meson converse_rtranclp_into_rtranclp rtranclp.rtrancl_refl)
  ultimately show ?thesis by auto
qed

text \<open>
  C24: with the constraints, the registration that loses the race is not
  answered as a conflict: the unique violation reaches \<open>errorHandler\<close>, which
  answers 500 \<open>Something went wrong\<close> (the specification asks for the
  conflict error), and the table keeps its rows.
\<close>

theorem register_duplicate_500:
  assumes "unique_constraint st" and "db_up st"
    and "\<exists>row \<in> set (rows st). u_email row = ri_email r \<or> u_username row = ri_username r"
  shows "deliver (fst (register_finish E now (r, h) st)) = (500, error_body ''Something went wrong'') \<and>
         rows (snd (register_finish E now (r, h) st)) = rows st"
  using assms by (auto simp: register_finish_def q_insert_user_def Let_def)

theorem register_duplicate_500_witness:
  "deliver (fst (register_finish demo_env 0 (\<lparr>ri_username = ''alice'', ri_email = ''alice@example.com'',
       ri_password = ''alicepass1''\<rparr>, ''h'') (demo_store\<lparr>unique_constraint := True\<rparr>))) =
     (500, error_body ''Something went wrong'') \<and>
   rows (snd (register_finish demo_env 0 (\<lparr>ri_username = ''alice'', ri_email = ''alice@example.com'',
       ri_password = ''alicepass1''\<rparr>, ''h'') (demo_store\<lparr>unique_constraint := True\<rparr>))) =
     rows (demo_store\<lparr>unique_constraint := True\<rparr>)"
  by (rule register_duplicate_500) (simp_all add: demo_store_def alice_row_def)

end
