(* ===== verification/ProblemsData.thy ===== *)
theory ProblemsData
  imports Prelude
begin

text \<open>
  The problem set of the client, \<open>src/src/utils/problemsData.ts\<close>: the
  interface \<open>Problem\<close> as a record and the eight entries of \<open>problems\<close>, one
  definition each, with every field as the source writes it (template literals
  with their line breaks).  The pages that list, filter and show problems
  (\<open>ProblemsPage\<close>, \<open>ProblemDetailPage\<close>) read this list only.
\<close>

datatype difficulty = Easy | Medium | Hard

record example =
  ex_input :: string
  ex_output :: string
  ex_explanation :: "string option"

record templates =
  tpl_python :: string
  tpl_javascript :: string
  tpl_cpp :: string

record problem =
  p_id :: string
  p_title :: string
  p_difficulty :: difficulty
  p_tags :: "string list"
  p_description :: string
  p_examples :: "example list"
  p_constraints :: "string list"
  p_acceptedCount :: int
  p_submissionCount :: int
  p_solutionTemplate :: templates

definition problem_1 :: problem where
  \<open>problem_1 =
     \<lparr>p_id = ''1'',
      p_title = ''Two Sum'',
      p_difficulty = Easy,
      p_tags = [''Arrays'', ''Hash Table''],
      p_description = ''Given an array of integers `nums` and an integer `target`, return indices of the two numbers such that they add up to `target`.\<newline>\<newline>You may assume that each input would have exactly one solution, and you may not use the same element twice.\<newline>\<newline>You can return the answer in any order.'',
      p_examples =
        [\<lparr>ex_input = ''nums = [2,7,11,15], target = 9'', ex_output = ''[0,1]'', ex_explanation = Some ''Because nums[0] + nums[1] == 9, we return [0, 1].''\<rparr>, \<lparr>ex_input = ''nums = [3,2,4], target = 6'', ex_output = ''[1,2]'', ex_explanation = None\<rparr>],
      p_constraints =
        [''2 <= nums.length <= 10^4'', ''-10^9 <= nums[i] <= 10^9'', ''-10^9 <= target <= 10^9'', ''Only one valid answer exists.''],
      p_acceptedCount = 1425,
      p_submissionCount = 2314,
      p_solutionTemplate =
        \<lparr>tpl_python = ''def twoSum(nums, target):\<newline>    # Your code here\<newline>    pass'',
         tpl_javascript = ''/**\<newline> * @param {number[]} nums\<newline> * @param {number} target\<newline> * @return {number[]}\<newline> */\<newline>function twoSum(nums, target) {\<newline>    // Your code here\<newline>}'',
         tpl_cpp = ''class Solution {\<newline>public:\<newline>    vector<int> twoSum(vector<int>& nums, int target) {\<newline>        // Your code here\<newline>    }\<newline>};''\<rparr>\<rparr>\<close>

definition problem_2 :: problem where
  \<open>problem_2 =
     \<lparr>p_id = ''2'',
      p_title = ''Palindrome Checker'',
      p_difficulty = Easy,
      p_tags = [''Strings'', ''Two Pointers''],
      p_description = ''Given a string `s`, determine if it is a palindrome, considering only alphanumeric characters and ignoring cases.'',
      p_examples =
        [\<lparr>ex_input = ''s = "A man, a plan, a canal: Panama"'', ex_output = ''true'', ex_explanation = Some ''"amanaplanacanalpanama" is a palindrome.''\<rparr>, \<lparr>ex_input = ''s = "race a car"'', ex_output = ''false'', ex_explanation = Some ''"raceacar" is not a palindrome.''\<rparr>],
      p_constraints =
        [''1 <= s.length <= 2 * 10^5'', ''s consists only of printable ASCII characters.''],
      p_acceptedCount = 987,
      p_submissionCount = 1342,
      p_solutionTemplate =
        \<lparr>tpl_python = ''def isPalindrome(s):\<newline>    # Your code here\<newline>    pass'',
         tpl_javascript = ''/**\<newline> * @param {string} s\<newline> * @return {boolean}\<newline> */\<newline>function isPalindrome(s) {\<newline>    // Your code here\<newline>}'',
         tpl_cpp = ''class Solution {\<newline>public:\<newline>    bool isPalindrome(string s) {\<newline>        // Your code here\<newline>    }\<newline>};''\<rparr>\<rparr>\<close>

definition problem_3 :: problem where
  \<open>problem_3 =
     \<lparr>p_id = ''3'',
      p_title = ''Maximum Subarray'',
      p_difficulty = Medium,
      p_tags = [''Arrays'', ''Dynamic Programming'', ''Divide and Conquer''],
      p_description = ''Given an integer array `nums`, find the contiguous subarray (containing at least one number) which has the largest sum and return its sum.\<newline>\<newline>A subarray is a contiguous part of an array.'',
      p_examples =
        [\<lparr>ex_input = ''nums = [-2,1,-3,4,-1,2,1,-5,4]'', ex_output = ''6'', ex_explanation = Some ''The subarray [4,-1,2,1] has the largest sum 6.''\<rparr>, \<lparr>ex_input = ''nums = [1]'', ex_output = ''1'', ex_explanation = None\<rparr>, \<lparr>ex_input = ''nums = [5,4,-1,7,8]'', ex_output = ''23'', ex_explanation = None\<rparr>],
      p_constraints =
        [''1 <= nums.length <= 10^5'', ''-10^4 <= nums[i] <= 10^4''],
      p_acceptedCount = 875,
      p_submissionCount = 1564,
      p_solutionTemplate =
        \<lparr>tpl_python = ''def maxSubArray(nums):\<newline>    # Your code here\<newline>    pass'',
         tpl_javascript = ''/**\<newline> * @param {number[]} nums\<newline> * @return {number}\<newline> */\<newline>function maxSubArray(nums) {\<newline>    // Your code here\<newline>}'',
         tpl_cpp = ''class Solution {\<newline>public:\<newline>    int maxSubArray(vector<int>& nums) {\<newline>        // Your code here\<newline>    }\<newline>};''\<rparr>\<rparr>\<close>

definition problem_4 :: problem where
  \<open>problem_4 =
     \<lparr>p_id = ''4'',
      p_title = ''Merge Sorted Lists'',
      p_difficulty = Easy,
      p_tags = [''Linked List'', ''Recursion''],
      p_description = ''Merge two sorted linked lists and return it as a sorted list. The list should be made by splicing together the nodes of the first two lists.'',
      p_examples =
        [\<lparr>ex_input = ''list1 = [1,2,4], list2 = [1,3,4]'', ex_output = ''[1,1,2,3,4,4]'', ex_explanation = None\<rparr>, \<lparr>ex_input = ''list1 = [], list2 = []'', ex_output = ''[]'', ex_explanation = None\<rparr>, \<lparr>ex_input = ''list1 = [], list2 = [0]'', ex_output = ''[0]'', ex_explanation = None\<rparr>],
      p_constraints =
        [''The number of nodes in both lists is in the range [0, 50].'', ''-100 <= Node.val <= 100'', ''Both list1 and list2 are sorted in non-decreasing order.''],
      p_acceptedCount = 1120,
      p_submissionCount = 1530,
      p_solutionTemplate =
        \<lparr>tpl_python = ''def mergeTwoLists(list1, list2):\<newline>    # Your code here\<newline>    pass'',
         tpl_javascript = ''/**\<newline> * Definition for singly-linked list.\<newline> * function ListNode(val, next) {\<newline> *     this.val = (val===undefined ? 0 : val)\<newline> *     this.next = (next===undefined ? null : next)\<newline> * }\<newline> */\<newline>/**\<newline> * @param {ListNode} list1\<newline> * @param {ListNode} list2\<newline> * @return {ListNode}\<newline> */\<newline>function mergeTwoLists(list1, list2) {\<newline>    // Your code here\<newline>}'',
         tpl_cpp = ''/**\<newline> * Definition for singly-linked list.\<newline> * struct ListNode {\<newline> *     int val;\<newline> *     ListNode *next;\<newline> *     ListNode() : val(0), next(nullptr) {}\<newline> *     ListNode(int x) : val(x), next(nullptr) {}\<newline> *     ListNode(int x, ListNode *next) : val(x), next(next) {}\<newline> * };\<newline> */\<newline>class Solution {\<newline>public:\<newline>    ListNode* mergeTwoLists(ListNode* list1, ListNode* list2) {\<newline>        // Your code here\<newline>    }\<newline>};''\<rparr>\<rparr>\<close>

definition problem_5 :: problem where
  \<open>problem_5 =
     \<lparr>p_id = ''5'',
      p_title = ''Valid Parentheses'',
      p_difficulty = Easy,
      p_tags = [''Stack'', ''String''],
      p_description = ''Given a string `s` containing just the characters \'(\', \')\', \'{\', \'}\', \'[\' and \']\', determine if the input string is valid.\<newline>\<newline>An input string is valid if:\<newline>1. Open brackets must be closed by the same type of brackets.\<newline>2. Open brackets must be closed in the correct order.'',
      p_examples =
        [\<lparr>ex_input = ''s = "()"'', ex_output = ''true'', ex_explanation = None\<rparr>, \<lparr>ex_input = ''s = "()[]{}"'', ex_output = ''true'', ex_explanation = None\<rparr>, \<lparr>ex_input = ''s = "(]"'', ex_output = ''false'', ex_explanation = None\<rparr>],
      p_constraints =
        [''1 <= s.length <= 10^4'', (''s consists of parentheses only \'()[]{}'' @ [CHR 0x27])],
      p_acceptedCount = 1321,
      p_submissionCount = 2145,
      p_solutionTemplate =
        \<lparr>tpl_python = ''def isValid(s):\<newline>    # Your code here\<newline>    pass'',
         tpl_javascript = ''/**\<newline> * @param {string} s\<newline> * @return {boolean}\<newline> */\<newline>function isValid(s) {\<newline>    // Your code here\<newline>}'',
         tpl_cpp = ''class Solution {\<newline>public:\<newline>    bool isValid(string s) {\<newline>        // Your code here\<newline>    }\<newline>};''\<rparr>\<rparr>\<close>

definition problem_6 :: problem where
  \<open>problem_6 =
     \<lparr>p_id = ''6'',
      p_title = ''Median of Two Sorted Arrays'',
      p_difficulty = Hard,
      p_tags = [''Array'', ''Binary Search'', ''Divide and Conquer''],
      p_description = ''Given two sorted arrays `nums1` and `nums2` of size `m` and `n` respectively, return the median of the two sorted arrays.\<newline>\<newline>The overall run time complexity should be O(log (m+n)).'',
      p_examples =
        [\<lparr>ex_input = ''nums1 = [1,3], nums2 = [2]'', ex_output = ''2.00000'', ex_explanation = Some ''merged array = [1,2,3] and median is 2.''\<rparr>, \<lparr>ex_input = ''nums1 = [1,2], nums2 = [3,4]'', ex_output = ''2.50000'', ex_explanation = Some ''merged array = [1,2,3,4] and median is (2 + 3) / 2 = 2.5.''\<rparr>],
      p_constraints =
        [''nums1.length == m'', ''nums2.length == n'', ''0 <= m <= 1000'', ''0 <= n <= 1000'', ''1 <= m + n <= 2000'', ''-10^6 <= nums1[i], nums2[i] <= 10^6''],
      p_acceptedCount = 540,
      p_submissionCount = 1290,
      p_solutionTemplate =
        \<lparr>tpl_python = ''def findMedianSortedArrays(nums1, nums2):\<newline>    # Your code here\<newline>    pass'',
         tpl_javascript = ''/**\<newline> * @param {number[]} nums1\<newline> * @param {number[]} nums2\<newline> * @return {number}\<newline> */\<newline>function findMedianSortedArrays(nums1, nums2) {\<newline>    // Your code here\<newline>}'',
         tpl_cpp = ''class Solution {\<newline>public:\<newline>    double findMedianSortedArrays(vector<int>& nums1, vector<int>& nums2) {\<newline>        // Your code here\<newline>    }\<newline>};''\<rparr>\<rparr>\<close>

definition problem_7 :: problem where
  \<open>problem_7 =
     \<lparr>p_id = ''7'',
      p_title = ''Reverse Linked List'',
      p_difficulty = Easy,
      p_tags = [''Linked List'', ''Recursion''],
      p_description = ''Given the head of a singly linked list, reverse the list, and return the reversed list.'',
      p_examples =
        [\<lparr>ex_input = ''head = [1,2,3,4,5]'', ex_output = ''[5,4,3,2,1]'', ex_explanation = None\<rparr>, \<lparr>ex_input = ''head = [1,2]'', ex_output = ''[2,1]'', ex_explanation = None\<rparr>, \<lparr>ex_input = ''head = []'', ex_output = ''[]'', ex_explanation = None\<rparr>],
      p_constraints =
        [''The number of nodes in the list is the range [0, 5000].'', ''-5000 <= Node.val <= 5000''],
      p_acceptedCount = 1050,
      p_submissionCount = 1380,
      p_solutionTemplate =
        \<lparr>tpl_python = ''def reverseList(head):\<newline>    # Your code here\<newline>    pass'',
         tpl_javascript = ''/**\<newline> * Definition for singly-linked list.\<newline> * function ListNode(val, next) {\<newline> *     this.val = (val===undefined ? 0 : val)\<newline> *     this.next = (next===undefined ? null : next)\<newline> * }\<newline> */\<newline>/**\<newline> * @param {ListNode} head\<newline> * @return {ListNode}\<newline> */\<newline>function reverseList(head) {\<newline>    // Your code here\<newline>}'',
         tpl_cpp = ''/**\<newline> * Definition for singly-linked list.\<newline> * struct ListNode {\<newline> *     int val;\<newline> *     ListNode *next;\<newline> *     ListNode() : val(0), next(nullptr) {}\<newline> *     ListNode(int x) : val(x), next(nullptr) {}\<newline> *     ListNode(int x, ListNode *next) : val(x), next(next) {}\<newline> * };\<newline> */\<newline>class Solution {\<newline>public:\<newline>    ListNode* reverseList(ListNode* head) {\<newline>        // Your code here\<newline>    }\<newline>};''\<rparr>\<rparr>\<close>

definition problem_8 :: problem where
  \<open>problem_8 =
     \<lparr>p_id = ''8'',
      p_title = ''Longest Substring Without Repeating Characters'',
      p_difficulty = Medium,
      p_tags = [''Hash Table'', ''String'', ''Sliding Window''],
      p_description = ''Given a string `s`, find the length of the longest substring without repeating characters.'',
      p_examples =
        [\<lparr>ex_input = ''s = "abcabcbb"'', ex_output = ''3'', ex_explanation = Some ''The answer is "abc", with the length of 3.''\<rparr>, \<lparr>ex_input = ''s = "bbbbb"'', ex_output = ''1'', ex_explanation = Some ''The answer is "b", with the length of 1.''\<rparr>, \<lparr>ex_input = ''s = "pwwkew"'', ex_output = ''3'', ex_explanation = Some ''The answer is "wke", with the length of 3. Notice that the answer must be a substring, "pwke" is a subsequence and not a substring.''\<rparr>],
      p_constraints =
        [''0 <= s.length <= 5 * 10^4'', ''s consists of English letters, digits, symbols and spaces.''],
      p_acceptedCount = 890,
      p_submissionCount = 1560,
      p_solutionTemplate =
        \<lparr>tpl_python = ''def lengthOfLongestSubstring(s):\<newline>    # Your code here\<newline>    pass'',
         tpl_javascript = ''/**\<newline> * @param {string} s\<newline> * @return {number}\<newline> */\<newline>function lengthOfLongestSubstring(s) {\<newline>    // Your code here\<newline>}'',
         tpl_cpp = ''class Solution {\<newline>public:\<newline>    int lengthOfLongestSubstring(string s) {\<newline>        // Your code here\<newline>    }\<newline>};''\<rparr>\<rparr>\<close>

definition problems :: "problem list" where
  "problems = [problem_1, problem_2, problem_3, problem_4, problem_5, problem_6, problem_7, problem_8]"

lemmas problems_unfold = problems_def problem_1_def problem_2_def problem_3_def problem_4_def
  problem_5_def problem_6_def problem_7_def problem_8_def

end
