(* ===== verification/JsArray.thy ===== *)
theory JsArray
  imports Complex_Main Prelude "HOL-Library.Multiset"
begin

text \<open>
  \<open>Array.prototype.sort(compareFn)\<close> as the client's pages use it.  The
  language requires the sort to be stable (ES2019), and for a comparator that
  orders its arguments consistently the stable result is unique; the model
  computes it by insertion, left to right, each element placed after every
  element it does not precede.  Only the sign of \<open>compareFn(a, b)\<close> matters:
  \<open>a\<close> goes before \<open>b\<close> exactly when the result is negative (a \<open>NaN\<close> result
  counts as 0, as the specification's \<open>SortCompare\<close> says).  The comparator's
  results are rationals: the pages compare counts, quotients of counts and
  integers parsed from strings.
\<close>

fun insort_by :: "('a \<Rightarrow> 'a \<Rightarrow> rat) \<Rightarrow> 'a \<Rightarrow> 'a list \<Rightarrow> 'a list" where
  "insort_by c x [] = [x]"
| "insort_by c x (y # ys) = (if c x y < 0 then x # y # ys else y # insort_by c x ys)"

definition js_sort_by :: "('a \<Rightarrow> 'a \<Rightarrow> rat) \<Rightarrow> 'a list \<Rightarrow> 'a list" where
  "js_sort_by c xs = fold (insort_by c) xs []"

text \<open>
  A comparator that orders the elements of \<open>A\<close> by a key: negative exactly
  when the first key is smaller.
\<close>

definition orders_on :: "'a set \<Rightarrow> ('a \<Rightarrow> 'a \<Rightarrow> rat) \<Rightarrow> ('a \<Rightarrow> 'k::linorder) \<Rightarrow> bool" where
  "orders_on A c k \<longleftrightarrow> (\<forall>x \<in> A. \<forall>y \<in> A. (c x y < 0) = (k x < k y))"

subsection \<open>Lemmas\<close>

lemma mset_insort_by [simp]: "mset (insort_by c x ys) = add_mset x (mset ys)"
  by (induction ys) auto

lemma mset_fold_insort_by: "mset (fold (insort_by c) xs acc) = mset xs + mset acc"
  by (induction xs arbitrary: acc) auto

lemma mset_js_sort_by [simp]: "mset (js_sort_by c xs) = mset xs"
  by (simp add: js_sort_by_def mset_fold_insort_by)

lemma set_js_sort_by [simp]: "set (js_sort_by c xs) = set xs"
  by (metis mset_js_sort_by set_mset_mset)

lemma length_js_sort_by [simp]: "length (js_sort_by c xs) = length xs"
  by (metis mset_js_sort_by size_mset)

lemma set_insort_by [simp]: "set (insort_by c x ys) = insert x (set ys)"
  by (metis mset_insort_by set_mset_add_mset_insert set_mset_mset)

lemma sorted_insort_by:
  assumes "orders_on A c k" and "x \<in> A" and "set ys \<subseteq> A" and "sorted (map k ys)"
  shows "sorted (map k (insort_by c x ys))"
  using assms(3,4)
proof (induction ys)
  case (Cons y ys)
  have "(c x y < 0) = (k x < k y)" using assms(1,2) Cons.prems(1) by (simp add: orders_on_def)
  with Cons show ?case by auto
qed simp

lemma filter_insort_by:
  assumes "orders_on A c k" and "x \<in> A" and "set ys \<subseteq> A" and "sorted (map k ys)"
  shows "filter (\<lambda>y. k y = v) (insort_by c x ys) =
           filter (\<lambda>y. k y = v) ys @ (if k x = v then [x] else [])"
  using assms(3,4)
proof (induction ys)
  case (Cons y ys)
  have xy: "(c x y < 0) = (k x < k y)" using assms(1,2) Cons.prems(1) by (simp add: orders_on_def)
  show ?case
  proof (cases "k x < k y")
    case True
    with Cons.prems have "\<forall>z \<in> set ys. k x < k z" by auto
    then have "filter (\<lambda>z. k z = k x) ys = []" by (auto simp: filter_empty_conv)
    with True xy show ?thesis by auto
  next
    case False
    with Cons xy show ?thesis by simp
  qed
qed simp

lemma fold_insort_by_props:
  assumes "orders_on A c k" and "set xs \<subseteq> A" and "set acc \<subseteq> A" and "sorted (map k acc)"
  shows "sorted (map k (fold (insort_by c) xs acc)) \<and>
         (\<forall>v. filter (\<lambda>y. k y = v) (fold (insort_by c) xs acc) =
              filter (\<lambda>y. k y = v) acc @ filter (\<lambda>y. k y = v) xs)"
  using assms(2-4)
proof (induction xs arbitrary: acc)
  case (Cons x xs)
  have x: "x \<in> A" and xs: "set xs \<subseteq> A" using Cons.prems(1) by auto
  have s: "sorted (map k (insort_by c x acc))"
    by (rule sorted_insort_by [OF assms(1) x Cons.prems(2,3)])
  have a: "set (insort_by c x acc) \<subseteq> A" using Cons.prems(2) x by simp
  from Cons.IH [OF xs a s] filter_insort_by [OF assms(1) x Cons.prems(2,3)] show ?case by auto
qed simp

text \<open>
  Equivalence with the library's stable sort: a comparator that orders the
  list's elements by a key sorts exactly as \<open>sort_key\<close> on that key.
\<close>

lemma js_sort_by_sort_key:
  assumes "orders_on (set xs) c k"
  shows "js_sort_by c xs = sort_key k xs"
proof -
  note p = fold_insort_by_props [OF assms order_refl, of "[]"]
  show ?thesis
    unfolding js_sort_by_def
  proof (rule properties_for_sort_key [symmetric])
    fix a
    have "filter (\<lambda>y. k y = k a) (fold (insort_by c) xs []) = filter (\<lambda>y. k y = k a) xs"
      using p by simp
    then show "filter (\<lambda>x. k a = k x) (fold (insort_by c) xs []) = filter (\<lambda>x. k a = k x) xs"
      by (simp add: eq_commute [of "k a"])
  qed (use p in \<open>simp_all add: mset_fold_insort_by\<close>)
qed

end
