(* ===== verification/JsText.thy ===== *)
theory JsText
  imports Complex_Main Json
begin

text \<open>
  The JavaScript conversions between numbers and text the client's pages use:
  \<open>s.charAt(0).toUpperCase() + s.slice(1)\<close>, \<open>parseInt(s)\<close>,
  \<open>x.toFixed(1)\<close> and \<open>n.toLocaleString()\<close> (in the \<open>en-US\<close> locale: groups
  of three digits separated by commas).  Numbers are exact here: \<open>toFixed\<close>
  receives the rational the page computes, where the browser receives the
  nearest double; the pages only format quotients of small counts.  Also
  \<open>String.prototype.trim\<close> and \<open>Array.prototype.join\<close> on strings.
\<close>

definition js_upper_char :: "char \<Rightarrow> char" where
  "js_upper_char c = (if CHR ''a'' \<le> c \<and> c \<le> CHR ''z'' then char_of (of_char c - 32 :: nat) else c)"

text \<open>\<open>s.charAt(0).toUpperCase() + s.slice(1)\<close>, for the ASCII words the pages capitalise.\<close>

definition js_capitalize :: "string \<Rightarrow> string" where
  "js_capitalize s = (case s of [] \<Rightarrow> [] | c # r \<Rightarrow> js_upper_char c # r)"

text \<open>
  \<open>parseInt(s)\<close> with no radix: leading white space, an optional sign, an
  optional \<open>0x\<close> prefix for hexadecimal, then the longest run of digits;
  \<open>NaN\<close> (here \<open>None\<close>) when there is none.
\<close>

definition hex_digits_val :: "string \<Rightarrow> nat" where
  "hex_digits_val ds = foldl (\<lambda>acc c. acc * 16 + the (hex_val c)) 0 ds"

definition js_parse_digits :: "string \<Rightarrow> nat option" where
  "js_parse_digits s =
     (if take 2 s = ''0x'' \<or> take 2 s = ''0X'' then
        (let ds = takeWhile (\<lambda>c. hex_val c \<noteq> None) (drop 2 s) in
         if ds = [] then None else Some (hex_digits_val ds))
      else
        (let ds = takeWhile is_digit s in
         if ds = [] then None else Some (digits_val ds 0)))"

definition js_parseInt :: "string \<Rightarrow> int option" where
  "js_parseInt s =
     (let t = skip_ws s in
      case t of
        CHR ''-'' # r \<Rightarrow> map_option (\<lambda>n. - int n) (js_parse_digits r)
      | CHR ''+'' # r \<Rightarrow> map_option int (js_parse_digits r)
      | _ \<Rightarrow> map_option int (js_parse_digits t))"

text \<open>
  \<open>x.toFixed(1)\<close>: the integer \<open>n\<close> nearest to \<open>10 x\<close>, the larger one on a tie,
  printed with one decimal; a negative \<open>x\<close> is printed as \<open>-\<close> and the
  digits of \<open>-x\<close> (so \<open>-0.04\<close> gives \<open>-0.0\<close>).
\<close>

definition fixed1_digits :: "rat \<Rightarrow> string" where
  "fixed1_digits x =
     (let n = nat \<lfloor>x * 10 + 1 / 2\<rfloor> in nat_digits (n div 10) @ CHR ''.'' # nat_digits (n mod 10))"

definition js_toFixed1 :: "rat \<Rightarrow> string" where
  "js_toFixed1 x = (if x < 0 then CHR ''-'' # fixed1_digits (- x) else fixed1_digits x)"

text \<open>\<open>n.toLocaleString()\<close> for an integer, in \<open>en-US\<close>.\<close>

function group3 :: "string \<Rightarrow> string" where
  "group3 ds =
     (if length ds \<le> 3 then ds
      else group3 (take (length ds - 3) ds) @ CHR '','' # drop (length ds - 3) ds)"
  by pat_completeness auto
termination
  by (relation "measure length") auto

declare group3.simps [simp del]

definition js_toLocaleString :: "int \<Rightarrow> string" where
  "js_toLocaleString i =
     (if i < 0 then CHR ''-'' # group3 (nat_digits (nat (- i))) else group3 (nat_digits (nat i)))"

text \<open>\<open>String.prototype.trim\<close>: white space and line terminators (in Latin-1) at both ends.\<close>

definition js_space :: "char \<Rightarrow> bool" where
  "js_space c \<longleftrightarrow> of_char c \<in> {9, 10, 11, 12, 13, 32, 160 :: nat}"

definition js_trim :: "string \<Rightarrow> string" where
  "js_trim s = rev (dropWhile js_space (rev (dropWhile js_space s)))"

text \<open>\<open>xs.join(sep)\<close> of strings.\<close>

fun js_join :: "string \<Rightarrow> string list \<Rightarrow> string" where
  "js_join sep [] = []"
| "js_join sep [x] = x"
| "js_join sep (x # xs) = x @ sep @ js_join sep xs"

subsection \<open>Lemmas\<close>

lemma js_capitalize_simps [simp]:
  "js_capitalize [] = []"
  "js_capitalize (c # r) = js_upper_char c # r"
  by (simp_all add: js_capitalize_def)

lemma nat_digits_small: "n < 10 \<Longrightarrow> nat_digits n = [char_of (48 + n)]"
  by (simp add: nat_digits.simps)

text \<open>Removing the separators gives back the digits.\<close>

lemma group3_filter: "filter (\<lambda>c. c \<noteq> CHR '','') (group3 ds) = filter (\<lambda>c. c \<noteq> CHR '','') ds"
proof (induction ds rule: group3.induct)
  case (1 ds)
  show ?case
  proof (cases "length ds \<le> 3")
    case True then show ?thesis by (simp add: group3.simps)
  next
    case False
    then have "group3 ds = group3 (take (length ds - 3) ds) @ CHR '','' # drop (length ds - 3) ds"
      by (simp add: group3.simps)
    moreover have "filter (\<lambda>c. c \<noteq> CHR '','') (group3 (take (length ds - 3) ds)) =
                   filter (\<lambda>c. c \<noteq> CHR '','') (take (length ds - 3) ds)"
      using 1 False by simp
    ultimately have "filter (\<lambda>c. c \<noteq> CHR '','') (group3 ds) =
                       filter (\<lambda>c. c \<noteq> CHR '','') (take (length ds - 3) ds) @
                       filter (\<lambda>c. c \<noteq> CHR '','') (drop (length ds - 3) ds)"
      by simp
    then show ?thesis by (simp flip: filter_append)
  qed
qed

end
