(* ===== verification/ProblemsPage.thy ===== *)
theory ProblemsPage
  imports ProblemsData JsArray JsText "HOL-Library.List_Lexorder"
begin

text \<open>
  The problem list, \<open>src/src/pages/ProblemsPage.tsx\<close>.  The component's state
  (six \<open>useState\<close> hooks) is a record; each handler is a function on it; the
  memoised values \<open>allTags\<close> and \<open>filteredProblems\<close> are functions of the
  state and of \<open>problems\<close>; the rendered page is a record of what it shows.
  \<open>localeCompare\<close>, which depends on the browser's collation tables, is a
  parameter \<open>coll\<close> (negative, zero or positive as \<open>a.localeCompare(b)\<close>).
\<close>

datatype diff_filter = Diff_all | Diff_is difficulty

datatype sort_field = Sort_id | Sort_title | Sort_acceptanceRate | Sort_difficulty

datatype sort_order = Asc | Desc

record problems_state =
  ps_searchQuery :: string
  ps_difficulty :: diff_filter
  ps_sortField :: sort_field
  ps_sortOrder :: sort_order
  ps_selectedTags :: "string list"
  ps_showFilters :: bool

definition problems_init :: problems_state where
  "problems_init =
     \<lparr>ps_searchQuery = [], ps_difficulty = Diff_all, ps_sortField = Sort_id, ps_sortOrder = Asc,
      ps_selectedTags = [], ps_showFilters = False\<rparr>"

definition difficulty_name :: "difficulty \<Rightarrow> string" where
  "difficulty_name d = (case d of Easy \<Rightarrow> ''easy'' | Medium \<Rightarrow> ''medium'' | Hard \<Rightarrow> ''hard'')"

text \<open>\<open>tagsSet.add(tag)\<close>: a \<open>Set\<close> keeps its first insertion order.\<close>

definition set_add :: "'a \<Rightarrow> 'a list \<Rightarrow> 'a list" where
  "set_add x s = (if x \<in> set s then s else s @ [x])"

text \<open>\<open>allTags\<close>: the tags of all problems, without repetition, sorted (\<open>sort()\<close>
  with no comparator compares the strings code unit by code unit).\<close>

definition allTags :: "problem list \<Rightarrow> string list" where
  "allTags ps = sort (fold (\<lambda>p s. fold set_add (p_tags p) s) ps [])"

definition toggleTag :: "string \<Rightarrow> problems_state \<Rightarrow> problems_state" where
  "toggleTag tag st =
     (if tag \<in> set (ps_selectedTags st)
      then st\<lparr>ps_selectedTags := filter (\<lambda>t. t \<noteq> tag) (ps_selectedTags st)\<rparr>
      else st\<lparr>ps_selectedTags := ps_selectedTags st @ [tag]\<rparr>)"

definition handleSort :: "sort_field \<Rightarrow> problems_state \<Rightarrow> problems_state" where
  "handleSort field st =
     (if ps_sortField st = field
      then st\<lparr>ps_sortOrder := (if ps_sortOrder st = Asc then Desc else Asc)\<rparr>
      else st\<lparr>ps_sortField := field, ps_sortOrder := Asc\<rparr>)"

text \<open>The filter callback of \<open>filteredProblems\<close>, early returns as in the source.\<close>

definition problem_visible :: "problems_state \<Rightarrow> problem \<Rightarrow> bool" where
  "problem_visible st p =
     (if ps_searchQuery st \<noteq> [] \<and> \<not> js_includes (js_lower (p_title p)) (js_lower (ps_searchQuery st)) then False
      else if ps_difficulty st \<noteq> Diff_all \<and> ps_difficulty st \<noteq> Diff_is (p_difficulty p) then False
      else if ps_selectedTags st \<noteq> [] \<and> \<not> list_ex (\<lambda>tag. tag \<in> set (p_tags p)) (ps_selectedTags st) then False
      else True)"

definition acceptance_rate :: "problem \<Rightarrow> rat" where
  "acceptance_rate p = of_int (p_acceptedCount p) / of_int (p_submissionCount p) * 100"

definition difficulty_rank :: "difficulty \<Rightarrow> int" where
  "difficulty_rank d = (case d of Easy \<Rightarrow> 1 | Medium \<Rightarrow> 2 | Hard \<Rightarrow> 3)"

text \<open>The comparator of \<open>filteredProblems\<close>; \<open>parseInt\<close> of a non-numeric id is \<open>NaN\<close>, and so is the difference.\<close>

definition problem_cmp :: "(string \<Rightarrow> string \<Rightarrow> int) \<Rightarrow> sort_field \<Rightarrow> sort_order \<Rightarrow> problem \<Rightarrow> problem \<Rightarrow> rat" where
  "problem_cmp coll field order a b =
     (let multiplier = (if order = Asc then 1 else -1) in
      case field of
        Sort_title \<Rightarrow> multiplier * of_int (coll (p_title a) (p_title b))
      | Sort_acceptanceRate \<Rightarrow> multiplier * (acceptance_rate a - acceptance_rate b)
      | Sort_difficulty \<Rightarrow> multiplier * of_int (difficulty_rank (p_difficulty a) - difficulty_rank (p_difficulty b))
      | Sort_id \<Rightarrow>
          (case (js_parseInt (p_id a), js_parseInt (p_id b)) of
             (Some x, Some y) \<Rightarrow> multiplier * of_int (x - y)
           | _ \<Rightarrow> 0))"

definition filteredProblems :: "(string \<Rightarrow> string \<Rightarrow> int) \<Rightarrow> problems_state \<Rightarrow> problem list" where
  "filteredProblems coll st =
     js_sort_by (problem_cmp coll (ps_sortField st) (ps_sortOrder st)) (filter (problem_visible st) problems)"

definition getDifficultyColor :: "string \<Rightarrow> string" where
  "getDifficultyColor d =
     (if d = ''easy'' then ''badge-easy'' else if d = ''medium'' then ''badge-medium''
      else if d = ''hard'' then ''badge-hard'' else [])"

definition getAcceptanceRate :: "int \<Rightarrow> int \<Rightarrow> string" where
  "getAcceptanceRate accepted submissions =
     (if submissions > 0 then js_toFixed1 (of_int accepted / of_int submissions * 100) else ''0.0'')"

text \<open>The page's events: the search box, the Filters button, a difficulty or tag button, a column header.\<close>

datatype problems_event =
    Search_changed string
  | Filters_clicked
  | Difficulty_clicked diff_filter
  | Tag_clicked string
  | Header_clicked sort_field

fun problems_step :: "problems_event \<Rightarrow> problems_state \<Rightarrow> problems_state" where
  "problems_step (Search_changed q) st = st\<lparr>ps_searchQuery := q\<rparr>"
| "problems_step Filters_clicked st = st\<lparr>ps_showFilters := \<not> ps_showFilters st\<rparr>"
| "problems_step (Difficulty_clicked d) st = st\<lparr>ps_difficulty := d\<rparr>"
| "problems_step (Tag_clicked t) st = toggleTag t st"
| "problems_step (Header_clicked f) st = handleSort f st"

text \<open>What a row of the table shows.\<close>

record problem_row =
  row_id :: string
  row_link :: string
  row_title :: string
  row_tags :: "string list"
  row_more_tags :: "string option"
  row_acceptance :: string
  row_difficulty :: string
  row_badge :: string

definition problem_row_of :: "problem \<Rightarrow> problem_row" where
  "problem_row_of p =
     \<lparr>row_id = p_id p, row_link = ''/problems/'' @ p_id p, row_title = p_title p,
      row_tags = take 3 (p_tags p),
      row_more_tags = (if 3 < length (p_tags p) then Some (''+'' @ nat_digits (length (p_tags p) - 3)) else None),
      row_acceptance = getAcceptanceRate (p_acceptedCount p) (p_submissionCount p) @ ''%'',
      row_difficulty = js_capitalize (difficulty_name (p_difficulty p)),
      row_badge = getDifficultyColor (difficulty_name (p_difficulty p))\<rparr>"

definition diff_filter_label :: "diff_filter \<Rightarrow> string" where
  "diff_filter_label d = js_capitalize (case d of Diff_all \<Rightarrow> ''all'' | Diff_is x \<Rightarrow> difficulty_name x)"

text \<open>
  The rendered page: the problem count of the header and of the footer, the
  filter panel when open (each difficulty and tag button with whether it is
  highlighted), the column that shows the sort arrow and its direction, the
  rows, and whether the \<open>No problems found\<close> row is shown instead.
\<close>

text \<open>
  The stats footer (lines 320 to 356): the size of the problem set, and
  the \<open>Solved\<close> and \<open>Attempted\<close> counts, written as the constant 0.
\<close>

definition problems_footer :: "(string \<times> string) list" where
  "problems_footer = [(''Total Problems'', int_text (int (length problems))), (''Solved'', ''0''), (''Attempted'', ''0'')]"

record problems_view =
  pv_count :: nat
  pv_filter_panel :: "((string \<times> bool) list \<times> (string \<times> bool) list) option"
  pv_sort_mark :: "sort_field \<times> sort_order"
  pv_rows :: "problem_row list"
  pv_no_results :: bool
  pv_footer :: "(string \<times> string) list"

definition problems_view :: "(string \<Rightarrow> string \<Rightarrow> int) \<Rightarrow> problems_state \<Rightarrow> problems_view" where
  "problems_view coll st =
     \<lparr>pv_count = length problems,
      pv_filter_panel =
        (if ps_showFilters st
         then Some (map (\<lambda>d. (diff_filter_label d, ps_difficulty st = d))
                        [Diff_all, Diff_is Easy, Diff_is Medium, Diff_is Hard],
                    map (\<lambda>t. (t, t \<in> set (ps_selectedTags st))) (allTags problems))
         else None),
      pv_sort_mark = (ps_sortField st, ps_sortOrder st),
      pv_rows = map problem_row_of (filteredProblems coll st),
      pv_no_results = (filteredProblems coll st = []),
      pv_footer = problems_footer\<rparr>"


text \<open>The key \<open>filteredProblems\<close> sorts by, for the columns other than the title.\<close>

definition problem_key :: "sort_field \<Rightarrow> sort_order \<Rightarrow> problem \<Rightarrow> rat" where
  "problem_key field order p =
     (let k = (case field of
                 Sort_acceptanceRate \<Rightarrow> acceptance_rate p
               | Sort_difficulty \<Rightarrow> of_int (difficulty_rank (p_difficulty p))
               | _ \<Rightarrow> of_int (the (js_parseInt (p_id p))))
      in if order = Asc then k else - k)"

subsection \<open>Lemmas\<close>

lemma problems_ids_parse: "list_all (\<lambda>p. js_parseInt (p_id p) \<noteq> None) problems"
  by (simp add: problems_unfold js_parseInt_def js_parse_digits_def skip_ws_def is_ws_def is_digit_def)

lemma problem_cmp_orders:
  assumes "field \<noteq> Sort_title"
  shows "orders_on (set problems) (problem_cmp coll field order) (problem_key field order)"
proof -
  have ids: "\<forall>p \<in> set problems. \<exists>n. js_parseInt (p_id p) = Some n"
    using problems_ids_parse by (auto simp: list_all_iff)
  show ?thesis
    unfolding orders_on_def
  proof (intro ballI)
    fix a b assume a: "a \<in> set problems" and b: "b \<in> set problems"
    obtain x y where x: "js_parseInt (p_id a) = Some x" and y: "js_parseInt (p_id b) = Some y"
      using ids a b by blast
    show "(problem_cmp coll field order a b < 0) = (problem_key field order a < problem_key field order b)"
      using assms x y by (cases field; cases order) (auto simp: problem_cmp_def problem_key_def Let_def algebra_simps)
  qed
qed

lemma fold_set_add:
  "distinct acc \<Longrightarrow> distinct (fold set_add xs acc) \<and> set (fold set_add xs acc) = set acc \<union> set xs"
  by (induction xs arbitrary: acc) (auto simp: set_add_def)

lemma fold_tags:
  "distinct acc \<Longrightarrow> distinct (fold (\<lambda>p s. fold set_add (p_tags p) s) ps acc) \<and>
     set (fold (\<lambda>p s. fold set_add (p_tags p) s) ps acc) = set acc \<union> (\<Union>p \<in> set ps. set (p_tags p))"
  by (induction ps arbitrary: acc) (auto simp: fold_set_add)

lemma problems_tags_inconsistent:
  "allTags problems =
     [''Array'', ''Arrays'', ''Binary Search'', ''Divide and Conquer'', ''Dynamic Programming'',
      ''Hash Table'', ''Linked List'', ''Recursion'', ''Sliding Window'', ''Stack'', ''String'',
      ''Strings'', ''Two Pointers'']"
  by (simp add: allTags_def problems_unfold set_add_def)

lemma fixed1_digits_bound:
  assumes "0 \<le> x" and "x \<le> 100"
  shows "\<exists>n \<le> 1000. fixed1_digits x = nat_digits (n div 10) @ CHR ''.'' # nat_digits (n mod 10)"
proof -
  have "\<lfloor>x * 10 + 1 / 2\<rfloor> \<le> 1000"
  proof -
    have "x * 10 + 1 / 2 < 1001" using assms(2) by linarith
    then show ?thesis by (simp add: floor_less_iff)
  qed
  then have "nat \<lfloor>x * 10 + 1 / 2\<rfloor> \<le> 1000" by linarith
  then show ?thesis by (auto simp: fixed1_digits_def Let_def)
qed

subsection \<open>Properties\<close>

text \<open>
  C37: sorting the visible problems by the id, acceptance or difficulty column
  gives exactly the library's stable sort by that column's key (negated for
  the descending order): ties keep the order of \<open>problems\<close>, and the
  descending order is not the reverse of the ascending one when keys tie.
\<close>

theorem filteredProblems_sort_key:
  assumes "ps_sortField st \<noteq> Sort_title"
  shows "filteredProblems coll st =
           sort_key (problem_key (ps_sortField st) (ps_sortOrder st)) (filter (problem_visible st) problems)"
  unfolding filteredProblems_def
  by (rule js_sort_by_sort_key) (use problem_cmp_orders [OF assms] in \<open>auto simp: orders_on_def\<close>)

theorem filteredProblems_sort_key_witness:
  "filteredProblems (\<lambda>a b. 0) (problems_init\<lparr>ps_sortField := Sort_acceptanceRate\<rparr>) =
     sort_key (problem_key Sort_acceptanceRate Asc) (filter (problem_visible (problems_init\<lparr>ps_sortField := Sort_acceptanceRate\<rparr>)) problems)"
  using filteredProblems_sort_key [of "problems_init\<lparr>ps_sortField := Sort_acceptanceRate\<rparr>" "\<lambda>a b. 0"]
  by (simp add: problems_init_def)

text \<open>
  Whatever the collation, the page as first shown lists the problems in the
  order of the data, which is the order of their ids.
\<close>

theorem problems_default_view:
  "pv_rows (problems_view coll problems_init) = map problem_row_of problems"
proof -
  have vis: "filter (problem_visible problems_init) problems = problems"
    by (simp add: problem_visible_def problems_init_def)
  have "filteredProblems coll problems_init = sort_key (problem_key Sort_id Asc) problems"
    unfolding filteredProblems_def vis
    by (rule js_sort_by_sort_key) (use problem_cmp_orders [of Sort_id coll Asc] in \<open>simp add: problems_init_def\<close>)
  also have "\<dots> = problems"
    by (rule sort_key_id_if_sorted)
       (simp add: problems_unfold problem_key_def js_parseInt_def js_parse_digits_def skip_ws_def is_ws_def is_digit_def)
  finally show ?thesis by (simp add: problems_view_def)
qed

text \<open>
  \<open>allTags\<close>, built with a \<open>Set\<close> and \<open>sort()\<close>, is the sorted list of the
  set of all tags.
\<close>

theorem allTags_sorted_list_of_set:
  "allTags ps = sorted_list_of_set (\<Union>p \<in> set ps. set (p_tags p))"
proof -
  let ?xs = "fold (\<lambda>p s. fold set_add (p_tags p) s) ps []"
  have d: "distinct ?xs" and s: "set ?xs = (\<Union>p \<in> set ps. set (p_tags p))" using fold_tags [of "[]" ps] by simp_all
  from d have "sorted_list_of_set (set ?xs) = sort ?xs" by (simp add: sorted_list_of_set_sort_remdups distinct_remdups_id)
  then show ?thesis by (simp add: allTags_def s)
qed

text \<open>
  Clicking a tag that is not selected and then clicking it again restores
  the state.
\<close>

theorem toggleTag_twice:
  assumes "t \<notin> set (ps_selectedTags st)"
  shows "toggleTag t (toggleTag t st) = st"
proof -
  have "filter (\<lambda>x. x \<noteq> t) (ps_selectedTags st) = ps_selectedTags st"
    using assms by (auto simp: filter_id_conv)
  with assms show ?thesis by (simp add: toggleTag_def)
qed

theorem toggleTag_twice_witness: "toggleTag ''Stack'' (toggleTag ''Stack'' problems_init) = problems_init"
  by (rule toggleTag_twice) (simp add: problems_init_def)

text \<open>No event of the page selects a tag twice.\<close>

theorem problems_step_distinct_tags:
  assumes "distinct (ps_selectedTags st)"
  shows "distinct (ps_selectedTags (problems_step ev st))"
  using assms by (cases ev) (auto simp: toggleTag_def handleSort_def)

theorem problems_step_distinct_tags_witness:
  "distinct (ps_selectedTags (problems_step (Tag_clicked ''Stack'') (toggleTag ''Array'' problems_init)))"
  by (rule problems_step_distinct_tags) (simp add: toggleTag_def problems_init_def)

text \<open>
  Clicking the same column header twice restores the sort order when the
  column was already the sort column, and otherwise leaves it sorted
  descending by that column.
\<close>

theorem handleSort_twice:
  "handleSort f (handleSort f st) =
     (if ps_sortField st = f then st else st\<lparr>ps_sortField := f, ps_sortOrder := Desc\<rparr>)"
  by (cases "ps_sortOrder st") (simp_all add: handleSort_def)

text \<open>
  The acceptance rate shown for counts \<open>0 \<le> accepted \<le> submissions\<close> is a
  decimal between \<open>0.0\<close> and \<open>100.0\<close> with one digit after the point.
\<close>

theorem getAcceptanceRate_bounds:
  assumes "0 \<le> a" and "a \<le> s"
  shows "\<exists>n \<le> 1000. getAcceptanceRate a s = nat_digits (n div 10) @ CHR ''.'' # nat_digits (n mod 10)"
proof (cases "0 < s")
  case True
  let ?x = "of_int a / of_int s * 100 :: rat"
  have "0 \<le> ?x" using assms True by simp
  moreover have "of_int a / of_int s \<le> (1 :: rat)" using assms True by (simp add: divide_le_eq_1)
  then have "?x \<le> 1 * 100" by (rule mult_right_mono) simp
  then have "?x \<le> 100" by simp
  ultimately show ?thesis
    using fixed1_digits_bound [of ?x] True by (simp add: getAcceptanceRate_def js_toFixed1_def)
next
  case False
  then have "getAcceptanceRate a s = nat_digits (0 div 10) @ CHR ''.'' # nat_digits (0 mod 10)"
    by (simp add: getAcceptanceRate_def nat_digits_small, code_simp)
  then show ?thesis by blast
qed

theorem getAcceptanceRate_bounds_witness:
  "\<exists>n \<le> 1000. getAcceptanceRate 1425 2314 = nat_digits (n div 10) @ CHR ''.'' # nat_digits (n mod 10)"
  by (rule getAcceptanceRate_bounds) simp_all

text \<open>
  The data tags two array problems \<open>Arrays\<close> and one \<open>Array\<close> (and
  strings \<open>String\<close> and \<open>Strings\<close>): selecting the tag \<open>Array\<close> lists only
  problem 6, not \<open>Two Sum\<close> or \<open>Maximum Subarray\<close>.
\<close>

theorem array_tag_filter:
  "map p_id (filteredProblems coll (problems_init\<lparr>ps_selectedTags := [''Array'']\<rparr>)) = [''6'']"
  by (simp add: filteredProblems_def js_sort_by_def problems_init_def problem_visible_def problems_unfold)

text \<open>
  For any collation and any state, the page lists each visible problem
  exactly once and nothing else: the sort only permutes the filtered list.
\<close>

theorem filteredProblems_mset:
  "mset (filteredProblems coll st) = mset (filter (problem_visible st) problems)"
  by (simp add: filteredProblems_def)

end
