(* ===== verification/LeaderboardData.thy ===== *)
theory LeaderboardData
  imports Prelude
begin

text \<open>
  The leaderboard of the client, \<open>src/src/utils/leaderboardData.ts\<close>: the
  interface \<open>LeaderboardEntry\<close> as a record and the fifteen entries of
  \<open>leaderboardData\<close> as the source lists them.
\<close>

record lb_entry =
  lb_rank :: int
  lb_username :: string
  lb_avatar :: string
  lb_score :: int
  lb_problemsSolved :: int
  lb_streakDays :: int
  lb_country :: string
  lb_countryCode :: string

definition leaderboardData :: "lb_entry list" where
  "leaderboardData =
     [\<lparr>lb_rank = 1, lb_username = ''codingmaster'', lb_avatar = ''https://i.pravatar.cc/150?img=1'', lb_score = 9845, lb_problemsSolved = 423, lb_streakDays = 87, lb_country = ''United States'', lb_countryCode = ''us''\<rparr>,
      \<lparr>lb_rank = 2, lb_username = ''algoexpert'', lb_avatar = ''https://i.pravatar.cc/150?img=2'', lb_score = 9721, lb_problemsSolved = 412, lb_streakDays = 65, lb_country = ''India'', lb_countryCode = ''in''\<rparr>,
      \<lparr>lb_rank = 3, lb_username = ''bytewizard'', lb_avatar = ''https://i.pravatar.cc/150?img=3'', lb_score = 9612, lb_problemsSolved = 405, lb_streakDays = 120, lb_country = ''China'', lb_countryCode = ''cn''\<rparr>,
      \<lparr>lb_rank = 4, lb_username = ''codeguru'', lb_avatar = ''https://i.pravatar.cc/150?img=4'', lb_score = 9584, lb_problemsSolved = 401, lb_streakDays = 93, lb_country = ''Russia'', lb_countryCode = ''ru''\<rparr>,
      \<lparr>lb_rank = 5, lb_username = ''devninja'', lb_avatar = ''https://i.pravatar.cc/150?img=5'', lb_score = 9423, lb_problemsSolved = 387, lb_streakDays = 71, lb_country = ''Germany'', lb_countryCode = ''de''\<rparr>,
      \<lparr>lb_rank = 6, lb_username = ''hackerpro'', lb_avatar = ''https://i.pravatar.cc/150?img=6'', lb_score = 9345, lb_problemsSolved = 378, lb_streakDays = 59, lb_country = ''United Kingdom'', lb_countryCode = ''gb''\<rparr>,
      \<lparr>lb_rank = 7, lb_username = ''codesmith'', lb_avatar = ''https://i.pravatar.cc/150?img=7'', lb_score = 9267, lb_problemsSolved = 371, lb_streakDays = 82, lb_country = ''Canada'', lb_countryCode = ''ca''\<rparr>,
      \<lparr>lb_rank = 8, lb_username = ''techgeek'', lb_avatar = ''https://i.pravatar.cc/150?img=8'', lb_score = 9201, lb_problemsSolved = 367, lb_streakDays = 45, lb_country = ''France'', lb_countryCode = ''fr''\<rparr>,
      \<lparr>lb_rank = 9, lb_username = ''codeartist'', lb_avatar = ''https://i.pravatar.cc/150?img=9'', lb_score = 9156, lb_problemsSolved = 362, lb_streakDays = 68, lb_country = ''Japan'', lb_countryCode = ''jp''\<rparr>,
      \<lparr>lb_rank = 10, lb_username = ''devmachine'', lb_avatar = ''https://i.pravatar.cc/150?img=10'', lb_score = 9078, lb_problemsSolved = 358, lb_streakDays = 77, lb_country = ''Brazil'', lb_countryCode = ''br''\<rparr>,
      \<lparr>lb_rank = 11, lb_username = ''algorithmace'', lb_avatar = ''https://i.pravatar.cc/150?img=11'', lb_score = 8967, lb_problemsSolved = 352, lb_streakDays = 63, lb_country = ''Australia'', lb_countryCode = ''au''\<rparr>,
      \<lparr>lb_rank = 12, lb_username = ''codehacker'', lb_avatar = ''https://i.pravatar.cc/150?img=12'', lb_score = 8892, lb_problemsSolved = 348, lb_streakDays = 51, lb_country = ''South Korea'', lb_countryCode = ''kr''\<rparr>,
      \<lparr>lb_rank = 13, lb_username = ''progwizard'', lb_avatar = ''https://i.pravatar.cc/150?img=13'', lb_score = 8814, lb_problemsSolved = 344, lb_streakDays = 43, lb_country = ''Spain'', lb_countryCode = ''es''\<rparr>,
      \<lparr>lb_rank = 14, lb_username = ''bytecoder'', lb_avatar = ''https://i.pravatar.cc/150?img=14'', lb_score = 8756, lb_problemsSolved = 339, lb_streakDays = 39, lb_country = ''Italy'', lb_countryCode = ''it''\<rparr>,
      \<lparr>lb_rank = 15, lb_username = ''devhero'', lb_avatar = ''https://i.pravatar.cc/150?img=15'', lb_score = 8691, lb_problemsSolved = 335, lb_streakDays = 58, lb_country = ''Netherlands'', lb_countryCode = ''nl''\<rparr>]"

end
