(* ===== verification/LeaderboardPage.thy ===== *)
theory LeaderboardPage
  imports LeaderboardData JsText
begin

text \<open>
  The leaderboard page, \<open>src/src/pages/LeaderboardPage.tsx\<close>: one piece of
  state (the search text), the filter \<open>filteredLeaderboard\<close>, the podium of
  the first three entries and the table of the filtered entries.
\<close>

definition filteredLeaderboard :: "string \<Rightarrow> lb_entry list" where
  "filteredLeaderboard searchQuery =
     filter (\<lambda>entry. js_includes (js_lower (lb_username entry)) (js_lower searchQuery) \<or>
                     js_includes (js_lower (lb_country entry)) (js_lower searchQuery))
       leaderboardData"

text \<open>
  The podium shows \<open>leaderboardData[1]\<close>, \<open>[0]\<close> and \<open>[2]\<close> (second, first,
  third) whatever the search; each shows the avatar, the name and
  \<open>{score} points\<close>.  Reading a field of an entry that does not exist throws
  while rendering: \<open>None\<close>.
\<close>

definition podium_entry :: "lb_entry \<Rightarrow> string \<times> string \<times> string" where
  "podium_entry e = (lb_avatar e, lb_username e, int_text (lb_score e) @ '' points'')"

definition podium :: "lb_entry list \<Rightarrow> (string \<times> string \<times> string) list option" where
  "podium d =
     (case (js_at d 1, js_at d 0, js_at d 2) of
        (Some second, Some first, Some third) \<Rightarrow> Some (map podium_entry [second, first, third])
      | _ \<Rightarrow> None)"

text \<open>What a row of the table shows.\<close>

datatype rank_badge = Gold | Silver | Bronze | Plain int

record lb_row =
  lr_highlight :: bool
  lr_badge :: rank_badge
  lr_avatar :: string
  lr_link :: string
  lr_username :: string
  lr_score :: string
  lr_solved :: string
  lr_country :: string
  lr_streak_width :: rat
  lr_streak_text :: string

definition lb_row_of :: "lb_entry \<Rightarrow> lb_row" where
  "lb_row_of e =
     \<lparr>lr_highlight = (lb_rank e \<le> 3),
      lr_badge = (if lb_rank e = 1 then Gold else if lb_rank e = 2 then Silver
                  else if lb_rank e = 3 then Bronze else Plain (lb_rank e)),
      lr_avatar = lb_avatar e,
      lr_link = ''/profile/'' @ lb_username e,
      lr_username = lb_username e,
      lr_score = js_toLocaleString (lb_score e),
      lr_solved = js_toLocaleString (lb_problemsSolved e),
      lr_country = lb_country e,
      lr_streak_width = min 100 (of_int (lb_streakDays e) / 120 * 100),
      lr_streak_text = int_text (lb_streakDays e) @ '' days''\<rparr>"

text \<open>The table: the rows, or the message \<open>No users found matching your search.\<close>\<close>

definition leaderboard_table :: "string \<Rightarrow> lb_row list + string" where
  "leaderboard_table q =
     (if filteredLeaderboard q \<noteq> [] then Inl (map lb_row_of (filteredLeaderboard q))
      else Inr ''No users found matching your search.'')"

text \<open>
  The page (lines 14 to 220): the search input's value, the podium, the
  table's head and its body.
\<close>

record lb_view =
  lv_search :: string
  lv_podium :: "(string \<times> string \<times> string) list option"
  lv_head :: "string list"
  lv_table :: "lb_row list + string"

definition leaderboard_page :: "string \<Rightarrow> lb_view" where
  "leaderboard_page q =
     \<lparr>lv_search = q, lv_podium = podium leaderboardData,
      lv_head = [''Rank'', ''User'', ''Score'', ''Problems Solved'', ''Country'', ''Streak''],
      lv_table = leaderboard_table q\<rparr>"

subsection \<open>Lemmas\<close>

text \<open>The data is in rank order, with scores strictly decreasing.\<close>

lemma leaderboard_ranked: "sorted_wrt (<) (map lb_rank leaderboardData) \<and> sorted_wrt (>) (map lb_score leaderboardData)"
  by (simp add: leaderboardData_def)

subsection \<open>Properties\<close>

text \<open>
  Whatever is searched, the table lists the matching users in rank order
  with strictly decreasing scores: the search only removes rows.
\<close>

theorem filteredLeaderboard_ranked:
  "sorted_wrt (<) (map lb_rank (filteredLeaderboard q)) \<and> sorted_wrt (>) (map lb_score (filteredLeaderboard q))"
  using leaderboard_ranked by (simp add: filteredLeaderboard_def sorted_wrt_map sorted_wrt_filter)

text \<open>
  The streak bar of a row is between 0\<open>%\<close> and 100\<open>%\<close> wide, and full
  exactly for a streak of 120 days or more.
\<close>

theorem streak_width_bounds:
  assumes "0 \<le> lb_streakDays e"
  shows "0 \<le> lr_streak_width (lb_row_of e) \<and> lr_streak_width (lb_row_of e) \<le> 100 \<and>
         (lr_streak_width (lb_row_of e) = 100 \<longleftrightarrow> 120 \<le> lb_streakDays e)"
  using assms by (auto simp: lb_row_of_def min_def)

theorem streak_width_bounds_witness:
  "0 \<le> lr_streak_width (lb_row_of (leaderboardData ! 2)) \<and> lr_streak_width (lb_row_of (leaderboardData ! 2)) \<le> 100 \<and>
   (lr_streak_width (lb_row_of (leaderboardData ! 2)) = 100 \<longleftrightarrow> 120 \<le> lb_streakDays (leaderboardData ! 2))"
  by (rule streak_width_bounds) (simp add: leaderboardData_def)

end
