(* ===== verification/AuthPages.thy ===== *)
theory AuthPages
  imports ClientAuth Validation
begin

text \<open>
  The sign-in and sign-up forms, \<open>src/src/pages/LoginPage.tsx\<close> and
  \<open>src/src/pages/RegisterPage.tsx\<close>: each page's state hooks as a record, its
  input handlers and \<open>handleSubmit\<close> as events on the pair of the form and
  the provider's state (theory ClientAuth), and what the form shows.  A
  submission first passes the browser's constraint validation of the
  inputs (\<open>required\<close>, \<open>type="email"\<close>, \<open>minLength\<close>): when a field is
  invalid the browser reports it and \<open>onSubmit\<close> never fires.  The values
  are the typed ones (a user edit, so \<open>minLength\<close> applies; the e-mail
  input's stripping of surrounding whitespace is not modelled), and lengths
  count characters.
\<close>

subsection \<open>The browser's validation\<close>

definition ascii_alnum :: "char \<Rightarrow> bool" where
  "ascii_alnum c \<longleftrightarrow>
     (CHR ''a'' \<le> c \<and> c \<le> CHR ''z'') \<or> (CHR ''A'' \<le> c \<and> c \<le> CHR ''Z'') \<or> (CHR ''0'' \<le> c \<and> c \<le> CHR ''9'')"

text \<open>
  A valid e-mail address of the HTML standard: a non-empty local part of
  letters, digits and \<open>.!#$%&'*+/=?^_`{|}~-\<close>, an \<open>@\<close>, and dot-separated
  labels of 1 to 63 letters, digits and hyphens that start and end with a
  letter or digit.
\<close>

definition email_local_ok :: "string \<Rightarrow> bool" where
  "email_local_ok l \<longleftrightarrow> l \<noteq> [] \<and> list_all (\<lambda>c. ascii_alnum c \<or> c \<in> set ''.!#$%&'*+/=?^_`{|}~-'') l"

definition email_label_ok :: "string \<Rightarrow> bool" where
  "email_label_ok l \<longleftrightarrow>
     l \<noteq> [] \<and> length l \<le> 63 \<and> ascii_alnum (hd l) \<and> ascii_alnum (last l) \<and>
     list_all (\<lambda>c. ascii_alnum c \<or> c = CHR ''-'') l"

definition html_valid_email :: "string \<Rightarrow> bool" where
  "html_valid_email s \<longleftrightarrow>
     (case js_split CHR ''@'' s of
        [l, d] \<Rightarrow> email_local_ok l \<and> list_all email_label_ok (js_split CHR ''.'' d)
      | _ \<Rightarrow> False)"

subsection \<open>Sign-in form\<close>

record login_form =
  lf_email :: string
  lf_password :: string
  lf_showPassword :: bool
  lf_error :: string
  lf_isLoading :: bool

definition login_form_init :: login_form where
  "login_form_init = \<lparr>lf_email = [], lf_password = [], lf_showPassword = False, lf_error = [], lf_isLoading = False\<rparr>"

text \<open>\<open>handleSubmit\<close>: an empty field stops with a message; otherwise \<open>login\<close> runs and a thrown \<open>Error\<close>'s message is shown.\<close>

definition loginPage_submit :: "login_form \<Rightarrow> auth_ctx \<Rightarrow> login_form \<times> auth_ctx" where
  "loginPage_submit f a =
     (if lf_email f = [] \<or> lf_password f = [] then (f\<lparr>lf_error := ''Please fill in all fields''\<rparr>, a)
      else
        (let f1 = f\<lparr>lf_error := [], lf_isLoading := True\<rparr>;
             (r, a') = auth_login (lf_email f1) (lf_password f1) a in
         (f1\<lparr>lf_error := (case r of Inl msg \<Rightarrow> msg | Inr _ \<Rightarrow> lf_error f1), lf_isLoading := False\<rparr>, a')))"

text \<open>
  The sign-in form's inputs (lines 66 to 89): the e-mail input is
  \<open>type="email"\<close> and \<open>required\<close>, the password input \<open>required\<close>.
\<close>

definition login_constraints :: "login_form \<Rightarrow> bool" where
  "login_constraints f \<longleftrightarrow> lf_email f \<noteq> [] \<and> html_valid_email (lf_email f) \<and> lf_password f \<noteq> []"

datatype login_event = SetEmail string | SetPassword string | ToggleShowPassword | SubmitLogin

fun loginPage_step :: "login_event \<Rightarrow> login_form \<times> auth_ctx \<Rightarrow> login_form \<times> auth_ctx" where
  "loginPage_step (SetEmail v) (f, a) = (f\<lparr>lf_email := v\<rparr>, a)"
| "loginPage_step (SetPassword v) (f, a) = (f\<lparr>lf_password := v\<rparr>, a)"
| "loginPage_step ToggleShowPassword (f, a) = (f\<lparr>lf_showPassword := \<not> lf_showPassword f\<rparr>, a)"
| "loginPage_step SubmitLogin (f, a) = (if login_constraints f then loginPage_submit f a else (f, a))"

text \<open>What the card shows: the error box, the password field's type, the button.\<close>

record form_view =
  fv_error_box :: "string option"
  fv_password_type :: string
  fv_button_disabled :: bool
  fv_button_label :: string

definition loginPage_view :: "login_form \<Rightarrow> form_view" where
  "loginPage_view f =
     \<lparr>fv_error_box = (if lf_error f \<noteq> [] then Some (lf_error f) else None),
      fv_password_type = (if lf_showPassword f then ''text'' else ''password''),
      fv_button_disabled = lf_isLoading f,
      fv_button_label = (if lf_isLoading f then ''Signing in...'' else ''Sign in'')\<rparr>"

text \<open>
  Around the card (lines 37 to 48 and 143 to 148): logo, title and
  subtitle.  The router links of the page: \<open>Forgot password?\<close> inside the
  form (lines 116 to 121) and \<open>Create one now\<close> below the card.
\<close>

definition loginPage_heading :: "string \<times> string \<times> string" where
  "loginPage_heading = (''Code Hustle'', ''Welcome back'', ''Sign in to continue your coding journey'')"

definition loginPage_forgot_link :: "string \<times> string" where
  "loginPage_forgot_link = (''Forgot password?'', ''/auth/forgot-password'')"

definition loginPage_links :: "(string \<times> string) list" where
  "loginPage_links = [loginPage_forgot_link, (''Create one now'', ''/auth/register'')]"

subsection \<open>Sign-up form\<close>

record register_form =
  rf_username :: string
  rf_email :: string
  rf_password :: string
  rf_confirmPassword :: string
  rf_showPassword :: bool
  rf_showConfirmPassword :: bool
  rf_error :: string
  rf_isLoading :: bool
  rf_termsChecked :: bool

definition register_form_init :: register_form where
  "register_form_init =
     \<lparr>rf_username = [], rf_email = [], rf_password = [], rf_confirmPassword = [],
      rf_showPassword = False, rf_showConfirmPassword = False, rf_error = [], rf_isLoading = False,
      rf_termsChecked = False\<rparr>"

text \<open>\<open>handleSubmit\<close>: the three checks in the source's order, then \<open>register\<close>.\<close>

definition registerPage_submit :: "register_form \<Rightarrow> auth_ctx \<Rightarrow> register_form \<times> auth_ctx" where
  "registerPage_submit f a =
     (if rf_username f = [] \<or> rf_email f = [] \<or> rf_password f = [] \<or> rf_confirmPassword f = []
      then (f\<lparr>rf_error := ''Please fill in all fields''\<rparr>, a)
      else if rf_password f \<noteq> rf_confirmPassword f then (f\<lparr>rf_error := ''Passwords do not match''\<rparr>, a)
      else if length (rf_password f) < 8 then (f\<lparr>rf_error := ''Password must be at least 8 characters long''\<rparr>, a)
      else
        (let f1 = f\<lparr>rf_error := [], rf_isLoading := True\<rparr>;
             (r, a') = auth_register (rf_username f1) (rf_email f1) (rf_password f1) a in
         (f1\<lparr>rf_error := (case r of Inl msg \<Rightarrow> msg | Inr _ \<Rightarrow> rf_error f1), rf_isLoading := False\<rparr>, a')))"

text \<open>
  The sign-up form's inputs (lines 79 to 170): all \<open>required\<close>, the
  e-mail input \<open>type="email"\<close>, the password \<open>minLength={8}\<close>, and the
  consent checkbox \<open>required\<close>.  The checkbox has no React state: its
  checked flag is the DOM's, kept in \<open>rf_termsChecked\<close>.
\<close>

definition register_constraints :: "register_form \<Rightarrow> bool" where
  "register_constraints f \<longleftrightarrow>
     rf_username f \<noteq> [] \<and> rf_email f \<noteq> [] \<and> html_valid_email (rf_email f) \<and>
     rf_password f \<noteq> [] \<and> 8 \<le> length (rf_password f) \<and> rf_confirmPassword f \<noteq> [] \<and> rf_termsChecked f"

datatype register_event =
    SetUsername string | SetRegEmail string | SetRegPassword string | SetConfirmPassword string
  | ToggleShowRegPassword | ToggleShowConfirmPassword | ToggleTerms | SubmitRegister

fun registerPage_step :: "register_event \<Rightarrow> register_form \<times> auth_ctx \<Rightarrow> register_form \<times> auth_ctx" where
  "registerPage_step (SetUsername v) (f, a) = (f\<lparr>rf_username := v\<rparr>, a)"
| "registerPage_step (SetRegEmail v) (f, a) = (f\<lparr>rf_email := v\<rparr>, a)"
| "registerPage_step (SetRegPassword v) (f, a) = (f\<lparr>rf_password := v\<rparr>, a)"
| "registerPage_step (SetConfirmPassword v) (f, a) = (f\<lparr>rf_confirmPassword := v\<rparr>, a)"
| "registerPage_step ToggleShowRegPassword (f, a) = (f\<lparr>rf_showPassword := \<not> rf_showPassword f\<rparr>, a)"
| "registerPage_step ToggleShowConfirmPassword (f, a) = (f\<lparr>rf_showConfirmPassword := \<not> rf_showConfirmPassword f\<rparr>, a)"
| "registerPage_step ToggleTerms (f, a) = (f\<lparr>rf_termsChecked := \<not> rf_termsChecked f\<rparr>, a)"
| "registerPage_step SubmitRegister (f, a) = (if register_constraints f then registerPage_submit f a else (f, a))"

definition registerPage_view :: "register_form \<Rightarrow> form_view \<times> string" where
  "registerPage_view f =
     (\<lparr>fv_error_box = (if rf_error f \<noteq> [] then Some (rf_error f) else None),
       fv_password_type = (if rf_showPassword f then ''text'' else ''password''),
       fv_button_disabled = rf_isLoading f,
       fv_button_label = (if rf_isLoading f then ''Creating account...'' else ''Create account'')\<rparr>,
      if rf_showConfirmPassword f then ''text'' else ''password'')"

text \<open>
  Around the card (lines 50 to 63 and 202 to 207), and the router links:
  \<open>Terms of Service\<close> and \<open>Privacy Policy\<close> in the consent line (lines 172
  to 181), \<open>Sign in instead\<close> below the card.
\<close>

definition registerPage_heading :: "string \<times> string \<times> string" where
  "registerPage_heading = (''Code Hustle'', ''Create your account'', ''Join the community of competitive programmers'')"

definition registerPage_consent_links :: "(string \<times> string) list" where
  "registerPage_consent_links = [(''Terms of Service'', ''/terms''), (''Privacy Policy'', ''/privacy'')]"

definition registerPage_links :: "(string \<times> string) list" where
  "registerPage_links = registerPage_consent_links @ [(''Sign in instead'', ''/auth/login'')]"

subsection \<open>Lemmas\<close>

lemma loginPage_submit_filled:
  "lf_email f \<noteq> [] \<Longrightarrow> lf_password f \<noteq> [] \<Longrightarrow>
     loginPage_submit f a =
       (f\<lparr>lf_error := [], lf_isLoading := False\<rparr>,
        a\<lparr>ac_storage := Some mock_token, ac_user := JObj mock_payload, ac_path := ''/problems'',
          ac_isLoading := False\<rparr>)"
  by (simp add: loginPage_submit_def auth_login_result)

lemma registerPage_submit_cases:
  "registerPage_submit f a = (f', a') \<Longrightarrow>
     a' = a \<or>
     (rf_username f \<noteq> [] \<and> rf_email f \<noteq> [] \<and> rf_password f = rf_confirmPassword f \<and>
      8 \<le> length (rf_password f) \<and> rf_error f' = [] \<and>
      a' = a\<lparr>ac_storage := Some mock_token, ac_user := JObj mock_payload, ac_path := ''/problems'',
             ac_isLoading := False\<rparr>)"
  by (auto simp: registerPage_submit_def auth_register_result split: if_splits)

lemma html_valid_email_nonempty: "html_valid_email s \<Longrightarrow> s \<noteq> []"
  by (auto simp: html_valid_email_def)

subsection \<open>Properties\<close>

text \<open>
  The sign-in form signs in with any non-empty e-mail and password: no
  error is shown and the session holds the fixed token and the fixed user
  \<open>johndoe\<close>, whoever typed what.
\<close>

theorem loginPage_any_credentials:
  assumes "lf_email f \<noteq> []" and "lf_password f \<noteq> []"
  shows "fst (loginPage_submit f a) = f\<lparr>lf_error := [], lf_isLoading := False\<rparr> \<and>
         ac_user (snd (loginPage_submit f a)) = JObj mock_payload \<and>
         ac_storage (snd (loginPage_submit f a)) = Some mock_token \<and>
         ac_path (snd (loginPage_submit f a)) = ''/problems''"
  using assms by (simp add: loginPage_submit_filled)

theorem loginPage_any_credentials_witness:
  "fst (loginPage_submit (login_form_init\<lparr>lf_email := ''eve@x.io'', lf_password := ''wrong''\<rparr>) (checkAuth (auth_init None ''/auth/login''))) =
     login_form_init\<lparr>lf_email := ''eve@x.io'', lf_password := ''wrong'', lf_error := [], lf_isLoading := False\<rparr> \<and>
   ac_user (snd (loginPage_submit (login_form_init\<lparr>lf_email := ''eve@x.io'', lf_password := ''wrong''\<rparr>) (checkAuth (auth_init None ''/auth/login'')))) = JObj mock_payload \<and>
   ac_storage (snd (loginPage_submit (login_form_init\<lparr>lf_email := ''eve@x.io'', lf_password := ''wrong''\<rparr>) (checkAuth (auth_init None ''/auth/login'')))) = Some mock_token \<and>
   ac_path (snd (loginPage_submit (login_form_init\<lparr>lf_email := ''eve@x.io'', lf_password := ''wrong''\<rparr>) (checkAuth (auth_init None ''/auth/login'')))) = ''/problems''"
  using loginPage_any_credentials [of "login_form_init\<lparr>lf_email := ''eve@x.io'', lf_password := ''wrong''\<rparr>"
      "checkAuth (auth_init None ''/auth/login'')"]
  by (simp add: login_form_init_def)

text \<open>
  C32: the sign-up page signs a signed-out visitor in only when the browser
  let the form through and \<open>handleSubmit\<close>'s checks passed: every field
  filled, a valid e-mail address, a password of at least eight characters
  equal to its confirmation, the consent box ticked; the user is then the
  fixed \<open>johndoe\<close>, not the name typed.
\<close>

theorem registerPage_signin_guard:
  assumes "\<not> isAuthenticated a" and "isAuthenticated (snd (registerPage_step SubmitRegister (f, a)))"
  shows "rf_username f \<noteq> [] \<and> html_valid_email (rf_email f) \<and> rf_password f = rf_confirmPassword f \<and>
         8 \<le> length (rf_password f) \<and> rf_termsChecked f \<and>
         ac_user (snd (registerPage_step SubmitRegister (f, a))) = JObj mock_payload"
proof (cases "register_constraints f")
  case True
  obtain f' a' where r: "registerPage_submit f a = (f', a')" by (cases "registerPage_submit f a")
  with assms True have "a' \<noteq> a" by auto
  with registerPage_submit_cases [OF r] r True show ?thesis by (auto simp: register_constraints_def)
next
  case False
  with assms show ?thesis by simp
qed

theorem registerPage_signin_guard_witness:
  "rf_username (register_form_init\<lparr>rf_username := ''ab'', rf_email := ''e@x.io'', rf_password := ''12345678'', rf_confirmPassword := ''12345678'', rf_termsChecked := True\<rparr>) \<noteq> [] \<and>
   html_valid_email (rf_email (register_form_init\<lparr>rf_username := ''ab'', rf_email := ''e@x.io'', rf_password := ''12345678'', rf_confirmPassword := ''12345678'', rf_termsChecked := True\<rparr>)) \<and>
   rf_password (register_form_init\<lparr>rf_username := ''ab'', rf_email := ''e@x.io'', rf_password := ''12345678'', rf_confirmPassword := ''12345678'', rf_termsChecked := True\<rparr>) =
     rf_confirmPassword (register_form_init\<lparr>rf_username := ''ab'', rf_email := ''e@x.io'', rf_password := ''12345678'', rf_confirmPassword := ''12345678'', rf_termsChecked := True\<rparr>) \<and>
   8 \<le> length (rf_password (register_form_init\<lparr>rf_username := ''ab'', rf_email := ''e@x.io'', rf_password := ''12345678'', rf_confirmPassword := ''12345678'', rf_termsChecked := True\<rparr>)) \<and>
   rf_termsChecked (register_form_init\<lparr>rf_username := ''ab'', rf_email := ''e@x.io'', rf_password := ''12345678'', rf_confirmPassword := ''12345678'', rf_termsChecked := True\<rparr>) \<and>
   ac_user (snd (registerPage_step SubmitRegister (register_form_init\<lparr>rf_username := ''ab'', rf_email := ''e@x.io'', rf_password := ''12345678'', rf_confirmPassword := ''12345678'', rf_termsChecked := True\<rparr>, checkAuth (auth_init None ''/'')))) = JObj mock_payload"
proof -
  have v: "html_valid_email ''e@x.io''" by code_simp
  show ?thesis
    by (rule registerPage_signin_guard)
      (simp_all add: v registerPage_submit_def register_form_init_def register_constraints_def auth_register_result
                     isAuthenticated_def js_truthy_def checkAuth_def auth_init_def)
qed

end
