(* ===== verification/AIAssistant.thy ===== *)
theory AIAssistant
  imports JsText
begin

text \<open>
  The assistant panel, \<open>src/src/components/features/AIAssistant.tsx\<close>: a mock
  with canned answers and no service behind it.  The state is the
  component's four hooks plus the pending \<open>setTimeout\<close> callbacks, each with
  the input it captured; time is the millisecond clock \<open>Date.now()\<close>, passed
  to the events that read it.  The answer and its category are chosen by
  keyword (\<open>generateAIResponse\<close>, \<open>detectCategory\<close>).  The UI disables the
  input and the send button while an answer is pending, so a send happens
  only when the panel is not loading; the model's event function keeps that
  guard.  \<open>toLocaleTimeString\<close> (locale-dependent) is not modelled: a
  message keeps its time stamp as a number.
\<close>

subsection \<open>Messages\<close>

datatype msg_type = UserMsg | AIMsg

datatype msg_category = Hint | Optimization | Explanation | Debug

record message =
  msg_id :: string
  msg_type :: msg_type
  msg_content :: string
  msg_timestamp :: nat
  msg_category :: "msg_category option"

definition category_name :: "msg_category \<Rightarrow> string" where
  "category_name c = (case c of Hint \<Rightarrow> ''hint'' | Optimization \<Rightarrow> ''optimization''
                                | Explanation \<Rightarrow> ''explanation'' | Debug \<Rightarrow> ''debug'')"

definition welcome_text :: string where
  "welcome_text = ''Hi! I'' @ [CHR 0x27] @ ''m your AI coding assistant. I can help you with hints, code optimization, debugging, and explanations. What would you like to work on?''"

definition hint_text :: string where
  "hint_text = ''Here'' @ [CHR 0x27] @ ''s a hint: Try thinking about this problem step by step. Consider what data structure would be most efficient for the operations you need to perform. Would a hash map help you achieve O(1) lookups?''"

definition optimize_text :: string where
  "optimize_text = ''I notice your current approach has O(n'' @ [CHR 0xB2] @ '') time complexity. You could optimize this to O(n) by using a hash map to store previously seen values. This would eliminate the need for the nested loop.''"

definition debug_text :: string where
  "debug_text = ''I can see a potential issue in your code. Check your loop boundaries - you might be accessing an array index that'' @ [CHR 0x27] @ ''s out of bounds. Also, make sure you'' @ [CHR 0x27] @ ''re handling edge cases like empty inputs.''"

definition explain_text :: string where
  "explain_text = ''This problem can be solved using the two-pointer technique. The idea is to use two pointers starting from opposite ends of the array and move them towards each other based on certain conditions. This approach is efficient and elegant for many array problems.''"

definition default_text :: string where
  "default_text = ''I understand you'' @ [CHR 0x27] @ ''re working on this problem. Could you be more specific about what you'' @ [CHR 0x27] @ ''d like help with? I can provide hints, help with debugging, explain algorithms, or suggest optimizations.''"

text \<open>\<open>generateAIResponse\<close>: the first keyword group found in the lower-cased input; the code is unused.\<close>

definition generateAIResponse :: "string \<Rightarrow> string \<Rightarrow> string" where
  "generateAIResponse userInput code =
     (let input = js_lower userInput in
      if js_includes input ''hint'' \<or> js_includes input ''help'' then hint_text
      else if js_includes input ''optimize'' \<or> js_includes input ''performance'' then optimize_text
      else if js_includes input ''debug'' \<or> js_includes input ''error'' then debug_text
      else if js_includes input ''explain'' \<or> js_includes input ''algorithm'' then explain_text
      else default_text)"

definition detectCategory :: "string \<Rightarrow> msg_category" where
  "detectCategory input =
     (let inputLower = js_lower input in
      if js_includes inputLower ''hint'' then Hint
      else if js_includes inputLower ''optimize'' \<or> js_includes inputLower ''performance'' then Optimization
      else if js_includes inputLower ''debug'' \<or> js_includes inputLower ''error'' then Debug
      else Explanation)"

subsection \<open>State and events\<close>

record ai_state =
  ai_messages :: "message list"
  ai_inputValue :: string
  ai_isLoading :: bool
  ai_isMinimized :: bool
  ai_timers :: "(nat \<times> string) list"

definition ai_init :: "nat \<Rightarrow> ai_state" where
  "ai_init now =
     \<lparr>ai_messages = [\<lparr>msg_id = ''1'', msg_type = AIMsg, msg_content = welcome_text, msg_timestamp = now,
                      msg_category = Some Explanation\<rparr>],
      ai_inputValue = [], ai_isLoading = False, ai_isMinimized = False, ai_timers = []\<rparr>"

text \<open>
  \<open>handleSendMessage\<close>: a blank input does nothing; otherwise the user's
  message (id \<open>Date.now().toString()\<close>) is appended, the input cleared, and a
  callback due 1500 ms later is scheduled with the input of this render.
\<close>

definition handleSendMessage :: "nat \<Rightarrow> ai_state \<Rightarrow> ai_state" where
  "handleSendMessage now s =
     (if js_trim (ai_inputValue s) = [] then s
      else
        s\<lparr>ai_messages := ai_messages s @
             [\<lparr>msg_id = int_text (int now), msg_type = UserMsg, msg_content = ai_inputValue s,
               msg_timestamp = now, msg_category = None\<rparr>],
          ai_inputValue := [], ai_isLoading := True,
          ai_timers := ai_timers s @ [(now + 1500, ai_inputValue s)]\<rparr>)"

text \<open>The callback: the answer (id \<open>(Date.now() + 1).toString()\<close>) is appended and loading ends.\<close>

definition ai_respond :: "string \<Rightarrow> nat \<Rightarrow> string \<Rightarrow> ai_state \<Rightarrow> ai_state" where
  "ai_respond currentCode now input s =
     s\<lparr>ai_messages := ai_messages s @
          [\<lparr>msg_id = int_text (int (now + 1)), msg_type = AIMsg,
            msg_content = generateAIResponse input currentCode, msg_timestamp = now,
            msg_category = Some (detectCategory input)\<rparr>],
       ai_isLoading := False\<rparr>"

definition quickActions :: "(string \<times> string) list" where
  "quickActions =
     [(''Give me a hint'', ''Can you give me a hint for this problem?''),
      (''Optimize my code'', ''How can I optimize my current code?''),
      (''Debug help'', ''Help me debug this code''),
      (''Explain algorithm'', ''Explain the best algorithm for this problem'')]"

datatype ai_event =
    SetInput string | QuickAction nat | Send nat | TimerFires nat | ToggleMinimize

text \<open>
  The events: typing, a quick-action button (it only fills the input), a
  send (button or Enter; ignored while loading, as the disabled controls
  are), the first pending callback firing once its time has come, and the
  minimise button.
\<close>

fun ai_step :: "string \<Rightarrow> ai_event \<Rightarrow> ai_state \<Rightarrow> ai_state" where
  "ai_step code (SetInput v) s = (if ai_isLoading s then s else s\<lparr>ai_inputValue := v\<rparr>)"
| "ai_step code (QuickAction i) s =
     (case js_at quickActions i of None \<Rightarrow> s | Some (label, text) \<Rightarrow> s\<lparr>ai_inputValue := text\<rparr>)"
| "ai_step code (Send now) s = (if ai_isLoading s then s else handleSendMessage now s)"
| "ai_step code (TimerFires now) s =
     (case ai_timers s of
        [] \<Rightarrow> s
      | (due, input) # rest \<Rightarrow>
          if due \<le> now then ai_respond code now input (s\<lparr>ai_timers := rest\<rparr>) else s)"
| "ai_step code ToggleMinimize s = s\<lparr>ai_isMinimized := \<not> ai_isMinimized s\<rparr>"

subsection \<open>What the panel shows\<close>

text \<open>\<open>getCategoryIcon\<close> (lines 106 to 117): the icon and its colour; no category takes the default.\<close>

definition getCategoryIcon :: "msg_category option \<Rightarrow> string \<times> string" where
  "getCategoryIcon c =
     (case c of Some Hint \<Rightarrow> (''Lightbulb'', ''text-warning-400'') | Some Optimization \<Rightarrow> (''Zap'', ''text-primary-400'')
              | Some Debug \<Rightarrow> (''Code'', ''text-error-400'') | _ \<Rightarrow> (''Bot'', ''text-success-400''))"

text \<open>A message bubble: right-aligned for the user, and for an answer its category icon and label.\<close>

record msg_row =
  mr_right :: bool
  mr_label :: "((string \<times> string) \<times> string) option"
  mr_content :: string

definition msg_row_of :: "message \<Rightarrow> msg_row" where
  "msg_row_of m =
     \<lparr>mr_right = (msg_type m = UserMsg),
      mr_label = (if msg_type m = AIMsg
                  then Some (getCategoryIcon (msg_category m),
                             case msg_category m of Some c \<Rightarrow> category_name c | None \<Rightarrow> ''assistant'')
                  else None),
      mr_content = msg_content m\<rparr>"

record ai_view =
  av_rows :: "msg_row list option"
  av_thinking :: bool
  av_input_disabled :: bool
  av_send_disabled :: bool

definition ai_panel :: "bool \<Rightarrow> ai_state \<Rightarrow> ai_view option" where
  "ai_panel isOpen s =
     (if \<not> isOpen then None
      else Some
        \<lparr>av_rows = (if ai_isMinimized s then None else Some (map msg_row_of (ai_messages s))),
         av_thinking = (\<not> ai_isMinimized s \<and> ai_isLoading s),
         av_input_disabled = ai_isLoading s,
         av_send_disabled = (js_trim (ai_inputValue s) = [] \<or> ai_isLoading s)\<rparr>)"

subsection \<open>Sessions of the panel\<close>

inductive ai_reach :: "string \<Rightarrow> ai_state \<Rightarrow> bool" for code where
  init: "ai_reach code (ai_init now)"
| step: "ai_reach code s \<Longrightarrow> ai_reach code (ai_step code ev s)"

text \<open>
  After the welcome message, the conversation is a sequence of questions
  each followed by the answer to it (its canned text and category).
\<close>

fun answered :: "string \<Rightarrow> message list \<Rightarrow> bool" where
  "answered code [] \<longleftrightarrow> True"
| "answered code [q] \<longleftrightarrow> msg_type q = UserMsg"
| "answered code (q # a # rest) \<longleftrightarrow>
     msg_type q = UserMsg \<and> msg_type a = AIMsg \<and>
     msg_content a = generateAIResponse (msg_content q) code \<and>
     msg_category a = Some (detectCategory (msg_content q)) \<and> answered code rest"

text \<open>
  The panel's invariant: the welcome message, then answered questions; it is
  loading exactly when the last question is still unanswered, and then one
  callback is pending, holding that question.
\<close>

definition ai_wf :: "string \<Rightarrow> ai_state \<Rightarrow> bool" where
  "ai_wf code s \<longleftrightarrow>
     (case ai_messages s of
        [] \<Rightarrow> False
      | w # rest \<Rightarrow>
          msg_type w = AIMsg \<and> answered code rest \<and> (ai_isLoading s \<longleftrightarrow> odd (length rest)) \<and>
          (case ai_timers s of
             [] \<Rightarrow> even (length rest)
           | [(due, input)] \<Rightarrow> odd (length rest) \<and> input = msg_content (last rest)
           | _ \<Rightarrow> False))"

subsection \<open>Lemmas\<close>

lemma answered_snoc:
  "answered code (xs @ [m]) \<longleftrightarrow>
     answered code xs \<and>
     (if even (length xs) then msg_type m = UserMsg
      else msg_type m = AIMsg \<and> msg_content m = generateAIResponse (msg_content (last xs)) code \<and>
           msg_category m = Some (detectCategory (msg_content (last xs))))"
  by (induction code xs rule: answered.induct) auto

lemma ai_init_wf: "ai_wf code (ai_init now)"
  by (simp add: ai_wf_def ai_init_def)

lemma ai_wf_idle:
  assumes "ai_wf code s" and "\<not> ai_isLoading s"
  obtains w rest where "ai_messages s = w # rest" "msg_type w = AIMsg" "answered code rest"
    "even (length rest)" "ai_timers s = []"
proof (cases "ai_messages s")
  case (Cons w rest)
  with assms have "msg_type w = AIMsg" "answered code rest" "even (length rest)"
    by (simp_all add: ai_wf_def)
  moreover have "ai_timers s = []"
    using assms Cons \<open>even (length rest)\<close>
    by (cases "ai_timers s" rule: remdups_adj.cases) (auto simp: ai_wf_def)
  ultimately show ?thesis using Cons that by blast
qed (use assms in \<open>simp add: ai_wf_def\<close>)

lemma ai_wf_pending:
  assumes "ai_wf code s" and "ai_timers s = (due, input) # rest"
  obtains w qs where "ai_messages s = w # qs" "msg_type w = AIMsg" "answered code qs"
    "odd (length qs)" "rest = []" "input = msg_content (last qs)"
proof (cases "ai_messages s")
  case (Cons w qs)
  have "rest = []" using assms Cons by (cases rest) (auto simp: ai_wf_def)
  moreover have "msg_type w = AIMsg" "answered code qs" "odd (length qs)" "input = msg_content (last qs)"
    using assms Cons \<open>rest = []\<close> by (simp_all add: ai_wf_def)
  ultimately show ?thesis using Cons that by blast
qed (use assms in \<open>simp add: ai_wf_def\<close>)

lemma handleSendMessage_wf:
  assumes "ai_wf code s" and "\<not> ai_isLoading s"
  shows "ai_wf code (handleSendMessage now s)"
proof -
  obtain w rest where "ai_messages s = w # rest" "msg_type w = AIMsg" "answered code rest"
      "even (length rest)" "ai_timers s = []"
    using assms by (rule ai_wf_idle)
  with assms show ?thesis by (simp add: ai_wf_def handleSendMessage_def answered_snoc)
qed

lemma ai_respond_wf:
  assumes "ai_wf code s" and "ai_timers s = (due, input) # rest"
  shows "ai_wf code (ai_respond code now input (s\<lparr>ai_timers := rest\<rparr>))"
proof -
  obtain w qs where m: "ai_messages s = w # qs" and "msg_type w = AIMsg" "answered code qs"
      "odd (length qs)" "rest = []" and i: "input = msg_content (last qs)"
    using assms by (rule ai_wf_pending)
  then show ?thesis unfolding ai_wf_def ai_respond_def by (simp add: answered_snoc)
qed

lemma ai_wf_ui_updates [simp]:
  "ai_wf code (s\<lparr>ai_inputValue := v\<rparr>) = ai_wf code s"
  "ai_wf code (s\<lparr>ai_isMinimized := b\<rparr>) = ai_wf code s"
  by (cases "ai_messages s"; cases "ai_timers s" rule: remdups_adj.cases; simp add: ai_wf_def)+

lemma ai_step_wf:
  assumes wf: "ai_wf code s"
  shows "ai_wf code (ai_step code ev s)"
proof (cases ev)
  case (TimerFires now)
  show ?thesis
  proof (cases "ai_timers s")
    case (Cons t rest)
    with wf TimerFires show ?thesis by (cases t) (simp add: ai_respond_wf)
  qed (use wf TimerFires in simp)
next
  case (Send now)
  with wf show ?thesis by (simp add: handleSendMessage_wf)
next
  case (QuickAction i)
  with wf show ?thesis by (simp split: option.split)
qed (use wf in simp_all)

text \<open>The answer does not depend on the editor's code, so neither does a step.\<close>

lemma ai_step_code: "ai_step c ev s = ai_step c' ev s"
  by (cases ev) (simp_all add: ai_respond_def generateAIResponse_def split: list.split prod.split)

subsection \<open>Properties\<close>

text \<open>
  C38: in every session of the panel, each question is followed by the
  canned answer to it and its category; the panel is loading exactly while
  the last question awaits its answer, with a single callback pending that
  holds that question.
\<close>

theorem ai_reach_wf:
  assumes "ai_reach code s"
  shows "ai_wf code s"
  using assms by induction (simp_all add: ai_init_wf ai_step_wf)

theorem ai_reach_wf_witness:
  "ai_wf ''x'' (ai_step ''x'' (TimerFires 2000) (ai_step ''x'' (Send 100) (ai_step ''x'' (QuickAction 0) (ai_init 0))))"
  by (rule ai_reach_wf) (intro ai_reach.intros)

text \<open>
  The category and the answer are chosen by different keyword lists: an
  input asking for help with debugging (the \<open>Debug help\<close> quick action) gets
  the hint text, labelled \<open>debug\<close>.
\<close>

theorem help_debug_mislabelled:
  assumes "js_includes (js_lower i) ''help''" and "\<not> js_includes (js_lower i) ''hint''"
    and "\<not> js_includes (js_lower i) ''optimize''" and "\<not> js_includes (js_lower i) ''performance''"
    and "js_includes (js_lower i) ''debug''"
  shows "generateAIResponse i code = hint_text \<and> detectCategory i = Debug"
  using assms by (simp add: generateAIResponse_def detectCategory_def Let_def)

theorem help_debug_mislabelled_witness:
  "generateAIResponse (snd (quickActions ! 2)) ''x'' = hint_text \<and> detectCategory (snd (quickActions ! 2)) = Debug"
  by (rule help_debug_mislabelled) (simp_all add: quickActions_def js_lower_def js_lower_char_def, code_simp+)

end
