(* ===== verification/ContestDashboard.thy ===== *)
theory ContestDashboard
  imports JsText
begin

text \<open>
  The contest dashboard, \<open>src/src/components/features/ContestDashboard.tsx\<close>:
  fixture contests whose start times are fixed relative to the moment the
  component mounts, a fixture leaderboard, the tab state, and the countdown
  text \<open>formatTimeRemaining\<close>.  Times are integers of milliseconds
  (\<open>Date.getTime()\<close>); \<open>Math.floor(a / b)\<close> is \<open>a div b\<close>, and JavaScript's
  \<open>a % b\<close> keeps the sign of \<open>a\<close> (\<open>js_rem\<close>).  A contest's status is part of
  the fixture and never changes.  \<open>toLocaleDateString\<close> is not modelled (the
  start time is kept as a number), nor the bullet character of the
  leaderboard line, which is outside Latin-1 (the line is its two numbers).
\<close>

datatype contest_type = Individual | Team

datatype contest_status = Upcoming | Live | Ended

datatype contest_difficulty = Beginner | Intermediate | Advanced

record contest =
  c_id :: string
  c_title :: string
  c_type :: contest_type
  c_status :: contest_status
  c_startTime :: int
  c_duration :: int
  c_participants :: int
  c_problems :: int
  c_difficulty :: contest_difficulty
  c_prize :: "string option"

record contest_entry =
  ce_rank :: int
  ce_username :: string
  ce_score :: int
  ce_solved :: int
  ce_penalty :: int
  ce_lastSubmission :: int

text \<open>The fixtures, for a mount at time \<open>t0\<close>.\<close>

definition contests :: "int \<Rightarrow> contest list" where
  "contests t0 =
     [\<lparr>c_id = ''1'', c_title = ''Weekly Challenge #47'', c_type = Individual, c_status = Live,
       c_startTime = t0 - 30 * 60 * 1000, c_duration = 120, c_participants = 1247, c_problems = 4,
       c_difficulty = Intermediate, c_prize = None\<rparr>,
      \<lparr>c_id = ''2'', c_title = ''Team Battle: Algorithms'', c_type = Team, c_status = Upcoming,
       c_startTime = t0 + 2 * 60 * 60 * 1000, c_duration = 180, c_participants = 89, c_problems = 6,
       c_difficulty = Advanced, c_prize = Some ''$500 Prize Pool''\<rparr>,
      \<lparr>c_id = ''3'', c_title = ''Beginner Bootcamp'', c_type = Individual, c_status = Upcoming,
       c_startTime = t0 + 24 * 60 * 60 * 1000, c_duration = 90, c_participants = 456, c_problems = 3,
       c_difficulty = Beginner, c_prize = None\<rparr>]"

definition contest_leaderboard :: "int \<Rightarrow> contest_entry list" where
  "contest_leaderboard t0 =
     [\<lparr>ce_rank = 1, ce_username = ''codingmaster'', ce_score = 3847, ce_solved = 4, ce_penalty = 23, ce_lastSubmission = t0\<rparr>,
      \<lparr>ce_rank = 2, ce_username = ''algoexpert'', ce_score = 3621, ce_solved = 4, ce_penalty = 45, ce_lastSubmission = t0\<rparr>,
      \<lparr>ce_rank = 3, ce_username = ''devninja'', ce_score = 3456, ce_solved = 3, ce_penalty = 12, ce_lastSubmission = t0\<rparr>,
      \<lparr>ce_rank = 4, ce_username = ''bytewizard'', ce_score = 3234, ce_solved = 3, ce_penalty = 34, ce_lastSubmission = t0\<rparr>,
      \<lparr>ce_rank = 5, ce_username = ''codegeek'', ce_score = 2987, ce_solved = 3, ce_penalty = 67, ce_lastSubmission = t0\<rparr>]"

definition getStatusColor :: "contest_status \<Rightarrow> string" where
  "getStatusColor st =
     (case st of
        Live \<Rightarrow> ''text-success-400 bg-success-900/30 border-success-800/50''
      | Upcoming \<Rightarrow> ''text-warning-400 bg-warning-900/30 border-warning-800/50''
      | Ended \<Rightarrow> ''text-gray-400 bg-gray-900/30 border-gray-800/50'')"

definition contest_difficulty_color :: "contest_difficulty \<Rightarrow> string" where
  "contest_difficulty_color d =
     (case d of Beginner \<Rightarrow> ''badge-easy'' | Intermediate \<Rightarrow> ''badge-medium'' | Advanced \<Rightarrow> ''badge-hard'')"

text \<open>\<open>a % b\<close> for \<open>b > 0\<close>: the remainder of truncating division, with the sign of \<open>a\<close>.\<close>

definition js_rem :: "int \<Rightarrow> int \<Rightarrow> int" where
  "js_rem a b = sgn a * (\<bar>a\<bar> mod b)"

text \<open>\<open>hours\<close> and \<open>minutes\<close> of a difference, as \<open>formatTimeRemaining\<close> computes them.\<close>

definition hm_parts :: "int \<Rightarrow> int \<times> int" where
  "hm_parts diff = (diff div (1000 * 60 * 60), js_rem diff (1000 * 60 * 60) div (1000 * 60))"

definition formatTimeRemaining :: "int \<Rightarrow> int \<Rightarrow> int \<Rightarrow> contest_status \<Rightarrow> string" where
  "formatTimeRemaining now startTime duration status =
     (if status = Upcoming then
        (let (hours, minutes) = hm_parts (startTime - now) in
         ''Starts in '' @ int_text hours @ ''h '' @ int_text minutes @ ''m'')
      else if status = Live then
        (let endTime = startTime + duration * 60 * 1000;
             (hours, minutes) = hm_parts (endTime - now) in
         int_text hours @ ''h '' @ int_text minutes @ ''m remaining'')
      else ''Ended'')"

definition liveContest :: "contest list \<Rightarrow> contest option" where
  "liveContest cs = find (\<lambda>c. c_status c = Live) cs"

datatype contest_tab = Tab_upcoming | Tab_live | Tab_past

definition activeTab_init :: contest_tab where
  "activeTab_init = Tab_live"

definition tab_label :: "contest_tab \<Rightarrow> string" where
  "tab_label t = js_capitalize (case t of Tab_upcoming \<Rightarrow> ''upcoming'' | Tab_live \<Rightarrow> ''live'' | Tab_past \<Rightarrow> ''past'')"

definition contest_in_tab :: "contest_tab \<Rightarrow> contest \<Rightarrow> bool" where
  "contest_in_tab activeTab c =
     (if activeTab = Tab_live then c_status c = Live
      else if activeTab = Tab_upcoming then c_status c = Upcoming
      else c_status c = Ended)"

subsection \<open>What the dashboard shows\<close>

record contest_row =
  cr_title :: string
  cr_start :: int
  cr_duration :: string
  cr_participants :: string
  cr_status_class :: string
  cr_status_text :: string
  cr_difficulty_class :: string
  cr_difficulty_text :: string
  cr_problems :: string
  cr_prize :: "string option"
  cr_time :: string

definition status_text :: "contest_status \<Rightarrow> string" where
  "status_text st = (case st of Upcoming \<Rightarrow> ''UPCOMING'' | Live \<Rightarrow> ''LIVE'' | Ended \<Rightarrow> ''ENDED'')"

definition difficulty_text :: "contest_difficulty \<Rightarrow> string" where
  "difficulty_text d = (case d of Beginner \<Rightarrow> ''beginner'' | Intermediate \<Rightarrow> ''intermediate'' | Advanced \<Rightarrow> ''advanced'')"

definition contest_row_of :: "int \<Rightarrow> contest \<Rightarrow> contest_row" where
  "contest_row_of now c =
     \<lparr>cr_title = c_title c, cr_start = c_startTime c,
      cr_duration = int_text (c_duration c) @ ''m'', cr_participants = int_text (c_participants c),
      cr_status_class = ''badge '' @ getStatusColor (c_status c), cr_status_text = status_text (c_status c),
      cr_difficulty_class = contest_difficulty_color (c_difficulty c),
      cr_difficulty_text = difficulty_text (c_difficulty c),
      cr_problems = int_text (c_problems c) @ '' problems'',
      cr_prize = (case c_prize c of Some p \<Rightarrow> if p \<noteq> [] then Some p else None | None \<Rightarrow> None),
      cr_time = formatTimeRemaining now (c_startTime c) (c_duration c) (c_status c)\<rparr>"

text \<open>A leaderboard line: rank badge class, name, solved and score, and the star's class for the top three.\<close>

definition rank_class :: "int \<Rightarrow> string" where
  "rank_class r =
     (if r = 1 then ''bg-warning-900/30 text-warning-400'' else if r = 2 then ''bg-gray-700 text-gray-300''
      else if r = 3 then ''bg-amber-900/30 text-amber-600'' else ''bg-gray-800 text-gray-400'')"

definition entry_line :: "contest_entry \<Rightarrow> string \<times> string \<times> (int \<times> int) \<times> string option" where
  "entry_line e =
     (rank_class (ce_rank e), ce_username e, (ce_solved e, ce_score e),
      if ce_rank e \<le> 3 then Some (if ce_rank e = 1 then ''text-warning-400'' else if ce_rank e = 2 then ''text-gray-400''
                                   else ''text-amber-600'')
      else None)"

record dashboard_view =
  dv_banner :: "(string \<times> string \<times> string) option"
  dv_tabs :: "(string \<times> bool) list"
  dv_rows :: "contest_row list"
  dv_leaderboard :: "(string \<times> string \<times> (int \<times> int) \<times> string option) list"

definition contest_dashboard :: "int \<Rightarrow> int \<Rightarrow> contest_tab \<Rightarrow> dashboard_view" where
  "contest_dashboard t0 now activeTab =
     \<lparr>dv_banner = map_option (\<lambda>c. (c_title c, formatTimeRemaining now (c_startTime c) (c_duration c) (c_status c),
                                   int_text (c_participants c))) (liveContest (contests t0)),
      dv_tabs = map (\<lambda>t. (tab_label t, t = activeTab)) [Tab_upcoming, Tab_live, Tab_past],
      dv_rows = map (contest_row_of now) (filter (contest_in_tab activeTab) (contests t0)),
      dv_leaderboard = map entry_line (contest_leaderboard t0)\<rparr>"

subsection \<open>Lemmas\<close>

lemma js_rem_nonneg: "0 \<le> a \<Longrightarrow> js_rem a b = a mod b"
  by (cases "a = 0") (simp_all add: js_rem_def)

lemma hm_parts_nonneg:
  assumes "0 \<le> diff"
  shows "hm_parts diff = (diff div 3600000, diff mod 3600000 div 60000)"
  using assms by (simp add: hm_parts_def js_rem_nonneg)

lemma div_hours_minutes: "60 * (d div 3600000) + d mod 3600000 div 60000 = (d :: int) div 60000"
proof -
  have "d = 60000 * (60 * (d div 3600000)) + d mod 3600000"
    using div_mult_mod_eq [of d 3600000] by (simp add: mult.assoc)
  then have "d div 60000 = (60000 * (60 * (d div 3600000)) + d mod 3600000) div 60000" by simp
  also have "\<dots> = 60 * (d div 3600000) + d mod 3600000 div 60000"
    by (rule div_mult_self4) simp
  finally show ?thesis by simp
qed

text \<open>The fixture: the live contest is the first; no contest has ended.\<close>

lemma contests_live_past:
  "liveContest (contests t0) = Some (contests t0 ! 0) \<and> filter (contest_in_tab Tab_past) (contests t0) = []"
  by (simp add: liveContest_def contests_def contest_in_tab_def)

subsection \<open>Properties\<close>

text \<open>
  For a time still ahead, the countdown shows whole hours and the
  minutes within the hour: the minutes are between 0 and 59 and the two
  together are the whole minutes remaining.
\<close>

theorem hm_parts_bounds:
  assumes "0 \<le> diff" and "hm_parts diff = (hours, minutes)"
  shows "0 \<le> hours \<and> 0 \<le> minutes \<and> minutes < 60 \<and> 60 * hours + minutes = diff div 60000"
proof -
  have h: "hours = diff div 3600000" and m: "minutes = diff mod 3600000 div 60000"
    using assms by (simp_all add: hm_parts_nonneg)
  have r: "0 \<le> diff mod 3600000" "diff mod 3600000 < 3600000" by simp_all
  have "diff mod 3600000 = 60000 * (diff mod 3600000 div 60000) + diff mod 3600000 mod 60000"
    by simp
  moreover have "0 \<le> diff mod 3600000 mod 60000" by simp
  ultimately have "minutes < 60" "0 \<le> minutes" using r unfolding m by linarith+
  moreover have "0 \<le> hours" using assms(1) unfolding h by simp
  ultimately show ?thesis using m div_hours_minutes [of diff] unfolding h by simp
qed

theorem hm_parts_bounds_witness:
  "0 \<le> (5400000::int) \<and>
   (0 \<le> fst (hm_parts 5400000) \<and> 0 \<le> snd (hm_parts 5400000) \<and> snd (hm_parts 5400000) < 60 \<and>
    60 * fst (hm_parts 5400000) + snd (hm_parts 5400000) = (5400000::int) div 60000)"
  using hm_parts_bounds [of 5400000 "fst (hm_parts 5400000)" "snd (hm_parts 5400000)"] by simp

text \<open>
  C39: the status is never updated and the remaining time is split with a
  floored hour and a truncated remainder: two hours after mounting, the
  live contest (which ended half an hour before) shows
  \<open>-1h -30m remaining\<close>, an hour and a half rather than half an hour.
\<close>

theorem live_contest_overdue_text:
  "cr_time (contest_row_of (t0 + 2 * 60 * 60 * 1000) (contests t0 ! 0)) = ''-1h -30m remaining''"
proof -
  have "hm_parts (- 1800000) = (- 1, - 30)" by (simp add: hm_parts_def js_rem_def)
  moreover have "int_text (- 1) = ''-1''" "int_text (- 30) = ''-30''"
    by (simp_all add: int_text_def nat_digits_simps, code_simp+)
  ultimately show ?thesis by (simp add: contest_row_of_def contests_def formatTimeRemaining_def)
qed

end
