(* ===== verification/CollaborationPanel.thy ===== *)
theory CollaborationPanel
  imports JsText
begin

text \<open>
  The collaboration panel, \<open>src/src/components/features/CollaborationPanel.tsx\<close>:
  a mock with fixture participants and a local chat, no service behind it.
  The state is the component's six hooks; the clock \<open>Date.now()\<close> is the
  parameter of the events that read it.  \<open>copyRoomLink\<close> writes the room's
  link to the clipboard: the model returns the text written.  Time stamps
  stay numbers (\<open>toLocaleTimeString\<close> is not modelled).
\<close>

datatype participant_role = Host | Participant

record participant =
  pt_id :: string
  pt_username :: string
  pt_avatar :: string
  pt_role :: participant_role
  pt_isOnline :: bool
  pt_cursor :: "(int \<times> int) option"

record chat_message =
  cm_id :: string
  cm_username :: string
  cm_message :: string
  cm_timestamp :: nat

record collab_state =
  cs_participants :: "participant list"
  cs_isVideoOn :: bool
  cs_isAudioOn :: bool
  cs_chatMessages :: "chat_message list"
  cs_newMessage :: string
  cs_showChat :: bool

text \<open>The fixtures, for a mount at time \<open>now\<close>.\<close>

definition collab_init :: "nat \<Rightarrow> collab_state" where
  "collab_init now =
     \<lparr>cs_participants =
        [\<lparr>pt_id = ''1'', pt_username = ''john_doe'', pt_avatar = ''https://i.pravatar.cc/150?img=1'',
          pt_role = Host, pt_isOnline = True, pt_cursor = Some (15, 8)\<rparr>,
         \<lparr>pt_id = ''2'', pt_username = ''alice_dev'', pt_avatar = ''https://i.pravatar.cc/150?img=2'',
          pt_role = Participant, pt_isOnline = True, pt_cursor = Some (23, 12)\<rparr>,
         \<lparr>pt_id = ''3'', pt_username = ''bob_coder'', pt_avatar = ''https://i.pravatar.cc/150?img=3'',
          pt_role = Participant, pt_isOnline = False, pt_cursor = None\<rparr>],
      cs_isVideoOn = False, cs_isAudioOn = False,
      cs_chatMessages =
        [\<lparr>cm_id = ''1'', cm_username = ''alice_dev'', cm_message = ''I think we should use a hash map here'',
          cm_timestamp = now\<rparr>,
         \<lparr>cm_id = ''2'', cm_username = ''john_doe'', cm_message = ''Good idea! That would optimize the lookup time'',
          cm_timestamp = now\<rparr>],
      cs_newMessage = [], cs_showChat = False\<rparr>"

text \<open>\<open>handleSendMessage\<close>: a blank message does nothing; otherwise it is appended with id \<open>Date.now().toString()\<close>.\<close>

definition collab_send :: "nat \<Rightarrow> collab_state \<Rightarrow> collab_state" where
  "collab_send now s =
     (if js_trim (cs_newMessage s) = [] then s
      else s\<lparr>cs_chatMessages := cs_chatMessages s @
                 [\<lparr>cm_id = int_text (int now), cm_username = ''current_user'', cm_message = cs_newMessage s,
                   cm_timestamp = now\<rparr>],
             cs_newMessage := []\<rparr>)"

definition copyRoomLink :: "string \<Rightarrow> string \<Rightarrow> string" where
  "copyRoomLink origin roomId = origin @ ''/collaborate/'' @ roomId"

datatype collab_event =
    SetNewMessage string | SendChat nat | ToggleVideo | ToggleAudio | ToggleChat

fun collab_step :: "collab_event \<Rightarrow> collab_state \<Rightarrow> collab_state" where
  "collab_step (SetNewMessage v) s = s\<lparr>cs_newMessage := v\<rparr>"
| "collab_step (SendChat now) s = collab_send now s"
| "collab_step ToggleVideo s = s\<lparr>cs_isVideoOn := \<not> cs_isVideoOn s\<rparr>"
| "collab_step ToggleAudio s = s\<lparr>cs_isAudioOn := \<not> cs_isAudioOn s\<rparr>"
| "collab_step ToggleChat s = s\<lparr>cs_showChat := \<not> cs_showChat s\<rparr>"

subsection \<open>What the panel shows\<close>

text \<open>A participant line: name, online dot, host crown, and the cursor when known and online.\<close>

definition participant_line :: "participant \<Rightarrow> string \<times> string \<times> bool \<times> string option" where
  "participant_line p =
     (pt_username p, if pt_isOnline p then ''bg-success-500'' else ''bg-gray-500'', pt_role p = Host,
      case pt_cursor p of
        Some (line, column) \<Rightarrow>
          if pt_isOnline p then Some (''Line '' @ int_text line @ '':'' @ int_text column) else None
      | None \<Rightarrow> None)"

record collab_view =
  cv_roomId :: string
  cv_count :: string
  cv_participants :: "(string \<times> string \<times> bool \<times> string option) list"
  cv_buttons :: "bool \<times> bool \<times> bool"
  cv_chat :: "(string \<times> string) list option"
  cv_send_disabled :: bool

definition collab_panel :: "bool \<Rightarrow> string \<Rightarrow> collab_state \<Rightarrow> collab_view option" where
  "collab_panel isOpen roomId s =
     (if \<not> isOpen then None
      else Some
        \<lparr>cv_roomId = roomId,
         cv_count = ''Participants ('' @ nat_digits (length (cs_participants s)) @ '')'',
         cv_participants = map participant_line (cs_participants s),
         cv_buttons = (cs_isVideoOn s, cs_isAudioOn s, cs_showChat s),
         cv_chat = (if cs_showChat s then Some (map (\<lambda>m. (cm_username m, cm_message m)) (cs_chatMessages s))
                    else None),
         cv_send_disabled = (js_trim (cs_newMessage s) = [])\<rparr>)"

subsection \<open>Lemmas\<close>

lemma collab_step_participants [simp]: "cs_participants (collab_step ev s) = cs_participants s"
  by (cases ev) (simp_all add: collab_send_def)

lemma collab_step_messages:
  "\<exists>new. cs_chatMessages (collab_step ev s) = cs_chatMessages s @ new \<and> length new \<le> 1"
  by (cases ev) (auto simp: collab_send_def)

text \<open>Two messages sent within the same millisecond get the same id (the key React renders them by).\<close>

lemma collab_same_ms_ids:
  assumes "js_trim v \<noteq> []" and "js_trim w \<noteq> []"
  shows "cm_id (last (cs_chatMessages (collab_send now (collab_send now (s\<lparr>cs_newMessage := v\<rparr>)\<lparr>cs_newMessage := w\<rparr>)))) =
         cm_id (last (butlast (cs_chatMessages (collab_send now (collab_send now (s\<lparr>cs_newMessage := v\<rparr>)\<lparr>cs_newMessage := w\<rparr>)))))"
  using assms by (simp add: collab_send_def butlast_append)

end
