(* ===== verification/ProblemDetail.thy ===== *)
theory ProblemDetail
  imports ProblemsData JsText AIAssistant CollaborationPanel "HOL-Library.While_Combinator"
begin

text \<open>
  The problem page, \<open>src/src/pages/ProblemDetailPage.tsx\<close>: the problem
  chosen by the route's id, the editor state (language, code, font size),
  the mock submission, and the two panels it hosts.  A submission is judged
  by nobody: after two seconds a callback draws a status, a runtime and a
  memory figure from \<open>Math.random()\<close>.  The model passes the three draws to
  the event that fires the callback (\<open>Math.random()\<close> returns a value in
  \<open>[0, 1)\<close>), and keeps the pending callbacks in the state with the
  language they captured.  The assistant panel stays mounted and is only
  hidden (\<open>isOpen\<close>), the collaboration panel is unmounted when hidden
  (\<open>{showCollaboration && ...}\<close>): its state is \<open>None\<close> then.  Monaco's own
  state (cursor, undo history) is not modelled: the editor is its text.
\<close>

datatype language = Python | JavaScript | Cpp

datatype sub_status = Accepted | Wrong_answer | Time_limit_exceeded | Runtime_error

record submission_result =
  sr_status :: "sub_status option"
  sr_runtime :: string
  sr_memory :: string
  sr_message :: "string option"

datatype detail_tab = Tab_description | Tab_submissions

definition template_of :: "problem \<Rightarrow> language \<Rightarrow> string" where
  "template_of p l =
     (case l of Python \<Rightarrow> tpl_python (p_solutionTemplate p)
              | JavaScript \<Rightarrow> tpl_javascript (p_solutionTemplate p)
              | Cpp \<Rightarrow> tpl_cpp (p_solutionTemplate p))"

definition find_problem :: "string \<Rightarrow> problem option" where
  "find_problem pid = find (\<lambda>p. p_id p = pid) problems"

record detail_state =
  pd_problem :: problem
  pd_language :: language
  pd_code :: string
  pd_activeTab :: detail_tab
  pd_isSubmitting :: bool
  pd_result :: "submission_result option"
  pd_isFullscreen :: bool
  pd_fontSize :: int
  pd_showAI :: bool
  pd_showCollab :: bool
  pd_timers :: "(nat \<times> language) list"
  pd_ai :: ai_state
  pd_collab :: "collab_state option"

text \<open>
  The state after the mount: the hooks' initial values, then the effect on
  \<open>[problem, selectedLanguage]\<close> that loads the template of the language.
\<close>

definition detail_init :: "problem \<Rightarrow> nat \<Rightarrow> detail_state" where
  "detail_init p now =
     \<lparr>pd_problem = p, pd_language = Python, pd_code = template_of p Python, pd_activeTab = Tab_description,
      pd_isSubmitting = False, pd_result = None, pd_isFullscreen = False, pd_fontSize = 14,
      pd_showAI = False, pd_showCollab = False, pd_timers = [], pd_ai = ai_init now, pd_collab = None\<rparr>"

text \<open>The route: the page of the problem, or the \<open>Problem not found\<close> page.\<close>

definition detail_page :: "string \<Rightarrow> nat \<Rightarrow> detail_state option" where
  "detail_page pid now = map_option (\<lambda>p. detail_init p now) (find_problem pid)"

text \<open>
  A change of the \<open>:id\<close> parameter while the page stays mounted (React
  Router keeps the element): the hooks keep their values (\<open>None\<close>: still
  the initial ones, no problem found since the mount).  When the new id is
  found, the effect on \<open>[problem, selectedLanguage]\<close> reloads the template
  of the selected language if the problem changed.  The not-found branch
  returns before the editor, the assistant and the collaboration panel,
  which unmount there and mount again with the next problem found.
\<close>

definition detail_route_change ::
  "string \<Rightarrow> nat \<Rightarrow> string \<times> detail_state option \<Rightarrow> string \<times> detail_state option" where
  "detail_route_change pid' now st =
     (let (pid, h) = st in
      (pid',
       case find_problem pid' of
         None \<Rightarrow> h
       | Some p \<Rightarrow>
           (case h of
              None \<Rightarrow> Some (detail_init p now)
            | Some s \<Rightarrow>
                if find_problem pid = None then
                  Some (s\<lparr>pd_problem := p, pd_code := template_of p (pd_language s), pd_ai := ai_init now,
                          pd_collab := (if pd_showCollab s then Some (collab_init now) else None)\<rparr>)
                else if pd_problem s = p then Some s
                else Some (s\<lparr>pd_problem := p, pd_code := template_of p (pd_language s)\<rparr>))))"

definition handleLanguageChange :: "language \<Rightarrow> detail_state \<Rightarrow> detail_state" where
  "handleLanguageChange l s = s\<lparr>pd_language := l, pd_code := template_of (pd_problem s) l\<rparr>"

definition handleCodeChange :: "string option \<Rightarrow> detail_state \<Rightarrow> detail_state" where
  "handleCodeChange v s = (case v of Some c \<Rightarrow> s\<lparr>pd_code := c\<rparr> | None \<Rightarrow> s)"

text \<open>\<open>handleSubmit\<close>: the callback is scheduled with the language of this render.\<close>

definition handleSubmit :: "nat \<Rightarrow> detail_state \<Rightarrow> detail_state" where
  "handleSubmit now s =
     s\<lparr>pd_isSubmitting := True, pd_result := None, pd_timers := pd_timers s @ [(now + 2000, pd_language s)]\<rparr>"

definition statuses :: "sub_status list" where
  "statuses = [Accepted, Wrong_answer, Time_limit_exceeded, Runtime_error]"

text \<open>\<open>arr[Math.floor(x)]\<close>: \<open>undefined\<close> below 0 or past the end.\<close>

definition js_at_floor :: "'a list \<Rightarrow> rat \<Rightarrow> 'a option" where
  "js_at_floor xs x = (if 0 \<le> \<lfloor>x\<rfloor> then js_at xs (nat \<lfloor>x\<rfloor>) else None)"

definition runtime_error_text :: "language \<Rightarrow> string" where
  "runtime_error_text l =
     ''Runtime Error: '' @
     (if l = Python then ''IndexError: list index out of range''
      else if l = JavaScript then ''TypeError: Cannot read property of undefined''
      else ''Segmentation fault'')"

text \<open>
  The callback's result for the captured language and the three draws; the
  message table has an entry for each failing status, and
  \<open>|| 'An error occurred during execution.'\<close> covers an undefined status.
\<close>

definition mock_result :: "language \<Rightarrow> rat \<Rightarrow> rat \<Rightarrow> rat \<Rightarrow> submission_result" where
  "mock_result lang r1 r2 r3 =
     (let randomStatus = js_at_floor statuses (r1 * of_nat (length statuses)) in
      \<lparr>sr_status = randomStatus,
       sr_runtime = int_text \<lfloor>r2 * 100\<rfloor> @ '' ms'',
       sr_memory = int_text (\<lfloor>r3 * 10\<rfloor> + 1) @ '' MB'',
       sr_message =
         (if randomStatus \<noteq> Some Accepted then
            Some (case randomStatus of
                    Some Wrong_answer \<Rightarrow> ''Your output does not match the expected output for test case #2.''
                  | Some Time_limit_exceeded \<Rightarrow> ''Your solution exceeded the time limit. Consider optimizing your algorithm.''
                  | Some Runtime_error \<Rightarrow> runtime_error_text lang
                  | _ \<Rightarrow> ''An error occurred during execution.'')
          else None)\<rparr>)"

definition submission_fires :: "nat \<Rightarrow> rat \<Rightarrow> rat \<Rightarrow> rat \<Rightarrow> detail_state \<Rightarrow> detail_state" where
  "submission_fires now r1 r2 r3 s =
     (case pd_timers s of
        [] \<Rightarrow> s
      | (due, lang) # rest \<Rightarrow>
          if due \<le> now then s\<lparr>pd_result := Some (mock_result lang r1 r2 r3), pd_isSubmitting := False,
                               pd_timers := rest\<rparr>
          else s)"

text \<open>The range input (\<open>min="12" max="20"\<close>) only yields values in that range: the browser clamps.\<close>

definition setFontSize :: "int \<Rightarrow> detail_state \<Rightarrow> detail_state" where
  "setFontSize v s = s\<lparr>pd_fontSize := max 12 (min 20 v)\<rparr>"

datatype detail_event =
    LanguageChange language | CodeChange "string option" | SubmitClicked nat
  | SubmissionFires nat rat rat rat | ResetCode | FontSize int | SetTab detail_tab
  | ToggleFullscreen | ToggleAI | ToggleCollab nat | AIEvent ai_event | CollabEvent collab_event

text \<open>
  The events: the editor's controls (the Submit button is disabled while
  submitting), the pending submission callback, the tabs, the header's
  toggles, and the events of the two panels; the assistant's own controls
  only while it is shown, its callbacks always.
\<close>

fun detail_step :: "detail_event \<Rightarrow> detail_state \<Rightarrow> detail_state" where
  "detail_step (LanguageChange l) s = handleLanguageChange l s"
| "detail_step (CodeChange v) s = handleCodeChange v s"
| "detail_step (SubmitClicked now) s = (if pd_isSubmitting s then s else handleSubmit now s)"
| "detail_step (SubmissionFires now r1 r2 r3) s = submission_fires now r1 r2 r3 s"
| "detail_step ResetCode s = s\<lparr>pd_code := template_of (pd_problem s) (pd_language s)\<rparr>"
| "detail_step (FontSize v) s = setFontSize v s"
| "detail_step (SetTab t) s = s\<lparr>pd_activeTab := t\<rparr>"
| "detail_step ToggleFullscreen s = s\<lparr>pd_isFullscreen := \<not> pd_isFullscreen s\<rparr>"
| "detail_step ToggleAI s = s\<lparr>pd_showAI := \<not> pd_showAI s\<rparr>"
| "detail_step (ToggleCollab now) s =
     s\<lparr>pd_showCollab := \<not> pd_showCollab s,
       pd_collab := (if pd_showCollab s then None else Some (collab_init now))\<rparr>"
| "detail_step (AIEvent ev) s =
     (case ev of
        TimerFires now \<Rightarrow> s\<lparr>pd_ai := ai_step (pd_code s) ev (pd_ai s)\<rparr>
      | _ \<Rightarrow> if pd_showAI s then s\<lparr>pd_ai := ai_step (pd_code s) ev (pd_ai s)\<rparr> else s)"
| "detail_step (CollabEvent ev) s = s\<lparr>pd_collab := map_option (collab_step ev) (pd_collab s)\<rparr>"

subsection \<open>What the page shows\<close>

definition getStatusText :: "sub_status option \<Rightarrow> string" where
  "getStatusText st =
     (case st of Some Accepted \<Rightarrow> ''Accepted'' | Some Wrong_answer \<Rightarrow> ''Wrong Answer''
               | Some Time_limit_exceeded \<Rightarrow> ''Time Limit Exceeded'' | Some Runtime_error \<Rightarrow> ''Runtime Error''
               | None \<Rightarrow> ''Unknown'')"

definition getStatusBadge :: "sub_status option \<Rightarrow> string" where
  "getStatusBadge st =
     (case st of Some Accepted \<Rightarrow> ''badge-accepted'' | Some Wrong_answer \<Rightarrow> ''badge-wrong''
               | Some Time_limit_exceeded \<Rightarrow> ''badge-tle'' | Some Runtime_error \<Rightarrow> ''badge-runtime-error''
               | None \<Rightarrow> ''badge-wrong'')"

datatype status_icon = Icon_check | Icon_clock | Icon_x

definition getStatusIcon :: "sub_status option \<Rightarrow> status_icon" where
  "getStatusIcon st =
     (case st of Some Accepted \<Rightarrow> Icon_check | Some Time_limit_exceeded \<Rightarrow> Icon_clock | _ \<Rightarrow> Icon_x)"

text \<open>
  \<open>((a / n) * 100).toFixed(1)\<close> for counts: a zero count of submissions gives
  \<open>NaN\<close> or an infinity, printed as such.
\<close>

definition js_percent1 :: "int \<Rightarrow> int \<Rightarrow> string" where
  "js_percent1 a n =
     (if n = 0 then (if a = 0 then ''NaN'' else if 0 < a then ''Infinity'' else ''-Infinity'')
      else js_toFixed1 (of_int a / of_int n * 100))"

text \<open>The header (lines 157 to 211): heading, difficulty badge, counts, and the three toggles' look.\<close>

record detail_header =
  dh_heading :: string
  dh_difficulty :: "string \<times> string"
  dh_acceptance :: string
  dh_submissions :: string
  dh_fullscreen_icon :: string
  dh_toggles :: "(string \<times> string) list"

definition detail_header :: "detail_state \<Rightarrow> detail_header" where
  "detail_header s =
     (let p = pd_problem s in
      \<lparr>dh_heading = p_id p @ ''. '' @ p_title p,
       dh_difficulty =
         (case p_difficulty p of Easy \<Rightarrow> ''badge-easy'' | Medium \<Rightarrow> ''badge-medium'' | Hard \<Rightarrow> ''badge-hard'',
          js_capitalize (case p_difficulty p of Easy \<Rightarrow> ''easy'' | Medium \<Rightarrow> ''medium'' | Hard \<Rightarrow> ''hard'')),
       dh_acceptance = js_percent1 (p_acceptedCount p) (p_submissionCount p) @ ''% acceptance'',
       dh_submissions = int_text (p_submissionCount p) @ '' submissions'',
       dh_fullscreen_icon = (if pd_isFullscreen s then ''Minimize2'' else ''Maximize2''),
       dh_toggles =
         [(''AI Assistant'', ''btn-secondary '' @ (if pd_showAI s then ''bg-primary-600 text-white'' else [])),
          (''Collaborate'', ''btn-secondary '' @ (if pd_showCollab s then ''bg-primary-600 text-white'' else []))]\<rparr>)"

text \<open>The two tab buttons (lines 219 to 241): label and whether it is the active one.\<close>

definition detail_tabs :: "detail_state \<Rightarrow> (string \<times> bool) list" where
  "detail_tabs s = [(''Description'', pd_activeTab s = Tab_description), (''Submissions'', pd_activeTab s = Tab_submissions)]"

text \<open>
  The description tab (lines 246 to 318): the statement split at line
  breaks, the examples (an explanation only when truthy), the constraints
  and the tags.
\<close>

definition description_tab ::
  "problem \<Rightarrow> string list \<times> (string \<times> string \<times> string option) list \<times> string list \<times> string list" where
  "description_tab p =
     (js_split (CHR 0x0A) (p_description p),
      map (\<lambda>e. (ex_input e, ex_output e,
                 case ex_explanation e of Some x \<Rightarrow> if x \<noteq> [] then Some x else None | None \<Rightarrow> None))
          (p_examples p),
      p_constraints p, p_tags p)"

text \<open>
  The submissions tab (lines 320 to 368): the last result, styled as
  accepted or not, with its message when truthy; or the empty placeholder.
\<close>

datatype result_box =
    Result_box bool status_icon string string string "string option"
  | No_submissions string string

definition submissions_tab :: "submission_result option \<Rightarrow> result_box" where
  "submissions_tab r =
     (case r of
        Some res \<Rightarrow>
          Result_box (sr_status res = Some Accepted) (getStatusIcon (sr_status res)) (getStatusText (sr_status res))
            (sr_runtime res) (sr_memory res)
            (case sr_message res of Some m \<Rightarrow> if m \<noteq> [] then Some m else None | None \<Rightarrow> None)
      | None \<Rightarrow> No_submissions ''No submissions yet'' ''Submit your solution to see results here'')"

text \<open>
  The editor panel (lines 372 to 453): the language select, the font-size
  range and its label, the Submit button (disabled and \<open>Running...\<close> while
  submitting), and the editor's language, value and font size.
\<close>

record editor_panel =
  ep_select :: "string \<times> (string \<times> string) list"
  ep_font :: "int \<times> string"
  ep_submit :: "bool \<times> string"
  ep_editor :: "string \<times> string \<times> int"

definition language_name :: "language \<Rightarrow> string" where
  "language_name l = (case l of Python \<Rightarrow> ''python'' | JavaScript \<Rightarrow> ''javascript'' | Cpp \<Rightarrow> ''cpp'')"

definition editor_panel :: "detail_state \<Rightarrow> editor_panel" where
  "editor_panel s =
     \<lparr>ep_select = (language_name (pd_language s), [(''python'', ''Python''), (''javascript'', ''JavaScript''), (''cpp'', ''C++'')]),
      ep_font = (pd_fontSize s, int_text (pd_fontSize s) @ ''px''),
      ep_submit = (pd_isSubmitting s, if pd_isSubmitting s then ''Running...'' else ''Submit''),
      ep_editor = (if pd_language s = Cpp then ''cpp'' else language_name (pd_language s), pd_code s, pd_fontSize s)\<rparr>"

text \<open>
  The hosted panels (lines 456 to 476): the collaboration panel only while
  shown (\<open>showCollaboration && ...\<close>, room \<open>problem-123\<close>), the assistant
  always mounted and open as \<open>showAIAssistant\<close> says.
\<close>

definition detail_panels :: "detail_state \<Rightarrow> collab_view option \<times> ai_view option" where
  "detail_panels s =
     (if pd_showCollab s then (case pd_collab s of Some c \<Rightarrow> collab_panel True ''problem-123'' c | None \<Rightarrow> None) else None,
      ai_panel (pd_showAI s) (pd_ai s))"

record detail_view =
  dv_header :: detail_header
  dv_tabs :: "(string \<times> bool) list"
  dv_content :: "(string list \<times> (string \<times> string \<times> string option) list \<times> string list \<times> string list) + result_box"
  dv_editor :: editor_panel
  dv_panels :: "collab_view option \<times> ai_view option"

definition detail_view :: "detail_state \<Rightarrow> detail_view" where
  "detail_view s =
     \<lparr>dv_header = detail_header s, dv_tabs = detail_tabs s,
      dv_content = (if pd_activeTab s = Tab_description then Inl (description_tab (pd_problem s))
                    else Inr (submissions_tab (pd_result s))),
      dv_editor = editor_panel s, dv_panels = detail_panels s\<rparr>"

text \<open>The event that runs the pending submission callback.\<close>

fun is_submission_callback :: "detail_event \<Rightarrow> bool" where
  "is_submission_callback (SubmissionFires _ _ _ _) = True"
| "is_submission_callback _ = False"

subsection \<open>Sessions of the page\<close>

inductive detail_reach :: "detail_state \<Rightarrow> bool" where
  init: "detail_reach (detail_init p now)"
| step: "detail_reach s \<Longrightarrow> detail_reach (detail_step ev s)"

text \<open>
  The page's invariant: it is submitting exactly while one callback is
  pending, the font size stays within the slider's range, the collaboration
  panel has a state exactly while it is shown, and the assistant's
  conversation satisfies the assistant's invariant.
\<close>

definition detail_wf :: "detail_state \<Rightarrow> bool" where
  "detail_wf s \<longleftrightarrow>
     (pd_isSubmitting s \<longleftrightarrow> pd_timers s \<noteq> []) \<and> length (pd_timers s) \<le> 1 \<and>
     12 \<le> pd_fontSize s \<and> pd_fontSize s \<le> 20 \<and>
     (pd_collab s \<noteq> None \<longleftrightarrow> pd_showCollab s) \<and> ai_wf [] (pd_ai s)"

text \<open>
  The submission protocol the page implements, as an abstract machine: idle
  with the last result, or pending with the due time and the captured
  language; beside it the selected language.  A click starts a pending run
  from idle, the callback due ends it with the result of the captured
  language, a language change only changes the selection.
\<close>

datatype sub_phase = Idle "submission_result option" | Pending nat language

fun sub_spec :: "detail_event \<Rightarrow> sub_phase \<times> language \<Rightarrow> sub_phase \<times> language" where
  "sub_spec (SubmitClicked now) (Idle r, l) = (Pending (now + 2000) l, l)"
| "sub_spec (SubmissionFires now r1 r2 r3) (Pending due l0, l) =
     (if due \<le> now then (Idle (Some (mock_result l0 r1 r2 r3)), l) else (Pending due l0, l))"
| "sub_spec (LanguageChange l') (ph, l) = (ph, l')"
| "sub_spec e a = a"

definition sub_abs :: "detail_state \<Rightarrow> sub_phase \<times> language" where
  "sub_abs s = ((case pd_timers s of (due, l) # _ \<Rightarrow> Pending due l | [] \<Rightarrow> Idle (pd_result s)), pd_language s)"

text \<open>
  The browser's event loop once the user stops: the pending callbacks of
  the page (the submission's) and of its assistant fire in the order of
  their due times, the clock at \<open>T\<close>; the two callbacks touch disjoint
  parts of the state, so the order of equal due times does not matter.
  \<open>detail_settle\<close> runs it until nothing is pending, as a \<open>while_option\<close>.
\<close>

definition settle_step :: "nat \<Rightarrow> rat \<Rightarrow> rat \<Rightarrow> rat \<Rightarrow> detail_state \<Rightarrow> detail_state" where
  "settle_step T r1 r2 r3 s =
     (if pd_timers s \<noteq> [] \<and> (ai_timers (pd_ai s) = [] \<or> fst (hd (pd_timers s)) \<le> fst (hd (ai_timers (pd_ai s))))
      then detail_step (SubmissionFires T r1 r2 r3) s else detail_step (AIEvent (TimerFires T)) s)"

definition detail_settle :: "nat \<Rightarrow> rat \<Rightarrow> rat \<Rightarrow> rat \<Rightarrow> detail_state \<Rightarrow> detail_state option" where
  "detail_settle T r1 r2 r3 s =
     while_option (\<lambda>s. pd_timers s \<noteq> [] \<or> ai_timers (pd_ai s) \<noteq> []) (settle_step T r1 r2 r3) s"

definition dues_by :: "nat \<Rightarrow> detail_state \<Rightarrow> bool" where
  "dues_by T s \<longleftrightarrow> list_all (\<lambda>(d, _). d \<le> T) (pd_timers s) \<and> list_all (\<lambda>(d, _). d \<le> T) (ai_timers (pd_ai s))"

subsection \<open>Lemmas\<close>

lemma detail_init_wf: "detail_wf (detail_init p now)"
  by (simp add: detail_wf_def detail_init_def ai_init_wf)

lemma detail_step_wf:
  assumes wf: "detail_wf s"
  shows "detail_wf (detail_step ev s)"
proof (cases ev)
  case (SubmissionFires now r1 r2 r3)
  with wf show ?thesis
    by (cases "pd_timers s") (auto simp: detail_wf_def submission_fires_def split: if_splits)
next
  case (AIEvent e)
  have "ai_wf [] (ai_step (pd_code s) e (pd_ai s))"
    using wf ai_step_wf [of "[]" "pd_ai s" e] ai_step_code [of "pd_code s" e "pd_ai s" "[]"]
    by (simp add: detail_wf_def)
  with wf AIEvent show ?thesis by (cases e) (simp_all add: detail_wf_def)
qed (use wf in \<open>auto simp: detail_wf_def handleLanguageChange_def handleCodeChange_def handleSubmit_def
                         setFontSize_def split: option.split\<close>)

lemma fires_progress:
  assumes "dues_by T s" "pd_timers s \<noteq> []"
  shows "dues_by T (detail_step (SubmissionFires T r1 r2 r3) s) \<and>
         length (pd_timers (detail_step (SubmissionFires T r1 r2 r3) s)) < length (pd_timers s) \<and>
         pd_ai (detail_step (SubmissionFires T r1 r2 r3) s) = pd_ai s"
  using assms by (cases "pd_timers s") (auto simp: dues_by_def submission_fires_def)

lemma ai_fires_progress:
  assumes "dues_by T s" "ai_timers (pd_ai s) \<noteq> []"
  shows "dues_by T (detail_step (AIEvent (TimerFires T)) s) \<and>
         length (ai_timers (pd_ai (detail_step (AIEvent (TimerFires T)) s))) < length (ai_timers (pd_ai s)) \<and>
         pd_timers (detail_step (AIEvent (TimerFires T)) s) = pd_timers s"
  using assms by (cases "ai_timers (pd_ai s)") (auto simp: dues_by_def ai_respond_def)

lemma settle_step_progress:
  assumes "dues_by T s" "pd_timers s \<noteq> [] \<or> ai_timers (pd_ai s) \<noteq> []"
  shows "dues_by T (settle_step T r1 r2 r3 s) \<and>
         length (pd_timers (settle_step T r1 r2 r3 s)) + length (ai_timers (pd_ai (settle_step T r1 r2 r3 s))) <
         length (pd_timers s) + length (ai_timers (pd_ai s))"
proof (cases "pd_timers s \<noteq> [] \<and> (ai_timers (pd_ai s) = [] \<or> fst (hd (pd_timers s)) \<le> fst (hd (ai_timers (pd_ai s))))")
  case True
  then have "settle_step T r1 r2 r3 s = detail_step (SubmissionFires T r1 r2 r3) s"
    unfolding settle_step_def by (rule if_P)
  then show ?thesis using fires_progress [OF assms(1), of r1 r2 r3] True by simp
next
  case False
  with assms(2) have "ai_timers (pd_ai s) \<noteq> []" by auto
  moreover have "settle_step T r1 r2 r3 s = detail_step (AIEvent (TimerFires T)) s"
    unfolding settle_step_def using False by (rule if_not_P)
  ultimately show ?thesis using ai_fires_progress [OF assms(1)] by simp
qed

lemma settle_step_wf: "detail_wf s \<Longrightarrow> detail_wf (settle_step T r1 r2 r3 s)"
  by (simp add: settle_step_def detail_step_wf del: detail_step.simps)

lemma settle_step_inv:
  assumes "detail_wf s \<and> dues_by T s" "pd_timers s \<noteq> [] \<or> ai_timers (pd_ai s) \<noteq> []"
  shows "(detail_wf (settle_step T r1 r2 r3 s) \<and> dues_by T (settle_step T r1 r2 r3 s)) \<and>
         length (pd_timers (settle_step T r1 r2 r3 s)) + length (ai_timers (pd_ai (settle_step T r1 r2 r3 s))) <
         length (pd_timers s) + length (ai_timers (pd_ai s))"
  using settle_step_progress [of T s r1 r2 r3] settle_step_wf [of s T r1 r2 r3] assms by simp

lemma step_keeps_pending:
  assumes "\<not> is_submission_callback ev" and "pd_isSubmitting s"
  shows "pd_timers (detail_step ev s) = pd_timers s \<and> pd_isSubmitting (detail_step ev s)"
  using assms
  by (cases ev) (auto simp: handleLanguageChange_def handleCodeChange_def setFontSize_def
                      split: ai_event.splits option.splits)

lemma fold_keeps_pending:
  assumes "list_all (\<lambda>ev. \<not> is_submission_callback ev) evs"
  shows "pd_timers s = ts \<and> pd_isSubmitting s \<Longrightarrow> pd_timers (fold detail_step evs s) = ts \<and> pd_isSubmitting (fold detail_step evs s)"
  using assms
proof (induction evs arbitrary: s)
  case (Cons ev evs)
  then show ?case using step_keeps_pending [of ev s] by simp
qed simp

lemma find_problem_fixture:
  "find_problem ''1'' = Some problem_1" "find_problem ''2'' = Some problem_2"
  "find_problem ''3'' = Some problem_3" "find_problem ''4'' = Some problem_4"
  "find_problem ''5'' = Some problem_5" "find_problem ''6'' = Some problem_6"
  "find_problem ''7'' = Some problem_7" "find_problem ''8'' = Some problem_8"
  by (simp_all add: find_problem_def problems_unfold)

lemma detail_reachable_wf: "detail_reach s \<Longrightarrow> detail_wf s"
  by (induction rule: detail_reach.induct) (simp_all add: detail_init_wf detail_step_wf)

lemma floor_digit_bound:
  assumes "0 \<le> r" and "r < 1" and "0 < (k::int)"
  shows "0 \<le> \<lfloor>r * of_int k\<rfloor> \<and> \<lfloor>r * of_int k\<rfloor> < k"
proof -
  have "0 \<le> r * of_int k" using assms by simp
  moreover have "r * of_int k < of_int k" using assms by simp
  ultimately show ?thesis by (simp add: floor_less_iff)
qed

lemma mock_status_draw:
  assumes "0 \<le> r1" and "r1 < 1"
  shows "\<exists>st. js_at_floor statuses (r1 * of_nat (length statuses)) = Some st"
proof -
  have b: "0 \<le> \<lfloor>r1 * 4\<rfloor>" "\<lfloor>r1 * 4\<rfloor> < 4"
    using floor_digit_bound [OF assms, of 4] by simp_all
  then have "nat \<lfloor>r1 * 4\<rfloor> < length statuses" by (simp add: statuses_def nat_less_iff)
  with b show ?thesis by (simp add: js_at_floor_def js_at_def statuses_def)
qed

subsection \<open>Properties\<close>

text \<open>
  C15: every state of the problem page satisfies the page's invariant:
  submitting exactly while one callback is pending, a font size between 12
  and 20, a collaboration state exactly while that panel is shown, and a
  well-formed assistant conversation.
\<close>

theorem detail_reach_wf:
  assumes "detail_reach s"
  shows "detail_wf s \<and> (pd_isSubmitting s \<longrightarrow> length (pd_timers s) = 1)"
  using detail_reachable_wf [OF assms] by (auto simp: detail_wf_def le_Suc_eq)

theorem detail_reach_wf_witness:
  "detail_wf (detail_step (SubmitClicked 5) (detail_step (FontSize 40) (detail_init problem_1 0))) \<and>
   length (pd_timers (detail_step (SubmitClicked 5) (detail_step (FontSize 40) (detail_init problem_1 0)))) = 1"
proof -
  have r: "detail_reach (detail_step (SubmitClicked 5) (detail_step (FontSize 40) (detail_init problem_1 0)))"
    by (intro detail_reach.intros)
  have "pd_isSubmitting (detail_step (SubmitClicked 5) (detail_step (FontSize 40) (detail_init problem_1 0)))"
    by (simp add: detail_init_def setFontSize_def handleSubmit_def)
  with detail_reach_wf [OF r] show ?thesis by blast
qed

text \<open>
  C16: a submission always completes with the language it was made in:
  from any state of the page that is not submitting, after a click on
  Submit at time \<open>now\<close> and any events other than the callback (a change of
  language, of the code, of the font, of a panel), the callback firing at
  or after \<open>now + 2000\<close> shows the result drawn for the language selected
  at the click and ends the submission, whatever \<open>Math.random()\<close> draws.
\<close>

theorem submission_completes:
  assumes "detail_reach s" and "\<not> pd_isSubmitting s"
    and "list_all (\<lambda>ev. \<not> is_submission_callback ev) evs" and "now + 2000 \<le> t"
  shows "pd_result (detail_step (SubmissionFires t r1 r2 r3) (fold detail_step evs (detail_step (SubmitClicked now) s))) =
           Some (mock_result (pd_language s) r1 r2 r3) \<and>
         \<not> pd_isSubmitting (detail_step (SubmissionFires t r1 r2 r3) (fold detail_step evs (detail_step (SubmitClicked now) s))) \<and>
         pd_timers (detail_step (SubmissionFires t r1 r2 r3) (fold detail_step evs (detail_step (SubmitClicked now) s))) = []"
proof -
  have "pd_timers s = []" using detail_reachable_wf [OF assms(1)] assms(2) by (simp add: detail_wf_def)
  then have "pd_timers (detail_step (SubmitClicked now) s) = [(now + 2000, pd_language s)] \<and>
             pd_isSubmitting (detail_step (SubmitClicked now) s)"
    using assms(2) by (simp add: handleSubmit_def)
  then have "pd_timers (fold detail_step evs (detail_step (SubmitClicked now) s)) = [(now + 2000, pd_language s)]"
    using fold_keeps_pending [OF assms(3)] by blast
  with assms(4) show ?thesis by (simp add: submission_fires_def)
qed

theorem submission_completes_witness:
  "pd_result (detail_step (SubmissionFires 2000 0 0 0) (fold detail_step [LanguageChange Cpp]
      (detail_step (SubmitClicked 0) (detail_init problem_1 0)))) = Some (mock_result Python 0 0 0) \<and>
   \<not> pd_isSubmitting (detail_step (SubmissionFires 2000 0 0 0) (fold detail_step [LanguageChange Cpp]
      (detail_step (SubmitClicked 0) (detail_init problem_1 0)))) \<and>
   pd_timers (detail_step (SubmissionFires 2000 0 0 0) (fold detail_step [LanguageChange Cpp]
      (detail_step (SubmitClicked 0) (detail_init problem_1 0)))) = []"
  using submission_completes [OF detail_reach.init, of problem_1 0 "[LanguageChange Cpp]" 0 2000 0 0 0]
  by (simp add: detail_init_def)

text \<open>
  C33: with draws of \<open>Math.random()\<close> in \<open>[0, 1)\<close>, a result always has a
  status, a runtime of 0 to 99 ms and a memory figure of 1 to 10 MB, and a
  message exactly when the status is not \<open>accepted\<close>.
\<close>

theorem mock_result_bounds:
  assumes "0 \<le> r1" "r1 < 1" "0 \<le> r2" "r2 < 1" "0 \<le> r3" "r3 < 1"
  shows "\<exists>st n m. sr_status (mock_result lang r1 r2 r3) = Some st \<and>
           sr_runtime (mock_result lang r1 r2 r3) = int_text n @ '' ms'' \<and> 0 \<le> n \<and> n < 100 \<and>
           sr_memory (mock_result lang r1 r2 r3) = int_text m @ '' MB'' \<and> 1 \<le> m \<and> m \<le> 10 \<and>
           (sr_message (mock_result lang r1 r2 r3) = None \<longleftrightarrow> st = Accepted)"
proof -
  obtain st where st: "js_at_floor statuses (r1 * of_nat (length statuses)) = Some st"
    using mock_status_draw [OF assms(1,2)] by blast
  have n: "0 \<le> \<lfloor>r2 * 100\<rfloor> \<and> \<lfloor>r2 * 100\<rfloor> < 100"
    using floor_digit_bound [OF assms(3,4), of 100] by simp
  have m: "0 \<le> \<lfloor>r3 * 10\<rfloor> \<and> \<lfloor>r3 * 10\<rfloor> < 10"
    using floor_digit_bound [OF assms(5,6), of 10] by simp
  show ?thesis
    using st n m by (intro exI [of _ st] exI [of _ "\<lfloor>r2 * 100\<rfloor>"] exI [of _ "\<lfloor>r3 * 10\<rfloor> + 1"])
      (simp add: mock_result_def Let_def)
qed

theorem mock_result_bounds_witness:
  "\<exists>st n m. sr_status (mock_result Cpp (1/2) (99/100) (1/3)) = Some st \<and>
     sr_runtime (mock_result Cpp (1/2) (99/100) (1/3)) = int_text n @ '' ms'' \<and> 0 \<le> n \<and> n < 100 \<and>
     sr_memory (mock_result Cpp (1/2) (99/100) (1/3)) = int_text m @ '' MB'' \<and> 1 \<le> m \<and> m \<le> 10 \<and>
     (sr_message (mock_result Cpp (1/2) (99/100) (1/3)) = None \<longleftrightarrow> st = Accepted)"
  by (rule mock_result_bounds) simp_all

text \<open>
  C34: the submission callback reports on the render that submitted: submit
  Python code on problem 1, switch the editor to C++ and open problem 2
  before the two seconds are over, and problem 2 shows the result, a
  Python \<open>IndexError\<close>, under the C++ editor.
\<close>

theorem stale_submission_result:
  "map_option (\<lambda>s. (pd_problem s, pd_language s, map_option sr_message (pd_result s)))
     (map_option (detail_step (SubmissionFires (t + 2000) (3/4) 0 0))
        (snd (detail_route_change ''2'' t
           (''1'', Some (detail_step (LanguageChange Cpp) (detail_step (SubmitClicked t) (detail_init problem_1 t0))))))) =
   Some (problem_2, Cpp, Some (Some ''Runtime Error: IndexError: list index out of range''))"
proof -
  have "problem_1 \<noteq> problem_2" by (simp add: problem_1_def problem_2_def)
  then show ?thesis
    by (simp add: detail_route_change_def find_problem_fixture detail_init_def handleSubmit_def
                  handleLanguageChange_def submission_fires_def mock_result_def js_at_floor_def js_at_def
                  statuses_def runtime_error_text_def)
qed

text \<open>
  The collaboration panel is unmounted when hidden: closing and
  reopening it brings back the fixture chat, whatever was said; closing and
  reopening the assistant keeps its conversation.
\<close>

theorem collab_reopen_resets:
  assumes "pd_showCollab s"
  shows "map_option cs_chatMessages (pd_collab (detail_step (ToggleCollab t2) (detail_step (ToggleCollab t1) s))) =
           Some (cs_chatMessages (collab_init t2)) \<and>
         pd_ai (detail_step ToggleAI (detail_step ToggleAI s)) = pd_ai s"
  using assms by simp

theorem collab_reopen_resets_witness:
  "map_option cs_chatMessages (pd_collab (detail_step (ToggleCollab 9) (detail_step (ToggleCollab 8)
      (detail_step (CollabEvent (SendChat 7)) (detail_step (CollabEvent (SetNewMessage ''hi''))
        (detail_step (ToggleCollab 1) (detail_init problem_1 0))))))) =
     Some (cs_chatMessages (collab_init 9)) \<and>
   pd_ai (detail_step ToggleAI (detail_step ToggleAI (detail_step (CollabEvent (SendChat 7))
     (detail_step (CollabEvent (SetNewMessage ''hi'')) (detail_step (ToggleCollab 1) (detail_init problem_1 0)))))) =
   pd_ai (detail_step (CollabEvent (SendChat 7)) (detail_step (CollabEvent (SetNewMessage ''hi''))
     (detail_step (ToggleCollab 1) (detail_init problem_1 0))))"
  by (rule collab_reopen_resets) (simp add: detail_init_def)

text \<open>
  The fixture data is well formed for the page: every problem is reached
  by its own id (so \<open>/problems/:id\<close> never shows another problem), has at
  least one example for the description tab, and counts no more accepted
  submissions than submissions, of which there is at least one (the
  acceptance rate divides by it).  An id of no problem renders the
  not-found branch.
\<close>

theorem problems_fixture_wf:
  "list_all (\<lambda>p. detail_page (p_id p) now = Some (detail_init p now) \<and> p_examples p \<noteq> [] \<and>
       0 \<le> p_acceptedCount p \<and> p_acceptedCount p \<le> p_submissionCount p \<and> 0 < p_submissionCount p) problems \<and>
   detail_page ''9'' now = None"
  by (simp add: detail_page_def find_problem_def problems_unfold)

text \<open>
  C14: the page refines the abstract submission protocol: from every
  well-formed state, each event moves the abstraction of the page as the
  protocol's step moves the abstraction, so the timers, flags and result
  of the page behave as one run at a time with the captured language.
\<close>

theorem detail_refines_protocol:
  assumes "detail_wf s"
  shows "sub_abs (detail_step ev s) = sub_spec ev (sub_abs s)"
proof (cases ev)
  case (SubmitClicked now)
  with assms show ?thesis
    by (cases "pd_timers s") (auto simp: sub_abs_def detail_wf_def handleSubmit_def)
next
  case (SubmissionFires now r1 r2 r3)
  with assms show ?thesis
    by (cases "pd_timers s" rule: remdups_adj.cases) (auto simp: sub_abs_def detail_wf_def submission_fires_def)
next
  case (LanguageChange l)
  then show ?thesis by (cases "pd_timers s") (auto simp: sub_abs_def handleLanguageChange_def)
next
  case (AIEvent e)
  then show ?thesis by (cases "pd_timers s"; cases e) (auto simp: sub_abs_def)
qed (cases "pd_timers s"; auto simp: sub_abs_def handleCodeChange_def setFontSize_def split: option.split)+

theorem detail_refines_protocol_witness:
  "sub_abs (detail_step (SubmitClicked 7) (detail_init problem_3 0)) =
     sub_spec (SubmitClicked 7) (sub_abs (detail_init problem_3 0)) \<and>
   sub_abs (detail_init problem_3 0) = (Idle None, Python)"
proof -
  have "detail_wf (detail_init problem_3 0)" by (rule detail_init_wf)
  from detail_refines_protocol [OF this, of "SubmitClicked 7"] show ?thesis
    by (simp add: sub_abs_def detail_init_def)
qed

text \<open>
  C17: the page's callbacks terminate: from every well-formed state whose
  pending callbacks are due by \<open>T\<close>, firing them drains the queue (none
  reschedules itself), and the page ends neither submitting nor loading.
\<close>

theorem detail_settles:
  assumes "detail_wf s" "dues_by T s"
  shows "\<exists>s'. detail_settle T r1 r2 r3 s = Some s' \<and> pd_timers s' = [] \<and> ai_timers (pd_ai s') = [] \<and>
              \<not> pd_isSubmitting s' \<and> \<not> ai_isLoading (pd_ai s')"
proof -
  let ?b = "\<lambda>s. pd_timers s \<noteq> [] \<or> ai_timers (pd_ai s) \<noteq> []"
  let ?P = "\<lambda>s. detail_wf s \<and> dues_by T s"
  have "\<exists>t. while_option ?b (settle_step T r1 r2 r3) s = Some t"
    by (rule measure_while_option_Some [where P = ?P and f = "\<lambda>s. length (pd_timers s) + length (ai_timers (pd_ai s))"])
       (use settle_step_inv assms in auto)
  then obtain s' where s': "while_option ?b (settle_step T r1 r2 r3) s = Some s'" by blast
  have "?P s'"
    by (rule while_option_rule [where P = ?P, OF _ s']) (use settle_step_inv assms in auto)
  moreover have "\<not> ?b s'" using while_option_stop [OF s'] .
  ultimately show ?thesis using s'
    by (auto simp: detail_settle_def detail_wf_def ai_wf_def split: list.splits)
qed

theorem detail_settles_witness:
  "\<exists>s'. detail_settle 5000 0 0 0 (detail_step (SubmitClicked 0) (detail_init problem_1 0)) = Some s' \<and>
     pd_timers s' = [] \<and> ai_timers (pd_ai s') = [] \<and> \<not> pd_isSubmitting s' \<and> \<not> ai_isLoading (pd_ai s')"
proof (rule detail_settles)
  show "detail_wf (detail_step (SubmitClicked 0) (detail_init problem_1 0))"
    by (rule detail_reachable_wf) (intro detail_reach.intros)
  show "dues_by 5000 (detail_step (SubmitClicked 0) (detail_init problem_1 0))"
    by (simp add: dues_by_def detail_init_def handleSubmit_def ai_init_def)
qed

end
