(* ===== verification/Routes.thy ===== *)
theory Routes
  imports Prelude
begin

text \<open>
  The route table of \<open>src/src/App.tsx\<close> and the matching React Router (v6)
  does on it.  A route path compiles to the regular expression
  \<open>^/seg/seg\/*$\<close>, case-insensitive, a \<open>:param\<close> segment to \<open>([^\/]+)\<close>;
  the model splits the location's path at its slashes and matches the
  segments, a literal one up to ASCII case, a parameter one when non-empty.
  The children of \<open>/\<close> and \<open>auth\<close> are flattened with their parent's path
  and take its layout, and each layout route is a branch of its own; the
  branches are ranked by React Router's \<open>computeScore\<close> and the best match
  renders (\<open>app_route\<close>).  \<open>app_route_ranking\<close> compares this with reading
  the leaf routes in source order.  Paths are taken as already decoded (no
  \<open>%\<close> escapes).  \<open>NavLink\<close>'s active test is here too.
\<close>

datatype layout = MainLayout | AuthLayout | NoLayout

datatype page =
    PHome | PProblems | PProblemDetail string | PLeaderboard | PProfile string | PAdmin
  | PLogin | PRegister | PNotFound | PLayoutOnly layout

datatype seg = Lit string | Param | Splat

text \<open>The segments of a path: it starts with a slash, trailing slashes are dropped.\<close>

definition path_segments :: "string \<Rightarrow> string list option" where
  "path_segments p =
     (case p of
        c # rest \<Rightarrow>
          if c = CHR ''/'' then
            (let body = rev (dropWhile (\<lambda>x. x = CHR ''/'') (rev rest)) in
             Some (if body = [] then [] else js_split CHR ''/'' body))
          else None
      | [] \<Rightarrow> None)"

text \<open>
  A compiled route path: a literal matches up to ASCII case, a parameter
  any non-empty segment, the splat \<open>*\<close> whatever is left.
\<close>

fun seg_match :: "seg list \<Rightarrow> string list \<Rightarrow> string list option" where
  "seg_match [] [] = Some []"
| "seg_match (Splat # _) xs = Some []"
| "seg_match (Lit l # ps) (x # xs) = (if js_lower x = l then seg_match ps xs else None)"
| "seg_match (Param # ps) (x # xs) = (if x = [] then None else map_option (Cons x) (seg_match ps xs))"
| "seg_match _ _ = None"

text \<open>
  The branches React Router's \<open>flattenRoutes\<close> makes of the \<open><Routes>\<close> of
  \<open>App\<close> (lines 32 to 45): each child with its parent's path joined in front,
  the children before their parent, and each layout route also a branch of
  its own that renders the layout with an empty outlet.  A branch is its
  full path, whether it is an index route, and the page it renders from its
  parameters.
\<close>

definition branches :: "(string \<times> bool \<times> (string list \<Rightarrow> page)) list" where
  "branches =
     [(''/'', True, \<lambda>_. PHome),
      (''/problems'', False, \<lambda>_. PProblems),
      (''/problems/:id'', False, \<lambda>ps. PProblemDetail (hd ps)),
      (''/leaderboard'', False, \<lambda>_. PLeaderboard),
      (''/profile/:username'', False, \<lambda>ps. PProfile (hd ps)),
      (''/admin'', False, \<lambda>_. PAdmin),
      (''/'', False, \<lambda>_. PLayoutOnly MainLayout),
      (''/auth/login'', False, \<lambda>_. PLogin),
      (''/auth/register'', False, \<lambda>_. PRegister),
      (''/auth'', False, \<lambda>_. PLayoutOnly AuthLayout),
      (''/*'', False, \<lambda>_. PNotFound)]"

text \<open>\<open>compilePath\<close>: the pattern of a branch's path.\<close>

definition seg_of :: "string \<Rightarrow> seg" where
  "seg_of x = (if x = ''*'' then Splat else if take 1 x = '':'' then Param else Lit x)"

definition route_pattern :: "string \<Rightarrow> seg list" where
  "route_pattern p = map seg_of (filter (\<lambda>x. x \<noteq> []) (js_split CHR ''/'' p))"

text \<open>
  \<open>computeScore\<close>: the number of segments, less 2 with a splat, plus 2 for
  an index route, then 3 per parameter, 1 per empty and 10 per literal
  segment, the splat not counted.
\<close>

definition segment_value :: "string \<Rightarrow> int" where
  "segment_value x = (if take 1 x = '':'' then 3 else if x = [] then 1 else 10)"

definition computeScore :: "string \<Rightarrow> bool \<Rightarrow> int" where
  "computeScore p index =
     (let segs = js_split CHR ''/'' p in
      int (length segs) + (if ''*'' \<in> set segs then -2 else 0) + (if index then 2 else 0) +
      sum_list (map segment_value (filter (\<lambda>x. x \<noteq> ''*'') segs)))"

text \<open>
  \<open>rankRouteBranches\<close> then \<open>matchRoutes\<close>: the first matching branch of the
  highest score.  The sort is stable and compares siblings by their order,
  so among equal scores the earlier branch wins.
\<close>

fun pick_branch :: "(int \<times> page) list \<Rightarrow> (int \<times> page) option" where
  "pick_branch [] = None"
| "pick_branch ((sc, pg) # rs) =
     (case pick_branch rs of
        None \<Rightarrow> Some (sc, pg)
      | Some (sc', pg') \<Rightarrow> if sc < sc' then Some (sc', pg') else Some (sc, pg))"

definition matching_branches :: "string list \<Rightarrow> (int \<times> page) list" where
  "matching_branches xs =
     concat (map (\<lambda>(p, idx, el). case seg_match (route_pattern p) xs of
                                   Some ps \<Rightarrow> [(computeScore p idx, el ps)] | None \<Rightarrow> [])
                 branches)"

definition app_route :: "string \<Rightarrow> page" where
  "app_route path =
     (case path_segments path of
        Some xs \<Rightarrow> (case pick_branch (matching_branches xs) of Some (_, pg) \<Rightarrow> pg | None \<Rightarrow> PNotFound)
      | None \<Rightarrow> PNotFound)"

definition layout_of :: "page \<Rightarrow> layout" where
  "layout_of pg =
     (case pg of PLogin \<Rightarrow> AuthLayout | PRegister \<Rightarrow> AuthLayout | PNotFound \<Rightarrow> NoLayout
               | PLayoutOnly l \<Rightarrow> l | _ \<Rightarrow> MainLayout)"

text \<open>
  The reading of the route table a visitor expects: the leaf routes in the
  order of the source, the first that matches, else the 404 page.  It is a
  specification to compare the router against, not code.
\<close>

definition leaf_routes :: "(seg list \<times> (string list \<Rightarrow> page)) list" where
  "leaf_routes =
     [([], \<lambda>_. PHome),
      ([Lit ''problems''], \<lambda>_. PProblems),
      ([Lit ''problems'', Param], \<lambda>ps. PProblemDetail (hd ps)),
      ([Lit ''leaderboard''], \<lambda>_. PLeaderboard),
      ([Lit ''profile'', Param], \<lambda>ps. PProfile (hd ps)),
      ([Lit ''admin''], \<lambda>_. PAdmin),
      ([Lit ''auth'', Lit ''login''], \<lambda>_. PLogin),
      ([Lit ''auth'', Lit ''register''], \<lambda>_. PRegister)]"

fun first_route :: "(seg list \<times> (string list \<Rightarrow> page)) list \<Rightarrow> string list \<Rightarrow> page" where
  "first_route [] xs = PNotFound"
| "first_route ((pat, pg) # rs) xs =
     (case seg_match pat xs of Some ps \<Rightarrow> pg ps | None \<Rightarrow> first_route rs xs)"

text \<open>
  \<open>NavLink\<close>'s \<open>isActive\<close>: the location equals the target, or (without
  \<open>end\<close>) continues it after a slash; both compared in lower case.
\<close>

definition navLink_active :: "bool \<Rightarrow> string \<Rightarrow> string \<Rightarrow> bool" where
  "navLink_active is_end target loc \<longleftrightarrow>
     js_lower loc = js_lower target \<or>
     (\<not> is_end \<and> js_startsWith (js_lower loc) (js_lower target) \<and> js_at loc (length target) = Some CHR ''/'')"

subsection \<open>Lemmas\<close>

lemma dropWhile_replicate_sep: "dropWhile (\<lambda>c. c = x) (replicate k x @ t) = dropWhile (\<lambda>c. c = x) t"
  by (induction k) simp_all

lemma dropWhile_rev_nosep: "x \<notin> set a \<Longrightarrow> a \<noteq> [] \<Longrightarrow> dropWhile (\<lambda>c. c = x) (rev a @ t) = rev a @ t"
  by (cases a rule: rev_cases) auto

lemma path_segments_slashes:
  assumes "CHR ''/'' \<notin> set a" "a \<noteq> []"
  shows "path_segments (CHR ''/'' # a @ replicate k CHR ''/'') = Some [a]"
proof -
  have "rev (a @ replicate k CHR ''/'') = replicate k CHR ''/'' @ rev a" by simp
  moreover have "dropWhile (\<lambda>x. x = CHR ''/'') (replicate k CHR ''/'' @ rev a) = rev a"
    using dropWhile_rev_nosep [OF assms, of "[]"] by (simp add: dropWhile_replicate_sep)
  moreover have "\<exists>x\<in>set a. x \<noteq> CHR ''/''" using assms by (cases a) auto
  ultimately show ?thesis using assms by (simp add: path_segments_def js_split_no_sep) blast
qed

lemma path_segments_two:
  assumes "CHR ''/'' \<notin> set a" "CHR ''/'' \<notin> set b" "a \<noteq> []" "b \<noteq> []"
  shows "path_segments (CHR ''/'' # a @ CHR ''/'' # b @ replicate k CHR ''/'') = Some [a, b]"
proof -
  have "rev (a @ CHR ''/'' # b @ replicate k CHR ''/'') = replicate k CHR ''/'' @ rev b @ CHR ''/'' # rev a" by simp
  moreover have "dropWhile (\<lambda>x. x = CHR ''/'') (replicate k CHR ''/'' @ rev b @ CHR ''/'' # rev a) =
                 rev b @ CHR ''/'' # rev a"
    using dropWhile_rev_nosep [OF assms(2,4), of "CHR ''/'' # rev a"] by (simp add: dropWhile_replicate_sep)
  moreover have "\<exists>x\<in>set a. x \<noteq> CHR ''/''" using assms by (cases a) auto
  ultimately show ?thesis using assms by (simp add: path_segments_def js_split_append_sep js_split_no_sep) blast
qed

lemma route_patterns_eval [simp]:
  "route_pattern ''/'' = []" "route_pattern ''/problems'' = [Lit ''problems'']"
  "route_pattern ''/problems/:id'' = [Lit ''problems'', Param]" "route_pattern ''/leaderboard'' = [Lit ''leaderboard'']"
  "route_pattern ''/profile/:username'' = [Lit ''profile'', Param]" "route_pattern ''/admin'' = [Lit ''admin'']"
  "route_pattern ''/auth/login'' = [Lit ''auth'', Lit ''login'']"
  "route_pattern ''/auth/register'' = [Lit ''auth'', Lit ''register'']"
  "route_pattern ''/auth'' = [Lit ''auth'']" "route_pattern ''/*'' = [Splat]"
  by code_simp+

lemma route_scores_eval [simp]:
  "computeScore ''/'' True = 6" "computeScore ''/'' False = 4" "computeScore ''/problems'' False = 13"
  "computeScore ''/problems/:id'' False = 17" "computeScore ''/leaderboard'' False = 13"
  "computeScore ''/profile/:username'' False = 17" "computeScore ''/admin'' False = 13"
  "computeScore ''/auth/login'' False = 24" "computeScore ''/auth/register'' False = 24"
  "computeScore ''/auth'' False = 13" "computeScore ''/*'' False = 1"
  by code_simp+

lemma js_lower_route_literals [simp]:
  "js_lower ''problems'' = ''problems''" "js_lower ''profile'' = ''profile''"
  "js_lower ''leaderboard'' = ''leaderboard''" "js_lower ''admin'' = ''admin''"
  "js_lower ''auth'' = ''auth''" "js_lower ''login'' = ''login''" "js_lower ''register'' = ''register''"
  by (simp_all add: js_lower_def js_lower_char_def)

lemma ranked_eq_leaf:
  "(case pick_branch (matching_branches xs) of Some (_, pg) \<Rightarrow> pg | None \<Rightarrow> PNotFound) =
   (if map js_lower xs = [''auth''] then PLayoutOnly AuthLayout else first_route leaf_routes xs)"
proof (cases xs rule: remdups_adj.cases)
  case 1
  then show ?thesis by (simp add: matching_branches_def branches_def leaf_routes_def)
next
  case (2 a)
  then show ?thesis by (simp add: matching_branches_def branches_def leaf_routes_def split: if_split)
next
  case (3 a b r)
  then show ?thesis
  proof (cases r)
    case Nil
    with 3 show ?thesis by (simp add: matching_branches_def branches_def leaf_routes_def split: if_split)
  next
    case (Cons c r')
    with 3 show ?thesis by (simp add: matching_branches_def branches_def leaf_routes_def split: if_split)
  qed
qed

lemma first_route_params:
  assumes "pid \<noteq> []"
  shows "first_route leaf_routes [''problems'', pid] = PProblemDetail pid \<and>
         first_route leaf_routes [''profile'', pid] = PProfile pid"
  using assms by (simp add: leaf_routes_def)

lemma app_route_segments:
  "path_segments path = Some xs \<Longrightarrow>
     app_route path = (if map js_lower xs = [''auth''] then PLayoutOnly AuthLayout else first_route leaf_routes xs)"
  using ranked_eq_leaf [of xs] by (simp add: app_route_def)

lemma app_route_param_paths:
  assumes "CHR ''/'' \<notin> set pid" "pid \<noteq> []"
  shows "app_route (''/problems/'' @ pid @ replicate k CHR ''/'') = PProblemDetail pid"
    and "app_route (''/profile/'' @ pid @ replicate k CHR ''/'') = PProfile pid"
proof -
  have "path_segments (''/problems/'' @ pid @ replicate k CHR ''/'') = Some [''problems'', pid]"
    using path_segments_two [of "''problems''" pid k] assms by simp
  then show "app_route (''/problems/'' @ pid @ replicate k CHR ''/'') = PProblemDetail pid"
    using first_route_params [OF assms(2)] by (simp add: app_route_segments)
  have "path_segments (''/profile/'' @ pid @ replicate k CHR ''/'') = Some [''profile'', pid]"
    using path_segments_two [of "''profile''" pid k] assms by simp
  then show "app_route (''/profile/'' @ pid @ replicate k CHR ''/'') = PProfile pid"
    using first_route_params [OF assms(2)] by (simp add: app_route_segments)
qed

lemma app_route_fixed:
  "app_route ''/'' = PHome" "app_route ''/problems'' = PProblems" "app_route ''/leaderboard'' = PLeaderboard"
  "app_route ''/admin'' = PAdmin" "app_route ''/auth/login'' = PLogin" "app_route ''/auth/register'' = PRegister"
  "app_route ''/settings'' = PNotFound" "app_route ''/auth/forgot-password'' = PNotFound"
  "app_route ''/terms'' = PNotFound" "app_route ''/privacy'' = PNotFound"
  "app_route ''/auth'' = PLayoutOnly AuthLayout"
  by code_simp+

subsection \<open>Properties\<close>

text \<open>
  C29: React Router's ranked matching of the flattened branches renders,
  at every location, what reading the leaf routes in source order gives,
  except at \<open>/auth\<close>: there only the layout route's own branch and the
  splat match, and the sign-in layout is shown around an empty outlet
  instead of the 404 page.  At \<open>/\<close> three branches match (the index route,
  the main layout's own branch, the splat) and the index route's bonus
  makes the home page win.
\<close>

theorem app_route_ranking:
  "app_route path =
     (case path_segments path of
        Some xs \<Rightarrow> if map js_lower xs = [''auth''] then PLayoutOnly AuthLayout else first_route leaf_routes xs
      | None \<Rightarrow> PNotFound)"
  by (cases "path_segments path") (simp_all add: app_route_def ranked_eq_leaf)

end
