(* ===== verification/Navbar.thy ===== *)
theory Navbar
  imports Routes ClientAuth
begin

text \<open>
  The navigation bar, \<open>src/src/components/common/Navbar.tsx\<close>, over the
  session of \<open>ClientAuth\<close>: its two hooks (\<open>isMenuOpen\<close>,
  \<open>isProfileOpen\<close>) and what it renders from them, from the user and
  from the location (\<open>ac_path\<close>, which \<open>navigate\<close> and the links change).
  The user is the decoded token, any JSON value: \<open>user?.role\<close> and
  \<open>user?.username\<close> read a member of an object and are \<open>undefined\<close> on
  anything else.  An event is enabled only when the element that fires it
  is rendered (\<open>nav_enabled\<close>); the bar is mounted by \<open>MainLayout\<close>, so
  while it is mounted the session changes only through its own sign-out
  (the login and register pages use \<open>AuthLayout\<close>).
\<close>

record nav_state =
  nav_isMenuOpen :: bool
  nav_isProfileOpen :: bool

definition nav_init :: nav_state where
  "nav_init = \<lparr>nav_isMenuOpen = False, nav_isProfileOpen = False\<rparr>"

text \<open>\<open>user?.key\<close>: a member of an object, \<open>undefined\<close> (\<open>None\<close>) otherwise.\<close>

definition user_field :: "json \<Rightarrow> string \<Rightarrow> json option" where
  "user_field u k = (case u of JObj kvs \<Rightarrow> json_get kvs k | _ \<Rightarrow> None)"

text \<open>\<open>String(v)\<close> of a JSON value, as a template literal writes it.\<close>

fun json_text :: "json \<Rightarrow> string" where
  "json_text JNull = ''null''"
| "json_text (JBool b) = (if b then ''true'' else ''false'')"
| "json_text (JNum i) = int_text i"
| "json_text (JStr s) = s"
| "json_text (JArr vs) = join_comma (map (\<lambda>v. case v of JNull \<Rightarrow> [] | _ \<Rightarrow> json_text v) vs)"
| "json_text (JObj kvs) = ''[object Object]''"

definition js_template :: "json option \<Rightarrow> string" where
  "js_template v = (case v of None \<Rightarrow> ''undefined'' | Some j \<Rightarrow> json_text j)"

definition is_admin :: "auth_ctx \<Rightarrow> bool" where
  "is_admin ctx \<longleftrightarrow> user_field (ac_user ctx) ''role'' = Some (JStr ''admin'')"

text \<open>
  The handlers.  A link navigates (\<open>ac_path\<close>) and, where it has
  \<open>onClick={closeMenus}\<close>, closes both menus; the desktop \<open>NavLink\<close>s
  have no \<open>onClick\<close>.  \<open>handleLogout\<close> is \<open>logout(); closeMenus()\<close>.
\<close>

definition closeMenus :: "nav_state \<Rightarrow> nav_state" where
  "closeMenus n = n\<lparr>nav_isMenuOpen := False, nav_isProfileOpen := False\<rparr>"

datatype nav_event =
    ToggleMenu | ToggleProfile | DesktopLink string | ClosingLink string | NavLogout

fun nav_step :: "nav_event \<Rightarrow> nav_state \<times> auth_ctx \<Rightarrow> nav_state \<times> auth_ctx" where
  "nav_step ToggleMenu (n, ctx) = (n\<lparr>nav_isMenuOpen := \<not> nav_isMenuOpen n\<rparr>, ctx)"
| "nav_step ToggleProfile (n, ctx) = (n\<lparr>nav_isProfileOpen := \<not> nav_isProfileOpen n\<rparr>, ctx)"
| "nav_step (DesktopLink target) (n, ctx) = (n, ctx\<lparr>ac_path := target\<rparr>)"
| "nav_step (ClosingLink target) (n, ctx) = (closeMenus n, ctx\<lparr>ac_path := target\<rparr>)"
| "nav_step NavLogout (n, ctx) = (closeMenus n, auth_logout ctx)"

subsection \<open>What the bar renders\<close>

text \<open>The desktop links (lines 41 to 63): label, target, \<open>end\<close>.\<close>

definition desktop_links :: "auth_ctx \<Rightarrow> (string \<times> string \<times> bool) list" where
  "desktop_links ctx =
     [(''Dashboard'', ''/'', True), (''Problems'', ''/problems'', False), (''Leaderboard'', ''/leaderboard'', False)] @
     (if is_admin ctx then [(''Admin'', ''/admin'', False)] else [])"

text \<open>The profile menu (lines 81 to 115): name, e-mail and the two links.\<close>

definition profile_menu_links :: "auth_ctx \<Rightarrow> (string \<times> string) list" where
  "profile_menu_links ctx =
     [(''Profile'', ''/profile/'' @ js_template (user_field (ac_user ctx) ''username'')), (''Settings'', ''/settings'')]"

text \<open>The mobile menu (lines 141 to 187).\<close>

definition mobile_links :: "auth_ctx \<Rightarrow> (string \<times> string) list" where
  "mobile_links ctx =
     [(''Dashboard'', ''/''), (''Problems'', ''/problems''), (''Leaderboard'', ''/leaderboard'')] @
     (if isAuthenticated ctx then [] else [(''Sign in'', ''/auth/login''), (''Sign up'', ''/auth/register'')])"

record nav_view =
  nv_links :: "(string \<times> string \<times> bool) list"
  nv_userButton :: "json option option"
  nv_profileMenu :: "(json option \<times> json option \<times> (string \<times> string) list) option"
  nv_authLinks :: "(string \<times> string) list"
  nv_mobileMenu :: "(string \<times> string) list option"

definition navbar_view :: "nav_state \<times> auth_ctx \<Rightarrow> nav_view" where
  "navbar_view st =
     (let (n, ctx) = st in
      \<lparr>nv_links = map (\<lambda>(l, t, e). (l, t, navLink_active e t (ac_path ctx))) (desktop_links ctx),
       nv_userButton = (if isAuthenticated ctx then Some (user_field (ac_user ctx) ''username'') else None),
       nv_profileMenu =
         (if isAuthenticated ctx \<and> nav_isProfileOpen n then
            Some (user_field (ac_user ctx) ''username'', user_field (ac_user ctx) ''email'', profile_menu_links ctx)
          else None),
       nv_authLinks = (if isAuthenticated ctx then [] else [(''Sign in'', ''/auth/login''), (''Sign up'', ''/auth/register'')]),
       nv_mobileMenu = (if nav_isMenuOpen n then Some (mobile_links ctx) else None)\<rparr>)"

text \<open>
  The events the rendered bar offers: the logo and the desktop links
  always, the profile button when signed in, the menu's links and sign-out
  when the menu is shown, the mobile links when that menu is open.
\<close>

definition nav_enabled :: "nav_event \<Rightarrow> nav_state \<times> auth_ctx \<Rightarrow> bool" where
  "nav_enabled ev st =
     (let (n, ctx) = st; v = navbar_view st in
      case ev of
        ToggleMenu \<Rightarrow> True
      | ToggleProfile \<Rightarrow> isAuthenticated ctx
      | DesktopLink t \<Rightarrow> t \<in> set (map (fst \<circ> snd) (nv_links v)) \<or> t \<in> set (map snd (nv_authLinks v))
      | ClosingLink t \<Rightarrow>
          t = ''/'' \<or>
          (case nv_profileMenu v of Some (_, _, ls) \<Rightarrow> t \<in> set (map snd ls) | None \<Rightarrow> False) \<or>
          (case nv_mobileMenu v of Some ls \<Rightarrow> t \<in> set (map snd ls) | None \<Rightarrow> False)
      | NavLogout \<Rightarrow> nv_profileMenu v \<noteq> None)"

inductive nav_reach :: "nav_state \<times> auth_ctx \<Rightarrow> bool" where
  mount: "nav_reach (nav_init, ctx)"
| step: "nav_reach st \<Longrightarrow> nav_enabled ev st \<Longrightarrow> nav_reach (nav_step ev st)"

subsection \<open>Lemmas\<close>

lemma auth_logout_not_authenticated [simp]: "\<not> isAuthenticated (auth_logout ctx)"
  by (simp add: auth_logout_def isAuthenticated_def js_truthy_def)

lemma nav_step_keeps_user:
  "ev \<noteq> NavLogout \<Longrightarrow> ac_user (snd (nav_step ev (n, ctx))) = ac_user ctx"
  by (cases ev) simp_all

lemma nav_profile_menu_iff:
  "nv_profileMenu (navbar_view (n, ctx)) \<noteq> None \<longleftrightarrow> isAuthenticated ctx \<and> nav_isProfileOpen n"
  by (simp add: navbar_view_def)

lemma nav_step_profile_auth:
  assumes "nav_isProfileOpen n \<longrightarrow> isAuthenticated ctx" and "nav_enabled ev (n, ctx)"
  shows "nav_isProfileOpen (fst (nav_step ev (n, ctx))) \<longrightarrow> isAuthenticated (snd (nav_step ev (n, ctx)))"
  using assms by (cases ev) (auto simp: nav_enabled_def closeMenus_def isAuthenticated_def)

lemma nav_reachable_profile_auth:
  "nav_reach st \<Longrightarrow> nav_isProfileOpen (fst st) \<longrightarrow> isAuthenticated (snd st)"
proof (induction rule: nav_reach.induct)
  case (mount ctx)
  then show ?case by (simp add: nav_init_def)
next
  case (step st ev)
  then show ?case using nav_step_profile_auth [of "fst st" "snd st" ev] by simp
qed

subsection \<open>Properties\<close>

text \<open>
  C30: in every state of the bar the profile menu is open only for a signed-in
  user, and it is rendered exactly when it is open: signing out closes it,
  and nothing reopens it for an anonymous visitor.
\<close>

theorem nav_reach_profile_menu:
  assumes "nav_reach (n, ctx)"
  shows "(nav_isProfileOpen n \<longrightarrow> isAuthenticated ctx) \<and>
         (nv_profileMenu (navbar_view (n, ctx)) \<noteq> None \<longleftrightarrow> nav_isProfileOpen n)"
  using nav_reachable_profile_auth [OF assms] unfolding nav_profile_menu_iff by auto

theorem nav_reach_profile_menu_witness:
  "nav_isProfileOpen (nav_init\<lparr>nav_isProfileOpen := True\<rparr>) \<and>
   isAuthenticated ((auth_init None ''/'')\<lparr>ac_user := JObj [(''username'', JStr ''ann'')]\<rparr>) \<and>
   nv_profileMenu (navbar_view (nav_init\<lparr>nav_isProfileOpen := True\<rparr>,
     (auth_init None ''/'')\<lparr>ac_user := JObj [(''username'', JStr ''ann'')]\<rparr>)) \<noteq> None"
proof -
  let ?ctx = "(auth_init None ''/'')\<lparr>ac_user := JObj [(''username'', JStr ''ann'')]\<rparr>"
  have "nav_reach (nav_step ToggleProfile (nav_init, ?ctx))"
    by (rule nav_reach.step [OF nav_reach.mount])
      (simp add: nav_enabled_def navbar_view_def isAuthenticated_def js_truthy_def)
  then have r: "nav_reach (nav_init\<lparr>nav_isProfileOpen := True\<rparr>, ?ctx)" by (simp add: nav_init_def)
  show ?thesis using nav_reach_profile_menu [OF r] by simp
qed

end
