(* ===== verification/ProfilePage.thy ===== *)
theory ProfilePage
  imports ProblemsPage
begin

text \<open>
  The profile page, \<open>src/src/pages/ProfilePage.tsx\<close>: the fixture
  \<open>mockUserData\<close> as a record, \<open>getStatusColor\<close> (here
  \<open>getStatusColor_profile\<close>, the contest dashboard has its own), the status
  label the table derives from the status string, and the page as a record
  of what it shows.  The route parameter \<open>username\<close> is read and not used:
  the page is a function of it that ignores it.  The width of a progress bar
  is the exact quotient \<open>solved / total * 100\<close>, as a number (the browser
  prints the nearest double).
\<close>

record user_stats =
  us_problemsSolved :: int
  us_totalSubmissions :: int
  us_acceptanceRate :: int
  us_streak :: int
  us_ranking :: int
  us_points :: int

record solved_total =
  st_solved :: int
  st_total :: int

record submission_data =
  sd_problemId :: string
  sd_problemTitle :: string
  sd_date :: string
  sd_status :: string
  sd_language :: string
  sd_runtime :: string

record user_data =
  ud_username :: string
  ud_name :: string
  ud_avatar :: string
  ud_joined :: string
  ud_location :: string
  ud_occupation :: string
  ud_bio :: string
  ud_stats :: user_stats
  ud_easy :: solved_total
  ud_medium :: solved_total
  ud_hard :: solved_total
  ud_github :: string
  ud_twitter :: string
  ud_linkedin :: string
  ud_recentSubmissions :: "submission_data list"

definition mockUserData :: user_data where
  "mockUserData =
     \<lparr>ud_username = ''johnDoe'', ud_name = ''John Doe'', ud_avatar = ''https://i.pravatar.cc/150?img=68'',
      ud_joined = ''March 2023'', ud_location = ''San Francisco, CA'', ud_occupation = ''Software Engineer'',
      ud_bio = ''Passionate programmer and algorithm enthusiast. I love solving challenging problems and learning new technologies.'',
      ud_stats = \<lparr>us_problemsSolved = 127, us_totalSubmissions = 342, us_acceptanceRate = 78, us_streak = 24,
                  us_ranking = 1547, us_points = 4580\<rparr>,
      ud_easy = \<lparr>st_solved = 75, st_total = 120\<rparr>,
      ud_medium = \<lparr>st_solved = 42, st_total = 180\<rparr>,
      ud_hard = \<lparr>st_solved = 10, st_total = 80\<rparr>,
      ud_github = ''https://github.com/johndoe'', ud_twitter = ''https://twitter.com/johndoe'',
      ud_linkedin = ''https://linkedin.com/in/johndoe'',
      ud_recentSubmissions =
        [\<lparr>sd_problemId = ''1'', sd_problemTitle = ''Two Sum'', sd_date = ''2 hours ago'', sd_status = ''accepted'',
          sd_language = ''JavaScript'', sd_runtime = ''76 ms''\<rparr>,
         \<lparr>sd_problemId = ''3'', sd_problemTitle = ''Maximum Subarray'', sd_date = ''1 day ago'', sd_status = ''accepted'',
          sd_language = ''Python'', sd_runtime = ''124 ms''\<rparr>,
         \<lparr>sd_problemId = ''5'', sd_problemTitle = ''Valid Parentheses'', sd_date = ''2 days ago'',
          sd_status = ''wrong_answer'', sd_language = ''C++'', sd_runtime = ''0 ms''\<rparr>,
         \<lparr>sd_problemId = ''2'', sd_problemTitle = ''Palindrome Checker'', sd_date = ''3 days ago'',
          sd_status = ''accepted'', sd_language = ''JavaScript'', sd_runtime = ''92 ms''\<rparr>,
         \<lparr>sd_problemId = ''8'', sd_problemTitle = ''Longest Substring Without Repeating Characters'',
          sd_date = ''5 days ago'', sd_status = ''time_limit_exceeded'', sd_language = ''Python'',
          sd_runtime = ''0 ms''\<rparr>]\<rparr>"

definition getStatusColor_profile :: "string \<Rightarrow> string" where
  "getStatusColor_profile status =
     (if status = ''accepted'' then ''text-success-600 dark:text-success-400''
      else if status = ''wrong_answer'' then ''text-error-600 dark:text-error-400''
      else if status = ''time_limit_exceeded'' then ''text-warning-600 dark:text-warning-400''
      else if status = ''runtime_error'' then ''text-error-600 dark:text-error-400''
      else ''text-secondary-600 dark:text-secondary-400'')"

text \<open>\<open>status.split('_').map(capitalise).join(' ')\<close>.\<close>

definition status_label :: "string \<Rightarrow> string" where
  "status_label status = js_join '' '' (map js_capitalize (js_split CHR ''_'' status))"

text \<open>A row of the recent submissions: link, title, status (class and label), language, runtime, date.\<close>

record submission_row =
  sr_href :: string
  sr_title :: string
  sr_statusClass :: string
  sr_statusLabel :: string
  sr_cells :: "string \<times> string \<times> string"

definition submission_row_of :: "submission_data \<Rightarrow> submission_row" where
  "submission_row_of sd =
     \<lparr>sr_href = ''/problems/'' @ sd_problemId sd, sr_title = sd_problemTitle sd,
      sr_statusClass = getStatusColor_profile (sd_status sd), sr_statusLabel = status_label (sd_status sd),
      sr_cells = (sd_language sd, sd_runtime sd, sd_date sd)\<rparr>"

text \<open>A card of the \<open>Solved Problems\<close> grid: link, title, number, badge, difficulty.\<close>

definition solved_card :: "problem \<Rightarrow> string \<times> string \<times> string \<times> string \<times> string" where
  "solved_card p =
     (''/problems/'' @ p_id p, p_title p, ''Problem #'' @ p_id p,
      ''badge '' @ (if p_difficulty p = Easy then ''badge-easy'' else if p_difficulty p = Medium then ''badge-medium''
                   else ''badge-hard''),
      js_capitalize (difficulty_name (p_difficulty p)))"

definition progress_width :: "solved_total \<Rightarrow> rat" where
  "progress_width c = of_int (st_solved c) / of_int (st_total c) * 100"

text \<open>
  The user card's top (lines 109 to 145): the avatar (source and alt
  text), name, handle and join date, location and occupation when
  truthy, and the bio when truthy.
\<close>

definition profile_intro ::
  "user_data \<Rightarrow> (string \<times> string) \<times> (string \<times> string \<times> string) \<times> string list \<times> string option" where
  "profile_intro u =
     ((ud_avatar u, ud_username u),
      (ud_name u, CHR ''@'' # ud_username u, ''Joined '' @ ud_joined u),
      filter (\<lambda>l. l \<noteq> []) [ud_location u, ud_occupation u],
      if ud_bio u = [] then None else Some (ud_bio u))"

text \<open>The \<open>Stats\<close> grid (lines 147 to 175): label and printed value.\<close>

definition profile_stats :: "user_stats \<Rightarrow> (string \<times> string) list" where
  "profile_stats st =
     [(''Problems Solved'', int_text (us_problemsSolved st)), (''Submissions'', int_text (us_totalSubmissions st)),
      (''Acceptance Rate'', int_text (us_acceptanceRate st) @ ''%''), (''Daily Streak'', int_text (us_streak st) @ '' days''),
      (''Ranking'', CHR ''#'' # int_text (us_ranking st)), (''Points'', int_text (us_points st))]"

text \<open>\<open>Problem Solving\<close> (lines 177 to 224): per difficulty, label, bar colour, \<open>solved / total\<close>, width.\<close>

definition profile_progress :: "user_data \<Rightarrow> (string \<times> string \<times> string \<times> rat) list" where
  "profile_progress u =
     map (\<lambda>(l, bar, c). (l, bar, int_text (st_solved c) @ '' / '' @ int_text (st_total c), progress_width c))
       [(''Easy'', ''bg-success-500'', ud_easy u), (''Medium'', ''bg-warning-500'', ud_medium u),
        (''Hard'', ''bg-error-500'', ud_hard u)]"

text \<open>\<open>Connect\<close> (lines 226 to 262): a link, with its screen-reader label, per truthy address.\<close>

definition profile_social :: "user_data \<Rightarrow> (string \<times> string) list" where
  "profile_social u =
     filter (\<lambda>(h, _). h \<noteq> []) [(ud_github u, ''GitHub''), (ud_twitter u, ''Twitter''), (ud_linkedin u, ''LinkedIn'')]"

text \<open>The summary cards (lines 270 to 307).\<close>

definition profile_summary :: "user_stats \<Rightarrow> (string \<times> string) list" where
  "profile_summary st =
     [(''Problems Solved'', int_text (us_problemsSolved st)), (''Global Rank'', CHR ''#'' # int_text (us_ranking st)),
      (''Current Streak'', int_text (us_streak st) @ '' days'')]"

text \<open>\<open>Recent Submissions\<close> (lines 309 to 364): the table's head and a row per submission.\<close>

definition profile_submissions :: "user_data \<Rightarrow> string list \<times> submission_row list" where
  "profile_submissions u =
     ([''Problem'', ''Status'', ''Language'', ''Runtime'', ''Submitted''], map submission_row_of (ud_recentSubmissions u))"

text \<open>
  \<open>Solved Problems\<close> (lines 366 to 417): the four filter buttons (only
  \<open>All\<close> highlighted, none has a handler), the first six problems of the
  set, solved or not, and a \<open>View All\<close> button without a handler.
\<close>

definition profile_solved ::
  "problem list \<Rightarrow> (string \<times> bool) list \<times> (string \<times> string \<times> string \<times> string \<times> string) list \<times> string" where
  "profile_solved ps =
     ([(''All'', True), (''Easy'', False), (''Medium'', False), (''Hard'', False)],
      map solved_card (take 6 ps), ''View All Solved Problems'')"

record profile_view =
  pv_avatar :: "string \<times> string"
  pv_header :: "string \<times> string \<times> string"
  pv_details :: "string list"
  pv_bio :: "string option"
  pv_stats :: "(string \<times> string) list"
  pv_bars :: "(string \<times> string \<times> string \<times> rat) list"
  pv_social :: "(string \<times> string) list"
  pv_summary :: "(string \<times> string) list"
  pv_submissions :: "string list \<times> submission_row list"
  pv_solved :: "(string \<times> bool) list \<times> (string \<times> string \<times> string \<times> string \<times> string) list \<times> string"

text \<open>The page (lines 104 to 421): the user card on the left, the activity on the right.\<close>

definition profile_page :: "string \<Rightarrow> profile_view" where
  "profile_page username =
     (let u = mockUserData; i = profile_intro u in
      \<lparr>pv_avatar = fst i, pv_header = fst (snd i), pv_details = fst (snd (snd i)), pv_bio = snd (snd (snd i)),
       pv_stats = profile_stats (ud_stats u), pv_bars = profile_progress u, pv_social = profile_social u,
       pv_summary = profile_summary (ud_stats u), pv_submissions = profile_submissions u,
       pv_solved = profile_solved problems\<rparr>)"

subsection \<open>Lemmas\<close>

lemma status_labels:
  "status_label ''accepted'' = ''Accepted''" "status_label ''wrong_answer'' = ''Wrong Answer''"
  "status_label ''time_limit_exceeded'' = ''Time Limit Exceeded''" "status_label ''runtime_error'' = ''Runtime Error''"
  by code_simp+

end
