(* ===== verification/AdminDashboard.thy ===== *)
theory AdminDashboard
  imports ProblemsData JsText
begin

text \<open>
  The admin dashboard, \<open>src/src/components/features/AdminDashboard.tsx\<close>:
  two hooks (\<open>activeTab\<close>, \<open>searchQuery\<close>), the fixtures the component
  builds on each render (\<open>mockProblems\<close>, \<open>mockUsers\<close>, whose last-active
  times read the clock, and \<open>stats\<close>), and what each tab shows.  Dates
  stay as the values the fixtures hold: \<open>toLocaleDateString\<close> depends on
  the browser's locale and time zone and is not modelled.  The buttons of
  the tables (add, filter, view, edit, delete, export, import) have no
  handler and are not events.
\<close>

datatype admin_tab = Admin_overview | Admin_problems | Admin_users | Admin_submissions

datatype pub_status = Draft | Published | Archived

record admin_problem =
  ap_id :: string
  ap_title :: string
  ap_difficulty :: difficulty
  ap_status :: pub_status
  ap_submissions :: int
  ap_acceptance :: rat
  ap_createdAt :: string

record admin_user =
  au_id :: string
  au_username :: string
  au_email :: string
  au_role :: string
  au_joinDate :: string
  au_problemsSolved :: int
  au_lastActive :: int

record admin_state =
  as_activeTab :: admin_tab
  as_searchQuery :: string

definition admin_init :: admin_state where
  "admin_init = \<lparr>as_activeTab = Admin_overview, as_searchQuery = []\<rparr>"

definition mockProblems :: "admin_problem list" where
  "mockProblems =
     [\<lparr>ap_id = ''1'', ap_title = ''Two Sum'', ap_difficulty = Easy, ap_status = Published,
       ap_submissions = 1425, ap_acceptance = 615 / 10, ap_createdAt = ''2024-01-15''\<rparr>,
      \<lparr>ap_id = ''2'', ap_title = ''Binary Tree Traversal'', ap_difficulty = Medium, ap_status = Published,
       ap_submissions = 892, ap_acceptance = 452 / 10, ap_createdAt = ''2024-01-20''\<rparr>,
      \<lparr>ap_id = ''3'', ap_title = ''Graph Algorithms'', ap_difficulty = Hard, ap_status = Draft,
       ap_submissions = 0, ap_acceptance = 0, ap_createdAt = ''2024-01-25''\<rparr>]"

text \<open>\<open>new Date()\<close> and \<open>new Date(Date.now() - 2 * 60 * 60 * 1000)\<close> are the render's clock \<open>now\<close>.\<close>

definition mockUsers :: "int \<Rightarrow> admin_user list" where
  "mockUsers now =
     [\<lparr>au_id = ''1'', au_username = ''john_doe'', au_email = ''john@example.com'', au_role = ''user'',
       au_joinDate = ''2024-01-10'', au_problemsSolved = 45, au_lastActive = now\<rparr>,
      \<lparr>au_id = ''2'', au_username = ''alice_dev'', au_email = ''alice@example.com'', au_role = ''user'',
       au_joinDate = ''2024-01-12'', au_problemsSolved = 67, au_lastActive = now - 2 * 60 * 60 * 1000\<rparr>]"

definition admin_stats :: "int \<times> int \<times> int \<times> int" where
  "admin_stats = (1247, 156, 45678, 89)"

datatype admin_event = SelectTab admin_tab | SetSearch string

fun admin_step :: "admin_event \<Rightarrow> admin_state \<Rightarrow> admin_state" where
  "admin_step (SelectTab t) s = s\<lparr>as_activeTab := t\<rparr>"
| "admin_step (SetSearch q) s = s\<lparr>as_searchQuery := q\<rparr>"

subsection \<open>What the dashboard shows\<close>

text \<open>
  A number as \<open>String(n)\<close> prints it, for the values with at most one
  decimal the fixtures hold: an integer without a point, else one decimal.
\<close>

definition num_text :: "rat \<Rightarrow> string" where
  "num_text x = (if x = of_int \<lfloor>x\<rfloor> then int_text \<lfloor>x\<rfloor> else js_toFixed1 x)"

definition difficulty_badge :: "difficulty \<Rightarrow> string" where
  "difficulty_badge d = ''badge '' @ (case d of Easy \<Rightarrow> ''badge-easy'' | Medium \<Rightarrow> ''badge-medium'' | Hard \<Rightarrow> ''badge-hard'')"

definition pub_status_text :: "pub_status \<Rightarrow> string" where
  "pub_status_text st = (case st of Draft \<Rightarrow> ''draft'' | Published \<Rightarrow> ''published'' | Archived \<Rightarrow> ''archived'')"

definition pub_status_badge :: "pub_status \<Rightarrow> string" where
  "pub_status_badge st =
     ''badge '' @ (case st of Published \<Rightarrow> ''badge-accepted'' | Draft \<Rightarrow> ''badge-tle'' | Archived \<Rightarrow> ''badge-wrong'')"

text \<open>
  A row of the problems table (lines 224 to 260): title, difficulty badge
  and name, status badge and name, submissions, acceptance, created.
\<close>

definition admin_problem_row :: "admin_problem \<Rightarrow> string list" where
  "admin_problem_row p =
     [ap_title p,
      difficulty_badge (ap_difficulty p) @ '':'' @
        (case ap_difficulty p of Easy \<Rightarrow> ''easy'' | Medium \<Rightarrow> ''medium'' | Hard \<Rightarrow> ''hard''),
      pub_status_badge (ap_status p) @ '':'' @ pub_status_text (ap_status p),
      int_text (ap_submissions p), num_text (ap_acceptance p) @ ''%'', ap_createdAt p]"

text \<open>A row of the users table (lines 303 to 328).\<close>

definition admin_user_row :: "admin_user \<Rightarrow> string list" where
  "admin_user_row u =
     [au_username u, au_email u,
      ''badge '' @ (if au_role u = ''admin'' then ''badge-accepted'' else ''badge-tle'') @ '':'' @ au_role u,
      int_text (au_problemsSolved u), au_joinDate u, int_text (au_lastActive u)]"

text \<open>\<open>renderOverview\<close> (lines 99 to 178): the four stat cards and the recent activity with its age.\<close>

definition renderOverview :: "(string \<times> int) list \<times> (string \<times> string) list" where
  "renderOverview =
     (let (users, probs, subs, active) = admin_stats in
      ([(''Total Users'', users), (''Total Problems'', probs), (''Total Submissions'', subs), (''Active Users'', active)],
       [(''New user registered: alice_coder'', ''2 minutes ago''),
        (''Problem \"Dynamic Programming Basics\" published'', ''15 minutes ago''),
        (''Contest \"Weekly Challenge #47\" started'', ''1 hour ago'')]))"

text \<open>
  \<open>renderProblems\<close> (lines 180 to 265): the heading, the search input's
  value, the table's head and a row per fixture problem.
\<close>

definition renderProblems :: "string \<Rightarrow> string \<times> string \<times> string list \<times> string list list" where
  "renderProblems q =
     (''Problem Management'', q,
      [''Title'', ''Difficulty'', ''Status'', ''Submissions'', ''Acceptance'', ''Created'', ''Actions''],
      map admin_problem_row mockProblems)"

text \<open>\<open>renderUsers\<close> (lines 267 to 333): the heading, the table's head and a row per fixture user.\<close>

definition renderUsers :: "int \<Rightarrow> string \<times> string list \<times> string list list" where
  "renderUsers now =
     (''User Management'',
      [''Username'', ''Email'', ''Role'', ''Problems Solved'', ''Join Date'', ''Last Active'', ''Actions''],
      map admin_user_row (mockUsers now))"

definition admin_tabs :: "(admin_tab \<times> string) list" where
  "admin_tabs = [(Admin_overview, ''Overview''), (Admin_problems, ''Problems''), (Admin_users, ''Users''),
                 (Admin_submissions, ''Submissions'')]"

datatype admin_content =
    Overview_content "(string \<times> int) list \<times> (string \<times> string) list"
  | Problems_content "string \<times> string \<times> string list \<times> string list list"
  | Users_content "string \<times> string list \<times> string list list"
  | Submissions_placeholder string

text \<open>The tab content (lines 375 to 381): exactly one of the four \<open>&&\<close> branches renders.\<close>

definition admin_content :: "int \<Rightarrow> admin_state \<Rightarrow> admin_content" where
  "admin_content now s =
     (case as_activeTab s of
        Admin_overview \<Rightarrow> Overview_content renderOverview
      | Admin_problems \<Rightarrow> Problems_content (renderProblems (as_searchQuery s))
      | Admin_users \<Rightarrow> Users_content (renderUsers now)
      | Admin_submissions \<Rightarrow> Submissions_placeholder ''Submissions management coming soon...'')"

text \<open>The page (lines 342 to 384): the tab bar, each tab highlighted when active, and the content.\<close>

definition admin_view :: "int \<Rightarrow> admin_state \<Rightarrow> (string \<times> bool) list \<times> admin_content" where
  "admin_view now s = (map (\<lambda>(t, l). (l, t = as_activeTab s)) admin_tabs, admin_content now s)"

subsection \<open>Properties\<close>

text \<open>
  The search box of the problems tab filters nothing: whatever is typed,
  the table lists every problem of \<open>mockProblems\<close>, and the query is only
  echoed back into the input.
\<close>

theorem admin_search_ignored:
  "admin_content now (admin_step (SetSearch q) (s\<lparr>as_activeTab := Admin_problems\<rparr>)) =
     Problems_content (''Problem Management'', q, snd (snd (renderProblems [])))"
  by (simp add: admin_content_def renderProblems_def)

text \<open>
  In every state exactly one tab button is highlighted, the one of the
  tab whose content is rendered.
\<close>

theorem admin_one_active_tab:
  "\<exists>l. filter snd (fst (admin_view now s)) = [(l, True)] \<and> (as_activeTab s, l) \<in> set admin_tabs"
  by (cases "as_activeTab s") (simp_all add: admin_view_def admin_tabs_def)

text \<open>The acceptance column prints the fixtures' numbers as JavaScript does.\<close>

lemma admin_acceptance_texts:
  "map (\<lambda>p. num_text (ap_acceptance p) @ ''%'') mockProblems = [''61.5%'', ''45.2%'', ''0%'']"
  by code_simp

end
