(* ===== verification/App.thy ===== *)
theory App
  imports Navbar ProfilePage AdminDashboard ProblemDetail ContestDashboard AuthPages LeaderboardPage
begin

text \<open>
  The whole client, \<open>src/src/App.tsx\<close>: the \<open>AuthProvider\<close> above the
  routes (one session for every page), \<open>MainLayout\<close> (navigation bar,
  page, footer) and \<open>AuthLayout\<close> around their routes (a layout route's
  own branch, as \<open>/auth\<close>, shows the layout around an empty outlet,
  \<open>S_outlet\<close>), and the page of the
  current location with its own state.  The location is the session's
  \<open>ac_path\<close>: a link or a \<open>navigate\<close> call changes it, then the router
  renders the route of the new path (\<open>app_sync\<close>).  A route whose element
  stays the same keeps its component's state: \<open>/problems/:id\<close> to another
  id (\<open>detail_route_change\<close>) and \<open>/profile/:username\<close> to another user; a
  different element unmounts the old page and mounts the new one, and the
  navigation bar survives exactly when both pages use \<open>MainLayout\<close>.  A
  plain \<open><a href>\<close> (the profile page's links) reloads the document: the
  provider mounts again on the stored token.  The clock is the \<open>now\<close> of
  the events that read it; \<open>localeCompare\<close> of the problem list is the
  parameter \<open>coll\<close> of the rendering.  \<open>ThemeProvider\<close> and \<open>ThemeToggle\<close>
  import \<open>contexts/ThemeContext\<close>, which is not in the repository, and are
  not modelled; nor is the scroll-to-top effect.
\<close>

subsection \<open>Static pages and chrome\<close>

text \<open>\<open>HomePage\<close>: the hero's two links, the contest dashboard, the features, the stats, the closing call's two links.\<close>

definition home_hero_links :: "(string \<times> string) list" where
  "home_hero_links = [(''Start Coding'', ''/problems''), (''Join Community'', ''/auth/register'')]"

definition home_cta_links :: "(string \<times> string) list" where
  "home_cta_links = [(''Get Started Free'', ''/auth/register''), (''Explore Problems'', ''/problems'')]"

text \<open>The features grid (lines 58 to 168): icon and title of each card.\<close>

definition home_features :: "(string \<times> string) list" where
  "home_features =
     [(''Terminal'', ''Advanced Code Editor''), (''Zap'', ''Lightning Fast Execution''),
      (''Trophy'', ''Global Leaderboards''), (''Users'', ''Community Driven''),
      (''TrendingUp'', ''Progress Analytics''), (''CheckCircle'', ''Comprehensive Testing'')]"

text \<open>The stats band (lines 171 to 192): fixed figures, computed from nothing.\<close>

definition home_stats :: "(string \<times> string) list" where
  "home_stats = [(''500+'', ''Problems''), (''10K+'', ''Developers''), (''1M+'', ''Submissions''), (''24/7'', ''Uptime'')]"

record home_view =
  hv_hero :: "(string \<times> string) list"
  hv_contests :: dashboard_view
  hv_features :: "(string \<times> string) list"
  hv_stats :: "(string \<times> string) list"
  hv_cta :: "(string \<times> string) list"

definition home_page :: "int \<Rightarrow> int \<Rightarrow> contest_tab \<Rightarrow> home_view" where
  "home_page t0 now tab =
     \<lparr>hv_hero = home_hero_links, hv_contests = contest_dashboard t0 now tab, hv_features = home_features,
      hv_stats = home_stats, hv_cta = home_cta_links\<rparr>"

text \<open>\<open>Footer\<close>: its three router links; the other entries are \<open>href="#"\<close> anchors.\<close>

definition footer_links :: "(string \<times> string) list" where
  "footer_links = [(''Code Hustle'', ''/''), (''Problem Set'', ''/problems''), (''Leaderboard'', ''/leaderboard'')]"

definition footer_anchors :: "string list" where
  "footer_anchors =
     [''API Docs'', ''Status'', ''Documentation'', ''Tutorials'', ''Community'', ''Support'', ''GitHub'', ''Twitter'',
      ''LinkedIn'', ''Privacy'', ''Terms'', ''Cookies'']"

text \<open>\<open>NotFoundPage\<close>: \<open>Back to Home\<close>; \<open>Go Back\<close> is \<open>history.back()\<close>.\<close>

definition notfound_links :: "(string \<times> string) list" where
  "notfound_links = [(''Back to Home'', ''/'')]"

text \<open>The page (lines 6 to 33): the code, the title, the apology, the link and the \<open>Go Back\<close> button.\<close>

definition notfound_page :: "string \<times> string \<times> string \<times> (string \<times> string) list \<times> string" where
  "notfound_page =
     (''404'', ''Page Not Found'',
      ''Sorry, we couldn't find the page you're looking for. The page might have been moved, deleted, or doesn't exist.'',
      notfound_links, ''Go Back'')"

text \<open>\<open>AuthLayout\<close>: the logo's link and the footer line of the year.\<close>

definition auth_layout :: "int \<Rightarrow> (string \<times> string) list \<times> string" where
  "auth_layout year = ([(''Code Hustle'', ''/'')], CHR 0xA9 # CHR '' '' # int_text year @ '' Code Hustle. Built for developers.'')"

subsection \<open>Pages and their states\<close>

datatype page_state =
    S_home int contest_tab
  | S_problems problems_state
  | S_detail "string \<times> detail_state option"
  | S_leaderboard string
  | S_profile string
  | S_admin admin_state
  | S_login login_form
  | S_register register_form
  | S_notfound
  | S_outlet layout

text \<open>The page a state belongs to.\<close>

fun page_of_state :: "page_state \<Rightarrow> page" where
  "page_of_state (S_home _ _) = PHome"
| "page_of_state (S_problems _) = PProblems"
| "page_of_state (S_detail (pid, _)) = PProblemDetail pid"
| "page_of_state (S_leaderboard _) = PLeaderboard"
| "page_of_state (S_profile u) = PProfile u"
| "page_of_state (S_admin _) = PAdmin"
| "page_of_state (S_login _) = PLogin"
| "page_of_state (S_register _) = PRegister"
| "page_of_state S_notfound = PNotFound"
| "page_of_state (S_outlet l) = PLayoutOnly l"

text \<open>The route element a page is rendered by: the same element for every parameter.\<close>

fun route_element :: "page \<Rightarrow> nat" where
  "route_element PHome = 0"
| "route_element PProblems = 1"
| "route_element (PProblemDetail _) = 2"
| "route_element PLeaderboard = 3"
| "route_element (PProfile _) = 4"
| "route_element PAdmin = 5"
| "route_element PLogin = 6"
| "route_element PRegister = 7"
| "route_element PNotFound = 8"
| "route_element (PLayoutOnly MainLayout) = 9"
| "route_element (PLayoutOnly AuthLayout) = 10"
| "route_element (PLayoutOnly NoLayout) = 11"

text \<open>The state a page mounts with (the dashboard's contests are created at the mount, \<open>t0\<close>).\<close>

fun mount_page :: "nat \<Rightarrow> page \<Rightarrow> page_state" where
  "mount_page now PHome = S_home (int now) activeTab_init"
| "mount_page now PProblems = S_problems problems_init"
| "mount_page now (PProblemDetail pid) = S_detail (pid, detail_page pid now)"
| "mount_page now PLeaderboard = S_leaderboard []"
| "mount_page now (PProfile u) = S_profile u"
| "mount_page now PAdmin = S_admin admin_init"
| "mount_page now PLogin = S_login login_form_init"
| "mount_page now PRegister = S_register register_form_init"
| "mount_page now PNotFound = S_notfound"
| "mount_page now (PLayoutOnly l) = S_outlet l"

text \<open>Rendering a new location: same element, new parameters; else a new mount.\<close>

fun route_change :: "nat \<Rightarrow> page \<Rightarrow> page_state \<Rightarrow> page_state" where
  "route_change now (PProblemDetail pid') (S_detail st) = S_detail (detail_route_change pid' now st)"
| "route_change now (PProfile u') (S_profile u) = S_profile u'"
| "route_change now pg ps =
     (if route_element pg = route_element (page_of_state ps) then ps else mount_page now pg)"

record app_state =
  app_ctx :: auth_ctx
  app_nav :: nav_state
  app_loc :: string
  app_page :: page_state

text \<open>Loading the document at \<open>path\<close> with \<open>stored\<close> in \<open>localStorage\<close>.\<close>

definition app_init :: "string option \<Rightarrow> string \<Rightarrow> nat \<Rightarrow> app_state" where
  "app_init stored path now =
     \<lparr>app_ctx = checkAuth (auth_init stored path), app_nav = nav_init, app_loc = path,
      app_page = mount_page now (app_route path)\<rparr>"

text \<open>After an event: when the location changed, render the route of the new one.\<close>

definition app_sync :: "nat \<Rightarrow> app_state \<Rightarrow> app_state" where
  "app_sync now st =
     (if ac_path (app_ctx st) = app_loc st then st
      else
        (let pg = app_route (ac_path (app_ctx st)) in
         st\<lparr>app_nav := (if layout_of (page_of_state (app_page st)) = MainLayout \<and> layout_of pg = MainLayout
                        then app_nav st else nav_init),
            app_loc := ac_path (app_ctx st),
            app_page := route_change now pg (app_page st)\<rparr>))"

datatype app_event =
    Go string nat
  | Reload string nat
  | NavEv nav_event nat
  | HomeTab contest_tab
  | ProblemsEv problems_event
  | DetailEv detail_event nat
  | NotFoundBack nat
  | LeaderboardSearch string
  | AdminEv admin_event
  | LoginEv login_event nat
  | RegisterEv register_event nat

text \<open>
  An event of a page applies only while that page is shown, except the
  submission's timer, which fires on the mounted hooks even while the id
  is not found; the bar's events only while \<open>MainLayout\<close> renders it,
  and as \<open>nav_enabled\<close> allows.
\<close>

fun app_step :: "app_event \<Rightarrow> app_state \<Rightarrow> app_state" where
  "app_step (Go path now) st = app_sync now (st\<lparr>app_ctx := (app_ctx st)\<lparr>ac_path := path\<rparr>\<rparr>)"
| "app_step (Reload path now) st = app_init (ac_storage (app_ctx st)) path now"
| "app_step (NavEv ev now) st =
     (if layout_of (page_of_state (app_page st)) = MainLayout \<and> nav_enabled ev (app_nav st, app_ctx st) then
        (let (n, ctx) = nav_step ev (app_nav st, app_ctx st) in app_sync now (st\<lparr>app_nav := n, app_ctx := ctx\<rparr>))
      else st)"
| "app_step (HomeTab t) st =
     (case app_page st of S_home t0 _ \<Rightarrow> st\<lparr>app_page := S_home t0 t\<rparr> | _ \<Rightarrow> st)"
| "app_step (ProblemsEv ev) st =
     (case app_page st of S_problems ps \<Rightarrow> st\<lparr>app_page := S_problems (problems_step ev ps)\<rparr> | _ \<Rightarrow> st)"
| "app_step (DetailEv ev now) st =
     (case app_page st of
        S_detail (pid, Some s) \<Rightarrow>
          if find_problem pid \<noteq> None \<or> (case ev of SubmissionFires _ _ _ _ \<Rightarrow> True | _ \<Rightarrow> False)
          then st\<lparr>app_page := S_detail (pid, Some (detail_step ev s))\<rparr> else st
      | _ \<Rightarrow> st)"
| "app_step (NotFoundBack now) st =
     (case app_page st of
        S_detail (pid, _) \<Rightarrow>
          if find_problem pid = None then app_sync now (st\<lparr>app_ctx := (app_ctx st)\<lparr>ac_path := ''/problems''\<rparr>\<rparr>) else st
      | _ \<Rightarrow> st)"
| "app_step (LeaderboardSearch q) st =
     (case app_page st of S_leaderboard _ \<Rightarrow> st\<lparr>app_page := S_leaderboard q\<rparr> | _ \<Rightarrow> st)"
| "app_step (AdminEv ev) st =
     (case app_page st of S_admin a \<Rightarrow> st\<lparr>app_page := S_admin (admin_step ev a)\<rparr> | _ \<Rightarrow> st)"
| "app_step (LoginEv ev now) st =
     (case app_page st of
        S_login f \<Rightarrow> (let (f', ctx) = loginPage_step ev (f, app_ctx st) in
                       app_sync now (st\<lparr>app_page := S_login f', app_ctx := ctx\<rparr>))
      | _ \<Rightarrow> st)"
| "app_step (RegisterEv ev now) st =
     (case app_page st of
        S_register f \<Rightarrow> (let (f', ctx) = registerPage_step ev (f, app_ctx st) in
                          app_sync now (st\<lparr>app_page := S_register f', app_ctx := ctx\<rparr>))
      | _ \<Rightarrow> st)"

subsection \<open>What the browser shows\<close>

datatype page_render =
    R_home home_view
  | R_problems problems_view
  | R_detail "detail_view option"
  | R_leaderboard lb_view
  | R_profile profile_view
  | R_admin "(string \<times> bool) list \<times> admin_content"
  | R_login form_view
  | R_register "form_view \<times> string"
  | R_notfound "string \<times> string \<times> string \<times> (string \<times> string) list \<times> string"
  | R_empty_outlet

fun render_page :: "(string \<Rightarrow> string \<Rightarrow> int) \<Rightarrow> nat \<Rightarrow> page_state \<Rightarrow> page_render" where
  "render_page coll now (S_home t0 t) = R_home (home_page t0 (int now) t)"
| "render_page coll now (S_problems ps) = R_problems (problems_view coll ps)"
| "render_page coll now (S_detail (pid, h)) =
     R_detail (if find_problem pid = None then None else map_option detail_view h)"
| "render_page coll now (S_leaderboard q) = R_leaderboard (leaderboard_page q)"
| "render_page coll now (S_profile u) = R_profile (profile_page u)"
| "render_page coll now (S_admin a) = R_admin (admin_view (int now) a)"
| "render_page coll now (S_login f) = R_login (loginPage_view f)"
| "render_page coll now (S_register f) = R_register (registerPage_view f)"
| "render_page coll now S_notfound = R_notfound notfound_page"
| "render_page coll now (S_outlet l) = R_empty_outlet"

text \<open>The chrome around the page: the bar and the footer's links, or the auth layout's.\<close>

definition app_chrome :: "int \<Rightarrow> app_state \<Rightarrow> nav_view option \<times> (string \<times> string) list" where
  "app_chrome year st =
     (case layout_of (page_of_state (app_page st)) of
        MainLayout \<Rightarrow> (Some (navbar_view (app_nav st, app_ctx st)), footer_links)
      | AuthLayout \<Rightarrow> (None, fst (auth_layout year))
      | NoLayout \<Rightarrow> (None, []))"

subsection \<open>Lemmas\<close>

lemma checkAuth_none: "checkAuth (auth_init None path) = auth_init None path\<lparr>ac_isLoading := False\<rparr>"
  by (simp add: checkAuth_def auth_init_def)

lemma anonymous_no_admin: "\<not> isAuthenticated (auth_init None path\<lparr>ac_isLoading := False\<rparr>) \<and>
    \<not> is_admin (auth_init None path\<lparr>ac_isLoading := False\<rparr>)"
  by (simp add: auth_init_def isAuthenticated_def js_truthy_def is_admin_def user_field_def)

lemma route_change_profile: "route_change now (PProfile u) ps = S_profile u"
proof (cases ps)
  case (S_outlet l)
  then show ?thesis by (cases l) simp_all
qed auto

lemma mock_payload_user:
  "user_field (JObj mock_payload) ''username'' = Some (JStr ''johndoe'') \<and> js_truthy (JObj mock_payload)"
  by (simp add: user_field_def mock_payload_def js_truthy_def js_simps)

lemma app_init_login:
  "app_init None ''/auth/login'' n =
     \<lparr>app_ctx = auth_init None ''/auth/login''\<lparr>ac_isLoading := False\<rparr>, app_nav = nav_init, app_loc = ''/auth/login'',
      app_page = S_login login_form_init\<rparr>"
  by (simp add: app_init_def app_route_fixed checkAuth_none)

lemma login_field_steps:
  assumes "l = ac_path c"
  shows "app_step (LoginEv (SetEmail em) n) \<lparr>app_ctx = c, app_nav = nv, app_loc = l, app_page = S_login f\<rparr> =
           \<lparr>app_ctx = c, app_nav = nv, app_loc = l, app_page = S_login (f\<lparr>lf_email := em\<rparr>)\<rparr>"
    and "app_step (LoginEv (SetPassword pw) n) \<lparr>app_ctx = c, app_nav = nv, app_loc = l, app_page = S_login f\<rparr> =
           \<lparr>app_ctx = c, app_nav = nv, app_loc = l, app_page = S_login (f\<lparr>lf_password := pw\<rparr>)\<rparr>"
  using assms by (simp_all add: app_sync_def)

lemma login_submit_step:
  assumes "html_valid_email (lf_email f)" "lf_password f \<noteq> []" "l = ac_path c" "ac_path c \<noteq> ''/problems''"
  shows "app_step (LoginEv SubmitLogin n) \<lparr>app_ctx = c, app_nav = nv, app_loc = l, app_page = S_login f\<rparr> =
      \<lparr>app_ctx = c\<lparr>ac_storage := Some mock_token, ac_user := JObj mock_payload, ac_path := ''/problems'',
                ac_isLoading := False\<rparr>, app_nav = nav_init, app_loc = ''/problems'', app_page = S_problems problems_init\<rparr>"
proof -
  have "loginPage_step SubmitLogin (f, c) =
          (f\<lparr>lf_error := [], lf_isLoading := False\<rparr>,
           c\<lparr>ac_storage := Some mock_token, ac_user := JObj mock_payload, ac_path := ''/problems'', ac_isLoading := False\<rparr>)"
    using assms(1,2) html_valid_email_nonempty [OF assms(1)]
    by (simp add: login_constraints_def loginPage_submit_def auth_login_result)
  then show ?thesis using assms(3,4) by (simp add: app_sync_def app_route_fixed layout_of_def)
qed

lemma profile_page_header:
  "pv_header (profile_page u) = (''John Doe'', ''@johnDoe'', ''Joined March 2023'')"
  by (simp add: profile_page_def profile_intro_def mockUserData_def Let_def)

subsection \<open>Properties\<close>

text \<open>
  C13: the client does not guard \<open>/admin\<close>: whatever the browser has
  stored, loading \<open>/admin\<close> renders the admin dashboard, also for an
  anonymous visitor, whose navigation bar has no Admin link.
\<close>

theorem admin_route_unguarded:
  "render_page coll now (app_page (app_init stored ''/admin'' now)) = R_admin (admin_view (int now) admin_init) \<and>
   \<not> isAuthenticated (app_ctx (app_init None ''/admin'' now)) \<and>
   map_option (\<lambda>v. map (fst \<circ> snd) (nv_links v)) (fst (app_chrome year (app_init None ''/admin'' now))) =
     Some [''/'', ''/problems'', ''/leaderboard'']"
  using anonymous_no_admin [of "''/admin''"]
  by (simp add: app_init_def app_route_fixed checkAuth_none app_chrome_def layout_of_def navbar_view_def
                desktop_links_def)

text \<open>
  C35: of the router links the client renders with a fixed or user-given
  target (navigation bar, home page, footer, 404 page, auth layout, sign-in
  and sign-up pages), exactly four fall through to the 404 page: the
  profile menu's \<open>/settings\<close>, the sign-in form's
  \<open>/auth/forgot-password\<close>, and the sign-up form's \<open>/terms\<close> and
  \<open>/privacy\<close>; none of them has a route.  Every other one opens a page.
\<close>

theorem site_links_resolve:
  assumes "user_field (ac_user ctx) ''username'' = Some (JStr u)" "u \<noteq> []" "CHR ''/'' \<notin> set u"
  shows "filter (\<lambda>t. app_route t = PNotFound)
           (map (fst \<circ> snd) (desktop_links ctx) @ map snd (profile_menu_links ctx) @ map snd (mobile_links ctx) @
            map snd (home_hero_links @ home_cta_links @ footer_links @ notfound_links @ fst (auth_layout year) @
                     loginPage_links @ registerPage_links)) =
         [''/settings'', ''/auth/forgot-password'', ''/terms'', ''/privacy'']"
proof -
  have "app_route (''/profile/'' @ u) = PProfile u"
    using app_route_param_paths(2) [OF assms(3,2), of 0] by simp
  then show ?thesis
    using assms(1) app_route_fixed
    by (simp add: desktop_links_def profile_menu_links_def mobile_links_def home_hero_links_def home_cta_links_def
                   footer_links_def notfound_links_def auth_layout_def js_template_def loginPage_links_def
                   loginPage_forgot_link_def registerPage_links_def registerPage_consent_links_def split: if_split)
qed

theorem site_links_resolve_witness:
  "filter (\<lambda>t. app_route t = PNotFound)
     (map (fst \<circ> snd) (desktop_links ((auth_init None ''/'')\<lparr>ac_user := JObj [(''username'', JStr ''ann'')]\<rparr>)) @
      map snd (profile_menu_links ((auth_init None ''/'')\<lparr>ac_user := JObj [(''username'', JStr ''ann'')]\<rparr>)) @
      map snd (mobile_links ((auth_init None ''/'')\<lparr>ac_user := JObj [(''username'', JStr ''ann'')]\<rparr>)) @
      map snd (home_hero_links @ home_cta_links @ footer_links @ notfound_links @ fst (auth_layout 2025) @
               loginPage_links @ registerPage_links)) =
   [''/settings'', ''/auth/forgot-password'', ''/terms'', ''/privacy'']"
  by (rule site_links_resolve [of _ "''ann''"]) (simp_all add: user_field_def js_simps)

text \<open>
  C36: the profile page shows the fixture user whoever is signed in: the
  profile menu's link of a user \<open>u\<close> opens \<open>/profile/u\<close>, whose page
  shows John Doe.
\<close>

theorem profile_link_ignores_user:
  assumes "layout_of (page_of_state (app_page st)) = MainLayout" "nav_isProfileOpen (app_nav st)"
    and "isAuthenticated (app_ctx st)" "user_field (ac_user (app_ctx st)) ''username'' = Some (JStr u)"
    and "u \<noteq> []" "CHR ''/'' \<notin> set u" "app_loc st \<noteq> ''/profile/'' @ u"
  shows "render_page coll now (app_page (app_step (NavEv (ClosingLink (''/profile/'' @ u)) now) st)) =
           R_profile (profile_page u) \<and>
         pv_header (profile_page u) = (''John Doe'', ''@johnDoe'', ''Joined March 2023'')"
proof -
  have r: "app_route (''/profile/'' @ u) = PProfile u"
    using app_route_param_paths(2) [OF assms(6,5), of 0] by simp
  have en: "nav_enabled (ClosingLink (''/profile/'' @ u)) (app_nav st, app_ctx st)"
    using assms(2-4) by (simp add: nav_enabled_def navbar_view_def profile_menu_links_def js_template_def)
  have "render_page coll now (app_page (app_step (NavEv (ClosingLink (''/profile/'' @ u)) now) st)) =
          R_profile (profile_page u)"
    using assms(1,7) en r by (simp add: app_sync_def route_change_profile)
  then show ?thesis by (simp add: profile_page_header)
qed

theorem profile_link_ignores_user_witness:
  "render_page (\<lambda>a b. 0) 5 (app_page (app_step (NavEv (ClosingLink (''/profile/'' @ ''ann'')) 5)
      \<lparr>app_ctx = (auth_init None ''/'')\<lparr>ac_user := JObj [(''username'', JStr ''ann'')]\<rparr>,
       app_nav = nav_init\<lparr>nav_isProfileOpen := True\<rparr>, app_loc = ''/'', app_page = S_home 0 Tab_live\<rparr>)) =
     R_profile (profile_page ''ann'') \<and>
   pv_header (profile_page ''ann'') = (''John Doe'', ''@johnDoe'', ''Joined March 2023'')"
  by (rule profile_link_ignores_user) (simp_all add: layout_of_def isAuthenticated_def js_truthy_def user_field_def js_simps)

text \<open>
  C31: signing in from \<open>/auth/login\<close> with any e-mail the browser accepts
  (a valid address of the HTML standard) and any password lands on the
  problem list, under a fresh navigation bar that shows the fixed token's
  user: no credential is checked.
\<close>

theorem login_flow:
  assumes "html_valid_email em" "pw \<noteq> []"
  shows "app_loc (app_step (LoginEv SubmitLogin n) (app_step (LoginEv (SetPassword pw) n)
            (app_step (LoginEv (SetEmail em) n) (app_init None ''/auth/login'' n)))) = ''/problems'' \<and>
         app_page (app_step (LoginEv SubmitLogin n) (app_step (LoginEv (SetPassword pw) n)
            (app_step (LoginEv (SetEmail em) n) (app_init None ''/auth/login'' n)))) = S_problems problems_init \<and>
         nv_userButton (navbar_view (app_nav (app_step (LoginEv SubmitLogin n) (app_step (LoginEv (SetPassword pw) n)
            (app_step (LoginEv (SetEmail em) n) (app_init None ''/auth/login'' n)))),
            app_ctx (app_step (LoginEv SubmitLogin n) (app_step (LoginEv (SetPassword pw) n)
            (app_step (LoginEv (SetEmail em) n) (app_init None ''/auth/login'' n)))))) = Some (Some (JStr ''johndoe''))"
proof -
  let ?c = "auth_init None ''/auth/login''\<lparr>ac_isLoading := False\<rparr>"
  have p: "''/auth/login'' = ac_path ?c" by (simp add: auth_init_def)
  have "app_step (LoginEv SubmitLogin n) (app_step (LoginEv (SetPassword pw) n)
            (app_step (LoginEv (SetEmail em) n) (app_init None ''/auth/login'' n))) =
        \<lparr>app_ctx = ?c\<lparr>ac_storage := Some mock_token, ac_user := JObj mock_payload, ac_path := ''/problems'',
                ac_isLoading := False\<rparr>, app_nav = nav_init, app_loc = ''/problems'', app_page = S_problems problems_init\<rparr>"
    unfolding app_init_login login_field_steps [OF p]
    by (rule login_submit_step) (simp_all add: assms login_form_init_def auth_init_def)
  then show ?thesis using mock_payload_user by (simp add: navbar_view_def isAuthenticated_def)
qed

theorem login_flow_witness:
  "app_loc (app_step (LoginEv SubmitLogin 3) (app_step (LoginEv (SetPassword ''pw'') 3)
      (app_step (LoginEv (SetEmail ''a@b.c'') 3) (app_init None ''/auth/login'' 3)))) = ''/problems'' \<and>
   app_page (app_step (LoginEv SubmitLogin 3) (app_step (LoginEv (SetPassword ''pw'') 3)
      (app_step (LoginEv (SetEmail ''a@b.c'') 3) (app_init None ''/auth/login'' 3)))) = S_problems problems_init \<and>
   nv_userButton (navbar_view (app_nav (app_step (LoginEv SubmitLogin 3) (app_step (LoginEv (SetPassword ''pw'') 3)
      (app_step (LoginEv (SetEmail ''a@b.c'') 3) (app_init None ''/auth/login'' 3)))),
      app_ctx (app_step (LoginEv SubmitLogin 3) (app_step (LoginEv (SetPassword ''pw'') 3)
      (app_step (LoginEv (SetEmail ''a@b.c'') 3) (app_init None ''/auth/login'' 3)))))) = Some (Some (JStr ''johndoe''))"
proof -
  have "html_valid_email ''a@b.c''" by code_simp
  then show ?thesis by (rule login_flow) simp
qed

end
