(* ===== verification/Spec2Isabelle.thy ===== *)
theory Spec2Isabelle
  imports Server ProblemsPage LeaderboardPage AuthPages AIAssistant ContestDashboard ProblemDetail App
begin

text \<open>
  \<^bold>\<open>Code-Hustle: a verification development.\<close>
  The repository is a competitive-programming site: an Express server
  (\<open>src/server\<close>) with registration, login and a token guard over a
  PostgreSQL \<open>users\<close> table, and a React client (\<open>src/src\<close>) whose pages
  read fixtures and mock every service (submissions, assistant,
  collaboration, even sign-in).  The development is a shallow embedding:
  each handler, hook and render is an executable HOL function on an
  explicit state, errors are values, and the claims are theorems about
  those functions.

  \<^bold>\<open>Server.\<close>
  \<^item> \<open>Prelude\<close>, \<open>Json\<close>, \<open>JsonParse\<close>, \<open>Base64url\<close>: the JavaScript
    primitives and the encodings under a token (\<open>JSON.stringify\<close>,
    \<open>JSON.parse\<close> of objects, base64url), with round-trip lemmas.
  \<^item> \<open>Validation\<close>: the zod schemas of \<open>validators/auth.js\<close>
    (\<open>validateRegistration\<close>, \<open>validateLogin\<close>) with the issue lists zod reports.
  \<^item> \<open>Store\<close>: the \<open>users\<close> table and the four queries (from the spec:
    \<open>config/db.js\<close> is not in the repository); UNIQUE constraints and the
    database being reachable are parameters.
  \<^item> \<open>Bcrypt\<close>: bcryptjs's salt handling and 72-byte key, the key derivation a
    parameter \<open>kdf\<close>.  \<open>Jwt\<close>: \<open>jwt.sign\<close> and \<open>jwt.verify\<close> check by check,
    the HMAC a parameter \<open>mac\<close>, time in seconds a parameter.
  \<^item> \<open>Http\<close>: handler outcomes and \<open>errorHandler\<close>; \<open>AuthController\<close>:
    \<open>register\<close> and \<open>login\<close> of \<open>controllers/auth.js\<close>; \<open>AuthMiddleware\<close>:
    \<open>protect\<close> (as the list of \<open>res\<close>/\<open>next\<close> calls, so double sends show) and
    \<open>requireRole\<close>; \<open>Server\<close>: \<open>index.js\<close> as a request step, a sequential
    step relation and an interleaving one where \<open>register\<close> is split at its
    \<open>await\<close> between check and insert.  \<open>Fixtures\<close> holds the concrete
    configurations the witnesses use.

  \<^bold>\<open>Client.\<close>
  \<^item> \<open>ProblemsData\<close>, \<open>LeaderboardData\<close>: the fixtures, literal.
  \<^item> \<open>ProblemsPage\<close>, \<open>LeaderboardPage\<close>, \<open>ContestDashboard\<close>,
    \<open>ProfilePage\<close>, \<open>AdminDashboard\<close>: hooks as records, handlers as events,
    renders as records of what is shown, one definition per section of the
    markup (the problem page's header, tabs, description, submissions and
    editor; the profile page's seven sections; the dashboard's
    \<open>renderOverview\<close>, \<open>renderProblems\<close>, \<open>renderUsers\<close>); \<open>localeCompare\<close>
    is a parameter.
  \<^item> \<open>ClientAuth\<close>: \<open>contexts/AuthContext.tsx\<close>, the session (stored token,
    user, loading flag, location) with \<open>jwtDecode\<close> of the jwt-decode package
    modelled from its algorithm; \<open>AuthPages\<close>: the login and register forms,
    a submit first passing the browser's constraint validation of the
    inputs (\<open>required\<close>, \<open>type="email"\<close>, \<open>minLength\<close>).
  \<^item> \<open>AIAssistant\<close>, \<open>CollaborationPanel\<close>, \<open>ProblemDetail\<close>: the problem
    page hosting both panels, with pending \<open>setTimeout\<close> callbacks in the
    state and the draws of \<open>Math.random()\<close> and the clock as event parameters.
  \<^item> \<open>Routes\<close>: the route tree of \<open>App.tsx\<close> as React Router's branches
    (the layout routes' own branches included), ranked by its
    \<open>computeScore\<close> and matched;
    \<open>Navbar\<close>: the bar over the session; \<open>App\<close>: the whole client as one
    state machine (session, bar, location, mounted page), with the rules of
    which components keep their state across a navigation.

  \<^bold>\<open>What is shown.\<close>  Per component: the functional behaviour of each
  handler on every branch, errors included; invariants of step relations by
  rule induction (the users table stays well formed under sequential
  requests, and under interleaved ones given the store's UNIQUE
  constraints; the client session stays consistent; the problem
  page, the assistant and the navigation bar keep their invariants);
  equivalence of the problem list's comparator sort with a key sort; the
  problem page as a refinement of an abstract submission protocol, the
  liveness of a running submission with the language of its click, and the termination of its pending
  callbacks (\<open>detail_settles\<close>); the round trip of a token's claims
  through \<open>jwt.sign\<close> and \<open>jwt.verify\<close> (\<open>token_claims_roundtrip\<close>); bounds
  of the random results; the equivalence of the router's ranked matching
  with reading the leaf routes in order, \<open>/auth\<close> excepted
  (\<open>app_route_ranking\<close>).  Across components: the spec's scenario and
  register-then-login end to end on the server, and on the client the
  sign-in flow for any e-mail the browser accepts, the sign-up guard, the unguarded \<open>/admin\<close> route, the router links that
  resolve and the four that open the 404 page, and stale state carried
  across navigation.  The findings these theorems show
  are listed with them in the manifest.

  \<^bold>\<open>Parameters and bounds.\<close>  Numbers are exact: client arithmetic on
  \<open>rat\<close> where the browser rounds doubles (only quotients of small counts are
  printed), server ids and times on \<open>int\<close>.  No loop of the sources needs
  fuel: every recursion is structural or has a termination measure.  The
  browser's timer queue, which runs the problem page's and the assistant's
  \<open>setTimeout\<close> callbacks, is \<open>while_option\<close> over the earliest-due
  callback (\<open>detail_settle\<close>); its termination is proved with the measure
  of the number of pending callbacks, which each firing lowers by one, so
  no fuel bound is chosen.  The
  theorems about the key derivation, the HMAC, the collation and the random
  draws hold for every such function or draw in range.

  \<^bold>\<open>Not modelled.\<close>  Express's plumbing (\<open>cors\<close>, \<open>express.json\<close>,
  \<open>listen\<close>) and console logging; the internals of EksBlowfish and of the
  HMAC (parameters); \<open>routes/auth.js\<close> and \<open>config/db.js\<close> (not in the
  repository, modelled from the spec); the Monaco editor beyond its
  \<open>onChange\<close>; \<open>toLocaleString\<close> and \<open>toLocaleDateString\<close>, which depend on
  the browser's locale (dates stay values); \<open>ThemeContext\<close>, imported by
  \<open>App.tsx\<close> and \<open>ThemeToggle.tsx\<close> but absent from the repository;
  class names and icons beyond those a claim or a finding reads, and the
  footer's copyright line.
\<close>

section \<open>Properties spanning the components\<close>

text \<open>
  Registration followed by login: what \<open>register\<close> leaves in the table, the
  token it signs, and the answer of a login whose password has the same
  bcrypt key as the registered one.
\<close>

lemma registered_login:
  assumes wf: "users_wf st" and up: "db_up st" and E: "env_ok E" and rnd: "salt_rnd_ok rnd"
    and vr: "validateRegistration body = Inr r"
    and fresh: "\<forall>row \<in> set (rows st). u_email row \<noteq> ri_email r \<and> u_username row \<noteq> ri_username r"
    and reg: "register E now rnd body st = (out, st')"
    and vl: "validateLogin body' = Inr l" and le: "li_email l = ri_email r"
    and key: "bcrypt_key (Some CHR ''a'') (li_password l) = bcrypt_key (Some CHR ''a'') (ri_password r)"
  shows "st' = st\<lparr>next_id := next_id st + 1, rows := rows st @ [new_row st r rnd (env_kdf E)]\<rparr>"
    and "\<exists>tok. jwt_sign (env_mac E) (jwt_secret E) now (next_id st) (ri_username r) ''user'' = Inr tok \<and>
           out = Respond 201 (user_body (public_of (new_row st r rnd (env_kdf E))) tok)"
    and "\<exists>tok'. jwt_sign (env_mac E) (jwt_secret E) now' (next_id st) (ri_username r) ''user'' = Inr tok' \<and>
           login E now' body' st' = Respond 200 (user_body (public_of (new_row st r rnd (env_kdf E))) tok')"
proof -
  obtain k where k: "jwt_secret E = Some k" "k \<noteq> []" and H: "kdf_len (env_kdf E)"
    using E by (auto simp: env_ok_def)
  let ?row = "new_row st r rnd (env_kdf E)"
  obtain tok where tok: "jwt_sign (env_mac E) (jwt_secret E) now (next_id st) (ri_username r) ''user'' = Inr tok"
    using k by (simp add: jwt_sign_Inr)
  obtain tok' where tok': "jwt_sign (env_mac E) (jwt_secret E) now' (next_id st) (ri_username r) ''user'' = Inr tok'"
    using k by (simp add: jwt_sign_Inr)
  show st': "st' = st\<lparr>next_id := next_id st + 1, rows := rows st @ [?row]\<rparr>"
    using register_fresh [OF vr up fresh rnd, of E now] reg by simp
  show "\<exists>tok. jwt_sign (env_mac E) (jwt_secret E) now (next_id st) (ri_username r) ''user'' = Inr tok \<and>
           out = Respond 201 (user_body (public_of ?row) tok)"
    using register_fresh [OF vr up fresh rnd, of E now] reg tok by simp
  have wf': "users_wf st'"
    using register_users_wf [OF wf, of E now rnd body] reg by simp
  have cmp: "bcrypt_compare (env_kdf E) (li_password l) (u_password ?row) = Inr True"
    using bcrypt_compare_registered [OF H rnd] key by (simp add: new_row_def)
  have "login E now' body' st' = Respond 200 (user_body (public_of ?row) tok')"
    using login_row [OF vl wf', of ?row E now'] st' up le cmp tok' by (simp add: new_row_def)
  with tok' show "\<exists>tok'. jwt_sign (env_mac E) (jwt_secret E) now' (next_id st) (ri_username r) ''user'' = Inr tok' \<and>
           login E now' body' st' = Respond 200 (user_body (public_of ?row) tok')" by blast
qed

text \<open>
  C1: registering a fresh user on a well-formed table under a proper
  configuration answers 201 with the new user; logging in afterwards with the
  same e-mail and password answers 200 with the same user and a token that
  verifies, until it expires, to the payload \<open>{id, username, role, iat, exp}\<close>
  of that user.
\<close>

theorem register_then_login:
  assumes wf: "users_wf st" and up: "db_up st" and E: "env_ok E" and rnd: "salt_rnd_ok rnd"
    and vr: "validateRegistration body = Inr r"
    and fresh: "\<forall>row \<in> set (rows st). u_email row \<noteq> ri_email r \<and> u_username row \<noteq> ri_username r"
    and vl: "validateLogin body' = Inr l" and le: "li_email l = ri_email r" and lp: "li_password l = ri_password r"
    and reg: "register E now rnd body st = (out, st')"
    and exp: "t < now' + expires_in_30d"
  shows "\<exists>tok tok'.
           out = Respond 201 (user_body \<lparr>pu_id = next_id st, pu_username = ri_username r,
                                        pu_email = ri_email r, pu_role = ''user''\<rparr> tok) \<and>
           login E now' body' st' =
             Respond 200 (user_body \<lparr>pu_id = next_id st, pu_username = ri_username r,
                                        pu_email = ri_email r, pu_role = ''user''\<rparr> tok') \<and>
           jwt_verify (env_mac E) (jwt_secret E) t (Some tok') =
             Inr (token_payload (next_id st) (ri_username r) ''user'' now')"
proof -
  obtain k where k: "jwt_secret E = Some k" "k \<noteq> []" and m: "mac_wf (env_mac E)"
    using E by (auto simp: env_ok_def)
  have key: "bcrypt_key (Some CHR ''a'') (li_password l) = bcrypt_key (Some CHR ''a'') (ri_password r)"
    using lp by simp
  note rl = registered_login [OF wf up E rnd vr fresh reg vl le key]
  have pu: "public_of (new_row st r rnd (env_kdf E)) =
              \<lparr>pu_id = next_id st, pu_username = ri_username r, pu_email = ri_email r, pu_role = ''user''\<rparr>"
    by (simp add: public_of_def new_row_def)
  from rl(2) obtain tok where "out = Respond 201 (user_body (public_of (new_row st r rnd (env_kdf E))) tok)"
    by blast
  moreover from rl(3) obtain tok' where s: "jwt_sign (env_mac E) (jwt_secret E) now' (next_id st) (ri_username r) ''user'' = Inr tok'"
    and "login E now' body' st' = Respond 200 (user_body (public_of (new_row st r rnd (env_kdf E))) tok')"
    by blast
  moreover have "jwt_verify (env_mac E) (jwt_secret E) t (Some tok') =
                   Inr (token_payload (next_id st) (ri_username r) ''user'' now')"
    using jwt_sign_verify [OF m k s exp] .
  ultimately show ?thesis unfolding pu by blast
qed

theorem register_then_login_witness:
  "\<exists>tok tok'.
     fst (register demo_env 0 demo_rnd (reg_body ''bob'' ''bob@example.com'' ''bobpassword'') demo_store) =
       Respond 201 (user_body \<lparr>pu_id = 2, pu_username = ''bob'', pu_email = ''bob@example.com'', pu_role = ''user''\<rparr> tok) \<and>
     login demo_env 0 (login_body ''bob@example.com'' ''bobpassword'')
       (snd (register demo_env 0 demo_rnd (reg_body ''bob'' ''bob@example.com'' ''bobpassword'') demo_store)) =
       Respond 200 (user_body \<lparr>pu_id = 2, pu_username = ''bob'', pu_email = ''bob@example.com'', pu_role = ''user''\<rparr> tok') \<and>
     jwt_verify (env_mac demo_env) (jwt_secret demo_env) 0 (Some tok') =
       Inr (token_payload 2 ''bob'' ''user'' 0)"
  using register_then_login
    [of demo_store demo_env demo_rnd "reg_body ''bob'' ''bob@example.com'' ''bobpassword''"
        "\<lparr>ri_username = ''bob'', ri_email = ''bob@example.com'', ri_password = ''bobpassword''\<rparr>"
        "login_body ''bob@example.com'' ''bobpassword''"
        "\<lparr>li_email = ''bob@example.com'', li_password = ''bobpassword''\<rparr>"
        0 "fst (register demo_env 0 demo_rnd (reg_body ''bob'' ''bob@example.com'' ''bobpassword'') demo_store)"
        "snd (register demo_env 0 demo_rnd (reg_body ''bob'' ''bob@example.com'' ''bobpassword'') demo_store)"
        0 0]
  by (simp add: demo_store_wf demo_env_ok demo_rnd_ok demo_reg_valid demo_login_valid
      reg_constraints_def password_ok_def zod_email_unfold expires_in_30d_def)
     (simp add: demo_store_def alice_row_def)

text \<open>
  C4: the scenario of the specification, steps 1, 3 and 4: \<open>alice\<close> registers
  on an empty table and gets 201 with role \<open>user\<close>; \<open>/api/protected\<close> without
  a header answers 401 \<open>Not authorized, no token\<close>; with the token from the
  registration it answers 200 with \<open>user.username = alice\<close>.
\<close>

theorem spec_scenario:
  assumes E: "env_ok E" and rnd: "salt_rnd_ok rnd" and exp: "now' < now + expires_in_30d"
  shows "\<exists>tok st'.
    serve E now rnd (Post_register (reg_body ''alice'' ''a@x.com'' ''password123'')) (empty_store uc) =
      ([(201, user_body \<lparr>pu_id = 1, pu_username = ''alice'', pu_email = ''a@x.com'', pu_role = ''user''\<rparr> tok)], st') \<and>
    fst (serve E now' rnd' (Get_protected None) st') = [(401, error_body ''Not authorized, no token'')] \<and>
    fst (serve E now' rnd' (Get_protected (Some (''Bearer '' @ tok))) st') =
      [(200, JObj [(''message'', JStr ''Access granted''),
                   (''user'', public_json \<lparr>pu_id = 1, pu_username = ''alice'', pu_email = ''a@x.com'', pu_role = ''user''\<rparr>)])]"
proof -
  let ?r = "\<lparr>ri_username = ''alice'', ri_email = ''a@x.com'', ri_password = ''password123''\<rparr>"
  let ?st0 = "empty_store uc"
  let ?row = "new_row ?st0 ?r rnd (env_kdf E)"
  let ?st1 = "?st0\<lparr>next_id := next_id ?st0 + 1, rows := rows ?st0 @ [?row]\<rparr>"
  let ?pu = "\<lparr>pu_id = 1, pu_username = ''alice'', pu_email = ''a@x.com'', pu_role = ''user''\<rparr>"
  have vr: "validateRegistration (reg_body ''alice'' ''a@x.com'' ''password123'') = Inr ?r"
    by (simp add: demo_reg_valid reg_constraints_def password_ok_def zod_email_unfold)
  obtain k where "jwt_secret E = Some k" "k \<noteq> []" using E by (auto simp: env_ok_def)
  then obtain tok where tok: "jwt_sign (env_mac E) (jwt_secret E) now 1 ''alice'' ''user'' = Inr tok"
    by (simp add: jwt_sign_Inr)
  have up: "db_up ?st0" and wf0: "users_wf ?st0" by (simp_all add: empty_store_def users_wf_def)
  have reg: "register E now rnd (reg_body ''alice'' ''a@x.com'' ''password123'') ?st0 =
               (Respond 201 (user_body ?pu tok), ?st1)"
    using register_fresh [OF vr up _ rnd, of E now] tok
    by (simp add: empty_store_def public_of_def new_row_def)
  have wf1: "users_wf ?st1"
    using register_users_wf [OF wf0, of E now rnd "reg_body ''alice'' ''a@x.com'' ''password123''"] reg by simp
  have "protect E now' (Some (''Bearer '' @ tok)) ?st1 = [Next (Some (public_of ?row))]"
    using protect_valid_user [OF E tok exp _ wf1, of ?row] by (simp add: empty_store_def new_row_def)
  moreover have "public_of ?row = ?pu" by (simp add: public_of_def new_row_def empty_store_def)
  ultimately have "fst (serve E now' rnd' (Get_protected (Some (''Bearer '' @ tok))) ?st1) =
      [(200, JObj [(''message'', JStr ''Access granted''), (''user'', public_json ?pu)])]"
    by (simp add: protected_route_def)
  moreover have "fst (serve E now' rnd' (Get_protected None) ?st1) = [(401, error_body ''Not authorized, no token'')]"
    by (simp add: protect_def)
  moreover have "serve E now rnd (Post_register (reg_body ''alice'' ''a@x.com'' ''password123'')) ?st0 =
                   ([(201, user_body ?pu tok)], ?st1)"
    using reg by simp
  ultimately show ?thesis by blast
qed

theorem spec_scenario_witness:
  "\<exists>tok st'.
    serve demo_env 0 demo_rnd (Post_register (reg_body ''alice'' ''a@x.com'' ''password123'')) (empty_store False) =
      ([(201, user_body \<lparr>pu_id = 1, pu_username = ''alice'', pu_email = ''a@x.com'', pu_role = ''user''\<rparr> tok)], st') \<and>
    fst (serve demo_env 0 demo_rnd (Get_protected None) st') = [(401, error_body ''Not authorized, no token'')] \<and>
    fst (serve demo_env 0 demo_rnd (Get_protected (Some (''Bearer '' @ tok))) st') =
      [(200, JObj [(''message'', JStr ''Access granted''),
                   (''user'', public_json \<lparr>pu_id = 1, pu_username = ''alice'', pu_email = ''a@x.com'', pu_role = ''user''\<rparr>)])]"
  by (rule spec_scenario [OF demo_env_ok demo_rnd_ok]) (simp add: expires_in_30d_def)

text \<open>
  Step 2 of the scenario, a login with the password \<open>wrong\<close>, is answered
  400 \<open>Validation error\<close> with an issue on \<open>password\<close>, not 401 \<open>Invalid
  credentials\<close> as the specification expects: the login schema requires 8
  characters, and the validation runs before any credential check.
\<close>

theorem login_short_password_rejected:
  "serve E now rnd (Post_login (login_body ''a@x.com'' ''wrong'')) st =
     ([(400, JObj [(''error'', JStr ''Validation error''),
                   (''details'', JArr [issue_json (''password'', Too_small 8)])])], st)"
  by (simp add: login_def validateLogin_def zod_parse_def loginSchema_def field_issues_def login_body_def
      js_simps zod_email_unfold)

text \<open>
  C20: bcrypt reads at most 72 bytes of the password, while the schema admits
  100 characters: after a registration with a long password, a login with
  any password that agrees with it on the first 72 characters succeeds.
\<close>

theorem login_accepts_72_prefix:
  assumes wf: "users_wf st" and up: "db_up st" and E: "env_ok E" and rnd: "salt_rnd_ok rnd"
    and vr: "validateRegistration body = Inr r"
    and fresh: "\<forall>row \<in> set (rows st). u_email row \<noteq> ri_email r \<and> u_username row \<noteq> ri_username r"
    and reg: "register E now rnd body st = (out, st')"
    and vl: "validateLogin body' = Inr l" and le: "li_email l = ri_email r"
    and long: "72 \<le> length (ri_password r)" "72 \<le> length (li_password l)"
    and pre: "take 72 (li_password l) = take 72 (ri_password r)"
  shows "\<exists>tok. login E now' body' st' =
           Respond 200 (user_body \<lparr>pu_id = next_id st, pu_username = ri_username r,
                                    pu_email = ri_email r, pu_role = ''user''\<rparr> tok)"
proof -
  have key: "bcrypt_key (Some CHR ''a'') (li_password l) = bcrypt_key (Some CHR ''a'') (ri_password r)"
    using long pre by (simp add: bcrypt_key_long)
  from registered_login(3) [OF wf up E rnd vr fresh reg vl le key, of now']
  show ?thesis by (auto simp: public_of_def new_row_def)
qed

theorem login_accepts_72_prefix_witness:
  "\<exists>tok. login demo_env 0 (login_body ''bob@example.com'' (replicate 72 CHR ''p'' @ ''-typo''))
          (snd (register demo_env 0 demo_rnd (reg_body ''bob'' ''bob@example.com'' (replicate 72 CHR ''p'' @ ''-real''))
                  demo_store)) =
        Respond 200 (user_body \<lparr>pu_id = 2, pu_username = ''bob'', pu_email = ''bob@example.com'', pu_role = ''user''\<rparr> tok)"
  using login_accepts_72_prefix
    [of demo_store demo_env demo_rnd "reg_body ''bob'' ''bob@example.com'' (replicate 72 CHR ''p'' @ ''-real'')"
        "\<lparr>ri_username = ''bob'', ri_email = ''bob@example.com'', ri_password = replicate 72 CHR ''p'' @ ''-real''\<rparr>"
        0 "fst (register demo_env 0 demo_rnd (reg_body ''bob'' ''bob@example.com'' (replicate 72 CHR ''p'' @ ''-real'')) demo_store)"
        "snd (register demo_env 0 demo_rnd (reg_body ''bob'' ''bob@example.com'' (replicate 72 CHR ''p'' @ ''-real'')) demo_store)"
        "login_body ''bob@example.com'' (replicate 72 CHR ''p'' @ ''-typo'')"
        "\<lparr>li_email = ''bob@example.com'', li_password = replicate 72 CHR ''p'' @ ''-typo''\<rparr>" 0]
  by (simp add: demo_store_wf demo_env_ok demo_rnd_ok demo_reg_valid demo_login_valid
      reg_constraints_def password_ok_def zod_email_unfold)
     (simp add: demo_store_def alice_row_def)

end
